(* ===== verification/Prelude.thy ===== *)
theory Prelude
  imports Complex_Main "HOL-Library.Multiset" "HOL-Library.Word"
begin

text \<open>
  What the component theories share: the Go types of the SDK as HOL types, errors as values,
  the 64-bit integer arithmetic where the code depends on it, the two sorting loops that the
  code writes out by hand, and the generic list and map lemmas.

  \<^item> \<open>time.Duration\<close> is an \<^typ>\<open>int\<close> of nanoseconds; \<open>time.Time\<close> is an \<^typ>\<open>int\<close> of
    nanoseconds since the zero \<open>time.Time\<close>, so that \<open>IsZero\<close> is equality with 0.
  \<^item> \<open>float64\<close> is \<^typ>\<open>real\<close>: rounding, infinities and NaN are not modelled.
  \<^item> An \<open>error\<close> is its message and the sentinels that \<open>errors.Is\<close> finds in its chain.
  \<^item> Go's \<open>map\<close> is a map; where a loop ranges over one, the model takes the iteration order
    as an argument, because Go leaves it unspecified.
\<close>

type_synonym duration = int
type_synonym gotime = int
type_synonym metadata = "string \<rightharpoonup> string"

text \<open>
  The values of a \<open>map[string]interface{}\<close>. A value of a type without a constructor here is
  represented by the text that it formats to.
\<close>

datatype any_value = AnyString string | AnyInt int | AnyBool bool | AnyNil | AnyOther string

type_synonym any_metadata = "string \<rightharpoonup> any_value"

named_theorems score_defs \<open>operations of one provider score\<close>
named_theorems engine_defs \<open>operations of the scoring engine\<close>

subsection \<open>Time\<close>

abbreviation millisecond :: duration where "millisecond \<equiv> 1000000"
abbreviation second :: duration where "second \<equiv> 1000000000"
abbreviation minute :: duration where "minute \<equiv> 60000000000"
abbreviation hour :: duration where "hour \<equiv> 3600000000000"

subsection \<open>Errors and panics\<close>

datatype sentinel =
    ErrAuthFailure
  | ErrProviderNotConfigured
  | DeadlineExceeded
  | Canceled

record goerror =
  err_msg :: string
  err_chain :: "sentinel list"

definition errors_Is :: "goerror \<Rightarrow> sentinel \<Rightarrow> bool" where
  "errors_Is e s \<longleftrightarrow> s \<in> set (err_chain e)"

definition Errorf :: "string \<Rightarrow> goerror" where
  "Errorf msg = \<lparr>err_msg = msg, err_chain = []\<rparr>"

text \<open>\<open>fmt.Errorf("prefix: %w", err)\<close>: a new message, the chain of the wrapped error.\<close>

definition wrap_error :: "string \<Rightarrow> goerror \<Rightarrow> goerror" where
  "wrap_error pre e = \<lparr>err_msg = pre @ err_msg e, err_chain = err_chain e\<rparr>"

definition sentinel_error :: "string \<Rightarrow> sentinel \<Rightarrow> goerror" where
  "sentinel_error msg s = \<lparr>err_msg = msg, err_chain = [s]\<rparr>"

lemma errors_Is_wrap [simp]: "errors_Is (wrap_error p e) s = errors_Is e s"
  by (simp add: errors_Is_def wrap_error_def)

lemma errors_Is_Errorf [simp]: "\<not> errors_Is (Errorf m) s"
  by (simp add: errors_Is_def Errorf_def)

lemma errors_Is_sentinel [simp]: "errors_Is (sentinel_error m s) s' \<longleftrightarrow> s = s'"
  by (auto simp: errors_Is_def sentinel_error_def)

text \<open>A run that returns, or ends in a Go panic.\<close>

datatype 'a outcome = Returns 'a | Panics

subsection \<open>64-bit signed integers\<close>

definition wrap64 :: "int \<Rightarrow> int" where
  "wrap64 x = (x + 2 ^ 63) mod 2 ^ 64 - 2 ^ 63"

lemma wrap64_id: "- (2 ^ 63) \<le> x \<Longrightarrow> x < 2 ^ 63 \<Longrightarrow> wrap64 x = x"
  by (simp add: wrap64_def)

lemma wrap64_range: "- (2 ^ 63) \<le> wrap64 x \<and> wrap64 x < 2 ^ 63"
proof -
  have "0 \<le> (x + 2 ^ 63) mod 2 ^ 64" "(x + 2 ^ 63) mod 2 ^ 64 < (2 ^ 64 :: int)"
    by simp_all
  then show ?thesis by (simp add: wrap64_def)
qed

text \<open>The values of Go's signed integer types.\<close>

definition int64 :: "int \<Rightarrow> bool" where "int64 i \<longleftrightarrow> - (2 ^ 63) \<le> i \<and> i \<le> 2 ^ 63 - 1"
definition int32 :: "int \<Rightarrow> bool" where "int32 i \<longleftrightarrow> - (2 ^ 31) \<le> i \<and> i \<le> 2 ^ 31 - 1"

lemma int64_wrap [simp]: "int64 (wrap64 x)"
  using wrap64_range [of x] by (simp add: int64_def)

text \<open>Go's integer division truncates towards zero.\<close>

definition go_quot :: "int \<Rightarrow> int \<Rightarrow> int" where
  "go_quot n d =
     (let q = abs n div abs d in if (n < 0) = (d < 0) then q else - q)"

lemma go_quot_nonneg: "0 \<le> n \<Longrightarrow> 0 < d \<Longrightarrow> go_quot n d = n div d"
  by (simp add: go_quot_def)

definition Milliseconds :: "duration \<Rightarrow> int" where
  "Milliseconds d = go_quot d millisecond"

definition Microseconds :: "duration \<Rightarrow> int" where
  "Microseconds d = go_quot d 1000"

subsection \<open>Numbers in messages\<close>

text \<open>The decimal digits that \<open>strconv.Itoa\<close> and the verb \<open>%d\<close> print.\<close>

definition digit_char :: "nat \<Rightarrow> char" where
  "digit_char d = ''0123456789'' ! (d mod 10)"

fun itoa_nat :: "nat \<Rightarrow> string" where
  "itoa_nat n = (if n < 10 then [digit_char n] else itoa_nat (n div 10) @ [digit_char (n mod 10)])"

declare itoa_nat.simps [simp del]

definition Itoa :: "int \<Rightarrow> string" where
  "Itoa i = (if i < 0 then CHR ''-'' # itoa_nat (nat (- i)) else itoa_nat (nat i))"

definition hex_char :: "nat \<Rightarrow> char" where
  "hex_char d = ''0123456789abcdef'' ! (d mod 16)"

text \<open>\<open>%q\<close>: a quoted string. Bytes from 0x80 on are taken to be printable text.\<close>

definition quote_char :: "char \<Rightarrow> string" where
  "quote_char c =
     (let n = of_char c :: nat
      in if n = 34 \<or> n = 92 then [CHR 0x5C, c]
         else if n = 7 then [CHR 0x5C, CHR ''a''] else if n = 8 then [CHR 0x5C, CHR ''b'']
         else if n = 9 then [CHR 0x5C, CHR ''t''] else if n = 10 then [CHR 0x5C, CHR ''n'']
         else if n = 11 then [CHR 0x5C, CHR ''v''] else if n = 12 then [CHR 0x5C, CHR ''f'']
         else if n = 13 then [CHR 0x5C, CHR ''r'']
         else if n < 32 \<or> n = 127 then [CHR 0x5C, CHR ''x'', hex_char (n div 16), hex_char n]
         else [c])"

definition go_quote :: "string \<Rightarrow> string" where
  "go_quote s = CHR 0x22 # concat (map quote_char s) @ [CHR 0x22]"

text \<open>\<open>%.1f\<close>: the nearest multiple of one tenth, ties to the even one.\<close>

definition round_half_even :: "real \<Rightarrow> int" where
  "round_half_even x =
     (let f = \<lfloor>x\<rfloor>; r = x - real_of_int f
      in if r < 1 / 2 then f else if r > 1 / 2 then f + 1 else if even f then f else f + 1)"

definition format_1f :: "real \<Rightarrow> string" where
  "format_1f x =
     (let t = nat (round_half_even (\<bar>x\<bar> * 10))
      in (if x < 0 then ''-'' else '''') @ itoa_nat (t div 10) @ ''.'' @ [digit_char (t mod 10)])"

subsection \<open>Clamping\<close>

lemma clamp_bounds:
  "lo \<le> hi \<Longrightarrow> lo \<le> max lo (min hi x) \<and> max lo (min hi x) \<le> (hi :: 'a :: linorder)"
  by auto

subsection \<open>The last elements of a list\<close>

text \<open>What a bounded log of capacity \<open>n\<close> keeps of a sequence of writes.\<close>

definition lastn :: "nat \<Rightarrow> 'a list \<Rightarrow> 'a list" where
  "lastn n xs = drop (length xs - n) xs"

lemma length_lastn [simp]: "length (lastn n xs) = min n (length xs)"
  by (simp add: lastn_def)

lemma lastn_short: "length xs \<le> n \<Longrightarrow> lastn n xs = xs"
  by (simp add: lastn_def)

lemma set_lastn_subset: "set (lastn n xs) \<subseteq> set xs"
  by (simp add: lastn_def set_drop_subset)

lemma lastn_Nil [simp]: "lastn n [] = []"
  by (simp add: lastn_def)

lemma lastn_append_lastn: "lastn n (lastn n xs @ ys) = lastn n (xs @ ys)"
proof (cases "length xs \<le> n")
  case True
  then show ?thesis by (simp add: lastn_short)
next
  case False
  then have "length (lastn n xs @ ys) = n + length ys" by simp
  then have "lastn n (lastn n xs @ ys) = drop (length ys) (lastn n xs @ ys)"
    by (simp add: lastn_def)
  also have "\<dots> = drop (length ys) (drop (length xs - n) (xs @ ys))"
    using False by (simp add: lastn_def)
  also have "\<dots> = lastn n (xs @ ys)"
    using False by (simp add: lastn_def drop_drop add.commute)
  finally show ?thesis .
qed

lemma last_lastn: "0 < n \<Longrightarrow> xs \<noteq> [] \<Longrightarrow> last (lastn n xs) = last xs"
  by (simp add: lastn_def)

subsection \<open>The exchange sort\<close>

text \<open>
  The code sorts providers in three places with the same two nested loops:
  for each position \<open>i\<close> it walks \<open>j\<close> over the positions after \<open>i\<close> and exchanges the two
  elements when they are out of order. One run of the inner loop is \<open>exch_pass\<close>: its first
  argument is the element now at position \<open>i\<close>, its second the positions from \<open>j\<close> on; an
  exchange leaves the old element of position \<open>i\<close> at position \<open>j\<close>.
\<close>

fun exch_pass :: "('a \<Rightarrow> 'a \<Rightarrow> bool) \<Rightarrow> 'a \<Rightarrow> 'a list \<Rightarrow> 'a \<times> 'a list" where
  "exch_pass out x [] = (x, [])"
| "exch_pass out x (y # ys) =
     (if out x y
      then (let (m, zs) = exch_pass out y ys in (m, x # zs))
      else (let (m, zs) = exch_pass out x ys in (m, y # zs)))"

lemma length_exch_pass [simp]: "length (snd (exch_pass out x ys)) = length ys"
  by (induction ys arbitrary: x) (auto simp: split_beta)

function exchange_sort :: "('a \<Rightarrow> 'a \<Rightarrow> bool) \<Rightarrow> 'a list \<Rightarrow> 'a list" where
  "exchange_sort out [] = []"
| "exchange_sort out (x # xs) =
     fst (exch_pass out x xs) # exchange_sort out (snd (exch_pass out x xs))"
  by pat_completeness auto
termination
  by (relation "measure (\<lambda>(out, xs). length xs)") auto

lemma mset_exch_pass:
  "add_mset (fst (exch_pass out x ys)) (mset (snd (exch_pass out x ys))) = add_mset x (mset ys)"
proof (induction ys arbitrary: x)
  case Nil
  then show ?case by simp
next
  case (Cons y ys)
  show ?case
    using Cons.IH [of x] Cons.IH [of y]
    by (auto simp: split_beta add_mset_commute)
qed

lemma mset_exchange_sort [simp]: "mset (exchange_sort out xs) = mset xs"
proof (induction out xs rule: exchange_sort.induct)
  case (2 out x xs)
  then show ?case
    using mset_exch_pass [of out x xs] by simp
qed simp

lemma set_exchange_sort [simp]: "set (exchange_sort out xs) = set xs"
  by (metis mset_exchange_sort set_mset_mset)

lemma length_exchange_sort [simp]: "length (exchange_sort out xs) = length xs"
  by (metis mset_exchange_sort size_mset)

lemma distinct_exchange_sort [simp]: "distinct (exchange_sort out xs) = distinct xs"
  by (metis mset_exchange_sort mset_eq_imp_distinct_iff)

lemma set_exch_pass:
  "insert (fst (exch_pass out x ys)) (set (snd (exch_pass out x ys))) = insert x (set ys)"
  using arg_cong [OF mset_exch_pass [of out x ys], of set_mset] by simp

text \<open>
  What the sort needs of its comparison: a strict weak order, stated through its negation.
  Every comparison of the code compares a numeric key, so it is one.
\<close>

locale exchange_order =
  fixes out :: "'a \<Rightarrow> 'a \<Rightarrow> bool"
  assumes out_asym: "out x y \<Longrightarrow> \<not> out y x"
    and in_trans: "\<not> out x y \<Longrightarrow> \<not> out y z \<Longrightarrow> \<not> out x z"
begin

lemma in_refl: "\<not> out x x"
  using out_asym by blast

lemma exch_pass_head: "\<not> out (fst (exch_pass out x ys)) x"
proof (induction ys arbitrary: x)
  case Nil
  then show ?case by (simp add: in_refl)
next
  case (Cons z zs)
  show ?case
  proof (cases "out x z")
    case True
    then have "\<not> out z x" by (rule out_asym)
    with Cons.IH [of z] have "\<not> out (fst (exch_pass out z zs)) x" by (rule in_trans)
    with True show ?thesis by (simp add: split_beta)
  next
    case False
    with Cons.IH [of x] show ?thesis by (simp add: split_beta)
  qed
qed

lemma exch_pass_tail: "y \<in> set ys \<Longrightarrow> \<not> out (fst (exch_pass out x ys)) y"
proof (induction ys arbitrary: x)
  case Nil
  then show ?case by simp
next
  case (Cons z zs)
  show ?case
  proof (cases "out x z")
    case True
    have "y = z \<or> y \<in> set zs" using Cons.prems by auto
    then have "\<not> out (fst (exch_pass out z zs)) y"
      using Cons.IH [of z] exch_pass_head [of z zs] by blast
    with True show ?thesis by (simp add: split_beta)
  next
    case False
    have "\<not> out (fst (exch_pass out x zs)) z"
      using exch_pass_head [of x zs] False by (rule in_trans)
    then have "\<not> out (fst (exch_pass out x zs)) y"
      using Cons.prems Cons.IH [of x] by auto
    with False show ?thesis by (simp add: split_beta)
  qed
qed

lemma exchange_sort_sorted: "sorted_wrt (\<lambda>a b. \<not> out a b) (exchange_sort out xs)"
proof (induction "length xs" arbitrary: xs)
  case 0
  then show ?case by simp
next
  case (Suc n)
  then obtain x ys where xs: "xs = x # ys" "length ys = n" by (cases xs) auto
  let ?m = "fst (exch_pass out x ys)" and ?zs = "snd (exch_pass out x ys)"
  have "set ?zs \<subseteq> insert x (set ys)"
    using set_exch_pass [of out x ys] by auto
  then have "\<forall>z \<in> set ?zs. \<not> out ?m z"
    using exch_pass_head exch_pass_tail by blast
  then show ?case
    using Suc.hyps(1) [of ?zs] xs by simp
qed

end

text \<open>Comparing by a numeric key, descending (scores) or ascending (loads).\<close>

interpretation key_desc: exchange_order "\<lambda>a b. f a < (f b :: 'b :: linorder)" for f
  by unfold_locales auto

interpretation key_asc: exchange_order "\<lambda>a b. f a > (f b :: 'b :: linorder)" for f
  by unfold_locales auto

subsection \<open>Reversal in place\<close>

text \<open>The loop \<open>for i, j := 0, len(x)-1; i < j; i, j = i+1, j-1\<close> that exchanges the elements at both ends.\<close>

function swap_ends :: "nat \<Rightarrow> nat \<Rightarrow> 'a list \<Rightarrow> 'a list" where
  "swap_ends i j xs = (if i < j then swap_ends (i + 1) (j - 1) (xs[i := xs ! j, j := xs ! i]) else xs)"
  by auto
termination by (relation "measure (\<lambda>(i, j, xs). j - i)") auto

declare swap_ends.simps [simp del]

lemma length_swap_ends [simp]: "length (swap_ends i j xs) = length xs"
  by (induction i j xs rule: swap_ends.induct) (subst swap_ends.simps, simp)

lemma nth_swap_ends:
  "j < length xs \<Longrightarrow> k < length xs \<Longrightarrow>
   swap_ends i j xs ! k = (if i \<le> k \<and> k \<le> j then xs ! (i + j - k) else xs ! k)"
proof (induction i j xs rule: swap_ends.induct)
  case (1 i j xs)
  show ?case
  proof (cases "i < j")
    case True
    then have "swap_ends i j xs ! k =
        (if i + 1 \<le> k \<and> k \<le> j - 1 then xs[i := xs ! j, j := xs ! i] ! (i + 1 + (j - 1) - k)
         else xs[i := xs ! j, j := xs ! i] ! k)"
      using 1 by (subst swap_ends.simps) simp
    with True 1(2,3) show ?thesis by (auto simp: nth_list_update)
  next
    case False
    then have "i + j - k = k" if "i \<le> k" "k \<le> j" using that by linarith
    with False show ?thesis by (subst swap_ends.simps) auto
  qed
qed

lemma swap_ends_rev: "swap_ends 0 (length xs - 1) xs = rev xs"
  by (rule nth_equalityI) (auto simp: nth_swap_ends rev_nth)

end
