(* ===== verification/Score_Events.thy ===== *)
theory Score_Events
  imports Prelude "HOL-Library.Sublist"
begin

text \<open>
  \<open>scoring/events.go\<close>: the event types, the event record and the two classifiers that turn the
  outcome of a health check or of an operation into an event. The metadata of an event is a
  \<open>map[string]interface{}\<close> in the code; its only writer in the SDK fills it with strings, so its
  values are strings here. The hand-written substring search is shown to be the sublist order.
\<close>

datatype score_event_type =
    EventHealthCheckFailed
  | EventHealthCheck429
  | EventHealthCheckAuthFail
  | EventHealthCheckTimeout
  | EventOperationFailed
  | EventOperationAuthFail
  | EventOperationSuccess
  | EventSlowResponse
  | EventRateLimited

fun event_type_String :: "score_event_type \<Rightarrow> string" where
  "event_type_String EventHealthCheckFailed = ''healthcheck_failed''"
| "event_type_String EventHealthCheck429 = ''healthcheck_429''"
| "event_type_String EventHealthCheckAuthFail = ''healthcheck_auth''"
| "event_type_String EventHealthCheckTimeout = ''healthcheck_timeout''"
| "event_type_String EventOperationFailed = ''operation_failed''"
| "event_type_String EventOperationAuthFail = ''operation_auth_fail''"
| "event_type_String EventOperationSuccess = ''operation_success''"
| "event_type_String EventSlowResponse = ''slow_response''"
| "event_type_String EventRateLimited = ''rate_limited''"

record score_event =
  ev_Type :: score_event_type
  ev_Provider :: string
  ev_Timestamp :: gotime
  ev_ResponseTime :: duration
  ev_HTTPStatus :: int
  ev_Error :: "goerror option"
  ev_Metadata :: any_metadata

definition ClassifyHealthCheckEvent ::
  "string \<Rightarrow> int \<Rightarrow> duration \<Rightarrow> goerror option \<Rightarrow> gotime \<Rightarrow> score_event" where
  "ClassifyHealthCheckEvent providerName httpStatus responseTime err now =
     \<lparr>ev_Type =
        (if httpStatus = 429 then EventHealthCheck429
         else if httpStatus = 401 \<or> httpStatus = 403 then EventHealthCheckAuthFail
         else if (case err of None \<Rightarrow> False | Some e \<Rightarrow> errors_Is e DeadlineExceeded)
              then EventHealthCheckTimeout
         else if httpStatus \<ge> 400 \<or> err \<noteq> None then EventHealthCheckFailed
         else EventOperationSuccess),
      ev_Provider = providerName, ev_Timestamp = now, ev_ResponseTime = responseTime,
      ev_HTTPStatus = httpStatus, ev_Error = err, ev_Metadata = Map.empty\<rparr>"

subsection \<open>Error messages\<close>

text \<open>\<open>s[i:i+len(substr)] == substr\<close> for some start \<open>i\<close> of the loop.\<close>

definition findSubstring :: "string \<Rightarrow> string \<Rightarrow> bool" where
  "findSubstring s substr \<longleftrightarrow>
     list_ex (\<lambda>i. take (length substr) (drop i s) = substr) [0..<length s - length substr + 1]"

definition contains :: "string \<Rightarrow> string \<Rightarrow> bool" where
  "contains s substr \<longleftrightarrow>
     length s \<ge> length substr \<and>
     (s = substr \<or> length s > length substr \<and> findSubstring s substr)"

definition containsAuthFailureIndicator :: "string \<Rightarrow> bool" where
  "containsAuthFailureIndicator errMsg \<longleftrightarrow>
     list_ex (contains errMsg)
       [''authentication failed'', ''unauthorized'', ''invalid client'',
        ''invalid credentials'', ''access denied'', ''not found in the allow list'',
        ''api key'', ''invalid api key'', ''missing api key'', ''forbidden'',
        ''HTTP 401'', ''HTTP 403'']"

definition containsRateLimitIndicator :: "string \<Rightarrow> bool" where
  "containsRateLimitIndicator errMsg \<longleftrightarrow>
     list_ex (contains errMsg)
       [''rate limit'', ''too many requests'', ''429'', ''quota exceeded'', ''throttled'']"

definition ClassifyOperationEvent ::
  "string \<Rightarrow> duration \<Rightarrow> goerror option \<Rightarrow> gotime \<Rightarrow> score_event" where
  "ClassifyOperationEvent providerName responseTime err now =
     \<lparr>ev_Type =
        (case err of
           None \<Rightarrow> EventOperationSuccess
         | Some e \<Rightarrow>
             if containsAuthFailureIndicator (err_msg e) then EventOperationAuthFail
             else if containsRateLimitIndicator (err_msg e) then EventRateLimited
             else EventOperationFailed),
      ev_Provider = providerName, ev_Timestamp = now, ev_ResponseTime = responseTime,
      ev_HTTPStatus = 0, ev_Error = err, ev_Metadata = Map.empty\<rparr>"

subsection \<open>The substring search\<close>

lemma findSubstring_sublist:
  assumes "length substr \<le> length s"
  shows "findSubstring s substr \<longleftrightarrow> sublist substr s"
proof
  assume "findSubstring s substr"
  then obtain i where "take (length substr) (drop i s) = substr"
    unfolding findSubstring_def list_ex_iff by blast
  then have "s = take i s @ substr @ drop (length substr) (drop i s)"
    by (metis append_take_drop_id)
  then show "sublist substr s" unfolding sublist_def by blast
next
  assume "sublist substr s"
  then obtain ps ss where s: "s = ps @ substr @ ss" by (auto simp: sublist_def)
  then have "length ps \<in> set [0..<length s - length substr + 1]" by auto
  moreover have "take (length substr) (drop (length ps) s) = substr" using s by simp
  ultimately show "findSubstring s substr"
    unfolding findSubstring_def list_ex_iff by blast
qed

lemma contains_iff: "contains s substr \<longleftrightarrow> sublist substr s"
proof (cases "length substr \<le> length s")
  case True
  have "s = substr" if "length substr = length s" "sublist substr s"
    using that by (auto simp: sublist_def)
  then show ?thesis
    using findSubstring_sublist [OF True] True by (fastforce simp: contains_def)
next
  case False
  then show ?thesis using sublist_length_le [of substr s] by (auto simp: contains_def)
qed

text \<open>
  the classification of an operation's outcome. It is a success exactly when there is no
  error; an error is an authentication failure exactly when its message has one of the
  indicators as a (case-sensitive) substring, and only otherwise can it be a rate limit.
\<close>

lemma ClassifyOperationEvent_type:
  "ev_Type (ClassifyOperationEvent p d err now) =
     (case err of
        None \<Rightarrow> EventOperationSuccess
      | Some e \<Rightarrow>
          if \<exists>i \<in> {''authentication failed'', ''unauthorized'', ''invalid client'',
                  ''invalid credentials'', ''access denied'', ''not found in the allow list'',
                  ''api key'', ''forbidden'', ''HTTP 401'', ''HTTP 403''}. sublist i (err_msg e)
          then EventOperationAuthFail
          else if \<exists>i \<in> {''rate limit'', ''too many requests'', ''429'', ''quota exceeded'',
                  ''throttled''}. sublist i (err_msg e)
          then EventRateLimited
          else EventOperationFailed)"
proof -
  have "sublist ''api key'' ''invalid api key''" "sublist ''api key'' ''missing api key''"
    by code_simp+
  then have sub: "sublist ''api key'' m"
    if "sublist ''invalid api key'' m \<or> sublist ''missing api key'' m" for m
    using that sublist_order.order_trans by blast
  show ?thesis
    by (cases err) (auto simp: ClassifyOperationEvent_def containsAuthFailureIndicator_def
        containsRateLimitIndicator_def contains_iff intro: sub)
qed

end
