(* ===== verification/Penalty_History.thy ===== *)
theory Penalty_History
  imports Prelude
begin

text \<open>
  \<open>scoring/penalties.go\<close>: the penalty records and the in-place ring buffer that keeps the
  most recent of them. The interface \<open>bounded_log\<close> says what a client may rely on: a
  snapshot is always the last \<open>capacity\<close> records written, oldest first. The ring buffer
  implements it.
\<close>

type_synonym penalty_category = string

abbreviation PenaltyCategoryHealth :: penalty_category where
  "PenaltyCategoryHealth \<equiv> ''health''"
abbreviation PenaltyCategoryRateLimit :: penalty_category where
  "PenaltyCategoryRateLimit \<equiv> ''rate_limit''"
abbreviation PenaltyCategoryError :: penalty_category where
  "PenaltyCategoryError \<equiv> ''error''"
abbreviation PenaltyCategoryLatency :: penalty_category where
  "PenaltyCategoryLatency \<equiv> ''latency''"

record penalty_record =
  pr_Timestamp :: gotime
  pr_Category :: penalty_category
  pr_Reason :: string
  pr_Amount :: real
  pr_Metadata :: metadata
  pr_DecayFactor :: real

definition zero_penalty_record :: penalty_record where
  "zero_penalty_record =
     \<lparr>pr_Timestamp = 0, pr_Category = '''', pr_Reason = '''', pr_Amount = 0,
      pr_Metadata = Map.empty, pr_DecayFactor = 0\<rparr>"

definition defaultPenaltyHistorySize :: int where
  "defaultPenaltyHistorySize = 50"

text \<open>\<open>ph_head\<close> is the next write slot, \<open>ph_full\<close> says every slot was written once.\<close>

record penalty_history =
  ph_buf :: "penalty_record list"
  ph_head :: nat
  ph_full :: bool

definition newPenaltyHistory :: "int \<Rightarrow> penalty_history" where
  "newPenaltyHistory n =
     (let n' = (if n \<le> 0 then defaultPenaltyHistorySize else n)
      in \<lparr>ph_buf = replicate (nat n') zero_penalty_record, ph_head = 0, ph_full = False\<rparr>)"

definition history_add :: "penalty_record \<Rightarrow> penalty_history \<Rightarrow> penalty_history" where
  "history_add r h =
     (if ph_buf h = [] then h
      else
        let buf' = (ph_buf h)[ph_head h := r];
            head' = (ph_head h + 1) mod length (ph_buf h);
            full' = (if \<not> ph_full h \<and> head' = 0 then True else ph_full h)
        in \<lparr>ph_buf = buf', ph_head = head', ph_full = full'\<rparr>)"

definition history_snapshot :: "penalty_history \<Rightarrow> penalty_record list" where
  "history_snapshot h =
     (if ph_buf h = [] \<or> (\<not> ph_full h \<and> ph_head h = 0) then []
      else if \<not> ph_full h then take (ph_head h) (ph_buf h)
      else drop (ph_head h) (ph_buf h) @ take (ph_head h) (ph_buf h))"

definition history_capacity :: "penalty_history \<Rightarrow> nat" where
  "history_capacity h = length (ph_buf h)"

definition history_ok :: "penalty_history \<Rightarrow> bool" where
  "history_ok h \<longleftrightarrow> ph_head h < length (ph_buf h)"

subsection \<open>The interface\<close>

locale bounded_log =
  fixes add :: "'r \<Rightarrow> 'h \<Rightarrow> 'h"
    and snapshot :: "'h \<Rightarrow> 'r list"
    and capacity :: "'h \<Rightarrow> nat"
    and ok :: "'h \<Rightarrow> bool"
  assumes ok_add: "ok h \<Longrightarrow> ok (add r h)"
    and capacity_add: "ok h \<Longrightarrow> capacity (add r h) = capacity h"
    and capacity_pos: "ok h \<Longrightarrow> 0 < capacity h"
    and snapshot_add: "ok h \<Longrightarrow> snapshot (add r h) = lastn (capacity h) (snapshot h @ [r])"
    and snapshot_bound: "ok h \<Longrightarrow> length (snapshot h) \<le> capacity h"
begin

lemma ok_fold: "ok h \<Longrightarrow> ok (fold add rs h)"
  by (induction rs arbitrary: h) (auto simp: ok_add)

lemma capacity_fold: "ok h \<Longrightarrow> capacity (fold add rs h) = capacity h"
  by (induction rs arbitrary: h) (auto simp: ok_add capacity_add)

lemma snapshot_fold: "ok h \<Longrightarrow> snapshot (fold add rs h) = lastn (capacity h) (snapshot h @ rs)"
proof (induction rs arbitrary: h)
  case Nil
  then show ?case by (simp add: lastn_short snapshot_bound)
next
  case (Cons r rs)
  have "snapshot (fold add (r # rs) h) = lastn (capacity h) (snapshot (add r h) @ rs)"
    using Cons by (simp add: ok_add capacity_add)
  also have "\<dots> = lastn (capacity h) (snapshot h @ r # rs)"
    using Cons.prems by (simp add: snapshot_add lastn_append_lastn)
  finally show ?case .
qed

lemma newest_kept: "ok h \<Longrightarrow> snapshot (add r h) \<noteq> [] \<and> last (snapshot (add r h)) = r"
  using capacity_pos [of h] last_lastn [of "capacity h" "snapshot h @ [r]"]
  by (simp add: snapshot_add lastn_def)

end

subsection \<open>The ring buffer implements it\<close>

lemma history_ok_new: "history_ok (newPenaltyHistory n)"
  by (simp add: history_ok_def newPenaltyHistory_def defaultPenaltyHistorySize_def Let_def)

lemma history_snapshot_new [simp]: "history_snapshot (newPenaltyHistory n) = []"
  by (simp add: history_snapshot_def newPenaltyHistory_def Let_def)

lemma history_capacity_new:
  "history_capacity (newPenaltyHistory n) = (if n \<le> 0 then 50 else nat n)"
  by (simp add: history_capacity_def newPenaltyHistory_def defaultPenaltyHistorySize_def Let_def)

lemma history_snapshot_add:
  assumes "history_ok h"
  shows "history_snapshot (history_add r h) =
    lastn (history_capacity h) (history_snapshot h @ [r])"
proof -
  let ?b = "ph_buf h" and ?k = "ph_head h"
  have k: "?k < length ?b" using assms by (simp add: history_ok_def)
  then have ne: "?b \<noteq> []" by auto
  have snoc: "take (Suc ?k) (?b[?k := r]) = take ?k ?b @ [r]"
    using k by (simp add: take_Suc_conv_app_nth)
  show ?thesis
  proof (cases "Suc ?k = length ?b")
    case wrap: True
    have all: "?b[?k := r] = take ?k ?b @ [r]"
      using snoc wrap by (metis order_refl take_all length_list_update)
    show ?thesis
    proof (cases "ph_full h")
      case True
      have "lastn (length ?b) (drop ?k ?b @ take ?k ?b @ [r]) = take ?k ?b @ [r]"
        using wrap by (simp add: lastn_def)
      then show ?thesis
        using True wrap ne all
        by (simp add: history_snapshot_def history_add_def history_capacity_def)
    next
      case False
      then show ?thesis
        using wrap ne all
        by (auto simp: history_snapshot_def history_add_def history_capacity_def lastn_def)
    qed
  next
    case inner: False
    then have sk: "Suc ?k < length ?b" using k by simp
    have tl: "drop (Suc ?k) (?b[?k := r]) = drop (Suc ?k) ?b" by simp
    show ?thesis
    proof (cases "ph_full h")
      case True
      have "drop (Suc 0) (drop ?k ?b) = drop (Suc ?k) ?b" by simp
      then have "lastn (length ?b) (drop ?k ?b @ take ?k ?b @ [r])
          = drop (Suc ?k) ?b @ take ?k ?b @ [r]"
        using sk by (simp add: lastn_def)
      then show ?thesis
        using True sk ne snoc tl
        by (simp add: history_snapshot_def history_add_def history_capacity_def)
    next
      case False
      then show ?thesis
        using sk ne snoc
        by (auto simp: history_snapshot_def history_add_def history_capacity_def lastn_def)
    qed
  qed
qed

interpretation ring: bounded_log history_add history_snapshot history_capacity history_ok
proof unfold_locales
  fix h r
  assume ok: "history_ok h"
  then have len: "ph_head h < length (ph_buf h)" by (simp add: history_ok_def)
  then have ne: "ph_buf h \<noteq> []" by auto
  show "history_ok (history_add r h)"
    using len ne by (simp add: history_ok_def history_add_def Let_def)
  show "history_capacity (history_add r h) = history_capacity h"
    using ne by (simp add: history_capacity_def history_add_def Let_def)
  show "0 < history_capacity h"
    using ne by (simp add: history_capacity_def)
  show "history_snapshot (history_add r h) = lastn (history_capacity h) (history_snapshot h @ [r])"
    using ok by (rule history_snapshot_add)
  show "length (history_snapshot h) \<le> history_capacity h"
    using len by (auto simp: history_snapshot_def history_capacity_def)
qed

text \<open>
  C14: A ring buffer created with capacity \<open>n\<close> (50 when \<open>n\<close> is not positive) and then written
  with any sequence of records holds exactly the last \<open>n\<close> of them, oldest first.
\<close>

theorem history_keeps_last:
  "history_snapshot (fold history_add rs (newPenaltyHistory n)) =
     lastn (if n \<le> 0 then 50 else nat n) rs"
  using ring.snapshot_fold [OF history_ok_new, of rs n]
  by (simp add: history_capacity_new)

end
