(* ===== verification/Provider_Score.thy ===== *)
theory Provider_Score
  imports Penalty_History
begin

text \<open>
  \<open>scoring/scorer.go\<close>: the dynamic score of one provider. Each method of \<open>ProviderScore\<close> is a
  function on the record; the mutex of the Go struct makes each one atomic, and the clock
  reading of one critical section is the argument \<open>now\<close>. The capacity hint of \<open>make\<close> has no
  counterpart (a list has none); the code only passes a validated, non-negative window size.
\<close>

record provider_score =
  ps_Name :: string
  ps_Priority :: int
  ps_BaseScore :: real
  ps_HealthPenalty :: real
  ps_LatencyPenalty :: real
  ps_ErrorPenalty :: real
  ps_RateLimitPenalty :: real
  ps_LastUpdated :: gotime
  ps_LastHealthCheck :: gotime
  ps_LastOperation :: gotime
  ps_TotalOperations :: int
  ps_SuccessfulOps :: int
  ps_FailedOps :: int
  ps_RecentLatencies :: "duration list"
  ps_LatencyWindowSize :: int
  ps_history :: penalty_history

record provider_score_stats =
  st_Name :: string
  st_Priority :: int
  st_BaseScore :: real
  st_EffectiveScore :: real
  st_HealthPenalty :: real
  st_LatencyPenalty :: real
  st_ErrorPenalty :: real
  st_RateLimitPenalty :: real
  st_TotalOperations :: int
  st_SuccessfulOps :: int
  st_FailedOps :: int
  st_SuccessRate :: real
  st_AverageLatency :: duration
  st_LastUpdated :: gotime
  st_RecentPenalties :: "penalty_record list"

definition NewProviderScore :: "string \<Rightarrow> int \<Rightarrow> int \<Rightarrow> int \<Rightarrow> gotime \<Rightarrow> provider_score" where
  "NewProviderScore name priority latencyWindowSize historySize now =
     (let baseScore = 110 - real_of_int priority * 10;
          baseScore' = (if baseScore < 10 then 10 else baseScore)
      in \<lparr>ps_Name = name, ps_Priority = priority, ps_BaseScore = baseScore',
          ps_HealthPenalty = 0, ps_LatencyPenalty = 0, ps_ErrorPenalty = 0,
          ps_RateLimitPenalty = 0, ps_LastUpdated = now, ps_LastHealthCheck = 0,
          ps_LastOperation = 0, ps_TotalOperations = 0, ps_SuccessfulOps = 0,
          ps_FailedOps = 0, ps_RecentLatencies = [],
          ps_LatencyWindowSize = latencyWindowSize,
          ps_history = newPenaltyHistory historySize\<rparr>)"

definition EffectiveScore :: "provider_score \<Rightarrow> real" where
  "EffectiveScore ps =
     (let score = ps_BaseScore ps - ps_HealthPenalty ps - ps_LatencyPenalty ps
                  - ps_ErrorPenalty ps - ps_RateLimitPenalty ps
      in if score < 0 then 0 else score)"

definition penalty_entry ::
  "gotime \<Rightarrow> penalty_category \<Rightarrow> string \<Rightarrow> real \<Rightarrow> metadata \<Rightarrow> penalty_record" where
  "penalty_entry now cat reason amount meta =
     \<lparr>pr_Timestamp = now, pr_Category = cat, pr_Reason = reason, pr_Amount = amount,
      pr_Metadata = meta, pr_DecayFactor = 0\<rparr>"

definition AddHealthPenalty ::
  "real \<Rightarrow> real \<Rightarrow> string \<Rightarrow> metadata \<Rightarrow> gotime \<Rightarrow> provider_score \<Rightarrow> provider_score" where
  "AddHealthPenalty penalty maxPenalty reason meta now ps =
     (let p = ps_HealthPenalty ps + penalty;
          p' = (if p > maxPenalty then maxPenalty else p)
      in ps\<lparr>ps_HealthPenalty := p', ps_LastHealthCheck := now, ps_LastUpdated := now,
            ps_history := history_add
              (penalty_entry now PenaltyCategoryHealth reason penalty meta) (ps_history ps)\<rparr>)"

definition AddRateLimitPenalty ::
  "real \<Rightarrow> real \<Rightarrow> string \<Rightarrow> metadata \<Rightarrow> gotime \<Rightarrow> provider_score \<Rightarrow> provider_score" where
  "AddRateLimitPenalty penalty maxPenalty reason meta now ps =
     (let p = ps_RateLimitPenalty ps + penalty;
          p' = (if p > maxPenalty then maxPenalty else p)
      in ps\<lparr>ps_RateLimitPenalty := p', ps_LastUpdated := now,
            ps_history := history_add
              (penalty_entry now PenaltyCategoryRateLimit reason penalty meta) (ps_history ps)\<rparr>)"

definition AddErrorPenalty ::
  "real \<Rightarrow> real \<Rightarrow> string \<Rightarrow> metadata \<Rightarrow> gotime \<Rightarrow> provider_score \<Rightarrow> provider_score" where
  "AddErrorPenalty penalty maxPenalty reason meta now ps =
     (let p = ps_ErrorPenalty ps + penalty;
          p' = (if p > maxPenalty then maxPenalty else p)
      in ps\<lparr>ps_ErrorPenalty := p', ps_FailedOps := ps_FailedOps ps + 1,
            ps_TotalOperations := ps_TotalOperations ps + 1, ps_LastOperation := now,
            ps_LastUpdated := now,
            ps_history := history_add
              (penalty_entry now PenaltyCategoryError reason penalty meta) (ps_history ps)\<rparr>)"

definition RecordSuccess :: "real \<Rightarrow> gotime \<Rightarrow> provider_score \<Rightarrow> provider_score" where
  "RecordSuccess successBonus now ps =
     (let e = (if successBonus > 0
               then (let p = ps_ErrorPenalty ps - successBonus in if p < 0 then 0 else p)
               else ps_ErrorPenalty ps)
      in ps\<lparr>ps_ErrorPenalty := e, ps_SuccessfulOps := ps_SuccessfulOps ps + 1,
            ps_TotalOperations := ps_TotalOperations ps + 1, ps_LastOperation := now,
            ps_LastUpdated := now\<rparr>)"

text \<open>Append, and drop the first sample when the window is exceeded.\<close>

definition push_window :: "int \<Rightarrow> duration \<Rightarrow> duration list \<Rightarrow> duration list" where
  "push_window w x xs =
     (let xs' = xs @ [x] in if int (length xs') > w then tl xs' else xs')"

definition RecordLatency :: "duration \<Rightarrow> provider_score \<Rightarrow> provider_score" where
  "RecordLatency latency ps =
     ps\<lparr>ps_RecentLatencies :=
          push_window (ps_LatencyWindowSize ps) latency (ps_RecentLatencies ps)\<rparr>"

definition average_duration :: "duration list \<Rightarrow> duration" where
  "average_duration xs = go_quot (sum_list xs) (int (length xs))"

definition GetAverageLatency :: "provider_score \<Rightarrow> duration" where
  "GetAverageLatency ps =
     (if ps_RecentLatencies ps = [] then 0 else average_duration (ps_RecentLatencies ps))"

definition UpdateLatencyPenalty ::
  "real \<Rightarrow> real \<Rightarrow> string \<Rightarrow> gotime \<Rightarrow> provider_score \<Rightarrow> provider_score" where
  "UpdateLatencyPenalty slownessFactor penaltyPerStdDev reason now ps =
     (let penalty = slownessFactor * penaltyPerStdDev;
          ps' = ps\<lparr>ps_LatencyPenalty := (if penalty < 0 then 0 else penalty),
                   ps_LastUpdated := now\<rparr>
      in if penalty > 0 \<and> reason \<noteq> ''''
         then ps'\<lparr>ps_history := history_add
                (penalty_entry now PenaltyCategoryLatency reason penalty Map.empty)
                (ps_history ps')\<rparr>
         else ps')"

definition decay_one :: "real \<Rightarrow> real \<Rightarrow> real" where
  "decay_one decayRate p = (let p' = p * (1 - decayRate) in if p' < 1 / 100 then 0 else p')"

definition ApplyDecay :: "real \<Rightarrow> gotime \<Rightarrow> provider_score \<Rightarrow> provider_score" where
  "ApplyDecay decayRate now ps =
     ps\<lparr>ps_HealthPenalty := decay_one decayRate (ps_HealthPenalty ps),
        ps_RateLimitPenalty := decay_one decayRate (ps_RateLimitPenalty ps),
        ps_ErrorPenalty := decay_one decayRate (ps_ErrorPenalty ps),
        ps_LastUpdated := now\<rparr>"

definition GetStats :: "provider_score \<Rightarrow> provider_score_stats" where
  "GetStats ps =
     \<lparr>st_Name = ps_Name ps, st_Priority = ps_Priority ps, st_BaseScore = ps_BaseScore ps,
      st_EffectiveScore = ps_BaseScore ps - ps_HealthPenalty ps - ps_LatencyPenalty ps
                          - ps_ErrorPenalty ps - ps_RateLimitPenalty ps,
      st_HealthPenalty = ps_HealthPenalty ps, st_LatencyPenalty = ps_LatencyPenalty ps,
      st_ErrorPenalty = ps_ErrorPenalty ps, st_RateLimitPenalty = ps_RateLimitPenalty ps,
      st_TotalOperations = ps_TotalOperations ps, st_SuccessfulOps = ps_SuccessfulOps ps,
      st_FailedOps = ps_FailedOps ps,
      st_SuccessRate = (if ps_TotalOperations ps > 0
        then real_of_int (ps_SuccessfulOps ps) / real_of_int (ps_TotalOperations ps) else 0),
      st_AverageLatency = GetAverageLatency ps, st_LastUpdated = ps_LastUpdated ps,
      st_RecentPenalties = history_snapshot (ps_history ps)\<rparr>"

lemmas score_op_defs [score_defs] =
  AddHealthPenalty_def AddRateLimitPenalty_def AddErrorPenalty_def RecordSuccess_def
  RecordLatency_def UpdateLatencyPenalty_def ApplyDecay_def penalty_entry_def Let_def

subsection \<open>The well-formedness invariant\<close>

text \<open>
  \<open>M\<close> bounds the three accumulated penalties. The latency penalty has no bound in the code.
\<close>

definition score_ok :: "real \<Rightarrow> provider_score \<Rightarrow> bool" where
  "score_ok M ps \<longleftrightarrow>
     0 \<le> ps_HealthPenalty ps \<and> ps_HealthPenalty ps \<le> M \<and>
     0 \<le> ps_RateLimitPenalty ps \<and> ps_RateLimitPenalty ps \<le> M \<and>
     0 \<le> ps_ErrorPenalty ps \<and> ps_ErrorPenalty ps \<le> M \<and>
     0 \<le> ps_LatencyPenalty ps \<and> 0 \<le> ps_BaseScore ps \<and>
     0 \<le> ps_SuccessfulOps ps \<and> 0 \<le> ps_FailedOps ps \<and>
     ps_TotalOperations ps = ps_SuccessfulOps ps + ps_FailedOps ps \<and>
     history_ok (ps_history ps)"

lemma score_ok_new: "0 \<le> M \<Longrightarrow> score_ok M (NewProviderScore name prio w hs now)"
  by (simp add: score_ok_def NewProviderScore_def history_ok_new Let_def)

lemma base_new:
  "ps_BaseScore (NewProviderScore name prio w hs now) = max 10 (110 - 10 * real_of_int prio)"
  by (simp add: NewProviderScore_def Let_def max_def)

lemma decay_one_bounds:
  assumes "0 \<le> p" "0 \<le> r" "r \<le> 1"
  shows "0 \<le> decay_one r p" and "decay_one r p \<le> p"
  using assms by (auto simp: decay_one_def Let_def algebra_simps mult_left_le)

lemma score_ok_AddHealthPenalty:
  "score_ok M ps \<Longrightarrow> 0 \<le> p \<Longrightarrow> 0 \<le> m \<Longrightarrow> m \<le> M \<Longrightarrow>
   score_ok M (AddHealthPenalty p m reason meta now ps)"
  by (auto simp: score_ok_def score_defs ring.ok_add)

lemma score_ok_AddRateLimitPenalty:
  "score_ok M ps \<Longrightarrow> 0 \<le> p \<Longrightarrow> 0 \<le> m \<Longrightarrow> m \<le> M \<Longrightarrow>
   score_ok M (AddRateLimitPenalty p m reason meta now ps)"
  by (auto simp: score_ok_def score_defs ring.ok_add)

lemma score_ok_AddErrorPenalty:
  "score_ok M ps \<Longrightarrow> 0 \<le> p \<Longrightarrow> 0 \<le> m \<Longrightarrow> m \<le> M \<Longrightarrow>
   score_ok M (AddErrorPenalty p m reason meta now ps)"
  by (auto simp: score_ok_def score_defs ring.ok_add)

lemma score_ok_RecordSuccess: "score_ok M ps \<Longrightarrow> score_ok M (RecordSuccess b now ps)"
  by (auto simp: score_ok_def score_defs)

lemma score_ok_RecordLatency: "score_ok M ps \<Longrightarrow> score_ok M (RecordLatency d ps)"
  by (simp add: score_ok_def score_defs)

lemma score_ok_UpdateLatencyPenalty:
  "score_ok M ps \<Longrightarrow> score_ok M (UpdateLatencyPenalty s p reason now ps)"
  by (auto simp: score_ok_def score_defs ring.ok_add)

lemma score_ok_ApplyDecay:
  "score_ok M ps \<Longrightarrow> 0 \<le> r \<Longrightarrow> r \<le> 1 \<Longrightarrow> score_ok M (ApplyDecay r now ps)"
  by (simp add: score_ok_def score_defs decay_one_bounds)
     (meson decay_one_bounds(2) order_trans)

lemmas score_ok_ops =
  score_ok_AddHealthPenalty score_ok_AddRateLimitPenalty score_ok_AddErrorPenalty
  score_ok_RecordSuccess score_ok_RecordLatency score_ok_UpdateLatencyPenalty
  score_ok_ApplyDecay

lemma EffectiveScore_bounds:
  "score_ok M ps \<Longrightarrow> 0 \<le> EffectiveScore ps \<and> EffectiveScore ps \<le> ps_BaseScore ps"
  by (auto simp: score_ok_def EffectiveScore_def Let_def)

subsection \<open>Sequences of operations on one score\<close>

datatype score_op =
    OpHealth real string metadata
  | OpRateLimit real string metadata
  | OpError real string metadata
  | OpSuccess real
  | OpLatency duration
  | OpLatencyPenalty real real string
  | OpDecay real

fun run_score_op :: "real \<Rightarrow> gotime \<times> score_op \<Rightarrow> provider_score \<Rightarrow> provider_score" where
  "run_score_op M (now, OpHealth p reason m) ps = AddHealthPenalty p M reason m now ps"
| "run_score_op M (now, OpRateLimit p reason m) ps = AddRateLimitPenalty p M reason m now ps"
| "run_score_op M (now, OpError p reason m) ps = AddErrorPenalty p M reason m now ps"
| "run_score_op M (now, OpSuccess b) ps = RecordSuccess b now ps"
| "run_score_op M (now, OpLatency d) ps = RecordLatency d ps"
| "run_score_op M (now, OpLatencyPenalty s p reason) ps = UpdateLatencyPenalty s p reason now ps"
| "run_score_op M (now, OpDecay r) ps = ApplyDecay r now ps"

fun op_ok :: "score_op \<Rightarrow> bool" where
  "op_ok (OpHealth p _ _) = (0 \<le> p)"
| "op_ok (OpRateLimit p _ _) = (0 \<le> p)"
| "op_ok (OpError p _ _) = (0 \<le> p)"
| "op_ok (OpDecay r) = (0 \<le> r \<and> r \<le> 1)"
| "op_ok _ = True"

lemma score_ok_run_op:
  assumes "score_ok M ps" "0 \<le> M" "op_ok (snd o1)"
  shows "score_ok M (run_score_op M o1 ps)"
  using assms by (cases "(M, o1, ps)" rule: run_score_op.cases) (auto intro: score_ok_ops)

lemma base_run_op [simp]: "ps_BaseScore (run_score_op M o1 ps) = ps_BaseScore ps"
  by (cases "(M, o1, ps)" rule: run_score_op.cases) (auto simp: score_defs)

lemma base_fold_run: "ps_BaseScore (fold (run_score_op M) ops ps) = ps_BaseScore ps"
  by (induction ops arbitrary: ps) auto

lemma score_ok_fold_run:
  "score_ok M ps \<Longrightarrow> 0 \<le> M \<Longrightarrow> list_all (op_ok \<circ> snd) ops \<Longrightarrow>
     score_ok M (fold (run_score_op M) ops ps)"
  by (induction ops arbitrary: ps) (auto simp: score_ok_run_op)

text \<open>
  C15: Whatever sequence of penalties (none negative), successes, latency samples, latency
  updates and decays (rate between 0 and 1) is applied to a new provider score, its effective
  score stays between 0 and its base score, the accumulated penalties stay between 0 and the
  configured maximum, and its operation counters add up.
\<close>

theorem score_bounded:
  assumes "0 \<le> M" and "list_all (op_ok \<circ> snd) ops"
  shows "let ps = fold (run_score_op M) ops (NewProviderScore name prio w hs t0) in
    score_ok M ps \<and> 0 \<le> EffectiveScore ps \<and>
    EffectiveScore ps \<le> max 10 (110 - 10 * real_of_int prio)"
proof -
  let ?ps = "fold (run_score_op M) ops (NewProviderScore name prio w hs t0)"
  have "score_ok M ?ps"
    using assms by (simp add: score_ok_fold_run score_ok_new)
  moreover have "ps_BaseScore ?ps = max 10 (110 - 10 * real_of_int prio)"
    by (simp add: base_fold_run base_new)
  ultimately show ?thesis using EffectiveScore_bounds [of M ?ps] by (simp add: Let_def)
qed

theorem score_bounded_witness:
  "0 \<le> EffectiveScore (fold (run_score_op 90)
     [(1, OpError 3 ''timeout'' Map.empty), (2, OpHealth 50 ''auth'' Map.empty), (3, OpDecay (1 / 10))]
     (NewProviderScore ''mempool'' 1 100 50 0))"
  using score_bounded [of 90 "[(1, OpError 3 ''timeout'' Map.empty),
      (2, OpHealth 50 ''auth'' Map.empty), (3, OpDecay (1 / 10))]" "''mempool''" 1 100 50 0]
  by (simp add: Let_def)

subsection \<open>Recovery\<close>

lemma decay_one_power:
  assumes "0 \<le> p" "0 \<le> r" "r \<le> 1"
  shows "0 \<le> (decay_one r ^^ n) p \<and> (decay_one r ^^ n) p \<le> p * (1 - r) ^ n"
proof (induction n)
  case 0
  then show ?case using assms by simp
next
  case (Suc n)
  let ?q = "(decay_one r ^^ n) p"
  have "?q * (1 - r) \<le> p * (1 - r) ^ n * (1 - r)"
    using Suc assms by (intro mult_right_mono) auto
  moreover have "0 \<le> p * (1 - r) ^ Suc n" using assms by simp
  ultimately have "decay_one r ?q \<le> p * (1 - r) ^ Suc n"
    by (auto simp: decay_one_def Let_def algebra_simps)
  moreover have "0 \<le> decay_one r ?q" using Suc assms by (simp add: decay_one_bounds)
  ultimately show ?case by simp
qed

lemma decay_one_dead: "(decay_one r ^^ n) 0 = 0"
  by (induction n) (auto simp: decay_one_def Let_def)

lemma decay_one_clears:
  assumes "0 \<le> p" "0 < r" "r \<le> 1"
  shows "\<exists>N. \<forall>n \<ge> N. (decay_one r ^^ n) p = 0"
proof -
  have "(\<lambda>n. p * (1 - r) ^ n) \<longlonglongrightarrow> p * 0"
    using assms by (intro tendsto_mult tendsto_const LIMSEQ_realpow_zero) auto
  then obtain N where N: "\<forall>n \<ge> N. \<bar>p * (1 - r) ^ n\<bar> < 1 / 100"
    unfolding LIMSEQ_def by (metis dist_real_def diff_zero mult_zero_right zero_less_divide_1_iff zero_less_numeral)
  show ?thesis
  proof (intro exI allI impI)
    fix n assume n: "Suc N \<le> n"
    then obtain m where m: "n = Suc m" "N \<le> m" by (metis Suc_le_D Suc_le_mono)
    let ?q = "(decay_one r ^^ m) p"
    have q: "0 \<le> ?q" "?q \<le> p * (1 - r) ^ m"
      using decay_one_power [of p r m] assms by auto
    then have "?q < 1 / 100" using N m by force
    moreover have "?q * (1 - r) \<le> ?q" using q assms by (simp add: mult_left_le)
    ultimately show "(decay_one r ^^ n) p = 0" using m by (simp add: decay_one_def Let_def)
  qed
qed

lemma ApplyDecay_iter:
  "ps_HealthPenalty ((ApplyDecay r now ^^ n) ps) = (decay_one r ^^ n) (ps_HealthPenalty ps)"
  "ps_RateLimitPenalty ((ApplyDecay r now ^^ n) ps) = (decay_one r ^^ n) (ps_RateLimitPenalty ps)"
  "ps_ErrorPenalty ((ApplyDecay r now ^^ n) ps) = (decay_one r ^^ n) (ps_ErrorPenalty ps)"
  "ps_LatencyPenalty ((ApplyDecay r now ^^ n) ps) = ps_LatencyPenalty ps"
  "ps_BaseScore ((ApplyDecay r now ^^ n) ps) = ps_BaseScore ps"
  by (induction n) (auto simp: ApplyDecay_def)

text \<open>
  recovery. With a positive decay rate, a score on which only decay acts sheds all of its
  accumulated health, rate-limit and error penalties after finitely many decay ticks; from
  then on only the latency penalty separates its effective score from its base score.
\<close>

lemma decay_recovers:
  assumes "score_ok M ps" "0 < r" "r \<le> 1"
  shows "\<exists>N. \<forall>n \<ge> N. EffectiveScore ((ApplyDecay r now ^^ n) ps) =
    max 0 (ps_BaseScore ps - ps_LatencyPenalty ps)"
proof -
  have nn: "0 \<le> ps_HealthPenalty ps" "0 \<le> ps_RateLimitPenalty ps" "0 \<le> ps_ErrorPenalty ps"
    using assms(1) by (auto simp: score_ok_def)
  obtain N1 N2 N3 where
    "\<forall>n \<ge> N1. (decay_one r ^^ n) (ps_HealthPenalty ps) = 0"
    "\<forall>n \<ge> N2. (decay_one r ^^ n) (ps_RateLimitPenalty ps) = 0"
    "\<forall>n \<ge> N3. (decay_one r ^^ n) (ps_ErrorPenalty ps) = 0"
    using decay_one_clears nn assms(2,3) by metis
  then have "\<forall>n \<ge> max N1 (max N2 N3). EffectiveScore ((ApplyDecay r now ^^ n) ps) =
      max 0 (ps_BaseScore ps - ps_LatencyPenalty ps)"
    by (auto simp: EffectiveScore_def ApplyDecay_iter Let_def max_def)
  then show ?thesis by blast
qed

subsection \<open>The latency window\<close>

lemma push_window_lastn:
  assumes "0 < w" "int (length xs) \<le> w"
  shows "push_window w x xs = lastn (nat w) (xs @ [x])"
proof (cases "int (length xs) = w")
  case True
  then have n: "nat w = length xs" by simp
  then obtain y ys where "xs = y # ys" using assms(1) by (cases xs) auto
  then show ?thesis using True n by (simp add: push_window_def lastn_def)
next
  case False
  then have "length xs < nat w" using assms by linarith
  then show ?thesis using assms False by (simp add: push_window_def lastn_short Let_def)
qed

lemma push_window_length:
  "0 < w \<Longrightarrow> int (length xs) \<le> w \<Longrightarrow> int (length (push_window w x xs)) \<le> w"
  by (simp add: push_window_lastn)

lemma RecordLatency_fold:
  assumes "0 < ps_LatencyWindowSize ps"
    and "int (length (ps_RecentLatencies ps)) \<le> ps_LatencyWindowSize ps"
  shows "ps_RecentLatencies (fold RecordLatency ds ps) =
    lastn (nat (ps_LatencyWindowSize ps)) (ps_RecentLatencies ps @ ds)"
  using assms
proof (induction ds arbitrary: ps)
  case Nil
  then show ?case by (simp add: lastn_short nat_le_iff le_nat_iff)
next
  case (Cons d ds)
  let ?ps = "RecordLatency d ps"
  have w: "ps_LatencyWindowSize ?ps = ps_LatencyWindowSize ps"
    by (simp add: RecordLatency_def)
  have l: "ps_RecentLatencies ?ps = lastn (nat (ps_LatencyWindowSize ps)) (ps_RecentLatencies ps @ [d])"
    using Cons.prems by (simp add: RecordLatency_def push_window_lastn)
  have "ps_RecentLatencies (fold RecordLatency ds ?ps) =
      lastn (nat (ps_LatencyWindowSize ps)) (ps_RecentLatencies ?ps @ ds)"
    using Cons.IH [of ?ps] Cons.prems w l by simp
  then show ?case by (simp add: l lastn_append_lastn)
qed

lemma sum_list_bounds:
  "(\<And>x. x \<in> set xs \<Longrightarrow> a \<le> x \<and> x \<le> (b :: int)) \<Longrightarrow>
     a * int (length xs) \<le> sum_list xs \<and> sum_list xs \<le> b * int (length xs)"
proof (induction xs)
  case Nil
  then show ?case by simp
next
  case (Cons x xs)
  then have "a * int (length xs) \<le> sum_list xs \<and> sum_list xs \<le> b * int (length xs)"
    and "a \<le> x \<and> x \<le> b" by auto
  then show ?case by (simp add: algebra_simps)
qed

lemma average_between:
  assumes "xs \<noteq> []" and "\<And>x. x \<in> set xs \<Longrightarrow> a \<le> x \<and> x \<le> b" and "0 \<le> a"
  shows "a \<le> average_duration xs \<and> average_duration xs \<le> b"
proof -
  let ?n = "int (length xs)"
  have n: "0 < ?n" using assms(1) by simp
  have s: "a * ?n \<le> sum_list xs" "sum_list xs \<le> b * ?n"
    using sum_list_bounds [of xs a b] assms(2) by auto
  have "0 \<le> sum_list xs" using s(1) assms(3) n by (meson mult_nonneg_nonneg order_less_imp_le order_trans)
  then have eq: "average_duration xs = sum_list xs div ?n"
    using n by (simp add: average_duration_def go_quot_nonneg)
  have "a \<le> sum_list xs div ?n"
    using zdiv_mono1 [OF s(1) n] n by simp
  moreover have "sum_list xs div ?n \<le> b"
    using zdiv_mono1 [OF s(2) n] n by simp
  ultimately show ?thesis by (simp add: eq)
qed

subsection \<open>Statistics\<close>

lemma GetStats_effective:
  "EffectiveScore ps = max 0 (st_EffectiveScore (GetStats ps))"
  by (simp add: EffectiveScore_def GetStats_def Let_def max_def)

lemma GetStats_success_rate:
  "score_ok M ps \<Longrightarrow> 0 \<le> st_SuccessRate (GetStats ps) \<and> st_SuccessRate (GetStats ps) \<le> 1"
  by (auto simp: score_ok_def GetStats_def divide_le_eq_1)

end
