(* ===== verification/Store_Registry.thy ===== *)
theory Store_Registry
  imports Prelude
begin

text \<open>
  \<open>scoring/store/registry.go\<close>: store configurations and the factory that builds a store from
  one. A Go interface value is its dynamic type and what it points to, so a \<open>ScoreStore\<close> is a
  \<open>store_ref\<close>: the base stores carry an address, the wrappers carry what they wrap.
  \<open>NewRedisStore\<close> and \<open>NewPostgresStore\<close> dial a server; whether the attempt succeeds is an
  argument. The allocation state records which base stores were opened and which were closed.
\<close>

record hybrid_flags =
  hf_CacheTTL :: duration
  hf_WriteThrough :: bool
  hf_AsyncWrite :: bool
  hf_InvalidateOnWrite :: bool

datatype store_ref =
    MemoryRef nat
  | RedisRef nat
  | PostgresRef nat
  | CustomRef nat
  | HybridRef store_ref store_ref hybrid_flags
  | InstrumentedRef store_ref

record redis_config =
  rc_Addr :: string
  rc_Password :: string
  rc_DB :: int
  rc_PoolSize :: int
  rc_MinIdleConns :: int
  rc_ScoreTTL :: duration
  rc_KeyPrefix :: string

record postgres_config =
  pc_ConnectionString :: string
  pc_TablePrefix :: string
  pc_MaxOpenConns :: int
  pc_MaxIdleConns :: int
  pc_ConnMaxLifetime :: duration

record redis_penalty_config =
  rp_Addr :: string
  rp_Password :: string
  rp_DB :: int
  rp_KeyPrefix :: string
  rp_TTL :: duration
  rp_MaxEntriesPerProvider :: int
  rp_PoolSize :: int
  rp_MinIdleConns :: int

record postgres_penalty_config =
  pp_ConnectionString :: string
  pp_TablePrefix :: string
  pp_MaxOpenConns :: int
  pp_MaxIdleConns :: int
  pp_ConnMaxLifetime :: duration

abbreviation StoreTypeMemory :: string where "StoreTypeMemory \<equiv> ''memory''"
abbreviation StoreTypeRedis :: string where "StoreTypeRedis \<equiv> ''redis''"
abbreviation StoreTypePostgres :: string where "StoreTypePostgres \<equiv> ''postgres''"
abbreviation StoreTypeHybrid :: string where "StoreTypeHybrid \<equiv> ''hybrid''"

datatype store_config =
    StoreConfig (scf_Type: string) (scf_Redis: "redis_config option")
      (scf_Postgres: "postgres_config option") (scf_Hybrid: "hybrid_store_config option")
and hybrid_store_config =
    HybridStoreConfig (hs_Primary: store_config) (hs_Cache: store_config)
      (hs_Flags: hybrid_flags)

subsection \<open>Opening and closing\<close>

record store_alloc =
  sa_next :: nat
  sa_opened :: "store_ref list"
  sa_closed :: "store_ref list"

text \<open>The base stores that a store is made of; \<open>Close\<close> on a wrapper closes all of them.\<close>

fun ref_parts :: "store_ref \<Rightarrow> store_ref list" where
  "ref_parts (HybridRef p c _) = ref_parts c @ ref_parts p"
| "ref_parts (InstrumentedRef s) = ref_parts s"
| "ref_parts s = [s]"

definition open_base :: "(nat \<Rightarrow> store_ref) \<Rightarrow> store_alloc \<Rightarrow> store_alloc \<times> (goerror + store_ref)" where
  "open_base con a =
     (let s = con (sa_next a)
      in (a\<lparr>sa_next := sa_next a + 1, sa_opened := sa_opened a @ [s]\<rparr>, Inr s))"

definition close_store :: "store_ref \<Rightarrow> store_alloc \<Rightarrow> store_alloc" where
  "close_store s a = a\<lparr>sa_closed := sa_closed a @ ref_parts s\<rparr>"

text \<open>\<open>NewHybridStore\<close> on two non-nil stores: the default TTL is filled in.\<close>

definition NewHybridStore_ref :: "store_ref \<Rightarrow> store_ref \<Rightarrow> hybrid_flags \<Rightarrow> store_ref" where
  "NewHybridStore_ref p c fl =
     HybridRef p c (if hf_CacheTTL fl = 0 then fl\<lparr>hf_CacheTTL := 5 * minute\<rparr> else fl)"

subsection \<open>The registry\<close>

text \<open>
  \<open>se_custom\<close> holds the factories that the application registered with \<open>Register\<close>; the
  others are the ones that \<open>init\<close> registers. \<open>se_dialRedis\<close> and \<open>se_dialPostgres\<close> give the
  error of the attempt to connect, if there is one.
\<close>

record store_env =
  se_custom :: "string \<rightharpoonup> (store_config \<Rightarrow> store_alloc \<Rightarrow> store_alloc \<times> (goerror + store_ref))"
  se_dialRedis :: "redis_config \<Rightarrow> nat \<Rightarrow> goerror option"
  se_dialPostgres :: "postgres_config \<Rightarrow> nat \<Rightarrow> goerror option"

definition Register ::
  "string \<Rightarrow> (store_config \<Rightarrow> store_alloc \<Rightarrow> store_alloc \<times> (goerror + store_ref)) \<Rightarrow>
   store_env \<Rightarrow> store_env" where
  "Register storeType factory env = env\<lparr>se_custom := (se_custom env)(storeType \<mapsto> factory)\<rparr>"

definition NewRedisStore_ref ::
  "store_env \<Rightarrow> redis_config \<Rightarrow> store_alloc \<Rightarrow> store_alloc \<times> (goerror + store_ref)" where
  "NewRedisStore_ref env cfg a =
     (case se_dialRedis env cfg (sa_next a) of
        Some e \<Rightarrow> (a, Inl e)
      | None \<Rightarrow> open_base RedisRef a)"

definition NewPostgresStore_ref ::
  "store_env \<Rightarrow> postgres_config \<Rightarrow> store_alloc \<Rightarrow> store_alloc \<times> (goerror + store_ref)" where
  "NewPostgresStore_ref env cfg a =
     (case se_dialPostgres env cfg (sa_next a) of
        Some e \<Rightarrow> (a, Inl e)
      | None \<Rightarrow> open_base PostgresRef a)"

fun NewStore :: "store_env \<Rightarrow> store_config \<Rightarrow> store_alloc \<Rightarrow> store_alloc \<times> (goerror + store_ref)" where
  "NewStore env (StoreConfig ty redis postgres hybrid) a =
     (case se_custom env ty of
        Some factory \<Rightarrow> factory (StoreConfig ty redis postgres hybrid) a
      | None \<Rightarrow>
          if ty = StoreTypeMemory then open_base MemoryRef a
          else if ty = StoreTypeRedis then
            (case redis of
               None \<Rightarrow> (a, Inl (Errorf ''redis config is required for redis store''))
             | Some c \<Rightarrow> NewRedisStore_ref env c a)
          else if ty = StoreTypePostgres then
            (case postgres of
               None \<Rightarrow> (a, Inl (Errorf ''postgres config is required for postgres store''))
             | Some c \<Rightarrow> NewPostgresStore_ref env c a)
          else if ty = StoreTypeHybrid then
            (case hybrid of
               None \<Rightarrow> (a, Inl (Errorf ''hybrid config is required for hybrid store''))
             | Some (HybridStoreConfig pcfg ccfg fl) \<Rightarrow>
                 (case NewStore env pcfg a of
                    (a1, Inl e) \<Rightarrow> (a1, Inl (wrap_error ''failed to create primary store: '' e))
                  | (a1, Inr p) \<Rightarrow>
                      (case NewStore env ccfg a1 of
                         (a2, Inl e) \<Rightarrow>
                           (close_store p a2, Inl (wrap_error ''failed to create cache store: '' e))
                       | (a2, Inr c) \<Rightarrow> (a2, Inr (NewHybridStore_ref p c fl)))))
          else (a, Inl (Errorf (''unknown store type: '' @ ty))))"

declare NewStore.simps [simp del]

subsection \<open>No store is leaked\<close>

definition accounted :: "store_alloc \<Rightarrow> store_alloc \<Rightarrow> (goerror + store_ref) \<Rightarrow> bool" where
  "accounted a a' r \<longleftrightarrow>
     (\<exists>os cs. sa_opened a' = sa_opened a @ os \<and> sa_closed a' = sa_closed a @ cs \<and>
        mset os = mset cs + (case r of Inl e \<Rightarrow> {#} | Inr s \<Rightarrow> mset (ref_parts s)))"

lemma accounted_error [simp]: "accounted a a (Inl e)"
  by (simp add: accounted_def)

lemma accounted_error_change: "accounted a a' (Inl e) \<Longrightarrow> accounted a a' (Inl e')"
  by (simp add: accounted_def)

lemma accounted_open:
  "ref_parts (con (sa_next a)) = [con (sa_next a)] \<Longrightarrow> open_base con a = (a', r) \<Longrightarrow> accounted a a' r"
  by (auto simp: open_base_def accounted_def Let_def)

lemmas accounted_base =
  accounted_open [of MemoryRef, simplified] accounted_open [of RedisRef, simplified]
  accounted_open [of PostgresRef, simplified]

lemma accounted_close:
  assumes "accounted a a1 (Inr p)" "accounted a1 a2 (Inl e)"
  shows "accounted a (close_store p a2) (Inl e')"
proof -
  obtain o1 c1 where 1: "sa_opened a1 = sa_opened a @ o1" "sa_closed a1 = sa_closed a @ c1"
      "mset o1 = mset c1 + mset (ref_parts p)"
    using assms(1) by (auto simp: accounted_def)
  obtain o2 c2 where 2: "sa_opened a2 = sa_opened a1 @ o2" "sa_closed a2 = sa_closed a1 @ c2"
      "mset o2 = mset c2"
    using assms(2) by (auto simp: accounted_def)
  show ?thesis
    unfolding accounted_def
    by (rule exI [of _ "o1 @ o2"], rule exI [of _ "c1 @ c2 @ ref_parts p"])
       (simp add: close_store_def 1 2)
qed

lemma accounted_hybrid:
  assumes "accounted a a1 (Inr p)" "accounted a1 a2 (Inr c)"
  shows "accounted a a2 (Inr (NewHybridStore_ref p c fl))"
proof -
  obtain o1 c1 where 1: "sa_opened a1 = sa_opened a @ o1" "sa_closed a1 = sa_closed a @ c1"
      "mset o1 = mset c1 + mset (ref_parts p)"
    using assms(1) by (auto simp: accounted_def)
  obtain o2 c2 where 2: "sa_opened a2 = sa_opened a1 @ o2" "sa_closed a2 = sa_closed a1 @ c2"
      "mset o2 = mset c2 + mset (ref_parts c)"
    using assms(2) by (auto simp: accounted_def)
  show ?thesis
    unfolding accounted_def
    by (rule exI [of _ "o1 @ o2"], rule exI [of _ "c1 @ c2"])
       (simp add: NewHybridStore_ref_def 1 2)
qed

lemma accounted_NewStore:
  assumes "se_custom env = Map.empty"
  shows "NewStore env cfg a = (a', r) \<Longrightarrow> accounted a a' r"
  using assms
proof (induction env cfg a arbitrary: a' r rule: NewStore.induct)
  case (1 env ty redis postgres hybrid a)
  show ?case
  proof (cases "ty = StoreTypeHybrid \<and> hybrid \<noteq> None")
    case False
    with "1.prems" show ?thesis
      by (auto simp: NewStore.simps NewRedisStore_ref_def NewPostgresStore_ref_def
          split: if_splits option.splits intro: accounted_base)
  next
    case True
    then obtain pcfg ccfg fl where h: "hybrid = Some (HybridStoreConfig pcfg ccfg fl)"
      by (metis hybrid_store_config.exhaust not_None_eq)
    obtain a1 r1 where p: "NewStore env pcfg a = (a1, r1)" by fastforce
    have acc1: "accounted a a1 r1"
      using "1.IH"(1) [OF _ _ _ _ _ h refl p] True "1.prems" by simp
    show ?thesis
    proof (cases r1)
      case (Inl e)
      then show ?thesis
        using True h p "1.prems" acc1 accounted_error_change
        by (auto simp: NewStore.simps)
    next
      case (Inr s)
      obtain a2 r2 where c: "NewStore env ccfg a1 = (a2, r2)" by fastforce
      have acc2: "accounted a1 a2 r2"
        using "1.IH"(2) [OF _ _ _ _ _ h refl p [symmetric] _ c] Inr True "1.prems" by simp
      show ?thesis
        using True h p c Inr "1.prems" acc1 acc2
        by (auto simp: NewStore.simps split: sum.splits
            intro: accounted_close accounted_hybrid)
    qed
  qed
qed

text \<open>
  The factory leaks no connection. For the built-in store types, every base store opened
  while a configuration is turned into a store, nested hybrids included, is either part of the
  store that is returned or has been closed when the construction failed half-way.
\<close>

lemma NewStore_no_leak:
  assumes "se_custom env = Map.empty" "NewStore env cfg a = (a', r)"
  shows "\<exists>os cs. sa_opened a' = sa_opened a @ os \<and> sa_closed a' = sa_closed a @ cs \<and>
    mset os = mset cs + (case r of Inl e \<Rightarrow> {#} | Inr s \<Rightarrow> mset (ref_parts s))"
  using accounted_NewStore [OF assms] by (simp add: accounted_def)

end
