(* ===== verification/Scoring_Config.thy ===== *)
theory Scoring_Config
  imports Store_Registry
begin

text \<open>
  \<open>scoring/options.go\<close>: the configuration of the scoring engine, its defaults, the functional
  options and \<open>Validate\<close>. A nil interface value is \<open>None\<close>. An option that builds a store
  threads the allocation state of \<open>Store_Registry\<close>.
\<close>

datatype penalty_store_ref =
    RedisPenaltyRef nat
  | PostgresPenaltyRef nat
  | CompositePenaltyRef penalty_store_ref penalty_store_ref
  | CustomPenaltyRef nat

type_synonym recorder_ref = nat

record scoring_config =
  sc_HealthCheckFailPenalty :: real
  sc_RateLimitPenalty :: real
  sc_AuthFailurePenalty :: real
  sc_SlowResponsePenalty :: real
  sc_OperationFailPenalty :: real
  sc_TimeoutPenalty :: real
  sc_SuccessBonus :: real
  sc_DecayInterval :: duration
  sc_DecayRate :: real
  sc_MaxPenalty :: real
  sc_LatencyWindowSize :: int
  sc_SlowThresholdStdDev :: real
  sc_MinSamplesForLatencyComparison :: int
  sc_Enabled :: bool
  sc_Store :: "store_ref option"
  sc_MetricsRecorder :: "recorder_ref option"
  sc_PenaltyHistorySize :: int
  sc_PenaltyHistoryStore :: "penalty_store_ref option"
  sc_RetentionWindow :: duration
  sc_PenaltyCleanupInterval :: duration

definition DefaultScoringConfig :: scoring_config where
  "DefaultScoringConfig =
     \<lparr>sc_HealthCheckFailPenalty = 5, sc_RateLimitPenalty = 20, sc_AuthFailurePenalty = 50,
      sc_SlowResponsePenalty = 2, sc_OperationFailPenalty = 3, sc_TimeoutPenalty = 10,
      sc_SuccessBonus = 1 / 2, sc_DecayInterval = minute, sc_DecayRate = 1 / 10,
      sc_MaxPenalty = 90, sc_LatencyWindowSize = 100, sc_SlowThresholdStdDev = 1,
      sc_MinSamplesForLatencyComparison = 10, sc_Enabled = True, sc_Store = None,
      sc_MetricsRecorder = None, sc_PenaltyHistorySize = 50, sc_PenaltyHistoryStore = None,
      sc_RetentionWindow = 30 * 24 * hour, sc_PenaltyCleanupInterval = 24 * hour\<rparr>"

type_synonym scoring_option = "scoring_config \<Rightarrow> scoring_config"

subsection \<open>Options for weights, decay and latency\<close>

definition WithHealthCheckPenalty :: "real \<Rightarrow> scoring_option" where
  "WithHealthCheckPenalty penalty c = c\<lparr>sc_HealthCheckFailPenalty := penalty\<rparr>"

definition WithRateLimitPenalty :: "real \<Rightarrow> scoring_option" where
  "WithRateLimitPenalty penalty c = c\<lparr>sc_RateLimitPenalty := penalty\<rparr>"

definition WithAuthFailurePenalty :: "real \<Rightarrow> scoring_option" where
  "WithAuthFailurePenalty penalty c = c\<lparr>sc_AuthFailurePenalty := penalty\<rparr>"

definition WithSlowResponsePenalty :: "real \<Rightarrow> scoring_option" where
  "WithSlowResponsePenalty penalty c = c\<lparr>sc_SlowResponsePenalty := penalty\<rparr>"

definition WithOperationFailPenalty :: "real \<Rightarrow> scoring_option" where
  "WithOperationFailPenalty penalty c = c\<lparr>sc_OperationFailPenalty := penalty\<rparr>"

definition WithTimeoutPenalty :: "real \<Rightarrow> scoring_option" where
  "WithTimeoutPenalty penalty c = c\<lparr>sc_TimeoutPenalty := penalty\<rparr>"

definition WithSuccessBonus :: "real \<Rightarrow> scoring_option" where
  "WithSuccessBonus bonus c = c\<lparr>sc_SuccessBonus := bonus\<rparr>"

definition WithMaxPenalty :: "real \<Rightarrow> scoring_option" where
  "WithMaxPenalty maxPenalty c = c\<lparr>sc_MaxPenalty := maxPenalty\<rparr>"

definition WithDecayInterval :: "duration \<Rightarrow> scoring_option" where
  "WithDecayInterval interval c = c\<lparr>sc_DecayInterval := interval\<rparr>"

definition WithDecayRate :: "real \<Rightarrow> scoring_option" where
  "WithDecayRate rate c =
     (let r1 = (if rate < 0 then 0 else rate);
          r2 = (if r1 > 1 then 1 else r1)
      in c\<lparr>sc_DecayRate := r2\<rparr>)"

definition WithLatencyWindow :: "int \<Rightarrow> scoring_option" where
  "WithLatencyWindow n c = c\<lparr>sc_LatencyWindowSize := (if n < 10 then 10 else n)\<rparr>"

definition WithSlowThreshold :: "real \<Rightarrow> scoring_option" where
  "WithSlowThreshold stdDevs c = c\<lparr>sc_SlowThresholdStdDev := stdDevs\<rparr>"

definition WithMinLatencySamples :: "int \<Rightarrow> scoring_option" where
  "WithMinLatencySamples n c = c\<lparr>sc_MinSamplesForLatencyComparison := n\<rparr>"

definition WithEnabled :: "bool \<Rightarrow> scoring_option" where
  "WithEnabled enabled c = c\<lparr>sc_Enabled := enabled\<rparr>"

subsection \<open>Options for stores and metrics\<close>

definition WithStore :: "store_ref option \<Rightarrow> scoring_option" where
  "WithStore s c = c\<lparr>sc_Store := s\<rparr>"

text \<open>
  An option that builds a store keeps it, or falls back to a new memory store on an error. The
  type of these options threads the allocation state.
\<close>

type_synonym allocating_option =
  "store_alloc \<Rightarrow> scoring_config \<Rightarrow> store_alloc \<times> scoring_config"

definition WithMemoryStore :: allocating_option where
  "WithMemoryStore a c =
     (case open_base MemoryRef a of
        (a', Inr s) \<Rightarrow> (a', c\<lparr>sc_Store := Some s\<rparr>)
      | (a', Inl e) \<Rightarrow> (a', c))"

definition store_or_memory :: "store_alloc \<times> (goerror + store_ref) \<Rightarrow> scoring_config \<Rightarrow>
    store_alloc \<times> scoring_config" where
  "store_or_memory ar c =
     (case ar of
        (a, Inl e) \<Rightarrow> WithMemoryStore a c
      | (a, Inr s) \<Rightarrow> (a, c\<lparr>sc_Store := Some s\<rparr>))"

definition WithRedisStore ::
  "store_env \<Rightarrow> string \<Rightarrow> (redis_config \<Rightarrow> redis_config) list \<Rightarrow> allocating_option" where
  "WithRedisStore env addr opts a c =
     (let config = \<lparr>rc_Addr = addr, rc_Password = '''', rc_DB = 0, rc_PoolSize = 10,
                    rc_MinIdleConns = 2, rc_ScoreTTL = 0, rc_KeyPrefix = ''''\<rparr>
      in store_or_memory (NewRedisStore_ref env (fold (\<lambda>opt. opt) opts config) a) c)"

definition RedisPassword :: "string \<Rightarrow> redis_config \<Rightarrow> redis_config" where
  "RedisPassword password c = c\<lparr>rc_Password := password\<rparr>"

definition RedisDB :: "int \<Rightarrow> redis_config \<Rightarrow> redis_config" where
  "RedisDB db c = c\<lparr>rc_DB := db\<rparr>"

definition RedisScoreTTL :: "duration \<Rightarrow> redis_config \<Rightarrow> redis_config" where
  "RedisScoreTTL ttl c = c\<lparr>rc_ScoreTTL := ttl\<rparr>"

definition RedisKeyPrefix :: "string \<Rightarrow> redis_config \<Rightarrow> redis_config" where
  "RedisKeyPrefix pre c = c\<lparr>rc_KeyPrefix := pre\<rparr>"

definition RedisPoolSize :: "int \<Rightarrow> redis_config \<Rightarrow> redis_config" where
  "RedisPoolSize n c = c\<lparr>rc_PoolSize := n\<rparr>"

definition RedisMinIdleConns :: "int \<Rightarrow> redis_config \<Rightarrow> redis_config" where
  "RedisMinIdleConns conns c = c\<lparr>rc_MinIdleConns := conns\<rparr>"

definition WithPostgresStore ::
  "store_env \<Rightarrow> string \<Rightarrow> (postgres_config \<Rightarrow> postgres_config) list \<Rightarrow> allocating_option" where
  "WithPostgresStore env connectionString opts a c =
     (let config = \<lparr>pc_ConnectionString = connectionString, pc_TablePrefix = ''chainkit_'',
                    pc_MaxOpenConns = 25, pc_MaxIdleConns = 5,
                    pc_ConnMaxLifetime = 5 * minute\<rparr>
      in store_or_memory (NewPostgresStore_ref env (fold (\<lambda>opt. opt) opts config) a) c)"

definition PostgresTablePrefix :: "string \<Rightarrow> postgres_config \<Rightarrow> postgres_config" where
  "PostgresTablePrefix pre c = c\<lparr>pc_TablePrefix := pre\<rparr>"

definition PostgresMaxConns :: "int \<Rightarrow> postgres_config \<Rightarrow> postgres_config" where
  "PostgresMaxConns n c = c\<lparr>pc_MaxOpenConns := n\<rparr>"

definition PostgresMaxIdleConns :: "int \<Rightarrow> postgres_config \<Rightarrow> postgres_config" where
  "PostgresMaxIdleConns n c = c\<lparr>pc_MaxIdleConns := n\<rparr>"

definition PostgresConnMaxLifetime :: "duration \<Rightarrow> postgres_config \<Rightarrow> postgres_config" where
  "PostgresConnMaxLifetime d c = c\<lparr>pc_ConnMaxLifetime := d\<rparr>"

definition WithHybridStore ::
  "store_env \<Rightarrow> string \<Rightarrow> string \<Rightarrow> (hybrid_store_config \<Rightarrow> hybrid_store_config) list \<Rightarrow>
   allocating_option" where
  "WithHybridStore env primaryConnString cacheAddr opts a c =
     (let config = HybridStoreConfig
            (StoreConfig StoreTypePostgres None
               (Some \<lparr>pc_ConnectionString = primaryConnString, pc_TablePrefix = ''chainkit_'',
                      pc_MaxOpenConns = 25, pc_MaxIdleConns = 5,
                      pc_ConnMaxLifetime = 5 * minute\<rparr>) None)
            (StoreConfig StoreTypeRedis
               (Some \<lparr>rc_Addr = cacheAddr, rc_Password = '''', rc_DB = 0, rc_PoolSize = 10,
                      rc_MinIdleConns = 2, rc_ScoreTTL = 0, rc_KeyPrefix = ''''\<rparr>) None None)
            \<lparr>hf_CacheTTL = 5 * minute, hf_WriteThrough = True, hf_AsyncWrite = False,
             hf_InvalidateOnWrite = False\<rparr>
      in store_or_memory
           (NewStore env
              (StoreConfig StoreTypeHybrid None None (Some (fold (\<lambda>opt. opt) opts config))) a) c)"

definition with_flags :: "(hybrid_flags \<Rightarrow> hybrid_flags) \<Rightarrow> hybrid_store_config \<Rightarrow> hybrid_store_config" where
  "with_flags f c = HybridStoreConfig (hs_Primary c) (hs_Cache c) (f (hs_Flags c))"

definition HybridCacheTTL :: "duration \<Rightarrow> hybrid_store_config \<Rightarrow> hybrid_store_config" where
  "HybridCacheTTL ttl = with_flags (\<lambda>f. f\<lparr>hf_CacheTTL := ttl\<rparr>)"

definition HybridWriteThrough :: "bool \<Rightarrow> hybrid_store_config \<Rightarrow> hybrid_store_config" where
  "HybridWriteThrough enabled = with_flags (\<lambda>f. f\<lparr>hf_WriteThrough := enabled\<rparr>)"

definition HybridAsyncWrite :: "bool \<Rightarrow> hybrid_store_config \<Rightarrow> hybrid_store_config" where
  "HybridAsyncWrite enabled = with_flags (\<lambda>f. f\<lparr>hf_AsyncWrite := enabled\<rparr>)"

definition HybridInvalidateOnWrite :: "bool \<Rightarrow> hybrid_store_config \<Rightarrow> hybrid_store_config" where
  "HybridInvalidateOnWrite enabled = with_flags (\<lambda>f. f\<lparr>hf_InvalidateOnWrite := enabled\<rparr>)"

definition HybridPrimaryConfig ::
  "(store_config \<Rightarrow> store_config) \<Rightarrow> hybrid_store_config \<Rightarrow> hybrid_store_config" where
  "HybridPrimaryConfig fn c = HybridStoreConfig (fn (hs_Primary c)) (hs_Cache c) (hs_Flags c)"

definition HybridCacheConfig ::
  "(store_config \<Rightarrow> store_config) \<Rightarrow> hybrid_store_config \<Rightarrow> hybrid_store_config" where
  "HybridCacheConfig fn c = HybridStoreConfig (hs_Primary c) (fn (hs_Cache c)) (hs_Flags c)"

definition WithStoreConfig :: "store_env \<Rightarrow> store_config \<Rightarrow> allocating_option" where
  "WithStoreConfig env config a c = store_or_memory (NewStore env config a) c"

definition WithMetrics :: "recorder_ref option \<Rightarrow> scoring_option" where
  "WithMetrics recorder c = c\<lparr>sc_MetricsRecorder := recorder\<rparr>"

definition WithPenaltyHistorySize :: "int \<Rightarrow> scoring_option" where
  "WithPenaltyHistorySize n c = (if n > 0 then c\<lparr>sc_PenaltyHistorySize := n\<rparr> else c)"

definition WithPenaltyHistoryStore :: "penalty_store_ref option \<Rightarrow> scoring_option" where
  "WithPenaltyHistoryStore s c = c\<lparr>sc_PenaltyHistoryStore := s\<rparr>"

definition WithRetentionWindow :: "duration \<Rightarrow> scoring_option" where
  "WithRetentionWindow d c = (if d > 0 then c\<lparr>sc_RetentionWindow := d\<rparr> else c)"

definition WithPenaltyCleanupInterval :: "duration \<Rightarrow> scoring_option" where
  "WithPenaltyCleanupInterval d c =
     (if d > 0 then c\<lparr>sc_PenaltyCleanupInterval := d\<rparr> else c)"

text \<open>What connecting to a penalty store gives is an argument; on an error the configuration stays as it is.\<close>

definition WithRedisPenaltyStore ::
  "(redis_penalty_config \<Rightarrow> goerror + penalty_store_ref) \<Rightarrow> string \<Rightarrow>
   (redis_penalty_config \<Rightarrow> redis_penalty_config) list \<Rightarrow> scoring_option" where
  "WithRedisPenaltyStore newRedisPenaltyStore addr opts c =
     (let cfg = \<lparr>rp_Addr = addr, rp_Password = '''', rp_DB = 0, rp_KeyPrefix = '''', rp_TTL = 0,
                 rp_MaxEntriesPerProvider = 0, rp_PoolSize = 0, rp_MinIdleConns = 0\<rparr>
      in case newRedisPenaltyStore (fold (\<lambda>opt. opt) opts cfg) of
           Inl e \<Rightarrow> c
         | Inr s \<Rightarrow> c\<lparr>sc_PenaltyHistoryStore := Some s\<rparr>)"

definition WithPostgresPenaltyStore ::
  "(postgres_penalty_config \<Rightarrow> goerror + penalty_store_ref) \<Rightarrow> string \<Rightarrow>
   (postgres_penalty_config \<Rightarrow> postgres_penalty_config) list \<Rightarrow> scoring_option" where
  "WithPostgresPenaltyStore newPostgresPenaltyStore connStr opts c =
     (let cfg = \<lparr>pp_ConnectionString = connStr, pp_TablePrefix = '''', pp_MaxOpenConns = 0, pp_MaxIdleConns = 0,
                 pp_ConnMaxLifetime = 0\<rparr>
      in case newPostgresPenaltyStore (fold (\<lambda>opt. opt) opts cfg) of
           Inl e \<Rightarrow> c
         | Inr s \<Rightarrow> c\<lparr>sc_PenaltyHistoryStore := Some s\<rparr>)"

definition WithCompositePenaltyStore ::
  "(string \<Rightarrow> goerror + penalty_store_ref) \<Rightarrow> (string \<Rightarrow> goerror + penalty_store_ref) \<Rightarrow>
   string \<Rightarrow> string \<Rightarrow> scoring_option" where
  "WithCompositePenaltyStore newPostgresPenaltyStore newRedisPenaltyStore pgConnStr redisAddr c =
     (case newPostgresPenaltyStore pgConnStr of
        Inl e \<Rightarrow> c
      | Inr pg \<Rightarrow>
          (case newRedisPenaltyStore redisAddr of
             Inl e \<Rightarrow> c
           | Inr red \<Rightarrow> c\<lparr>sc_PenaltyHistoryStore := Some (CompositePenaltyRef pg red)\<rparr>))"

subsection \<open>Validation\<close>

text \<open>\<open>Validate\<close> repairs the configuration in place and always returns nil.\<close>

definition Validate :: "scoring_config \<Rightarrow> scoring_config" where
  "Validate c =
     (let c1 = (if sc_DecayRate c < 0 \<or> sc_DecayRate c > 1 then c\<lparr>sc_DecayRate := 1 / 10\<rparr> else c);
          c2 = (if sc_LatencyWindowSize c1 < 10 then c1\<lparr>sc_LatencyWindowSize := 10\<rparr> else c1)
      in if sc_DecayInterval c2 < 0 then c2\<lparr>sc_DecayInterval := minute\<rparr> else c2)"

definition apply_options :: "scoring_option list \<Rightarrow> scoring_option" where
  "apply_options opts c = fold (\<lambda>opt. opt) opts c"

text \<open>What the engine relies on after \<open>Validate\<close>.\<close>

definition config_valid :: "scoring_config \<Rightarrow> bool" where
  "config_valid c \<longleftrightarrow>
     0 \<le> sc_DecayRate c \<and> sc_DecayRate c \<le> 1 \<and> 10 \<le> sc_LatencyWindowSize c \<and>
     0 \<le> sc_DecayInterval c"

lemma Validate_valid [simp]: "config_valid (Validate c)"
  by (simp add: Validate_def config_valid_def Let_def)

lemma Validate_id: "config_valid c \<Longrightarrow> Validate c = c"
  by (simp add: Validate_def config_valid_def Let_def)

lemma Validate_idem [simp]: "Validate (Validate c) = Validate c"
  by (rule Validate_id) simp

lemma Validate_frame [simp]:
  "sc_MaxPenalty (Validate c) = sc_MaxPenalty c" "sc_Enabled (Validate c) = sc_Enabled c"
  "sc_Store (Validate c) = sc_Store c" "sc_MetricsRecorder (Validate c) = sc_MetricsRecorder c"
  "sc_PenaltyHistoryStore (Validate c) = sc_PenaltyHistoryStore c"
  "sc_HealthCheckFailPenalty (Validate c) = sc_HealthCheckFailPenalty c"
  "sc_RateLimitPenalty (Validate c) = sc_RateLimitPenalty c"
  "sc_AuthFailurePenalty (Validate c) = sc_AuthFailurePenalty c"
  "sc_OperationFailPenalty (Validate c) = sc_OperationFailPenalty c"
  "sc_TimeoutPenalty (Validate c) = sc_TimeoutPenalty c"
  "sc_SlowResponsePenalty (Validate c) = sc_SlowResponsePenalty c"
  "sc_PenaltyHistorySize (Validate c) = sc_PenaltyHistorySize c"
  by (simp_all add: Validate_def Let_def)

lemma DefaultScoringConfig_valid [simp]: "config_valid DefaultScoringConfig"
  by (simp add: config_valid_def DefaultScoringConfig_def)

end
