(* ===== verification/Decay.thy ===== *)
theory Decay
  imports Provider_Score Scoring_Config
begin

text \<open>
  \<open>scoring/decay.go\<close>: the decay manager, its background goroutine and its ticker. Tickers live
  in a list, indexed in the order of their creation; an entry is False once the ticker is
  stopped, and a stopped ticker delivers nothing. A goroutine of \<open>run\<close> is at the head of its loop, waits
  in \<open>select\<close> on the channel of the ticker that it read there, or has exited. The score map
  is the engine's own map, which the manager shares. \<open>time.NewTicker\<close> panics on a
  non-positive interval, and closing a closed channel panics.
\<close>

type_synonym score_map = "string \<rightharpoonup> provider_score"

datatype decay_loop = AtSelect | Waiting nat | Exited

record decay_manager =
  dm_config :: scoring_config
  dm_ticker :: "nat option"
  dm_tickers :: "bool list"
  dm_stopClosed :: bool
  dm_running :: bool
  dm_loops :: "decay_loop list"

definition NewDecayManager :: "scoring_config \<Rightarrow> decay_manager" where
  "NewDecayManager config =
     \<lparr>dm_config = config, dm_ticker = None, dm_tickers = [], dm_stopClosed = False,
      dm_running = False, dm_loops = []\<rparr>"

definition NewTicker :: "duration \<Rightarrow> decay_manager \<Rightarrow> decay_manager outcome" where
  "NewTicker interval dm =
     (if interval \<le> 0 then Panics
      else Returns (dm\<lparr>dm_ticker := Some (length (dm_tickers dm)),
                       dm_tickers := dm_tickers dm @ [True]\<rparr>))"

definition stop_ticker :: "decay_manager \<Rightarrow> decay_manager" where
  "stop_ticker dm =
     (case dm_ticker dm of
        None \<Rightarrow> dm
      | Some t \<Rightarrow> dm\<lparr>dm_tickers := (dm_tickers dm)[t := False]\<rparr>)"

definition decay_Start :: "decay_manager \<Rightarrow> decay_manager outcome" where
  "decay_Start dm =
     (if dm_running dm then Returns dm
      else
        case NewTicker (sc_DecayInterval (dm_config dm)) (dm\<lparr>dm_running := True\<rparr>) of
          Panics \<Rightarrow> Panics
        | Returns dm' \<Rightarrow> Returns (dm'\<lparr>dm_loops := dm_loops dm' @ [AtSelect]\<rparr>))"

definition decay_Stop :: "decay_manager \<Rightarrow> decay_manager outcome" where
  "decay_Stop dm =
     (if \<not> dm_running dm then Returns dm
      else if dm_stopClosed dm then Panics
      else Returns (stop_ticker (dm\<lparr>dm_running := False, dm_stopClosed := True\<rparr>)))"

definition decay_UpdateConfig :: "scoring_config \<Rightarrow> decay_manager \<Rightarrow> decay_manager outcome" where
  "decay_UpdateConfig config dm =
     (let oldInterval = sc_DecayInterval (dm_config dm);
          dm' = dm\<lparr>dm_config := config\<rparr>
      in if dm_running dm \<and> oldInterval \<noteq> sc_DecayInterval config
         then NewTicker (sc_DecayInterval config) (stop_ticker dm')
         else Returns dm')"

definition decay_IsRunning :: "decay_manager \<Rightarrow> bool" where
  "decay_IsRunning dm = dm_running dm"

text \<open>Every score of the map decays; \<open>clock\<close> gives the time read while each one is updated.\<close>

definition applyDecay :: "(string \<Rightarrow> gotime) \<Rightarrow> decay_manager \<Rightarrow> score_map \<Rightarrow> score_map" where
  "applyDecay clock dm scores =
     (\<lambda>n. map_option (ApplyDecay (sc_DecayRate (dm_config dm)) (clock n)) (scores n))"

subsection \<open>The goroutine and its environment\<close>

record decay_sys =
  ds_dm :: decay_manager
  ds_scores :: score_map

datatype decay_event =
    CallStart
  | CallStop
  | CallUpdateConfig scoring_config
  | CallForceDecay "string \<Rightarrow> gotime"
  | EnterSelect nat
  | Tick nat "string \<Rightarrow> gotime"
  | SawStop nat
  | SawCancel nat

definition set_loop :: "nat \<Rightarrow> decay_loop \<Rightarrow> decay_manager \<Rightarrow> decay_manager" where
  "set_loop i l dm = dm\<lparr>dm_loops := (dm_loops dm)[i := l]\<rparr>"

definition loop_at :: "decay_manager \<Rightarrow> nat \<Rightarrow> decay_loop" where
  "loop_at dm i = (if i < length (dm_loops dm) then dm_loops dm ! i else Exited)"

definition lift_dm :: "decay_sys \<Rightarrow> decay_manager outcome \<Rightarrow> decay_sys outcome" where
  "lift_dm s r = (case r of Panics \<Rightarrow> Panics | Returns dm \<Rightarrow> Returns (s\<lparr>ds_dm := dm\<rparr>))"

text \<open>
  One event; \<open>None\<close> means that it cannot happen now. \<open>EnterSelect\<close> evaluates the channels of
  the \<open>select\<close>; \<open>Tick\<close>, \<open>SawStop\<close> and \<open>SawCancel\<close> are its three cases, the last one at a
  moment when the context has been cancelled.
\<close>

fun decay_next :: "decay_event \<Rightarrow> decay_sys \<Rightarrow> decay_sys outcome option" where
  "decay_next CallStart s = Some (lift_dm s (decay_Start (ds_dm s)))"
| "decay_next CallStop s = Some (lift_dm s (decay_Stop (ds_dm s)))"
| "decay_next (CallUpdateConfig c) s = Some (lift_dm s (decay_UpdateConfig c (ds_dm s)))"
| "decay_next (CallForceDecay clock) s =
     Some (Returns (s\<lparr>ds_scores := applyDecay clock (ds_dm s) (ds_scores s)\<rparr>))"
| "decay_next (EnterSelect i) s =
     (case (loop_at (ds_dm s) i, dm_ticker (ds_dm s)) of
        (AtSelect, Some t) \<Rightarrow> Some (Returns (s\<lparr>ds_dm := set_loop i (Waiting t) (ds_dm s)\<rparr>))
      | _ \<Rightarrow> None)"
| "decay_next (Tick i clock) s =
     (case loop_at (ds_dm s) i of
        Waiting t \<Rightarrow>
          if t < length (dm_tickers (ds_dm s)) \<and> dm_tickers (ds_dm s) ! t
          then Some (Returns (s\<lparr>ds_dm := set_loop i AtSelect (ds_dm s),
                               ds_scores := applyDecay clock (ds_dm s) (ds_scores s)\<rparr>))
          else None
      | _ \<Rightarrow> None)"
| "decay_next (SawStop i) s =
     (case loop_at (ds_dm s) i of
        Waiting t \<Rightarrow>
          if dm_stopClosed (ds_dm s)
          then Some (Returns (s\<lparr>ds_dm := set_loop i Exited (ds_dm s)\<rparr>)) else None
      | _ \<Rightarrow> None)"
| "decay_next (SawCancel i) s =
     (case loop_at (ds_dm s) i of
        Waiting t \<Rightarrow>
          Some (case decay_Stop (ds_dm s) of
                  Panics \<Rightarrow> Panics
                | Returns dm \<Rightarrow> Returns (s\<lparr>ds_dm := set_loop i Exited dm\<rparr>))
      | _ \<Rightarrow> None)"

fun decay_run :: "decay_event list \<Rightarrow> decay_sys \<Rightarrow> decay_sys outcome option" where
  "decay_run [] s = Some (Returns s)"
| "decay_run (ev # evs) s =
     (case decay_next ev s of
        Some (Returns s') \<Rightarrow> decay_run evs s'
      | r \<Rightarrow> r)"

lemmas decay_call_defs =
  decay_Start_def decay_Stop_def decay_UpdateConfig_def NewTicker_def stop_ticker_def Let_def

lemma decay_run_append:
  "decay_run es s = Some (Returns s') \<Longrightarrow> decay_run (es @ fs) s = decay_run fs s'"
  by (induction es arbitrary: s) (auto split: option.splits outcome.splits)

subsection \<open>A running manager decays on every tick\<close>

text \<open>Neither stopped nor cancelled, and every configuration has the interval \<open>I\<close>.\<close>

fun keeps_decaying :: "duration \<Rightarrow> decay_event \<Rightarrow> bool" where
  "keeps_decaying I CallStop = False"
| "keeps_decaying I (SawCancel i) = False"
| "keeps_decaying I (CallUpdateConfig c) = (sc_DecayInterval c = I)"
| "keeps_decaying I _ = True"

text \<open>The rates of the decays among the events, each as configured at its moment.\<close>

fun applied_rates :: "real \<Rightarrow> decay_event list \<Rightarrow> real list" where
  "applied_rates r [] = []"
| "applied_rates r (CallUpdateConfig c # evs) = applied_rates (sc_DecayRate c) evs"
| "applied_rates r (Tick i clock # evs) = r # applied_rates r evs"
| "applied_rates r (CallForceDecay clock # evs) = r # applied_rates r evs"
| "applied_rates r (ev # evs) = applied_rates r evs"

text \<open>The accumulated penalties after decays with the given rates; the rest of the score is kept.\<close>

definition decayed :: "real list \<Rightarrow> provider_score \<Rightarrow> provider_score \<Rightarrow> bool" where
  "decayed rs ps ps' \<longleftrightarrow>
     (\<exists>t. ps' = ps\<lparr>ps_HealthPenalty := fold decay_one rs (ps_HealthPenalty ps),
                  ps_RateLimitPenalty := fold decay_one rs (ps_RateLimitPenalty ps),
                  ps_ErrorPenalty := fold decay_one rs (ps_ErrorPenalty ps), ps_LastUpdated := t\<rparr>)"

lemma decayed_Nil: "decayed [] ps ps"
  unfolding decayed_def by (rule exI [of _ "ps_LastUpdated ps"]) simp

lemma decayed_step: "decayed rs (ApplyDecay r t ps) ps' \<Longrightarrow> decayed (r # rs) ps ps'"
  by (auto simp: decayed_def ApplyDecay_def)

lemma decayed_one: "decayed [r] ps (ApplyDecay r t ps)"
  by (rule decayed_step [OF decayed_Nil])

lemma fold_decay_bound:
  assumes "\<forall>r \<in> set rs. 0 \<le> r \<and> r \<le> 1" "0 \<le> p"
  shows "0 \<le> fold decay_one rs p \<and> fold decay_one rs p \<le> p * prod_list (map (\<lambda>r. 1 - r) rs)"
  using assms
proof (induction rs arbitrary: p)
  case (Cons r rs)
  have q: "0 \<le> decay_one r p" "decay_one r p \<le> p * (1 - r)"
    using Cons.prems by (auto simp: decay_one_def Let_def)
  have "0 \<le> prod_list (map (\<lambda>r. 1 - r) rs)"
    using Cons.prems(1) by (auto intro!: prod_list_nonneg)
  from mult_right_mono [OF q(2) this] show ?case
    using Cons.IH [OF _ q(1)] Cons.prems(1) by (fastforce simp: mult.assoc)
qed simp

text \<open>One goroutine, which waits on the live ticker or is about to.\<close>

definition decay_live :: "duration \<Rightarrow> decay_sys \<Rightarrow> bool" where
  "decay_live I s \<longleftrightarrow>
     (\<exists>t. (dm_loops (ds_dm s) = [AtSelect] \<or> dm_loops (ds_dm s) = [Waiting t]) \<and>
          dm_ticker (ds_dm s) = Some t \<and> t < length (dm_tickers (ds_dm s)) \<and> dm_tickers (ds_dm s) ! t \<and>
          dm_running (ds_dm s) \<and> \<not> dm_stopClosed (ds_dm s) \<and> sc_DecayInterval (dm_config (ds_dm s)) = I)"

lemma loop_at_single: "dm_loops dm = [l] \<Longrightarrow> loop_at dm i = (if i = 0 then l else Exited)"
  by (auto simp: loop_at_def)

lemma decay_live_step:
  assumes "decay_live I s" "keeps_decaying I ev" "decay_next ev s = Some r"
  shows "\<exists>s'. r = Returns s' \<and> decay_live I s' \<and>
    ds_scores s' = (case ev of Tick i clock \<Rightarrow> applyDecay clock (ds_dm s) (ds_scores s)
      | CallForceDecay clock \<Rightarrow> applyDecay clock (ds_dm s) (ds_scores s) | _ \<Rightarrow> ds_scores s) \<and>
    dm_config (ds_dm s') = (case ev of CallUpdateConfig c \<Rightarrow> c | _ \<Rightarrow> dm_config (ds_dm s))"
  using assms
  by (cases ev) (auto simp: decay_live_def lift_dm_def decay_call_defs loop_at_single set_loop_def
      split: if_splits)

lemma decay_live_run:
  assumes "decay_live I s" "list_all (keeps_decaying I) evs" "decay_run evs s = Some r"
  shows "\<exists>s'. r = Returns s' \<and> decay_live I s' \<and>
    (\<forall>n. rel_option (decayed (applied_rates (sc_DecayRate (dm_config (ds_dm s))) evs))
       (ds_scores s n) (ds_scores s' n))"
  using assms
proof (induction evs arbitrary: s)
  case Nil
  then show ?case by (auto intro: option.rel_refl decayed_Nil)
next
  case (Cons ev evs)
  obtain r1 where r1: "decay_next ev s = Some r1" using Cons.prems(3) by (auto split: option.splits)
  obtain s1 where s1: "r1 = Returns s1" "decay_live I s1"
    "ds_scores s1 = (case ev of Tick i clock \<Rightarrow> applyDecay clock (ds_dm s) (ds_scores s)
      | CallForceDecay clock \<Rightarrow> applyDecay clock (ds_dm s) (ds_scores s) | _ \<Rightarrow> ds_scores s)"
    "dm_config (ds_dm s1) = (case ev of CallUpdateConfig c \<Rightarrow> c | _ \<Rightarrow> dm_config (ds_dm s))"
    using decay_live_step [OF Cons.prems(1) _ r1] Cons.prems(2) by auto
  have run: "decay_run evs s1 = Some r" using Cons.prems(3) r1 s1(1) by simp
  obtain s' where s': "r = Returns s'" "decay_live I s'"
    "\<forall>n. rel_option (decayed (applied_rates (sc_DecayRate (dm_config (ds_dm s1))) evs))
       (ds_scores s1 n) (ds_scores s' n)"
    using Cons.IH [OF s1(2) _ run] Cons.prems(2) by auto
  have "rel_option (decayed (applied_rates (sc_DecayRate (dm_config (ds_dm s))) (ev # evs)))
      (ds_scores s n) (ds_scores s' n)" for n
    using s'(3) [rule_format, of n] unfolding s1(3,4)
    by (cases ev; cases "ds_scores s n"; cases "ds_scores s' n") (auto simp: applyDecay_def decayed_step)
  then show ?case using s' by blast
qed

lemma decay_live_round:
  assumes "decay_live I s"
  shows "\<exists>round s'. round \<in> {[Tick 0 clock], [EnterSelect 0, Tick 0 clock]} \<and>
    decay_run round s = Some (Returns s') \<and>
    ds_scores s' = applyDecay clock (ds_dm s) (ds_scores s)"
proof (cases "dm_loops (ds_dm s) = [AtSelect]")
  case True
  then have "\<exists>s'. decay_run [EnterSelect 0, Tick 0 clock] s = Some (Returns s') \<and>
      ds_scores s' = applyDecay clock (ds_dm s) (ds_scores s)"
    using assms by (auto simp: decay_live_def loop_at_def set_loop_def applyDecay_def)
  then show ?thesis by blast
next
  case False
  then have "\<exists>s'. decay_run [Tick 0 clock] s = Some (Returns s') \<and>
      ds_scores s' = applyDecay clock (ds_dm s) (ds_scores s)"
    using assms by (auto simp: decay_live_def loop_at_def)
  then show ?thesis by blast
qed

text \<open>
  C24: A started manager decays as long as it is neither stopped nor cancelled and no
  configuration changes its (positive) interval. Whatever possible sequence of ticks, forced
  decays, repeated starts and configuration changes of this kind follows the start, nothing
  panics, and the goroutine can then receive another tick, which decays every score once with
  the rate configured at that moment. The accumulated penalties of every score are those at the
  start, multiplied for each decay by one minus its rate and set to 0 when less than 0.01
  remains; with rates between 0 and 1 a penalty is at most its initial value times the product
  of these factors. Nothing else of a score changes but the time of its update.
\<close>

theorem decay_runs:
  assumes "0 < sc_DecayInterval c" "list_all (keeps_decaying (sc_DecayInterval c)) evs"
    and "decay_run (CallStart # evs) \<lparr>ds_dm = NewDecayManager c, ds_scores = scores\<rparr> = Some r"
  shows "\<exists>s. r = Returns s \<and>
    (\<forall>n. rel_option (decayed (applied_rates (sc_DecayRate c) evs)) (scores n) (ds_scores s n)) \<and>
    (\<forall>clock. \<exists>round s'. round \<in> {[Tick 0 clock], [EnterSelect 0, Tick 0 clock]} \<and>
       decay_run round s = Some (Returns s') \<and>
       (\<forall>n. rel_option (decayed [sc_DecayRate (dm_config (ds_dm s))]) (ds_scores s n) (ds_scores s' n))) \<and>
    (\<forall>p rs. rs = applied_rates (sc_DecayRate c) evs \<and> (\<forall>r \<in> set rs. 0 \<le> r \<and> r \<le> 1) \<and> 0 \<le> p \<longrightarrow>
       0 \<le> fold decay_one rs p \<and> fold decay_one rs p \<le> p * prod_list (map (\<lambda>r. 1 - r) rs))"
proof -
  let ?s0 = "\<lparr>ds_dm = NewDecayManager c, ds_scores = scores\<rparr>"
  obtain s1 where s1: "decay_next CallStart ?s0 = Some (Returns s1)" "decay_live (sc_DecayInterval c) s1"
      "dm_config (ds_dm s1) = c" "ds_scores s1 = scores"
    using assms by (auto simp: lift_dm_def decay_call_defs NewDecayManager_def decay_live_def)
  then have "decay_run evs s1 = Some r" using assms(3) by simp
  from decay_live_run [OF s1(2) assms(2) this] obtain s where s: "r = Returns s"
      "decay_live (sc_DecayInterval c) s"
      "\<forall>n. rel_option (decayed (applied_rates (sc_DecayRate c) evs)) (scores n) (ds_scores s n)"
    unfolding s1(3,4) by blast
  have one: "rel_option (decayed [sc_DecayRate (dm_config (ds_dm s))]) (ds_scores s n)
      (applyDecay clock (ds_dm s) (ds_scores s) n)" for clock n
    by (cases "ds_scores s n") (simp_all add: applyDecay_def decayed_one)
  have "\<exists>round s'. round \<in> {[Tick 0 clock], [EnterSelect 0, Tick 0 clock]} \<and>
       decay_run round s = Some (Returns s') \<and>
       (\<forall>n. rel_option (decayed [sc_DecayRate (dm_config (ds_dm s))]) (ds_scores s n) (ds_scores s' n))"
    for clock
    using decay_live_round [OF s(2), of clock] one [where clock = clock] by metis
  then show ?thesis using s fold_decay_bound by blast
qed

text \<open>A penalty of 50, a tick with a rate of a tenth, and another with a rate of a half.\<close>

theorem decay_runs_witness:
  "\<exists>s ps. decay_run [CallStart, EnterSelect 0, Tick 0 (\<lambda>_. 7),
          CallUpdateConfig (DefaultScoringConfig\<lparr>sc_DecayRate := 1 / 2\<rparr>), EnterSelect 0, Tick 0 (\<lambda>_. 8)]
       \<lparr>ds_dm = NewDecayManager (DefaultScoringConfig\<lparr>sc_DecayRate := 1 / 10\<rparr>),
        ds_scores = [''a'' \<mapsto> (NewProviderScore ''a'' 1 100 50 0)\<lparr>ps_ErrorPenalty := 50\<rparr>]\<rparr> = Some (Returns s) \<and>
     ds_scores s ''a'' = Some ps \<and> ps_ErrorPenalty ps = 45 / 2"
proof -
  let ?c = "DefaultScoringConfig\<lparr>sc_DecayRate := 1 / 10\<rparr>" and ?c' = "DefaultScoringConfig\<lparr>sc_DecayRate := 1 / 2\<rparr>"
  let ?scores = "[''a'' \<mapsto> (NewProviderScore ''a'' 1 100 50 0)\<lparr>ps_ErrorPenalty := 50\<rparr>]"
  let ?evs = "[EnterSelect 0, Tick 0 (\<lambda>_. 7), CallUpdateConfig ?c', EnterSelect 0, Tick 0 (\<lambda>_. 8)]"
  have i: "sc_DecayInterval ?c = minute" "sc_DecayInterval ?c' = minute"
    by (simp_all add: DefaultScoringConfig_def)
  have "\<exists>r. decay_run (CallStart # ?evs) \<lparr>ds_dm = NewDecayManager ?c, ds_scores = ?scores\<rparr> = Some r"
    by (simp add: i lift_dm_def decay_call_defs NewDecayManager_def loop_at_def set_loop_def)
  then obtain r where r: "decay_run (CallStart # ?evs) \<lparr>ds_dm = NewDecayManager ?c, ds_scores = ?scores\<rparr> = Some r" ..
  have rates: "applied_rates (sc_DecayRate ?c) ?evs = [1 / 10, 1 / 2]" by simp
  have "\<exists>s. r = Returns s \<and> (\<forall>n. rel_option (decayed [1 / 10, 1 / 2]) (?scores n) (ds_scores s n))"
    using decay_runs [OF _ _ r, unfolded rates] i by fastforce
  then obtain s where s: "r = Returns s" "rel_option (decayed [1 / 10, 1 / 2]) (?scores ''a'') (ds_scores s ''a'')"
    by blast
  from s(2) obtain ps where "ds_scores s ''a'' = Some ps" "ps_ErrorPenalty ps = 45 / 2"
    by (cases "ds_scores s ''a''") (auto simp: decayed_def decay_one_def)
  then show ?thesis using r s(1) by blast
qed

subsection \<open>Restarting\<close>

text \<open>
  a manager cannot be restarted. \<open>Stop\<close> closes the stop channel and nothing creates a new
  one, so a second \<open>Start\<close> followed by a second \<open>Stop\<close> closes a closed channel: with any
  positive interval, \<open>Start; Stop; Start; Stop\<close> ends in a panic.
\<close>

lemma decay_restart_panics:
  assumes "0 < sc_DecayInterval c"
  shows "decay_run [CallStart, CallStop, CallStart, CallStop]
           \<lparr>ds_dm = NewDecayManager c, ds_scores = scores\<rparr> = Some Panics"
  using assms by (simp add: lift_dm_def decay_call_defs NewDecayManager_def)

subsection \<open>Changing the interval\<close>

text \<open>
  The one goroutine waits on the channel of ticker \<open>t\<close>, which is stopped, while the manager
  runs with a newer ticker.
\<close>

definition decay_stuck :: "nat \<Rightarrow> decay_sys \<Rightarrow> bool" where
  "decay_stuck t s \<longleftrightarrow>
     dm_loops (ds_dm s) = [Waiting t] \<and> t < length (dm_tickers (ds_dm s)) \<and>
     \<not> dm_tickers (ds_dm s) ! t \<and> dm_running (ds_dm s) \<and> \<not> dm_stopClosed (ds_dm s)"

fun keeps_running :: "decay_event \<Rightarrow> bool" where
  "keeps_running CallStop = False"
| "keeps_running (SawCancel i) = False"
| "keeps_running _ = True"

lemma decay_stuck_no_tick: "decay_stuck t s \<Longrightarrow> decay_next (Tick i clock) s = None"
  by (auto simp: decay_stuck_def loop_at_single)

lemma nth_update_False: "i < length bs \<Longrightarrow> \<not> bs ! i \<Longrightarrow> \<not> bs[j := False] ! i"
  by (cases "i = j") simp_all

lemma decay_stuck_step:
  assumes "decay_stuck t s" "keeps_running ev" "decay_next ev s = Some (Returns s')"
  shows "decay_stuck t s'"
proof (cases ev)
  case (CallUpdateConfig c)
  then show ?thesis
    using assms
    by (auto simp: decay_stuck_def lift_dm_def decay_call_defs nth_append nth_update_False
        split: if_splits option.splits outcome.splits)
next
  case (Tick i clock)
  then show ?thesis using assms decay_stuck_no_tick by fastforce
qed (use assms in \<open>auto simp: decay_stuck_def lift_dm_def decay_call_defs loop_at_single
      split: if_splits option.splits outcome.splits\<close>)

lemma decay_stuck_run:
  "decay_stuck t s \<Longrightarrow> list_all keeps_running evs \<Longrightarrow> decay_run evs s = Some (Returns s') \<Longrightarrow>
   decay_stuck t s'"
proof (induction evs arbitrary: s)
  case (Cons ev evs)
  then show ?case
    by (auto split: option.splits outcome.splits intro: Cons.IH dest: decay_stuck_step)
qed simp

text \<open>
  changing the interval stops the decay. When the configuration is updated with another
  interval while the goroutine waits in \<open>select\<close>, the goroutine keeps waiting on the channel
  of the ticker that the update stops. Whatever is called afterwards, short of stopping the
  manager or cancelling its context, no tick is ever received again.
\<close>

lemma interval_change_stops_decay:
  assumes "0 < sc_DecayInterval c" "0 < sc_DecayInterval c'"
    and "sc_DecayInterval c \<noteq> sc_DecayInterval c'" and "list_all keeps_running evs"
    and "decay_run ([CallStart, EnterSelect 0, CallUpdateConfig c'] @ evs)
           \<lparr>ds_dm = NewDecayManager c, ds_scores = scores\<rparr> = Some (Returns s)"
  shows "decay_next (Tick i clock) s = None"
proof -
  let ?s0 = "\<lparr>ds_dm = NewDecayManager c, ds_scores = scores\<rparr>"
  obtain s1 where s1: "decay_run [CallStart, EnterSelect 0, CallUpdateConfig c'] ?s0 = Some (Returns s1)"
      "decay_stuck 0 s1"
    using assms(1-3)
    by (auto simp: lift_dm_def decay_call_defs NewDecayManager_def decay_stuck_def loop_at_def
        set_loop_def)
  have "decay_run evs s1 = Some (Returns s)"
    using assms(5) decay_run_append [OF s1(1)] by simp
  then show ?thesis
    using decay_stuck_run [OF s1(2) assms(4)] decay_stuck_no_tick by blast
qed

end
