(* ===== verification/Latency.thy ===== *)
theory Latency
  imports Provider_Score
begin

text \<open>
  \<open>scoring/latency.go\<close>: latency samples per provider, the statistics computed from them, the
  cache of the global statistics and the slowness factor. The loop of \<open>GetGlobalStats\<close> ranges
  over a Go map, so the model takes the iteration order as an argument. Go adds up the squared
  deviations in \<open>float64\<close>, so that the standard deviation may depend on the order in its last
  bits; the model computes it in the reals, and no theorem relies on its independence of the order.
\<close>

record latency_stats =
  ls_Mean :: duration
  ls_StdDev :: duration
  ls_Min :: duration
  ls_Max :: duration
  ls_P50 :: duration
  ls_P75 :: duration
  ls_P90 :: duration
  ls_P95 :: duration
  ls_P99 :: duration
  ls_SampleCount :: int
  ls_LastCalculated :: gotime

definition zero_stats :: latency_stats where
  "zero_stats = \<lparr>ls_Mean = 0, ls_StdDev = 0, ls_Min = 0, ls_Max = 0, ls_P50 = 0, ls_P75 = 0,
     ls_P90 = 0, ls_P95 = 0, ls_P99 = 0, ls_SampleCount = 0, ls_LastCalculated = 0\<rparr>"

record latency_tracker =
  lt_samples :: "string \<rightharpoonup> duration list"
  lt_windowSize :: int
  lt_globalStats :: "latency_stats option"
  lt_statsDirty :: bool

definition NewLatencyTracker :: "int \<Rightarrow> latency_tracker" where
  "NewLatencyTracker windowSize =
     \<lparr>lt_samples = Map.empty,
      lt_windowSize = (if windowSize \<le> 0 then 100 else windowSize),
      lt_globalStats = None, lt_statsDirty = True\<rparr>"

definition tracker_RecordLatency :: "string \<Rightarrow> duration \<Rightarrow> latency_tracker \<Rightarrow> latency_tracker" where
  "tracker_RecordLatency provider latency lt =
     (let old = (case lt_samples lt provider of None \<Rightarrow> [] | Some xs \<Rightarrow> xs)
      in lt\<lparr>lt_samples := (lt_samples lt)(provider \<mapsto> push_window (lt_windowSize lt) latency old),
            lt_statsDirty := True\<rparr>)"

subsection \<open>Sorting\<close>

text \<open>
  One run of the inner loop of \<open>sortDurations\<close> compares and exchanges neighbours for
  \<open>k\<close> positions; the outer loop runs it with \<open>k = n - i - 1\<close>.
\<close>

fun bubble_pass :: "nat \<Rightarrow> int list \<Rightarrow> int list" where
  "bubble_pass (Suc k) (x # y # zs) =
     (if x > y then y # bubble_pass k (x # zs) else x # bubble_pass k (y # zs))"
| "bubble_pass _ xs = xs"

definition sortDurations :: "duration list \<Rightarrow> duration list" where
  "sortDurations xs =
     (let n = length xs in fold (\<lambda>i ys. bubble_pass (n - i - 1) ys) [0..<n - 1] xs)"

subsection \<open>Statistics\<close>

text \<open>Conversion of a \<open>float64\<close> to an integer type: truncation towards zero.\<close>

definition go_trunc :: "real \<Rightarrow> int" where
  "go_trunc x = (if 0 \<le> x then \<lfloor>x\<rfloor> else \<lceil>x\<rceil>)"

definition percentile :: "duration list \<Rightarrow> int \<Rightarrow> duration" where
  "percentile srt p =
     (if srt = [] then 0
      else if p \<le> 0 then srt ! 0
      else if p \<ge> 100 then srt ! (length srt - 1)
      else
        let rank = real_of_int p / 100 * (real (length srt) - 1);
            lowerIndex = \<lfloor>rank\<rfloor>;
            upperIndex = \<lceil>rank\<rceil>
        in if lowerIndex = upperIndex then srt ! nat lowerIndex
           else
             let weight = rank - real_of_int lowerIndex;
                 lower = real_of_int (srt ! nat lowerIndex);
                 upper = real_of_int (srt ! nat upperIndex)
             in go_trunc (lower + weight * (upper - lower)))"

definition variance :: "duration list \<Rightarrow> duration \<Rightarrow> real" where
  "variance samples mean =
     (\<Sum>s \<leftarrow> samples. (real_of_int (s - mean))\<^sup>2) / real (length samples)"

definition calculateStats :: "duration list \<Rightarrow> latency_stats" where
  "calculateStats samples =
     (if samples = [] then zero_stats
      else
        let srt = sortDurations samples;
            mean = average_duration samples;
            stdDev = go_trunc (sqrt (variance samples mean))
        in \<lparr>ls_Mean = mean, ls_StdDev = stdDev, ls_Min = srt ! 0,
            ls_Max = srt ! (length srt - 1), ls_P50 = percentile srt 50,
            ls_P75 = percentile srt 75, ls_P90 = percentile srt 90,
            ls_P95 = percentile srt 95, ls_P99 = percentile srt 99,
            ls_SampleCount = int (length samples), ls_LastCalculated = 0\<rparr>)"

text \<open>The samples of all providers, in the order in which the map is ranged over.\<close>

definition all_samples :: "string list \<Rightarrow> latency_tracker \<Rightarrow> duration list" where
  "all_samples order lt =
     concat (map (\<lambda>p. case lt_samples lt p of None \<Rightarrow> [] | Some xs \<Rightarrow> xs) order)"

definition GetGlobalStats ::
  "string list \<Rightarrow> gotime \<Rightarrow> latency_tracker \<Rightarrow> latency_tracker \<times> latency_stats" where
  "GetGlobalStats order now lt =
     (case (lt_statsDirty lt, lt_globalStats lt) of
        (False, Some st) \<Rightarrow> (lt, st)
      | _ \<Rightarrow>
          let allSamples = all_samples order lt
          in if allSamples = [] then (lt, zero_stats\<lparr>ls_LastCalculated := now\<rparr>)
             else
               let stats = (calculateStats allSamples)\<lparr>ls_LastCalculated := now\<rparr>
               in (lt\<lparr>lt_globalStats := Some stats, lt_statsDirty := False\<rparr>, stats))"

definition GetProviderSlownessFactor ::
  "string list \<Rightarrow> gotime \<Rightarrow> string \<Rightarrow> latency_tracker \<Rightarrow> latency_tracker \<times> real" where
  "GetProviderSlownessFactor order now provider lt =
     (case lt_samples lt provider of
        None \<Rightarrow> (lt, 0)
      | Some providerSamples \<Rightarrow>
          if providerSamples = [] then (lt, 0)
          else
            let (lt', globalStats) = GetGlobalStats order now lt
            in if ls_StdDev globalStats = 0 then (lt', 0)
               else
                 let providerAvg = average_duration providerSamples;
                     difference = real_of_int (providerAvg - ls_Mean globalStats)
                 in (lt', difference / real_of_int (ls_StdDev globalStats)))"

definition tracker_GetProviderStats :: "string \<Rightarrow> latency_tracker \<Rightarrow> latency_stats" where
  "tracker_GetProviderStats provider lt =
     (case lt_samples lt provider of
        None \<Rightarrow> zero_stats
      | Some samples \<Rightarrow> if samples = [] then zero_stats else calculateStats samples)"

definition tracker_Reset :: "latency_tracker \<Rightarrow> latency_tracker" where
  "tracker_Reset lt =
     lt\<lparr>lt_samples := Map.empty, lt_globalStats := None, lt_statsDirty := True\<rparr>"

definition tracker_GetProviderCount :: "latency_tracker \<Rightarrow> nat" where
  "tracker_GetProviderCount lt = card (dom (lt_samples lt))"

subsection \<open>The bubble sort sorts\<close>

lemma length_bubble_pass [simp]: "length (bubble_pass k xs) = length xs"
  by (induction k xs rule: bubble_pass.induct) auto

lemma mset_bubble_pass [simp]: "mset (bubble_pass k xs) = mset xs"
  by (induction k xs rule: bubble_pass.induct) auto

lemma bubble_pass_append:
  "length ys = Suc k \<Longrightarrow> bubble_pass k (ys @ zs) = bubble_pass k ys @ zs"
proof (induction k ys rule: bubble_pass.induct)
  case (1 k x y ys)
  then show ?case by auto
qed (auto simp: length_Suc_conv)

lemma bubble_pass_last:
  "length ys = Suc k \<Longrightarrow> \<forall>y \<in> set ys. y \<le> last (bubble_pass k ys)"
proof (induction k ys rule: bubble_pass.induct)
  case (1 k x y zs)
  have len: "length (y # zs) = Suc k" "length (x # zs) = Suc k" using "1.prems" by auto
  have ne: "bubble_pass k (x # zs) \<noteq> []" "bubble_pass k (y # zs) \<noteq> []"
    by (metis length_bubble_pass length_0_conv list.discI)+
  show ?case
  proof (cases "x > y")
    case True
    then have "\<forall>u \<in> set (x # zs). u \<le> last (bubble_pass k (x # zs))"
      using "1.IH"(1) len by simp
    with True ne show ?thesis by auto
  next
    case False
    then have "\<forall>u \<in> set (y # zs). u \<le> last (bubble_pass k (y # zs))"
      using "1.IH"(2) len by simp
    with False ne show ?thesis by auto
  qed
qed (auto simp: length_Suc_conv)

text \<open>After \<open>i\<close> passes the last \<open>i\<close> elements are in their final place.\<close>

definition bubble_inv :: "nat \<Rightarrow> int list \<Rightarrow> bool" where
  "bubble_inv i xs \<longleftrightarrow>
     (\<exists>ys zs. xs = ys @ zs \<and> length zs = i \<and> sorted zs \<and> (\<forall>a \<in> set ys. \<forall>b \<in> set zs. a \<le> b))"

lemma bubble_inv_step:
  assumes "bubble_inv i xs" "i < length xs"
  shows "bubble_inv (Suc i) (bubble_pass (length xs - i - 1) xs)"
proof -
  obtain ys zs where xs: "xs = ys @ zs" "length zs = i" "sorted zs"
      "\<forall>a \<in> set ys. \<forall>b \<in> set zs. a \<le> b"
    using assms(1) by (auto simp: bubble_inv_def)
  let ?k = "length xs - i - 1"
  have len: "length ys = Suc ?k" using xs assms(2) by simp
  let ?bs = "bubble_pass ?k ys"
  have sb: "set ?bs = set ys" by (metis mset_bubble_pass set_mset_mset)
  have ne: "?bs \<noteq> []" using len by (metis length_bubble_pass list.size(3) nat.simps(3))
  have eq: "bubble_pass ?k xs = butlast ?bs @ (last ?bs # zs)"
    using bubble_pass_append [OF len, of zs] xs ne by simp
  have "last ?bs \<in> set ys" using ne sb by (metis last_in_set)
  then have "sorted (last ?bs # zs)" using xs by auto
  moreover have "\<forall>a \<in> set (butlast ?bs). \<forall>b \<in> set (last ?bs # zs). a \<le> b"
    using bubble_pass_last [OF len] xs(4) sb by (auto dest: in_set_butlastD)
  ultimately show ?thesis
    unfolding bubble_inv_def eq using xs(2)
    by (intro exI [of _ "butlast ?bs"] exI [of _ "last ?bs # zs"]) auto
qed

lemma bubble_inv_fold:
  "m < length xs \<Longrightarrow>
     length (fold (\<lambda>i ys. bubble_pass (length xs - i - 1) ys) [0..<m] xs) = length xs \<and>
     bubble_inv m (fold (\<lambda>i ys. bubble_pass (length xs - i - 1) ys) [0..<m] xs)"
proof (induction m)
  case 0
  then show ?case by (auto simp: bubble_inv_def)
next
  case (Suc m)
  let ?f = "fold (\<lambda>i ys. bubble_pass (length xs - i - 1) ys) [0..<m] xs"
  have IH: "length ?f = length xs" "bubble_inv m ?f" using Suc by auto
  have "bubble_inv (Suc m) (bubble_pass (length ?f - m - 1) ?f)"
    by (rule bubble_inv_step) (use IH Suc.prems in simp_all)
  then show ?case using IH by simp
qed

lemma mset_fold_bubble: "mset (fold (\<lambda>i ys. bubble_pass (k i) ys) is xs) = mset xs"
  by (induction "is" arbitrary: xs) auto

lemma mset_sortDurations [simp]: "mset (sortDurations xs) = mset xs"
  by (simp add: sortDurations_def Let_def mset_fold_bubble)

lemma sorted_sortDurations: "sorted (sortDurations xs)"
proof (cases "xs = []")
  case False
  let ?n = "length xs"
  have "bubble_inv (?n - 1) (sortDurations xs)" "length (sortDurations xs) = ?n"
    using bubble_inv_fold [of "?n - 1" xs] False by (auto simp: sortDurations_def Let_def)
  then obtain ys zs where s: "sortDurations xs = ys @ zs" "length zs = ?n - 1" "sorted zs"
      "\<forall>a \<in> set ys. \<forall>b \<in> set zs. a \<le> b"
    unfolding bubble_inv_def by blast
  moreover from s have "length ys = Suc 0"
    using False \<open>length (sortDurations xs) = ?n\<close> by (cases "length xs") simp_all
  then have "sorted ys" by (simp add: sorted01)
  ultimately show ?thesis by (simp add: sorted_append)
qed (simp add: sortDurations_def)

text \<open>the hand-written bubble sort returns the sorted permutation of its input.\<close>

lemma sortDurations_sort: "sortDurations xs = sort xs"
  by (rule sym, rule properties_for_sort) (simp_all add: sorted_sortDurations)

lemma set_sortDurations [simp]: "set (sortDurations xs) = set xs"
  by (metis mset_sortDurations set_mset_mset)

lemma length_sortDurations [simp]: "length (sortDurations xs) = length xs"
  by (metis mset_sortDurations size_mset)

subsection \<open>Percentiles\<close>

text \<open>The linear interpolation of a sequence at a real position.\<close>

definition interp :: "int list \<Rightarrow> real \<Rightarrow> real" where
  "interp xs x =
     real_of_int (xs ! nat \<lfloor>x\<rfloor>) +
     (x - real_of_int \<lfloor>x\<rfloor>) * (real_of_int (xs ! nat \<lceil>x\<rceil>) - real_of_int (xs ! nat \<lfloor>x\<rfloor>))"

lemma go_trunc_of_int [simp]: "go_trunc (real_of_int k) = k"
  by (simp add: go_trunc_def)

lemma go_trunc_mono: "x \<le> y \<Longrightarrow> go_trunc x \<le> go_trunc y"
proof -
  assume xy: "x \<le> y"
  consider "0 \<le> x" | "x < 0" "0 \<le> y" | "x < 0" "y < 0" by linarith
  then show ?thesis
  proof cases
    case 1
    then show ?thesis using xy by (simp add: go_trunc_def floor_mono)
  next
    case 2
    then have "\<lceil>x\<rceil> \<le> 0" "0 \<le> \<lfloor>y\<rfloor>" by (simp_all add: ceiling_le_iff)
    then have "\<lceil>x\<rceil> \<le> \<lfloor>y\<rfloor>" by (rule order_trans)
    then show ?thesis using 2 by (simp add: go_trunc_def)
  next
    case 3
    then show ?thesis using xy by (simp add: go_trunc_def ceiling_mono)
  qed
qed

lemma interp_int: "\<lfloor>x\<rfloor> = \<lceil>x\<rceil> \<Longrightarrow> interp xs x = real_of_int (xs ! nat \<lfloor>x\<rfloor>)"
  by (simp add: interp_def)

lemma interp_between:
  assumes "sorted xs" "0 \<le> x" "x \<le> real (length xs) - 1" "xs \<noteq> []"
  shows "real_of_int (xs ! nat \<lfloor>x\<rfloor>) \<le> interp xs x \<and> interp xs x \<le> real_of_int (xs ! nat \<lceil>x\<rceil>)"
proof -
  have "nat \<lfloor>x\<rfloor> \<le> nat \<lceil>x\<rceil>" by (simp add: floor_le_ceiling nat_mono)
  moreover have "nat \<lceil>x\<rceil> < length xs"
    using assms(2-4) by (simp add: nat_less_iff ceiling_less_iff)
  ultimately have le: "xs ! nat \<lfloor>x\<rfloor> \<le> xs ! nat \<lceil>x\<rceil>"
    using assms(1) by (simp add: sorted_nth_mono)
  let ?d = "real_of_int (xs ! nat \<lceil>x\<rceil>) - real_of_int (xs ! nat \<lfloor>x\<rfloor>)"
  have "0 \<le> (x - real_of_int \<lfloor>x\<rfloor>) * ?d" using le by simp
  moreover have "(x - real_of_int \<lfloor>x\<rfloor>) * ?d \<le> 1 * ?d"
    using le by (intro mult_right_mono) (auto, linarith)
  ultimately show ?thesis by (simp add: interp_def)
qed

lemma interp_mono:
  assumes "sorted xs" "0 \<le> x" "x \<le> y" "y \<le> real (length xs) - 1" "xs \<noteq> []"
  shows "interp xs x \<le> interp xs y"
proof (cases "\<lceil>x\<rceil> \<le> \<lfloor>y\<rfloor>")
  case True
  have "nat \<lfloor>y\<rfloor> < length xs"
    using assms by (simp add: nat_less_iff floor_less_iff)
  then have "xs ! nat \<lceil>x\<rceil> \<le> xs ! nat \<lfloor>y\<rfloor>"
    by (intro sorted_nth_mono [OF assms(1)] nat_mono True)
  moreover have "interp xs x \<le> real_of_int (xs ! nat \<lceil>x\<rceil>)"
    using interp_between [of xs x] assms by simp
  moreover have "real_of_int (xs ! nat \<lfloor>y\<rfloor>) \<le> interp xs y"
    using interp_between [of xs y] assms by simp
  ultimately show ?thesis by linarith
next
  case False
  then have fl: "\<lfloor>x\<rfloor> = \<lfloor>y\<rfloor>" and cl: "\<lceil>x\<rceil> = \<lceil>y\<rceil>"
    using assms(3) by linarith+
  have "nat \<lfloor>y\<rfloor> \<le> nat \<lceil>y\<rceil>" by (simp add: floor_le_ceiling nat_mono)
  moreover have "nat \<lceil>y\<rceil> < length xs"
    using assms by (simp add: nat_less_iff ceiling_less_iff)
  ultimately have le: "xs ! nat \<lfloor>y\<rfloor> \<le> xs ! nat \<lceil>y\<rceil>"
    using assms(1) by (simp add: sorted_nth_mono)
  then have "(x - real_of_int \<lfloor>y\<rfloor>) * (real_of_int (xs ! nat \<lceil>y\<rceil>) - real_of_int (xs ! nat \<lfloor>y\<rfloor>))
      \<le> (y - real_of_int \<lfloor>y\<rfloor>) * (real_of_int (xs ! nat \<lceil>y\<rceil>) - real_of_int (xs ! nat \<lfloor>y\<rfloor>))"
    using assms(3) by (intro mult_right_mono) auto
  then show ?thesis by (simp add: interp_def fl cl)
qed

definition rank_of :: "int list \<Rightarrow> int \<Rightarrow> real" where
  "rank_of xs p = real_of_int (max 0 (min 100 p)) / 100 * (real (length xs) - 1)"

lemma percentile_interp:
  assumes "xs \<noteq> []"
  shows "percentile xs p = go_trunc (interp xs (rank_of xs p))"
proof -
  have n: "real (length xs) - 1 = real_of_int (int (length xs) - 1)" by simp
  consider "p \<le> 0" | "100 \<le> p" | "0 < p" "p < 100" by linarith
  then show ?thesis
  proof cases
    case 1
    then show ?thesis using assms by (simp add: percentile_def rank_of_def interp_def)
  next
    case 2
    have "rank_of xs p = real_of_int (int (length xs) - 1)" using 2 by (simp add: rank_of_def)
    moreover have "nat (int (length xs) - 1) = length xs - 1" by simp
    ultimately have "interp xs (rank_of xs p) = real_of_int (xs ! (length xs - 1))"
      by (simp only: interp_def floor_of_int ceiling_of_int diff_self mult_zero_left add_0_right)
    then show ?thesis using 2 assms by (simp add: percentile_def)
  next
    case 3
    define x where "x = real_of_int p / 100 * (real (length xs) - 1)"
    have "percentile xs p = (if \<lfloor>x\<rfloor> = \<lceil>x\<rceil> then xs ! nat \<lfloor>x\<rfloor> else go_trunc (interp xs x))"
      unfolding percentile_def Let_def interp_def x_def using 3 assms by simp
    moreover have "rank_of xs p = x" using 3 by (simp add: rank_of_def x_def)
    ultimately show ?thesis by (simp add: interp_int)
  qed
qed

lemma rank_of_bounds:
  assumes "xs \<noteq> []"
  shows "0 \<le> rank_of xs p" and "rank_of xs p \<le> real (length xs) - 1"
proof -
  have n: "0 \<le> real (length xs) - 1" using assms by (cases xs) auto
  then show "0 \<le> rank_of xs p" by (simp add: rank_of_def)
  have "real_of_int (max 0 (min 100 p)) / 100 \<le> 1" by simp
  from mult_right_mono [OF this n] show "rank_of xs p \<le> real (length xs) - 1"
    by (simp add: rank_of_def)
qed

lemma percentile_mono:
  assumes "sorted xs" "p \<le> q"
  shows "percentile xs p \<le> percentile xs q"
proof (cases "xs = []")
  case False
  then have n: "0 \<le> real (length xs) - 1" by (cases xs) auto
  have "rank_of xs p \<le> rank_of xs q"
    unfolding rank_of_def
    by (intro mult_right_mono [OF _ n] divide_right_mono) (use assms(2) in auto)
  then show ?thesis
    using False assms(1) by (simp add: percentile_interp go_trunc_mono interp_mono rank_of_bounds)
qed (simp add: percentile_def)

lemma percentile_ends:
  "xs \<noteq> [] \<Longrightarrow> percentile xs 0 = xs ! 0"
  "xs \<noteq> [] \<Longrightarrow> percentile xs 100 = xs ! (length xs - 1)"
  by (simp_all add: percentile_def)

subsection \<open>The statistics\<close>

lemma variance_bound:
  assumes "xs \<noteq> []" "\<And>x. x \<in> set xs \<Longrightarrow> \<bar>x - m\<bar> \<le> d"
  shows "0 \<le> variance xs m \<and> variance xs m \<le> (real_of_int d)\<^sup>2"
proof -
  have sq: "(real_of_int (x - m))\<^sup>2 \<le> (real_of_int d)\<^sup>2" if "x \<in> set xs" for x
    using assms(2) [OF that] by (intro power2_le_iff_abs_le [THEN iffD2]) auto
  have "(\<Sum>s \<leftarrow> xs. (real_of_int (s - m))\<^sup>2) \<le> (\<Sum>s \<leftarrow> xs. (real_of_int d)\<^sup>2)"
    by (rule sum_list_mono) (use sq in auto)
  also have "\<dots> = real (length xs) * (real_of_int d)\<^sup>2" by (simp add: sum_list_triv)
  finally have "(\<Sum>s \<leftarrow> xs. (real_of_int (s - m))\<^sup>2) \<le> real (length xs) * (real_of_int d)\<^sup>2" .
  moreover have "0 \<le> (\<Sum>s \<leftarrow> xs. (real_of_int (s - m))\<^sup>2)"
    by (rule sum_list_nonneg) auto
  ultimately show ?thesis
    using assms(1) by (simp add: variance_def divide_le_eq mult.commute)
qed

lemma stdDev_bound:
  assumes "xs \<noteq> []" "\<And>x. x \<in> set xs \<Longrightarrow> \<bar>x - m\<bar> \<le> d" "0 \<le> d"
  shows "0 \<le> go_trunc (sqrt (variance xs m)) \<and> go_trunc (sqrt (variance xs m)) \<le> d"
proof -
  have v: "0 \<le> variance xs m" "variance xs m \<le> (real_of_int d)\<^sup>2"
    using variance_bound [of xs m d] assms by auto
  then have "sqrt (variance xs m) \<le> real_of_int d"
    using assms(3) by (simp add: real_le_lsqrt)
  then have "go_trunc (sqrt (variance xs m)) \<le> go_trunc (real_of_int d)" by (rule go_trunc_mono)
  then show ?thesis using v assms(3) by (simp add: go_trunc_def)
qed

lemma calculateStats_min_max:
  assumes "xs \<noteq> []" "x \<in> set xs"
  shows "ls_Min (calculateStats xs) \<le> x \<and> x \<le> ls_Max (calculateStats xs)"
proof -
  let ?s = "sortDurations xs"
  have ne: "?s \<noteq> []" using assms(1) by (metis length_0_conv length_sortDurations)
  obtain i where i: "i < length ?s" "x = ?s ! i"
    using assms(2) by (metis in_set_conv_nth set_sortDurations)
  have "?s ! 0 \<le> ?s ! i" "?s ! i \<le> ?s ! (length ?s - 1)"
    using i(1) by (auto intro!: sorted_nth_mono sorted_sortDurations)
  then show ?thesis using assms(1) i(2) by (simp add: calculateStats_def Let_def)
qed

lemma calculateStats_percentiles:
  assumes "xs \<noteq> []"
  shows "ls_Min (calculateStats xs) \<le> ls_P50 (calculateStats xs)"
    and "ls_P50 (calculateStats xs) \<le> ls_P75 (calculateStats xs)"
    and "ls_P75 (calculateStats xs) \<le> ls_P90 (calculateStats xs)"
    and "ls_P90 (calculateStats xs) \<le> ls_P95 (calculateStats xs)"
    and "ls_P95 (calculateStats xs) \<le> ls_P99 (calculateStats xs)"
    and "ls_P99 (calculateStats xs) \<le> ls_Max (calculateStats xs)"
proof -
  let ?s = "sortDurations xs"
  have ne: "?s \<noteq> []" using assms by (metis length_0_conv length_sortDurations)
  note mono = percentile_mono [OF sorted_sortDurations [of xs]]
  show "ls_Min (calculateStats xs) \<le> ls_P50 (calculateStats xs)"
    using assms mono [of 0 50] percentile_ends(1) [OF ne] by (simp add: calculateStats_def Let_def)
  show "ls_P99 (calculateStats xs) \<le> ls_Max (calculateStats xs)"
    using assms mono [of 99 100] percentile_ends(2) [OF ne] by (simp add: calculateStats_def Let_def)
qed (use assms in \<open>simp_all add: calculateStats_def Let_def percentile_mono sorted_sortDurations\<close>)

text \<open>
  The statistics of a non-empty list of non-negative samples are consistent: the minimum
  and maximum bound every sample, the mean lies between them, the five percentiles are ordered
  and lie between them, the standard deviation lies between 0 and their distance, and the
  sample count is the number of samples.
\<close>

lemma calculateStats_consistent:
  assumes "xs \<noteq> []" and "\<forall>x \<in> set xs. 0 \<le> x"
  shows "let st = calculateStats xs in
    (\<forall>x \<in> set xs. ls_Min st \<le> x \<and> x \<le> ls_Max st) \<and>
    ls_Min st \<le> ls_Mean st \<and> ls_Mean st \<le> ls_Max st \<and>
    ls_Min st \<le> ls_P50 st \<and> ls_P50 st \<le> ls_P75 st \<and> ls_P75 st \<le> ls_P90 st \<and>
    ls_P90 st \<le> ls_P95 st \<and> ls_P95 st \<le> ls_P99 st \<and> ls_P99 st \<le> ls_Max st \<and>
    0 \<le> ls_StdDev st \<and> ls_StdDev st \<le> ls_Max st - ls_Min st \<and>
    ls_SampleCount st = int (length xs)"
proof -
  let ?st = "calculateStats xs"
  let ?s = "sortDurations xs"
  have mm: "\<forall>x \<in> set xs. ls_Min ?st \<le> x \<and> x \<le> ls_Max ?st"
    using calculateStats_min_max [OF assms(1)] by blast
  have "ls_Min ?st \<in> set xs"
    using assms(1) nth_mem [of 0 ?s] by (simp add: calculateStats_def Let_def)
  then have pos: "0 \<le> ls_Min ?st" and le: "ls_Min ?st \<le> ls_Max ?st" using assms(2) mm by auto
  have mean: "ls_Mean ?st = average_duration xs" and
    sd: "ls_StdDev ?st = go_trunc (sqrt (variance xs (average_duration xs)))" and
    cnt: "ls_SampleCount ?st = int (length xs)"
    using assms(1) by (simp_all add: calculateStats_def Let_def)
  have avg: "ls_Min ?st \<le> average_duration xs" "average_duration xs \<le> ls_Max ?st"
    using average_between [OF assms(1) _ pos, of "ls_Max ?st"] mm by auto
  have "\<bar>x - average_duration xs\<bar> \<le> ls_Max ?st - ls_Min ?st" if "x \<in> set xs" for x
    using mm that avg by (fastforce simp: abs_le_iff)
  then have "0 \<le> ls_StdDev ?st \<and> ls_StdDev ?st \<le> ls_Max ?st - ls_Min ?st"
    unfolding sd using le by (intro stdDev_bound assms(1)) simp_all
  then show ?thesis
    using mm avg mean cnt calculateStats_percentiles [OF assms(1)] by (simp add: Let_def)
qed

end
