(* ===== verification/Score_Store.thy ===== *)
theory Score_Store
  imports Prelude "HOL-Library.List_Lexorder" "HOL-Library.Char_ord"
begin

text \<open>
  \<open>scoring/store/store.go\<close> and \<open>scoring/store/memory.go\<close>: the persistence interface and its
  in-memory implementation. A store is a record of operations on a state \<open>'s\<close>; a nil pointer
  is \<open>None\<close>, and a result is an error or a value. The locale \<open>score_store\<close> is the contract that
  the clients (the hybrid store, the instrumented store, the engine) use. Nil and empty slices
  of samples are the same list.
\<close>

record provider_score_data =
  pd_Name :: string
  pd_BaseScore :: real
  pd_HealthPenalty :: real
  pd_LatencyPenalty :: real
  pd_ErrorPenalty :: real
  pd_RateLimitPenalty :: real
  pd_TotalOperations :: int
  pd_SuccessfulOps :: int
  pd_FailedOps :: int
  pd_LastUpdated :: gotime
  pd_LastHealthCheck :: gotime
  pd_LastOperation :: gotime
  pd_RecentLatencies :: "int list"

record latency_stats_data =
  ld_ProviderSamples :: "string \<rightharpoonup> int list"
  ld_LastUpdated :: gotime

record 's score_store_ops =
  so_GetScore :: "string \<Rightarrow> 's \<Rightarrow> 's \<times> (goerror + provider_score_data option)"
  so_SetScore :: "provider_score_data option \<Rightarrow> 's \<Rightarrow> 's \<times> goerror option"
  so_GetAllScores :: "'s \<Rightarrow> 's \<times> (goerror + provider_score_data option list)"
  so_DeleteScore :: "string \<Rightarrow> 's \<Rightarrow> 's \<times> goerror option"
  so_SetScores :: "provider_score_data option list \<Rightarrow> 's \<Rightarrow> ('s \<times> goerror option) outcome"
  so_GetLatencyStats :: "'s \<Rightarrow> 's \<times> (goerror + latency_stats_data option)"
  so_SetLatencyStats :: "latency_stats_data option \<Rightarrow> 's \<Rightarrow> 's \<times> goerror option"
  so_Close :: "'s \<Rightarrow> 's \<times> goerror option"
  so_Ping :: "'s \<Rightarrow> 's \<times> goerror option"
  so_Name :: string

subsection \<open>The in-memory store\<close>

record memory_store =
  mem_scores :: "string \<rightharpoonup> provider_score_data"
  mem_latency :: "latency_stats_data option"

definition NewMemoryStore :: memory_store where
  "NewMemoryStore = \<lparr>mem_scores = Map.empty, mem_latency = None\<rparr>"

definition copyScoreData :: "provider_score_data \<Rightarrow> provider_score_data" where
  "copyScoreData src =
     \<lparr>pd_Name = pd_Name src, pd_BaseScore = pd_BaseScore src,
      pd_HealthPenalty = pd_HealthPenalty src, pd_LatencyPenalty = pd_LatencyPenalty src,
      pd_ErrorPenalty = pd_ErrorPenalty src, pd_RateLimitPenalty = pd_RateLimitPenalty src,
      pd_TotalOperations = pd_TotalOperations src, pd_SuccessfulOps = pd_SuccessfulOps src,
      pd_FailedOps = pd_FailedOps src, pd_LastUpdated = pd_LastUpdated src,
      pd_LastHealthCheck = pd_LastHealthCheck src, pd_LastOperation = pd_LastOperation src,
      pd_RecentLatencies = (if length (pd_RecentLatencies src) > 0
                            then pd_RecentLatencies src else [])\<rparr>"

definition copyLatencyData :: "latency_stats_data \<Rightarrow> latency_stats_data" where
  "copyLatencyData src =
     \<lparr>ld_ProviderSamples = (\<lambda>p. map_option (\<lambda>xs. if length xs > 0 then xs else [])
                                (ld_ProviderSamples src p)),
      ld_LastUpdated = ld_LastUpdated src\<rparr>"

definition mem_GetScore ::
  "string \<Rightarrow> memory_store \<Rightarrow> memory_store \<times> (goerror + provider_score_data option)" where
  "mem_GetScore providerName m =
     (case mem_scores m providerName of
        Some data \<Rightarrow> (m, Inr (Some (copyScoreData data)))
      | None \<Rightarrow> (m, Inr None))"

definition mem_SetScore ::
  "provider_score_data option \<Rightarrow> memory_store \<Rightarrow> memory_store \<times> goerror option" where
  "mem_SetScore data m =
     (case data of
        None \<Rightarrow> (m, None)
      | Some d \<Rightarrow>
          if pd_Name d = '''' then (m, None)
          else (m\<lparr>mem_scores := (mem_scores m)(pd_Name d \<mapsto> copyScoreData d)\<rparr>, None))"

text \<open>The order in which the map is ranged over is an argument.\<close>

definition mem_GetAllScores ::
  "(memory_store \<Rightarrow> string list) \<Rightarrow> memory_store \<Rightarrow>
   memory_store \<times> (goerror + provider_score_data option list)" where
  "mem_GetAllScores order m =
     (m, Inr (map (\<lambda>n. map_option copyScoreData (mem_scores m n)) (order m)))"

definition mem_DeleteScore :: "string \<Rightarrow> memory_store \<Rightarrow> memory_store \<times> goerror option" where
  "mem_DeleteScore providerName m = (m\<lparr>mem_scores := (mem_scores m)(providerName := None)\<rparr>, None)"

definition mem_put :: "provider_score_data option \<Rightarrow> memory_store \<Rightarrow> memory_store" where
  "mem_put score m =
     (case score of
        None \<Rightarrow> m
      | Some d \<Rightarrow>
          if pd_Name d \<noteq> ''''
          then m\<lparr>mem_scores := (mem_scores m)(pd_Name d \<mapsto> copyScoreData d)\<rparr> else m)"

definition mem_SetScores ::
  "provider_score_data option list \<Rightarrow> memory_store \<Rightarrow> (memory_store \<times> goerror option) outcome" where
  "mem_SetScores data m = Returns (fold mem_put data m, None)"

definition mem_GetLatencyStats ::
  "memory_store \<Rightarrow> memory_store \<times> (goerror + latency_stats_data option)" where
  "mem_GetLatencyStats m =
     (case mem_latency m of
        None \<Rightarrow> (m, Inr None)
      | Some l \<Rightarrow> (m, Inr (Some (copyLatencyData l))))"

definition mem_SetLatencyStats ::
  "latency_stats_data option \<Rightarrow> memory_store \<Rightarrow> memory_store \<times> goerror option" where
  "mem_SetLatencyStats data m =
     (case data of
        None \<Rightarrow> (m, None)
      | Some d \<Rightarrow> (m\<lparr>mem_latency := Some (copyLatencyData d)\<rparr>, None))"

definition mem_Close :: "memory_store \<Rightarrow> memory_store \<times> goerror option" where
  "mem_Close m = (m, None)"

definition mem_Ping :: "memory_store \<Rightarrow> memory_store \<times> goerror option" where
  "mem_Ping m = (m, None)"

definition memory_ops :: "(memory_store \<Rightarrow> string list) \<Rightarrow> memory_store score_store_ops" where
  "memory_ops order =
     \<lparr>so_GetScore = mem_GetScore, so_SetScore = mem_SetScore,
      so_GetAllScores = mem_GetAllScores order, so_DeleteScore = mem_DeleteScore,
      so_SetScores = mem_SetScores, so_GetLatencyStats = mem_GetLatencyStats,
      so_SetLatencyStats = mem_SetLatencyStats, so_Close = mem_Close, so_Ping = mem_Ping,
      so_Name = ''memory''\<rparr>"

subsection \<open>Copies are faithful\<close>

lemma copyScoreData_id [simp]: "copyScoreData d = d"
  by (simp add: copyScoreData_def)

lemma map_option_copyScoreData [simp]: "map_option copyScoreData x = x"
  by (cases x) simp_all

lemma copyLatencyData_id [simp]: "copyLatencyData d = d"
proof -
  have "(\<lambda>p. map_option (\<lambda>xs. if length xs > 0 then xs else []) (ld_ProviderSamples d p)) =
      ld_ProviderSamples d"
    by (rule ext) (auto intro: option.map_ident_strong)
  then show ?thesis by (simp add: copyLatencyData_def)
qed

subsection \<open>The contract of a store\<close>

text \<open>The effect of a batch write on the abstract map of scores.\<close>

definition score_put :: "provider_score_data option \<Rightarrow> (string \<rightharpoonup> provider_score_data) \<Rightarrow>
    (string \<rightharpoonup> provider_score_data)" where
  "score_put score f =
     (case score of None \<Rightarrow> f | Some d \<Rightarrow> if pd_Name d = '''' then f else f(pd_Name d \<mapsto> d))"

lemma score_put_simps [simp]:
  "score_put None f = f"
  "score_put (Some d) f = (if pd_Name d = '''' then f else f(pd_Name d \<mapsto> d))"
  by (simp_all add: score_put_def)

locale score_store =
  fixes ops :: "'s score_store_ops"
    and inv :: "'s \<Rightarrow> bool"
    and view :: "'s \<Rightarrow> string \<rightharpoonup> provider_score_data"
    and lat :: "'s \<Rightarrow> latency_stats_data option"
  assumes get_inv: "inv s \<Longrightarrow> inv (fst (so_GetScore ops n s))"
    and set_inv: "inv s \<Longrightarrow> inv (fst (so_SetScore ops sd s))"
    and all_inv: "inv s \<Longrightarrow> inv (fst (so_GetAllScores ops s))"
    and del_inv: "inv s \<Longrightarrow> inv (fst (so_DeleteScore ops n s))"
    and sets_inv: "inv s \<Longrightarrow> so_SetScores ops sds s = Returns (s', e) \<Longrightarrow> inv s'"
    and lat_inv: "inv s \<Longrightarrow> inv (fst (so_GetLatencyStats ops s))"
    and set_lat_inv: "inv s \<Longrightarrow> inv (fst (so_SetLatencyStats ops ld s))"
    and view_name: "inv s \<Longrightarrow> view s n = Some d \<Longrightarrow> pd_Name d = n \<and> n \<noteq> ''''"
    and get_result: "inv s \<Longrightarrow> snd (so_GetScore ops n s) = Inr r \<Longrightarrow> r = view s n"
    and get_keeps: "inv s \<Longrightarrow> view (fst (so_GetScore ops n s)) = view s \<and>
      lat (fst (so_GetScore ops n s)) = lat s"
    and set_ok: "inv s \<Longrightarrow> snd (so_SetScore ops sd s) = None \<Longrightarrow>
      view (fst (so_SetScore ops sd s)) = score_put sd (view s) \<and>
      lat (fst (so_SetScore ops sd s)) = lat s"
    and del_ok: "inv s \<Longrightarrow> snd (so_DeleteScore ops n s) = None \<Longrightarrow>
      view (fst (so_DeleteScore ops n s)) = (view s)(n := None) \<and>
      lat (fst (so_DeleteScore ops n s)) = lat s"
    and sets_ok: "inv s \<Longrightarrow> so_SetScores ops sds s = Returns (s', None) \<Longrightarrow>
      view s' = fold score_put sds (view s) \<and> lat s' = lat s"
    and all_result: "inv s \<Longrightarrow> snd (so_GetAllScores ops s) = Inr sds \<Longrightarrow>
      set sds = Some ` ran (view s)"
    and all_keeps: "inv s \<Longrightarrow> view (fst (so_GetAllScores ops s)) = view s \<and>
      lat (fst (so_GetAllScores ops s)) = lat s"
    and lat_result: "inv s \<Longrightarrow> snd (so_GetLatencyStats ops s) = Inr r' \<Longrightarrow> r' = lat s"
    and lat_keeps: "inv s \<Longrightarrow> view (fst (so_GetLatencyStats ops s)) = view s \<and>
      lat (fst (so_GetLatencyStats ops s)) = lat s"
    and set_lat_ok: "inv s \<Longrightarrow> snd (so_SetLatencyStats ops (Some l) s) = None \<Longrightarrow>
      lat (fst (so_SetLatencyStats ops (Some l) s)) = Some l"
    and set_lat_keeps: "inv s \<Longrightarrow> view (fst (so_SetLatencyStats ops ld s)) = view s"
begin

lemmas inv_intros = get_inv set_inv all_inv del_inv sets_inv lat_inv set_lat_inv

lemma set_get:
  assumes "inv s" "so_SetScore ops (Some d) s = (s1, None)" "pd_Name d \<noteq> ''''"
    and "so_GetScore ops (pd_Name d) s1 = (s2, Inr r)"
  shows "r = Some d"
proof -
  have "inv s1" "view s1 = score_put (Some d) (view s)"
    using set_inv [OF assms(1), of "Some d"] set_ok [OF assms(1), of "Some d"] assms(2) by simp_all
  then show ?thesis
    using get_result [of s1 "pd_Name d" r] assms(3,4) by simp
qed

lemma all_names:
  assumes "inv s" "snd (so_GetAllScores ops s) = Inr sds" "Some d \<in> set sds"
  shows "view s (pd_Name d) = Some d"
proof -
  have "d \<in> ran (view s)" using all_result [OF assms(1,2)] assms(3) by auto
  then obtain n where "view s n = Some d" by (auto simp: ran_def)
  then show ?thesis using view_name [OF assms(1)] by blast
qed

end

text \<open>A store that lists every score once; a scan of a Redis server may list one again.\<close>

locale exact_listing = score_store +
  assumes all_distinct: "inv s \<Longrightarrow> snd (so_GetAllScores ops s) = Inr sds \<Longrightarrow> distinct sds"

text \<open>A store that a failed write leaves as it was.\<close>

locale atomic_store = score_store +
  assumes set_fail: "inv s \<Longrightarrow> snd (so_SetScore ops sd s) = Some e \<Longrightarrow>
      view (fst (so_SetScore ops sd s)) = view s"
    and del_fail: "inv s \<Longrightarrow> snd (so_DeleteScore ops n s) = Some e \<Longrightarrow>
      view (fst (so_DeleteScore ops n s)) = view s"
    and sets_fail: "inv s \<Longrightarrow> so_SetScores ops sds s = Returns (s', Some e) \<Longrightarrow> view s' = view s"

text \<open>A store whose operations on scores never fail.\<close>

locale total_store = score_store +
  assumes get_total: "inv s \<Longrightarrow> \<exists>r. snd (so_GetScore ops n s) = Inr r"
    and set_total: "inv s \<Longrightarrow> snd (so_SetScore ops sd s) = None"
    and del_total: "inv s \<Longrightarrow> snd (so_DeleteScore ops n s) = None"
    and sets_total: "inv s \<Longrightarrow> \<exists>s'. so_SetScores ops sds s = Returns (s', None)"
begin

lemma get_view: "inv s \<Longrightarrow> snd (so_GetScore ops n s) = Inr (view s n)"
  using get_total [of s n] get_result [of s n] by auto

lemma set_view: "inv s \<Longrightarrow> view (fst (so_SetScore ops sd s)) = score_put sd (view s)"
  using set_ok set_total by blast

lemma del_view: "inv s \<Longrightarrow> view (fst (so_DeleteScore ops n s)) = (view s)(n := None)"
  using del_ok del_total by blast

lemma sets_view: "inv s \<Longrightarrow> \<exists>s'. so_SetScores ops sds s = Returns (s', None) \<and> inv s' \<and>
    view s' = fold score_put sds (view s)"
  using sets_ok sets_inv sets_total by meson

end

sublocale total_store \<subseteq> atomic_store
proof unfold_locales
  fix s sds s' e
  assume "inv s" "so_SetScores ops sds s = Returns (s', Some e)"
  then show "view s' = view s" using sets_total [of s sds] by auto
qed (simp_all add: set_total del_total)

subsection \<open>The in-memory store keeps it\<close>

text \<open>Every stored entry stands under its own, non-empty name.\<close>

definition mem_ok :: "memory_store \<Rightarrow> bool" where
  "mem_ok m \<longleftrightarrow> finite (dom (mem_scores m)) \<and>
     (\<forall>n d. mem_scores m n = Some d \<longrightarrow> pd_Name d = n \<and> n \<noteq> '''')"

lemma mem_ok_name: "mem_ok m \<Longrightarrow> mem_scores m n = Some d \<Longrightarrow> pd_Name d = n \<and> n \<noteq> ''''"
  by (simp add: mem_ok_def)

lemma mem_put_ok: "mem_ok m \<Longrightarrow> mem_ok (mem_put d m)"
  by (auto simp: mem_ok_def mem_put_def split: option.splits)

lemma mem_ok_fold_put: "mem_ok m \<Longrightarrow> mem_ok (fold mem_put ds m)"
  by (induction ds arbitrary: m) (auto simp: mem_put_ok)

lemma mem_ops_ok:
  "mem_ok NewMemoryStore"
  "mem_ok m \<Longrightarrow> mem_ok (fst (mem_GetScore n m))"
  "mem_ok m \<Longrightarrow> mem_ok (fst (mem_SetScore d m))"
  "mem_ok m \<Longrightarrow> mem_ok (fst (mem_DeleteScore n m))"
  "mem_ok m \<Longrightarrow> mem_ok (fst (mem_SetLatencyStats l m))"
  by (auto simp: NewMemoryStore_def mem_GetScore_def mem_SetScore_def mem_DeleteScore_def
      mem_SetLatencyStats_def split: option.splits)
     (auto simp: mem_ok_def)

lemma mem_scores_put: "mem_scores (mem_put d m) = score_put d (mem_scores m)"
  by (auto simp: mem_put_def score_put_def split: option.splits)

lemma mem_scores_fold_put: "mem_scores (fold mem_put ds m) = fold score_put ds (mem_scores m)"
  by (induction ds arbitrary: m) (auto simp: mem_scores_put)

lemma mem_latency_fold_put [simp]: "mem_latency (fold mem_put ds m) = mem_latency m"
  by (induction ds arbitrary: m) (auto simp: mem_put_def split: option.splits)

lemmas mem_defs =
  mem_GetScore_def mem_SetScore_def mem_GetAllScores_def mem_DeleteScore_def mem_SetScores_def
  mem_GetLatencyStats_def mem_SetLatencyStats_def mem_Close_def mem_Ping_def

text \<open>Go ranges over the map in some order; any enumeration of its keys will do.\<close>

locale memory_iteration =
  fixes order :: "memory_store \<Rightarrow> string list"
  assumes order_enumerates:
    "mem_ok m \<Longrightarrow> distinct (order m) \<and> set (order m) = dom (mem_scores m)"

lemma mem_all_scores:
  assumes "mem_ok m" "distinct ks" "set ks = dom (mem_scores m)"
  shows "set (map (mem_scores m) ks) = Some ` ran (mem_scores m)"
    and "distinct (map (mem_scores m) ks)"
proof -
  have "x \<in> mem_scores m ` dom (mem_scores m) \<longleftrightarrow> x \<in> Some ` ran (mem_scores m)" for x
    by (auto simp: ran_def dom_def image_iff)
  then show "set (map (mem_scores m) ks) = Some ` ran (mem_scores m)"
    using assms(3) by auto
  have "inj_on (mem_scores m) (dom (mem_scores m))"
    using assms(1) by (auto simp: inj_on_def mem_ok_def dom_def) metis
  then show "distinct (map (mem_scores m) ks)"
    using assms(2,3) by (simp add: distinct_map)
qed

sublocale memory_iteration \<subseteq> mem: total_store "memory_ops order" mem_ok mem_scores mem_latency
proof unfold_locales
  fix s sds
  assume "mem_ok s" "snd (so_GetAllScores (memory_ops order) s) = Inr sds"
  then show "set sds = Some ` ran (mem_scores s)"
    using mem_all_scores [of s "order s"] order_enumerates [of s]
    by (auto simp: memory_ops_def mem_GetAllScores_def)
qed (use mem_ops_ok in \<open>auto simp: memory_ops_def mem_defs score_put_def mem_scores_fold_put
    mem_ok_fold_put split: option.splits dest: mem_ok_name\<close>)

sublocale memory_iteration \<subseteq> mem_list: exact_listing "memory_ops order" mem_ok mem_scores mem_latency
proof unfold_locales
  fix s sds
  assume "mem_ok s" "snd (so_GetAllScores (memory_ops order) s) = Inr sds"
  then show "distinct sds"
    using mem_all_scores [of s "order s"] order_enumerates [of s]
    by (auto simp: memory_ops_def mem_GetAllScores_def)
qed

definition sorted_keys :: "memory_store \<Rightarrow> string list" where
  "sorted_keys m = sorted_list_of_set (dom (mem_scores m))"

interpretation sorted_memory: memory_iteration sorted_keys
  by unfold_locales (simp add: sorted_keys_def mem_ok_def)

end
