(* ===== verification/Store_Convert.thy ===== *)
theory Store_Convert
  imports Latency Score_Store
begin

text \<open>
  \<open>scoring/store_convert.go\<close>: conversion between the in-memory scores and latency samples and
  their serialisable form. A \<open>time.Duration\<close> and its \<open>Nanoseconds()\<close> are the same number.
\<close>

definition ToStoreData :: "provider_score \<Rightarrow> provider_score_data" where
  "ToStoreData ps =
     \<lparr>pd_Name = ps_Name ps, pd_BaseScore = ps_BaseScore ps,
      pd_HealthPenalty = ps_HealthPenalty ps, pd_LatencyPenalty = ps_LatencyPenalty ps,
      pd_ErrorPenalty = ps_ErrorPenalty ps, pd_RateLimitPenalty = ps_RateLimitPenalty ps,
      pd_TotalOperations = ps_TotalOperations ps, pd_SuccessfulOps = ps_SuccessfulOps ps,
      pd_FailedOps = ps_FailedOps ps, pd_LastUpdated = ps_LastUpdated ps,
      pd_LastHealthCheck = ps_LastHealthCheck ps, pd_LastOperation = ps_LastOperation ps,
      pd_RecentLatencies = ps_RecentLatencies ps\<rparr>"

definition FromStoreData :: "provider_score_data \<Rightarrow> int \<Rightarrow> int \<Rightarrow> provider_score" where
  "FromStoreData data latencyWindowSize historySize =
     \<lparr>ps_Name = pd_Name data, ps_Priority = 0, ps_BaseScore = pd_BaseScore data,
      ps_HealthPenalty = pd_HealthPenalty data, ps_LatencyPenalty = pd_LatencyPenalty data,
      ps_ErrorPenalty = pd_ErrorPenalty data, ps_RateLimitPenalty = pd_RateLimitPenalty data,
      ps_LastUpdated = pd_LastUpdated data, ps_LastHealthCheck = pd_LastHealthCheck data,
      ps_LastOperation = pd_LastOperation data, ps_TotalOperations = pd_TotalOperations data,
      ps_SuccessfulOps = pd_SuccessfulOps data, ps_FailedOps = pd_FailedOps data,
      ps_RecentLatencies = pd_RecentLatencies data, ps_LatencyWindowSize = latencyWindowSize,
      ps_history = newPenaltyHistory historySize\<rparr>"

definition LatencyTrackerToStoreData :: "gotime \<Rightarrow> latency_tracker \<Rightarrow> latency_stats_data" where
  "LatencyTrackerToStoreData now lt =
     \<lparr>ld_ProviderSamples = (\<lambda>p. case lt_samples lt p of
          Some xs \<Rightarrow> if length xs > 0 then Some xs else None
        | None \<Rightarrow> None),
      ld_LastUpdated = now\<rparr>"

definition LatencyTrackerFromStoreData :: "latency_stats_data option \<Rightarrow> int \<Rightarrow> latency_tracker" where
  "LatencyTrackerFromStoreData data windowSize =
     (case data of
        None \<Rightarrow> NewLatencyTracker windowSize
      | Some d \<Rightarrow>
          (NewLatencyTracker windowSize)\<lparr>lt_samples := (\<lambda>p. case ld_ProviderSamples d p of
               Some xs \<Rightarrow> if length xs > 0 then Some xs else None
             | None \<Rightarrow> None)\<rparr>)"

definition AllScoresToStoreData ::
  "string list \<Rightarrow> (string \<rightharpoonup> provider_score) \<Rightarrow> provider_score_data option list" where
  "AllScoresToStoreData order scores =
     map (\<lambda>n. map_option ToStoreData (scores n)) (filter (\<lambda>n. scores n \<noteq> None) order)"

definition add_from_store ::
  "int \<Rightarrow> int \<Rightarrow> provider_score_data option \<Rightarrow> (string \<rightharpoonup> provider_score) \<Rightarrow>
   (string \<rightharpoonup> provider_score)" where
  "add_from_store w hs d scores =
     (case d of
        None \<Rightarrow> scores
      | Some x \<Rightarrow> if pd_Name x \<noteq> '''' then scores(pd_Name x \<mapsto> FromStoreData x w hs) else scores)"

definition AllScoresFromStoreData ::
  "provider_score_data option list \<Rightarrow> int \<Rightarrow> int \<Rightarrow> (string \<rightharpoonup> provider_score)" where
  "AllScoresFromStoreData data w hs = fold (add_from_store w hs) data Map.empty"

subsection \<open>What a round trip keeps\<close>

lemma From_To:
  "FromStoreData (ToStoreData ps) w hs =
     ps\<lparr>ps_Priority := 0, ps_LatencyWindowSize := w, ps_history := newPenaltyHistory hs\<rparr>"
  by (simp add: FromStoreData_def ToStoreData_def)

lemma To_From: "ToStoreData (FromStoreData d w hs) = d"
  by (simp add: FromStoreData_def ToStoreData_def)

lemma EffectiveScore_restored: "EffectiveScore (FromStoreData (ToStoreData ps) w hs) = EffectiveScore ps"
  by (simp add: From_To EffectiveScore_def)

lemma add_from_store_simps [simp]:
  "add_from_store w hs None scores = scores"
  "add_from_store w hs (Some x) scores =
     (if pd_Name x \<noteq> '''' then scores(pd_Name x \<mapsto> FromStoreData x w hs) else scores)"
  by (simp_all add: add_from_store_def)

lemma fold_add_from_store:
  "\<forall>d. Some d \<in> set ds \<longrightarrow> f (pd_Name d) = Some d \<Longrightarrow>
   fold (add_from_store w hs) ds scores n =
     (if n \<noteq> '''' \<and> (\<exists>d. Some d \<in> set ds \<and> pd_Name d = n)
      then map_option (\<lambda>d. FromStoreData d w hs) (f n) else scores n)"
proof (induction ds arbitrary: scores)
  case (Cons a ds)
  show ?case
  proof (cases a)
    case None
    then show ?thesis using Cons by auto
  next
    case (Some d)
    then have "f (pd_Name d) = Some d" using Cons.prems by simp
    moreover have "\<forall>d. Some d \<in> set ds \<longrightarrow> f (pd_Name d) = Some d" using Cons.prems by simp
    note Cons.IH [OF this]
    ultimately show ?thesis using Some by auto
  qed
qed simp

text \<open>Names under which the scores of an engine are registered.\<close>

definition scores_named :: "(string \<rightharpoonup> provider_score) \<Rightarrow> bool" where
  "scores_named scores \<longleftrightarrow> (\<forall>n ps. scores n = Some ps \<longrightarrow> ps_Name ps = n \<and> n \<noteq> '''')"

lemma restore_scores:
  assumes "scores_named scores" "set order = dom scores"
  shows "fold (add_from_store w hs) (AllScoresToStoreData order scores) old n =
    (case scores n of
       None \<Rightarrow> old n
     | Some ps \<Rightarrow> Some (ps\<lparr>ps_Priority := 0, ps_LatencyWindowSize := w,
                          ps_history := newPenaltyHistory hs\<rparr>))"
proof -
  have mem: "Some d \<in> set (AllScoresToStoreData order scores) \<longleftrightarrow>
      (\<exists>m ps. scores m = Some ps \<and> d = ToStoreData ps)" for d
    using assms(2) by (force simp: AllScoresToStoreData_def dom_def)
  have name: "pd_Name (ToStoreData ps) = m \<and> m \<noteq> ''''" if "scores m = Some ps" for m ps
    using assms(1) that by (simp add: scores_named_def ToStoreData_def)
  show ?thesis
  proof (cases "scores n")
    case None
    then show ?thesis
      using name mem
        fold_add_from_store [of "AllScoresToStoreData order scores" "\<lambda>m. map_option ToStoreData (scores m)"
          w hs old n]
      by fastforce
  next
    case (Some ps)
    then show ?thesis
      using name mem
        fold_add_from_store [of "AllScoresToStoreData order scores" "\<lambda>m. map_option ToStoreData (scores m)"
          w hs old n]
      by (fastforce simp: From_To)
  qed
qed

end
