(* ===== verification/Penalty_Store.thy ===== *)
theory Penalty_Store
  imports Prelude
begin

text \<open>
  \<open>scoring/store/penalty_store.go\<close> and \<open>scoring/store/composite_penalty.go\<close>: the interface of a
  persistent penalty history and the composite of a primary and a cache. The cache append that
  the code starts in a goroutine is queued and runs in a step of its own.
\<close>

record penalty_record_data =
  prd_ProviderName :: string
  prd_Category :: string
  prd_Reason :: string
  prd_Amount :: real
  prd_CreatedAt :: gotime
  prd_Metadata :: metadata

record 's penalty_store_ops =
  po_Append :: "penalty_record_data option \<Rightarrow> 's \<Rightarrow> 's \<times> goerror option"
  po_GetRecent :: "string \<Rightarrow> int \<Rightarrow> 's \<Rightarrow> 's \<times> (goerror + penalty_record_data list)"
  po_PurgeOld :: "duration \<Rightarrow> 's \<Rightarrow> 's \<times> goerror option"
  po_Close :: "'s \<Rightarrow> 's \<times> goerror option"
  po_Ping :: "'s \<Rightarrow> 's \<times> goerror option"
  po_Name :: string

record ('p, 'c) composite_store =
  cp_primary :: 'p
  cp_cache :: 'c
  cp_pending :: "penalty_record_data option list"

definition NewCompositePenaltyStore :: "'p \<Rightarrow> 'c \<Rightarrow> ('p, 'c) composite_store" where
  "NewCompositePenaltyStore p c = \<lparr>cp_primary = p, cp_cache = c, cp_pending = []\<rparr>"

definition composite_Name :: "'p penalty_store_ops \<Rightarrow> 'c penalty_store_ops \<Rightarrow> string" where
  "composite_Name pops cops = ''composite_penalty('' @ po_Name pops @ ''+'' @ po_Name cops @ '')''"

definition composite_Append ::
  "'p penalty_store_ops \<Rightarrow> penalty_record_data option \<Rightarrow> ('p, 'c) composite_store \<Rightarrow>
   ('p, 'c) composite_store \<times> goerror option" where
  "composite_Append pops rd c =
     (case po_Append pops rd (cp_primary c) of
        (p', Some e) \<Rightarrow> (c\<lparr>cp_primary := p'\<rparr>, Some e)
      | (p', None) \<Rightarrow> (c\<lparr>cp_primary := p', cp_pending := cp_pending c @ [rd]\<rparr>, None))"

text \<open>A queued cache append runs; its error is ignored.\<close>

definition composite_async_step ::
  "'c penalty_store_ops \<Rightarrow> ('p, 'c) composite_store \<Rightarrow> ('p, 'c) composite_store" where
  "composite_async_step cops c =
     (case cp_pending c of
        [] \<Rightarrow> c
      | rd # rs \<Rightarrow> c\<lparr>cp_cache := fst (po_Append cops rd (cp_cache c)), cp_pending := rs\<rparr>)"

definition composite_GetRecent ::
  "'p penalty_store_ops \<Rightarrow> 'c penalty_store_ops \<Rightarrow> string \<Rightarrow> int \<Rightarrow> ('p, 'c) composite_store \<Rightarrow>
   ('p, 'c) composite_store \<times> (goerror + penalty_record_data list)" where
  "composite_GetRecent pops cops providerName n c =
     (let (c', r) = po_GetRecent cops providerName n (cp_cache c);
          st = c\<lparr>cp_cache := c'\<rparr>
      in case r of
           Inr (x # xs) \<Rightarrow> (st, Inr (x # xs))
         | _ \<Rightarrow>
             let (p', r') = po_GetRecent pops providerName n (cp_primary st)
             in (st\<lparr>cp_primary := p'\<rparr>, r'))"

definition composite_PurgeOld ::
  "'p penalty_store_ops \<Rightarrow> duration \<Rightarrow> ('p, 'c) composite_store \<Rightarrow>
   ('p, 'c) composite_store \<times> goerror option" where
  "composite_PurgeOld pops w c =
     (let (p', e) = po_PurgeOld pops w (cp_primary c) in (c\<lparr>cp_primary := p'\<rparr>, e))"

definition composite_Ping ::
  "'p penalty_store_ops \<Rightarrow> 'c penalty_store_ops \<Rightarrow> ('p, 'c) composite_store \<Rightarrow>
   ('p, 'c) composite_store \<times> goerror option" where
  "composite_Ping pops cops c =
     (case po_Ping pops (cp_primary c) of
        (p', Some e) \<Rightarrow> (c\<lparr>cp_primary := p'\<rparr>, Some e)
      | (p', None) \<Rightarrow>
          let (c', e) = po_Ping cops (cp_cache c) in (c\<lparr>cp_primary := p', cp_cache := c'\<rparr>, e))"

definition composite_Close ::
  "'p penalty_store_ops \<Rightarrow> 'c penalty_store_ops \<Rightarrow> ('p, 'c) composite_store \<Rightarrow>
   ('p, 'c) composite_store \<times> goerror option" where
  "composite_Close pops cops c =
     (let (p', primaryErr) = po_Close pops (cp_primary c);
          (c', cacheErr) = po_Close cops (cp_cache c)
      in (c\<lparr>cp_primary := p', cp_cache := c'\<rparr>,
          if primaryErr \<noteq> None then primaryErr else cacheErr))"

end
