(* ===== verification/Engine.thy ===== *)
theory Engine
  imports Score_Events Decay Store_Convert Penalty_Store
begin

text \<open>
  \<open>scoring/engine.go\<close>: the scoring engine. Its score map is shared with the decay manager, so
  \<open>UpdateScores\<close> has nothing to copy here. A method runs as one step; where it reads the clock
  several times it takes a function from the number of the reading to the time. Calls of the
  metrics recorder are appended to \<open>en_metrics\<close>; the appends to the persistent penalty history
  that the code starts in goroutines are queued in \<open>en_pending\<close>. The engine never stores a
  nil score, so its map has provider scores as values. Calls of the configured store go to the
  operations and the state passed alongside the engine.
\<close>

datatype metric_call =
    MRecordLatency string string duration
  | MRecordEvent string string bool
  | MRecordEffectiveScore string real
  | MRecordProviderRank string int int

record engine =
  en_config :: scoring_config
  en_scores :: score_map
  en_latencyTracker :: latency_tracker
  en_decayManager :: decay_manager
  en_store :: "store_ref option"
  en_penaltyHistoryStore :: "penalty_store_ref option"
  en_cleanup :: bool
  en_started :: bool
  en_metrics :: "metric_call list"
  en_pending :: "penalty_record_data list"

definition record_metric :: "metric_call \<Rightarrow> engine \<Rightarrow> engine" where
  "record_metric m e = e\<lparr>en_metrics := en_metrics e @ [m]\<rparr>"

definition set_score :: "string \<Rightarrow> provider_score \<Rightarrow> engine \<Rightarrow> engine" where
  "set_score n ps e = e\<lparr>en_scores := (en_scores e)(n \<mapsto> ps)\<rparr>"

subsection \<open>Registration\<close>

definition RegisterProvider :: "string \<Rightarrow> int \<Rightarrow> gotime \<Rightarrow> engine \<Rightarrow> engine" where
  "RegisterProvider name priority now e =
     (case en_scores e name of
        Some _ \<Rightarrow> e
      | None \<Rightarrow>
          set_score name
            (NewProviderScore name priority (sc_LatencyWindowSize (en_config e))
               (sc_PenaltyHistorySize (en_config e)) now) e)"

definition UnregisterProvider :: "string \<Rightarrow> engine \<Rightarrow> engine" where
  "UnregisterProvider name e = e\<lparr>en_scores := (en_scores e)(name := None)\<rparr>"

subsection \<open>Events\<close>

definition persistPenalty ::
  "string \<Rightarrow> penalty_category \<Rightarrow> string \<Rightarrow> real \<Rightarrow> gotime \<Rightarrow> metadata \<Rightarrow> engine \<Rightarrow> engine" where
  "persistPenalty provider cat reason amount ts meta e =
     (if en_penaltyHistoryStore e = None then e
      else e\<lparr>en_pending := en_pending e @
               [\<lparr>prd_ProviderName = provider, prd_Category = cat, prd_Reason = reason,
                 prd_Amount = amount, prd_CreatedAt = ts, prd_Metadata = meta\<rparr>]\<rparr>)"

definition slow_reason :: "latency_stats \<Rightarrow> latency_stats \<Rightarrow> string" where
  "slow_reason globalStats providerStats =
     (let ratio = (if ls_P95 globalStats > 0
                   then real_of_int (ls_P95 providerStats) / real_of_int (ls_P95 globalStats) else 0);
          globalP95ms = (if ls_P95 globalStats > 0 then go_quot (ls_P95 globalStats) millisecond else 0);
          providerP95ms =
            (if ls_P95 providerStats > 0 then go_quot (ls_P95 providerStats) millisecond else 0)
      in format_1f ratio @ ''x slower than peers (provider P95: '' @ Itoa providerP95ms @
         ''ms, global P95: '' @ Itoa globalP95ms @ ''ms)'')"

definition updateLatencyPenalty ::
  "string list \<Rightarrow> (nat \<Rightarrow> gotime) \<Rightarrow> string \<Rightarrow> engine \<Rightarrow> engine" where
  "updateLatencyPenalty order clk providerName e =
     (let (lt1, globalStats) = GetGlobalStats order (clk 0) (en_latencyTracker e);
          e1 = e\<lparr>en_latencyTracker := lt1\<rparr>
      in if ls_SampleCount globalStats < sc_MinSamplesForLatencyComparison (en_config e) then e1
         else
           let providerStats = tracker_GetProviderStats providerName lt1;
               (lt2, slownessFactor) = GetProviderSlownessFactor order (clk 1) providerName lt1;
               e2 = e1\<lparr>en_latencyTracker := lt2\<rparr>;
               slow = \<not> slownessFactor < sc_SlowThresholdStdDev (en_config e);
               factor = (if slow then slownessFactor - sc_SlowThresholdStdDev (en_config e) else 0);
               reason = (if slow then slow_reason globalStats providerStats else '''')
           in case en_scores e2 providerName of
                None \<Rightarrow> e2
              | Some score \<Rightarrow>
                  let e3 = set_score providerName
                        (UpdateLatencyPenalty factor (sc_SlowResponsePenalty (en_config e)) reason
                           (clk 2) score) e2
                  in if factor > 0 \<and> reason \<noteq> ''''
                     then persistPenalty providerName PenaltyCategoryLatency reason
                            (factor * sc_SlowResponsePenalty (en_config e)) (clk 3) Map.empty e3
                     else e3)"

text \<open>\<open>fmt.Sprintf\<close> with the verb \<open>%v\<close>; the empty map and nil are the same map here.\<close>

fun Sprintf_v :: "any_value \<Rightarrow> string" where
  "Sprintf_v (AnyString s) = s"
| "Sprintf_v (AnyInt i) = Itoa i"
| "Sprintf_v (AnyBool b) = (if b then ''true'' else ''false'')"
| "Sprintf_v AnyNil = ''<nil>''"
| "Sprintf_v (AnyOther text) = text"

definition stringifyMetadata :: "any_metadata \<Rightarrow> metadata" where
  "stringifyMetadata m = (\<lambda>k. map_option Sprintf_v (m k))"

text \<open>The penalty of an event type: category, reason, amount and the metadata it keeps.\<close>

definition event_penalty ::
  "scoring_config \<Rightarrow> score_event \<Rightarrow> (penalty_category \<times> string \<times> real \<times> metadata) option" where
  "event_penalty c ev =
     (let meta = stringifyMetadata (ev_Metadata ev)
      in case ev_Type ev of
           EventHealthCheckFailed \<Rightarrow>
             Some (PenaltyCategoryHealth, ''health check failed'', sc_HealthCheckFailPenalty c, Map.empty)
         | EventHealthCheck429 \<Rightarrow>
             Some (PenaltyCategoryRateLimit, ''rate limit during health check (HTTP 429)'',
                   sc_RateLimitPenalty c, Map.empty)
         | EventHealthCheckAuthFail \<Rightarrow>
             Some (PenaltyCategoryHealth, ''authentication failure (HTTP 401/403)'',
                   sc_AuthFailurePenalty c, Map.empty)
         | EventOperationAuthFail \<Rightarrow>
             Some (PenaltyCategoryHealth, ''operation authentication failure'',
                   sc_AuthFailurePenalty c, meta)
         | EventHealthCheckTimeout \<Rightarrow>
             Some (PenaltyCategoryHealth, ''health check timed out'', sc_TimeoutPenalty c, Map.empty)
         | EventOperationFailed \<Rightarrow>
             Some (PenaltyCategoryError,
                   (case ev_Error ev of None \<Rightarrow> ''operation failed'' | Some er \<Rightarrow> err_msg er),
                   sc_OperationFailPenalty c, meta)
         | EventRateLimited \<Rightarrow>
             Some (PenaltyCategoryRateLimit, ''rate limited (HTTP 429)'', sc_RateLimitPenalty c, meta)
         | EventOperationSuccess \<Rightarrow> None
         | EventSlowResponse \<Rightarrow> None)"

definition add_penalty ::
  "penalty_category \<Rightarrow> real \<Rightarrow> real \<Rightarrow> string \<Rightarrow> metadata \<Rightarrow> gotime \<Rightarrow> provider_score \<Rightarrow> provider_score" where
  "add_penalty cat amount mx reason meta now ps =
     (if cat = PenaltyCategoryHealth then AddHealthPenalty amount mx reason meta now ps
      else if cat = PenaltyCategoryRateLimit then AddRateLimitPenalty amount mx reason meta now ps
      else AddErrorPenalty amount mx reason meta now ps)"

text \<open>
  Clock readings of one call: 0 to 3 are those of \<open>updateLatencyPenalty\<close>, 4 replaces a zero
  timestamp, 5 is read by the score operation.
\<close>

definition engine_RecordEvent ::
  "string list \<Rightarrow> (nat \<Rightarrow> gotime) \<Rightarrow> score_event \<Rightarrow> engine \<Rightarrow> engine" where
  "engine_RecordEvent order clk ev e =
     (if \<not> sc_Enabled (en_config e) then e
      else
        case en_scores e (ev_Provider ev) of
          None \<Rightarrow> e
        | Some score \<Rightarrow>
            let p = ev_Provider ev; c = en_config e;
                e1 = (if ev_ResponseTime ev > 0
                      then
                        updateLatencyPenalty order clk p
                          (record_metric
                             (MRecordLatency p (event_type_String (ev_Type ev)) (ev_ResponseTime ev))
                             (set_score p (RecordLatency (ev_ResponseTime ev) score)
                                (e\<lparr>en_latencyTracker :=
                                     tracker_RecordLatency p (ev_ResponseTime ev)
                                       (en_latencyTracker e)\<rparr>)))
                      else e);
                score1 = (case en_scores e1 p of Some s \<Rightarrow> s | None \<Rightarrow> score);
                success = (ev_Error ev = None);
                ts = (if ev_Timestamp ev = 0 then clk 4 else ev_Timestamp ev);
                e2 = (case event_penalty c ev of
                        Some (cat, reason, amount, meta) \<Rightarrow>
                          persistPenalty p cat reason amount ts meta
                            (set_score p
                               (add_penalty cat amount (sc_MaxPenalty c) reason meta (clk 5) score1) e1)
                      | None \<Rightarrow>
                          if ev_Type ev = EventOperationSuccess
                          then set_score p (RecordSuccess (sc_SuccessBonus c) (clk 5) score1) e1
                          else e1);
                score2 = (case en_scores e2 p of Some s \<Rightarrow> s | None \<Rightarrow> score1)
            in record_metric (MRecordEffectiveScore p (EffectiveScore score2))
                 (record_metric (MRecordEvent p (event_type_String (ev_Type ev)) success) e2))"

subsection \<open>Queries\<close>

definition GetEffectiveScore :: "string \<Rightarrow> engine \<Rightarrow> real" where
  "GetEffectiveScore providerName e =
     (case en_scores e providerName of None \<Rightarrow> 0 | Some score \<Rightarrow> EffectiveScore score)"

definition engine_GetProviderStats :: "string \<Rightarrow> engine \<Rightarrow> provider_score_stats option" where
  "engine_GetProviderStats providerName e =
     (case en_scores e providerName of None \<Rightarrow> None | Some score \<Rightarrow> Some (GetStats score))"

definition GetAllProviderStats :: "string list \<Rightarrow> engine \<Rightarrow> provider_score_stats list" where
  "GetAllProviderStats order e = map GetStats (List.map_filter (en_scores e) order)"

fun record_ranks :: "nat \<Rightarrow> nat \<Rightarrow> string list \<Rightarrow> engine \<Rightarrow> engine" where
  "record_ranks i tot [] e = e"
| "record_ranks i tot (n # ns) e =
     record_ranks (i + 1) tot ns
       (record_metric (MRecordProviderRank n (int i + 1) (int tot)) e)"

definition GetSortedProviders :: "string list \<Rightarrow> engine \<Rightarrow> engine \<times> string list" where
  "GetSortedProviders order e =
     (let providers =
            List.map_filter (\<lambda>n. map_option (\<lambda>s. (n, EffectiveScore s)) (en_scores e n)) order;
          names = map fst (exchange_sort (\<lambda>a b. snd a < snd b) providers)
      in (record_ranks 0 (length providers) names e, names))"

definition GetLatencyStats :: "string list \<Rightarrow> gotime \<Rightarrow> engine \<Rightarrow> engine \<times> latency_stats" where
  "GetLatencyStats order now e =
     (let (lt, st) = GetGlobalStats order now (en_latencyTracker e)
      in (e\<lparr>en_latencyTracker := lt\<rparr>, st))"

definition GetProviderLatencyStats :: "string \<Rightarrow> engine \<Rightarrow> latency_stats" where
  "GetProviderLatencyStats providerName e =
     tracker_GetProviderStats providerName (en_latencyTracker e)"

definition engine_GetProviderCount :: "engine \<Rightarrow> nat" where
  "engine_GetProviderCount e = card (dom (en_scores e))"

definition HasProvider :: "string \<Rightarrow> engine \<Rightarrow> bool" where
  "HasProvider name e = (en_scores e name \<noteq> None)"

definition IsEnabled :: "engine \<Rightarrow> bool" where
  "IsEnabled e = sc_Enabled (en_config e)"

definition SetEnabled :: "bool \<Rightarrow> engine \<Rightarrow> engine" where
  "SetEnabled enabled e = e\<lparr>en_config := (en_config e)\<lparr>sc_Enabled := enabled\<rparr>\<rparr>"

subsection \<open>The penalty history of a provider\<close>

text \<open>\<open>math.Pow\<close> on a base between 0 and 1 and a positive exponent is \<open>powr\<close>.\<close>

definition computeDecayFactor :: "gotime \<Rightarrow> gotime \<Rightarrow> real \<Rightarrow> duration \<Rightarrow> real" where
  "computeDecayFactor now ts decayRate decayInterval =
     (if decayInterval \<le> 0 \<or> decayRate \<le> 0 then 1
      else
        let elapsed = now - ts
        in if elapsed \<le> 0 then 1
           else
             let intervals = (real_of_int elapsed / real_of_int second) /
                             (real_of_int decayInterval / real_of_int second);
                 f = (1 - decayRate) powr intervals;
                 f1 = (if f < 0 then 0 else f)
             in if f1 > 1 then 1 else f1)"

fun collect_history ::
  "(nat \<Rightarrow> gotime) \<Rightarrow> scoring_config \<Rightarrow> nat \<Rightarrow> gotime \<Rightarrow> penalty_category \<Rightarrow> penalty_record list \<Rightarrow>
   penalty_record list \<Rightarrow> penalty_record list" where
  "collect_history clk c n since cat out [] = out"
| "collect_history clk c n since cat out (r # rs) =
     (if length out \<ge> n then out
      else if since \<noteq> 0 \<and> pr_Timestamp r < since then collect_history clk c n since cat out rs
      else if cat \<noteq> '''' \<and> pr_Category r \<noteq> cat then collect_history clk c n since cat out rs
      else
        collect_history clk c n since cat
          (out @ [r\<lparr>pr_DecayFactor := computeDecayFactor (clk (length out)) (pr_Timestamp r)
                      (sc_DecayRate c) (sc_DecayInterval c)\<rparr>]) rs)"

definition GetPenaltyHistory ::
  "(nat \<Rightarrow> gotime) \<Rightarrow> string \<Rightarrow> int \<Rightarrow> gotime \<Rightarrow> penalty_category \<Rightarrow> engine \<Rightarrow>
   penalty_record list option" where
  "GetPenaltyHistory clk name n since category e =
     (let n1 = (if n \<le> 0 then 50 else n);
          n2 = (if n1 > 200 then 200 else n1)
      in case en_scores e name of
           None \<Rightarrow> None
         | Some score \<Rightarrow>
             Some (collect_history clk (en_config e) (nat n2) since category []
                     (rev (history_snapshot (ps_history score)))))"

subsection \<open>Reset and configuration\<close>

definition reset_score :: "gotime \<Rightarrow> provider_score \<Rightarrow> provider_score" where
  "reset_score now score =
     score\<lparr>ps_HealthPenalty := 0, ps_LatencyPenalty := 0, ps_ErrorPenalty := 0,
           ps_RateLimitPenalty := 0, ps_TotalOperations := 0, ps_SuccessfulOps := 0,
           ps_FailedOps := 0, ps_RecentLatencies := [], ps_LastUpdated := now,
           ps_history := newPenaltyHistory (int (history_capacity (ps_history score)))\<rparr>"

definition engine_Reset :: "(string \<Rightarrow> gotime) \<Rightarrow> engine \<Rightarrow> engine" where
  "engine_Reset clock e =
     e\<lparr>en_scores := (\<lambda>n. map_option (reset_score (clock n)) (en_scores e n)),
       en_latencyTracker := tracker_Reset (en_latencyTracker e)\<rparr>"

definition engine_UpdateConfig :: "scoring_option list \<Rightarrow> engine \<Rightarrow> engine outcome" where
  "engine_UpdateConfig opts e =
     (let c = Validate (apply_options opts (en_config e))
      in case decay_UpdateConfig c (en_decayManager e) of
           Panics \<Rightarrow> Panics
         | Returns dm \<Rightarrow> Returns (e\<lparr>en_config := c, en_decayManager := dm\<rparr>))"

definition engine_decay :: "(string \<Rightarrow> gotime) \<Rightarrow> engine \<Rightarrow> engine" where
  "engine_decay clock e = e\<lparr>en_scores := applyDecay clock (en_decayManager e) (en_scores e)\<rparr>"

subsection \<open>Starting and stopping\<close>

definition to_penalty_record :: "penalty_record_data \<Rightarrow> penalty_record" where
  "to_penalty_record rd =
     \<lparr>pr_Timestamp = prd_CreatedAt rd, pr_Category = prd_Category rd, pr_Reason = prd_Reason rd,
      pr_Amount = prd_Amount rd, pr_Metadata = prd_Metadata rd, pr_DecayFactor = 0\<rparr>"

definition warm_one ::
  "'h penalty_store_ops \<Rightarrow> string \<Rightarrow> 'h \<times> engine \<Rightarrow> 'h \<times> engine" where
  "warm_one hops name he =
     (case he of (h, e) \<Rightarrow>
        (case en_scores e name of
           None \<Rightarrow> (h, e)
         | Some score \<Rightarrow>
             (case po_GetRecent hops name (sc_PenaltyHistorySize (en_config e)) h of
                (h', Inl er) \<Rightarrow> (h', e)
              | (h', Inr records) \<Rightarrow>
                  (h', set_score name
                         (score\<lparr>ps_history :=
                                 fold (\<lambda>rd. history_add (to_penalty_record rd)) records
                                   (ps_history score)\<rparr>) e))))"

definition warmPenaltyHistory ::
  "'h penalty_store_ops \<Rightarrow> string list \<Rightarrow> 'h \<times> engine \<Rightarrow> 'h \<times> engine" where
  "warmPenaltyHistory hops order he =
     (if en_penaltyHistoryStore (snd he) = None then he else fold (warm_one hops) order he)"

definition engine_Start ::
  "'h penalty_store_ops \<Rightarrow> string list \<Rightarrow> 'h \<times> engine \<Rightarrow> ('h \<times> engine) outcome" where
  "engine_Start hops order he =
     (case he of (h, e) \<Rightarrow>
        if en_started e then Returns (h, e)
        else
          case decay_Start (en_decayManager e) of
            Panics \<Rightarrow> Panics
          | Returns dm \<Rightarrow>
              let (h', e') = warmPenaltyHistory hops order
                    (h, e\<lparr>en_started := True, en_decayManager := dm\<rparr>)
              in if en_penaltyHistoryStore e' \<noteq> None \<and>
                    sc_PenaltyCleanupInterval (en_config e') > 0
                 then Returns (h', e'\<lparr>en_cleanup := True\<rparr>)
                 else Returns (h', e'))"

text \<open>A tick of the cleanup goroutine, which runs until its context is cancelled.\<close>

definition cleanup_tick :: "'h penalty_store_ops \<Rightarrow> 'h \<times> engine \<Rightarrow> 'h \<times> engine" where
  "cleanup_tick hops he =
     (case he of (h, e) \<Rightarrow>
        if en_cleanup e then (fst (po_PurgeOld hops (sc_RetentionWindow (en_config e)) h), e)
        else (h, e))"

text \<open>An append queued by \<open>persistPenalty\<close> runs; its error is ignored.\<close>

definition persist_step :: "'h penalty_store_ops \<Rightarrow> 'h \<times> engine \<Rightarrow> 'h \<times> engine" where
  "persist_step hops he =
     (case he of (h, e) \<Rightarrow>
        (case en_pending e of
           [] \<Rightarrow> (h, e)
         | rd # rs \<Rightarrow> (fst (po_Append hops (Some rd) h), e\<lparr>en_pending := rs\<rparr>)))"

definition engine_Stop :: "engine \<Rightarrow> engine outcome" where
  "engine_Stop e =
     (if \<not> en_started e then Returns e
      else
        case decay_Stop (en_decayManager e) of
          Panics \<Rightarrow> Panics
        | Returns dm \<Rightarrow>
            Returns (e\<lparr>en_started := False, en_decayManager := dm, en_cleanup := False\<rparr>))"

subsection \<open>Persistence\<close>

definition loadFromStoreUnsafe ::
  "'s score_store_ops \<Rightarrow> 's \<times> engine \<Rightarrow> ('s \<times> engine) \<times> goerror option" where
  "loadFromStoreUnsafe ops se =
     (case se of (s, e) \<Rightarrow>
        if en_store e = None then ((s, e), None)
        else
          case so_GetAllScores ops s of
            (s1, Inl er) \<Rightarrow> ((s1, e), Some (wrap_error ''failed to load scores from store: '' er))
          | (s1, Inr data) \<Rightarrow>
              let c = en_config e;
                  e1 = e\<lparr>en_scores := fold (add_from_store (sc_LatencyWindowSize c)
                                       (sc_PenaltyHistorySize c)) data (en_scores e)\<rparr>
              in case so_GetLatencyStats ops s1 of
                   (s2, Inl er) \<Rightarrow>
                     ((s2, e1), Some (wrap_error ''failed to load latency stats from store: '' er))
                 | (s2, Inr None) \<Rightarrow> ((s2, e1), None)
                 | (s2, Inr (Some l)) \<Rightarrow>
                     ((s2, e1\<lparr>en_latencyTracker :=
                              LatencyTrackerFromStoreData (Some l) (sc_LatencyWindowSize c)\<rparr>), None))"

definition LoadFromStore ::
  "'s score_store_ops \<Rightarrow> 's \<times> engine \<Rightarrow> ('s \<times> engine) \<times> goerror option" where
  "LoadFromStore ops se = loadFromStoreUnsafe ops se"

definition SetStore ::
  "'s score_store_ops \<Rightarrow> store_ref option \<Rightarrow> 's \<times> engine \<Rightarrow> ('s \<times> engine) \<times> goerror option" where
  "SetStore ops ref se =
     (let se' = (fst se, (snd se)\<lparr>en_store := ref\<rparr>)
      in if ref \<noteq> None then loadFromStoreUnsafe ops se' else (se', None))"

definition SaveToStore ::
  "'s score_store_ops \<Rightarrow> string list \<Rightarrow> gotime \<Rightarrow> 's \<times> engine \<Rightarrow> ('s \<times> goerror option) outcome" where
  "SaveToStore ops order now se =
     (case se of (s, e) \<Rightarrow>
        if en_store e = None then Returns (s, None)
        else
          case so_SetScores ops (AllScoresToStoreData order (en_scores e)) s of
            Panics \<Rightarrow> Panics
          | Returns (s1, Some er) \<Rightarrow>
              Returns (s1, Some (wrap_error ''failed to save scores to store: '' er))
          | Returns (s1, None) \<Rightarrow>
              (case so_SetLatencyStats ops
                      (Some (LatencyTrackerToStoreData now (en_latencyTracker e))) s1 of
                 (s2, Some er) \<Rightarrow>
                   Returns (s2, Some (wrap_error ''failed to save latency stats to store: '' er))
               | (s2, None) \<Rightarrow> Returns (s2, None)))"

definition PersistScore ::
  "'s score_store_ops \<Rightarrow> string \<Rightarrow> 's \<times> engine \<Rightarrow> 's \<times> goerror option" where
  "PersistScore ops providerName se =
     (case se of (s, e) \<Rightarrow>
        (case en_scores e providerName of
           None \<Rightarrow> (s, Some (Errorf (''provider '' @ providerName @ '' not found'')))
         | Some ps \<Rightarrow>
             if en_store e = None then (s, None)
             else
               (case so_SetScore ops (Some (ToStoreData ps)) s of
                  (s', Some er) \<Rightarrow>
                    (s', Some (wrap_error (''failed to persist score for '' @ providerName @ '': '') er))
                | (s', None) \<Rightarrow> (s', None))))"

text \<open>
  With a recorder the configured store is wrapped; \<open>ops\<close> and \<open>s\<close> are those of the store that
  the engine ends up with.
\<close>

definition NewEngine ::
  "'s score_store_ops \<Rightarrow> 's \<Rightarrow> scoring_option list \<Rightarrow> 's \<times> engine" where
  "NewEngine ops s opts =
     (let config = Validate (apply_options opts DefaultScoringConfig);
          ref = (case sc_Store config of
                   None \<Rightarrow> None
                 | Some st \<Rightarrow>
                     if sc_MetricsRecorder config \<noteq> None then Some (InstrumentedRef st) else Some st);
          e = \<lparr>en_config = config, en_scores = Map.empty,
               en_latencyTracker = NewLatencyTracker (sc_LatencyWindowSize config),
               en_decayManager = NewDecayManager config, en_store = ref,
               en_penaltyHistoryStore = sc_PenaltyHistoryStore config, en_cleanup = False,
               en_started = False, en_metrics = [], en_pending = []\<rparr>
      in if en_store e \<noteq> None then fst (LoadFromStore ops (s, e)) else (s, e))"

lemmas engine_op_defs [engine_defs] =
  RegisterProvider_def UnregisterProvider_def engine_RecordEvent_def SetEnabled_def
  engine_Reset_def engine_decay_def record_metric_def set_score_def persistPenalty_def Let_def

end
