(* ===== verification/Chain_Config.thy ===== *)
theory Chain_Config
  imports Go_Strings
begin

text \<open>
  \<open>config.go\<close>, \<open>provider_types.go\<close>, \<open>opcontext.go\<close> and the context keys of \<open>interfaces.go\<close>:
  the configuration of a provider chain, the chain types, the selection strategies, and what
  an operation's context carries. A selection strategy is a string in the code, so an unknown
  one can be written; it is a string here too.
\<close>

datatype provider_chain_type =
    ProviderChainAddressGenerators
  | ProviderChainAddressValidators
  | ProviderChainFeeEstimators
  | ProviderChainFeeRecommenders
  | ProviderChainTxBroadcasters
  | ProviderChainUTXOFetchers
  | ProviderChainTxAssemblers
  | ProviderChainTxSizers
  | ProviderChainTxSigners
  | ProviderChainTxStatusFetchers
  | ProviderChainBalanceFetchers
  | ProviderChainRateFetchers
  | ProviderChainHistoricalRateFetchers

fun chain_type_String :: "provider_chain_type \<Rightarrow> string" where
  "chain_type_String ProviderChainAddressGenerators = ''AddressGenerators''"
| "chain_type_String ProviderChainAddressValidators = ''AddressValidators''"
| "chain_type_String ProviderChainFeeEstimators = ''FeeEstimators''"
| "chain_type_String ProviderChainFeeRecommenders = ''FeeRecommenders''"
| "chain_type_String ProviderChainTxBroadcasters = ''TxBroadcasters''"
| "chain_type_String ProviderChainUTXOFetchers = ''UTXOFetchers''"
| "chain_type_String ProviderChainTxAssemblers = ''TxAssemblers''"
| "chain_type_String ProviderChainTxSizers = ''TxSizers''"
| "chain_type_String ProviderChainTxSigners = ''TxSigners''"
| "chain_type_String ProviderChainTxStatusFetchers = ''TxStatusFetchers''"
| "chain_type_String ProviderChainBalanceFetchers = ''BalanceFetchers''"
| "chain_type_String ProviderChainRateFetchers = ''RateFetchers''"
| "chain_type_String ProviderChainHistoricalRateFetchers = ''HistoricalRateFetchers''"

type_synonym selection_strategy = string

abbreviation SelectionStrategyPriorityOnly :: selection_strategy where
  "SelectionStrategyPriorityOnly \<equiv> ''priority_only''"
abbreviation SelectionStrategyRoundRobin :: selection_strategy where
  "SelectionStrategyRoundRobin \<equiv> ''round_robin''"
abbreviation SelectionStrategyRandom :: selection_strategy where
  "SelectionStrategyRandom \<equiv> ''random''"
abbreviation SelectionStrategyLeastLoaded :: selection_strategy where
  "SelectionStrategyLeastLoaded \<equiv> ''least_loaded''"
abbreviation SelectionStrategyAdaptive :: selection_strategy where
  "SelectionStrategyAdaptive \<equiv> ''adaptive''"

definition strategy_IsValid :: "selection_strategy \<Rightarrow> bool" where
  "strategy_IsValid s \<longleftrightarrow>
     s = SelectionStrategyPriorityOnly \<or> s = SelectionStrategyRoundRobin \<or>
     s = SelectionStrategyRandom \<or> s = SelectionStrategyLeastLoaded \<or>
     s = SelectionStrategyAdaptive"

subsection \<open>Chain configuration\<close>

record retry_policy =
  rp_Enabled :: bool
  rp_MaxAttempts :: int
  rp_InitialDelay :: duration
  rp_MaxDelay :: duration
  rp_BackoffMultiplier :: real
  rp_Jitter :: bool

record rate_limit_config =
  rl_Enabled :: bool
  rl_MaxRequests :: int
  rl_Window :: duration
  rl_BurstSize :: int

record circuit_breaker_config =
  cb_Enabled :: bool
  cb_FailureThreshold :: int
  cb_SuccessThreshold :: int
  cb_Timeout :: duration
  cb_HalfOpenMaxCalls :: int
  cb_RecoveryWindowDuration :: duration

record health_check_config =
  hc_Enabled :: bool
  hc_Interval :: duration
  hc_Timeout :: duration
  hc_UnhealthyThreshold :: int
  hc_HealthyThreshold :: int

record chain_config =
  cc_Name :: string
  cc_RetryPolicy :: retry_policy
  cc_CircuitBreaker :: circuit_breaker_config
  cc_RateLimit :: rate_limit_config
  cc_Timeout :: duration
  cc_MaxConcurrency :: int
  cc_HealthCheck :: health_check_config
  cc_SelectionStrategy :: selection_strategy

definition DefaultChainConfig :: "provider_chain_type \<Rightarrow> chain_config" where
  "DefaultChainConfig chainType =
     \<lparr>cc_Name = chain_type_String chainType,
      cc_RetryPolicy =
        \<lparr>rp_Enabled = True, rp_MaxAttempts = 3, rp_InitialDelay = 100 * millisecond,
         rp_MaxDelay = 5 * second, rp_BackoffMultiplier = 2, rp_Jitter = True\<rparr>,
      cc_CircuitBreaker =
        \<lparr>cb_Enabled = True, cb_FailureThreshold = 5, cb_SuccessThreshold = 3,
         cb_Timeout = 30 * second, cb_HalfOpenMaxCalls = 3,
         cb_RecoveryWindowDuration = 60 * second\<rparr>,
      cc_RateLimit =
        \<lparr>rl_Enabled = False, rl_MaxRequests = 100, rl_Window = 1 * minute, rl_BurstSize = 0\<rparr>,
      cc_Timeout = 30 * second, cc_MaxConcurrency = 10,
      cc_HealthCheck =
        \<lparr>hc_Enabled = False, hc_Interval = 60 * second, hc_Timeout = 5 * second,
         hc_UnhealthyThreshold = 3, hc_HealthyThreshold = 2\<rparr>,
      cc_SelectionStrategy = SelectionStrategyPriorityOnly\<rparr>"

text \<open>A registered provider; \<open>'p\<close> is the type of the provider values.\<close>

record 'p provider_config =
  prv_Provider :: 'p
  prv_Priority :: int
  prv_Name :: string

subsection \<open>The context of an operation\<close>

record operation_metadata =
  om_Operation :: string
  om_Address :: string
  om_Network :: string
  om_Touchpoint :: string
  om_Extra :: "string \<rightharpoonup> string"

text \<open>
  The values that the SDK stores in a context: the pinned provider, the call-site metadata and
  whether a debug accumulator is attached.
\<close>

record op_context =
  cx_ProviderName :: "string option"
  cx_Metadata :: "operation_metadata option"
  cx_Debug :: bool

definition Background :: op_context where
  "Background = \<lparr>cx_ProviderName = None, cx_Metadata = None, cx_Debug = False\<rparr>"

definition WithProviderName :: "op_context \<Rightarrow> string \<Rightarrow> op_context" where
  "WithProviderName ctx providerName = ctx\<lparr>cx_ProviderName := Some providerName\<rparr>"

definition GetProviderName :: "op_context \<Rightarrow> string option" where
  "GetProviderName ctx = cx_ProviderName ctx"

definition WithOperationMetadata :: "op_context \<Rightarrow> operation_metadata \<Rightarrow> op_context" where
  "WithOperationMetadata ctx meta = ctx\<lparr>cx_Metadata := Some meta\<rparr>"

definition extractOperationMetadata :: "op_context \<Rightarrow> operation_metadata option" where
  "extractOperationMetadata ctx = cx_Metadata ctx"

definition WithDebugContext :: "op_context \<Rightarrow> op_context" where
  "WithDebugContext ctx = ctx\<lparr>cx_Debug := True\<rparr>"

text \<open>The metadata map that a failure event carries; entries of \<open>Extra\<close> win.\<close>

definition metadata_map :: "operation_metadata \<Rightarrow> any_metadata" where
  "metadata_map m =
     [''operation'' \<mapsto> AnyString (om_Operation m), ''address'' \<mapsto> AnyString (om_Address m),
      ''network'' \<mapsto> AnyString (om_Network m), ''touchpoint'' \<mapsto> AnyString (om_Touchpoint m)] ++
     (\<lambda>k. map_option AnyString (om_Extra m k))"

end
