(* ===== verification/Selection.thy ===== *)
theory Selection
  imports Engine Chain_Config
begin

text \<open>
  \<open>selection_strategy.go\<close>: the five selection strategies. A selector carries its own mutable
  state (the round-robin indexes, the load statistics); the failure tracker and the scoring
  engine that some of them point to are passed in. The random numbers are an argument: the
  draw for position \<open>i\<close> of the group of priority \<open>p\<close> is \<open>draw p i\<close>, reduced to the range that
  \<open>Intn\<close> guarantees.
\<close>

record failure_info =
  fi_ConsecutiveFailures :: int
  fi_LastFailureTime :: gotime
  fi_IsTemporarilyDown :: bool
  fi_TotalFailures :: int
  fi_TotalSuccesses :: int
  fi_LastRetryAttempt :: gotime
  fi_RetryCount :: int
  fi_ConsecutiveAuthFailures :: int

definition zero_failure_info :: failure_info where
  "zero_failure_info =
     \<lparr>fi_ConsecutiveFailures = 0, fi_LastFailureTime = 0, fi_IsTemporarilyDown = False,
      fi_TotalFailures = 0, fi_TotalSuccesses = 0, fi_LastRetryAttempt = 0, fi_RetryCount = 0,
      fi_ConsecutiveAuthFailures = 0\<rparr>"

type_synonym failure_map = "string \<rightharpoonup> failure_info"

datatype selector =
    PriorityOnlySelector
  | RoundRobinSelector "int \<Rightarrow> nat"
  | RandomSelector
  | LeastLoadedSelector "string \<rightharpoonup> int"
  | AdaptiveSelector

subsection \<open>Grouping by priority\<close>

text \<open>The priorities in the order of their first occurrence, then sorted.\<close>

definition add_new :: "int \<Rightarrow> int list \<Rightarrow> int list" where
  "add_new p ps = (if p \<in> set ps then ps else ps @ [p])"

definition group_priorities :: "'p provider_config list \<Rightarrow> int list" where
  "group_priorities available = sort (fold (\<lambda>c. add_new (prv_Priority c)) available [])"

definition priority_group :: "'p provider_config list \<Rightarrow> int \<Rightarrow> 'p provider_config list" where
  "priority_group available p = filter (\<lambda>c. prv_Priority c = p) available"

definition by_priority ::
  "(int \<Rightarrow> 'p provider_config list \<Rightarrow> 'p provider_config list) \<Rightarrow>
   'p provider_config list \<Rightarrow> 'p provider_config list" where
  "by_priority arrange available =
     concat (map (\<lambda>p. let g = priority_group available p
                      in if length g = 1 then g else arrange p g)
                 (group_priorities available))"

subsection \<open>The strategies\<close>

definition rotated :: "nat \<Rightarrow> 'a list \<Rightarrow> 'a list" where
  "rotated currentIndex grp =
     map (\<lambda>i. grp ! ((currentIndex + i) mod length grp)) [0..<length grp]"

definition rr_arrange :: "(int \<Rightarrow> nat) \<Rightarrow> int \<Rightarrow> 'a list \<Rightarrow> 'a list" where
  "rr_arrange idx p grp = rotated (idx p mod length grp) grp"

definition swap :: "nat \<Rightarrow> nat \<Rightarrow> 'a list \<Rightarrow> 'a list" where
  "swap i j xs = xs[i := xs ! j, j := xs ! i]"

primrec shuffle_down :: "(nat \<Rightarrow> nat) \<Rightarrow> nat \<Rightarrow> 'a list \<Rightarrow> 'a list" where
  "shuffle_down draw 0 xs = xs"
| "shuffle_down draw (Suc i) xs =
     shuffle_down draw i (swap (Suc i) (draw (Suc i) mod (Suc i + 1)) xs)"

definition shuffled :: "(int \<Rightarrow> nat \<Rightarrow> nat) \<Rightarrow> int \<Rightarrow> 'a list \<Rightarrow> 'a list" where
  "shuffled draw p grp = shuffle_down (draw p) (length grp - 1) grp"

definition getLoadScore :: "(string \<rightharpoonup> int) \<Rightarrow> failure_map \<Rightarrow> string \<Rightarrow> real" where
  "getLoadScore providerStats ft providerName =
     (case providerStats providerName of None \<Rightarrow> 0 | Some n \<Rightarrow> real_of_int n * 10) +
     (case ft providerName of
        None \<Rightarrow> 0
      | Some f \<Rightarrow>
          (let tot = fi_TotalSuccesses f + fi_TotalFailures f
           in if tot > 0 then real_of_int (fi_TotalFailures f) / real_of_int tot * 100 else 0) +
          real_of_int (fi_ConsecutiveFailures f) * 50)"

definition least_loaded ::
  "(string \<rightharpoonup> int) \<Rightarrow> failure_map \<Rightarrow> 'p provider_config list \<Rightarrow> 'p provider_config list" where
  "least_loaded st ft grp =
     exchange_sort (\<lambda>a b. getLoadScore st ft (prv_Name a) > getLoadScore st ft (prv_Name b)) grp"

definition adaptive_sort :: "engine \<Rightarrow> 'p provider_config list \<Rightarrow> 'p provider_config list" where
  "adaptive_sort e available =
     exchange_sort (\<lambda>a b. GetEffectiveScore (prv_Name a) e < GetEffectiveScore (prv_Name b) e) available"

record select_env =
  sn_failures :: failure_map
  sn_engine :: engine
  sn_draw :: "int \<Rightarrow> nat \<Rightarrow> nat"

fun SelectProviders ::
  "select_env \<Rightarrow> selector \<Rightarrow> 'p provider_config list \<Rightarrow> 'p provider_config list" where
  "SelectProviders env PriorityOnlySelector available = available"
| "SelectProviders env (RoundRobinSelector idx) available = by_priority (rr_arrange idx) available"
| "SelectProviders env RandomSelector available = by_priority (shuffled (sn_draw env)) available"
| "SelectProviders env (LeastLoadedSelector st) available =
     by_priority (\<lambda>p. least_loaded st (sn_failures env)) available"
| "SelectProviders env AdaptiveSelector available = adaptive_sort (sn_engine env) available"

fun RecordAttempt :: "string \<Rightarrow> int \<Rightarrow> selector \<Rightarrow> selector" where
  "RecordAttempt providerName priority (RoundRobinSelector idx) =
     RoundRobinSelector (idx(priority := idx priority + 1))"
| "RecordAttempt providerName priority s = s"

text \<open>\<open>Reset\<close>; the adaptive selector resets the engine that it points to.\<close>

fun selector_Reset :: "(string \<Rightarrow> gotime) \<Rightarrow> selector \<times> engine \<Rightarrow> selector \<times> engine" where
  "selector_Reset clock (RoundRobinSelector idx, e) = (RoundRobinSelector (\<lambda>_. 0), e)"
| "selector_Reset clock (LeastLoadedSelector st, e) = (LeastLoadedSelector Map.empty, e)"
| "selector_Reset clock (AdaptiveSelector, e) = (AdaptiveSelector, engine_Reset clock e)"
| "selector_Reset clock (s, e) = (s, e)"

definition newSelectionStrategy :: "selection_strategy \<Rightarrow> goerror + selector" where
  "newSelectionStrategy strategy =
     (if strategy = SelectionStrategyPriorityOnly then Inr PriorityOnlySelector
      else if strategy = SelectionStrategyRoundRobin then Inr (RoundRobinSelector (\<lambda>_. 0))
      else if strategy = SelectionStrategyRandom then Inr RandomSelector
      else if strategy = SelectionStrategyLeastLoaded then Inr (LeastLoadedSelector Map.empty)
      else if strategy = SelectionStrategyAdaptive then Inr PriorityOnlySelector
      else Inl (Errorf (''unknown selection strategy: '' @ strategy)))"

subsection \<open>Every strategy permutes\<close>

lemma set_fold_add_new:
  "set (fold (\<lambda>c. add_new (prv_Priority c)) cs ps) = set ps \<union> prv_Priority ` set cs"
  by (induction cs arbitrary: ps) (auto simp: add_new_def)

lemma distinct_fold_add_new:
  "distinct ps \<Longrightarrow> distinct (fold (\<lambda>c. add_new (prv_Priority c)) cs ps)"
  by (induction cs arbitrary: ps) (auto simp: add_new_def)

lemma set_group_priorities [simp]: "set (group_priorities cs) = prv_Priority ` set cs"
  by (simp add: group_priorities_def set_fold_add_new)

lemma distinct_group_priorities [simp]: "distinct (group_priorities cs)"
  by (simp add: group_priorities_def distinct_fold_add_new)

lemma sorted_group_priorities [simp]: "sorted (group_priorities cs)"
  by (simp add: group_priorities_def)

lemma mset_priority_groups:
  assumes "distinct ps" "prv_Priority ` set cs \<subseteq> set ps"
  shows "mset (concat (map (priority_group cs) ps)) = mset cs"
  using assms
proof (induction ps arbitrary: cs)
  case (Cons p ps)
  let ?rest = "filter (\<lambda>c. prv_Priority c \<noteq> p) cs"
  have eq: "map (priority_group cs) ps = map (priority_group ?rest) ps"
    using Cons.prems(1) by (auto simp: priority_group_def intro!: filter_cong)
  have IH: "mset (concat (map (priority_group ?rest) ps)) = mset ?rest"
    by (rule Cons.IH) (use Cons.prems in auto)
  have "mset (priority_group cs p) + mset ?rest = mset cs"
    by (simp add: priority_group_def)
  then show ?case unfolding list.map concat.simps mset_append eq IH .
qed simp

lemma mset_by_priority:
  assumes "\<And>p g. mset (arrange p g) = mset g"
  shows "mset (by_priority arrange cs) = mset cs"
proof -
  have "mset (by_priority arrange cs) = mset (concat (map (priority_group cs) (group_priorities cs)))"
    unfolding by_priority_def mset_concat map_map comp_def
    by (rule arg_cong [of _ _ sum_list], rule map_cong) (auto simp: assms Let_def)
  then show ?thesis using mset_priority_groups [of "group_priorities cs" cs] by simp
qed

lemma rotated_rotate: "rotated k xs = rotate k xs"
  by (cases "xs = []") (auto simp: rotated_def intro!: nth_equalityI simp: nth_rotate add.commute)

lemma mset_rotate_eq: "mset (rotate k xs) = mset xs"
proof (induction k)
  case (Suc k)
  have "mset (rotate1 ys) = mset ys" for ys :: "'a list" by (cases ys) simp_all
  then show ?case using Suc by simp
qed simp

lemma mset_rr_arrange: "mset (rr_arrange idx p g) = mset g"
  by (simp add: rr_arrange_def rotated_rotate mset_rotate_eq)

lemma mset_shuffle_down: "i < length xs \<or> i = 0 \<Longrightarrow> mset (shuffle_down draw i xs) = mset xs"
proof (induction i arbitrary: xs)
  case (Suc i)
  let ?j = "draw (Suc i) mod (Suc i + 1)"
  have "?j < Suc i + 1" by simp
  then have j: "?j < length xs" using Suc.prems by linarith
  then have "mset (swap (Suc i) ?j xs) = mset xs"
    using Suc.prems by (simp add: swap_def mset_swap)
  moreover have "i < length (swap (Suc i) ?j xs) \<or> i = 0" using Suc.prems by (simp add: swap_def)
  ultimately show ?case using Suc.IH [of "swap (Suc i) ?j xs"] by simp
qed simp

lemma mset_shuffled: "mset (shuffled draw p g) = mset g"
  by (cases g) (simp_all add: shuffled_def mset_shuffle_down)

lemma mset_least_loaded: "mset (least_loaded st ft g) = mset g"
  by (simp add: least_loaded_def)

text \<open>What the manager relies on: a selection drops, duplicates and invents no provider.\<close>

locale provider_order =
  fixes select :: "'p provider_config list \<Rightarrow> 'p provider_config list"
  assumes select_mset: "mset (select xs) = mset xs"
begin

lemma select_set [simp]: "set (select xs) = set xs"
  using select_mset [of xs] by (metis set_mset_mset)

lemma select_length [simp]: "length (select xs) = length xs"
  using select_mset [of xs] by (metis size_mset)

lemma select_Nil [simp]: "select xs = [] \<longleftrightarrow> xs = []"
  using select_length [of xs] by (metis length_0_conv)

end

interpretation strategy: provider_order "SelectProviders env s" for env s
  by unfold_locales
     (cases s; simp add: mset_by_priority mset_rr_arrange mset_shuffled mset_least_loaded adaptive_sort_def)

subsection \<open>The order of a selection\<close>

lemma sorted_concat_groups:
  assumes "sorted ps" "\<And>p. p \<in> set ps \<Longrightarrow> \<forall>c \<in> set (f p). prv_Priority c = p"
  shows "sorted (map prv_Priority (concat (map f ps)))"
  using assms
proof (induction ps)
  case (Cons p ps)
  have "map prv_Priority (f p) = map (\<lambda>_. p) (f p)"
    using Cons.prems(2) [of p] by (intro map_cong) auto
  then have "sorted (map prv_Priority (f p))" by (simp add: map_replicate_const sorted_replicate)
  moreover have "sorted (map prv_Priority (concat (map f ps)))"
    by (rule Cons.IH) (use Cons.prems in auto)
  moreover have "\<forall>x \<in> set (map prv_Priority (f p)). \<forall>y \<in> set (map prv_Priority (concat (map f ps))). x \<le> y"
    using Cons.prems by fastforce
  ultimately show ?case by (simp add: sorted_append)
qed simp

lemma sorted_by_priority:
  assumes "\<And>p g. mset (arrange p g) = mset g"
  shows "sorted (map prv_Priority (by_priority arrange cs))"
  unfolding by_priority_def
proof (rule sorted_concat_groups)
  fix p
  have "set (arrange p g) = set g" for g using assms [of p g] by (metis set_mset_mset)
  then show "\<forall>c \<in> set (let g = priority_group cs p in if length g = 1 then g else arrange p g).
      prv_Priority c = p"
    by (simp add: priority_group_def Let_def)
qed simp

text \<open>The providers of one priority in the result are the arranged group.\<close>

lemma group_of_concat:
  assumes "distinct ps" "\<And>q. q \<in> set ps \<Longrightarrow> \<forall>c \<in> set (f q). prv_Priority c = q"
  shows "priority_group (concat (map f ps)) p = (if p \<in> set ps then f p else [])"
  using assms
proof (induction ps)
  case (Cons q ps)
  have "priority_group (f q) p = (if q = p then f q else [])"
    using Cons.prems(2) [of q] by (auto simp: priority_group_def filter_id_conv filter_empty_conv)
  moreover have "priority_group (concat (map f ps)) p = (if p \<in> set ps then f p else [])"
    by (rule Cons.IH) (use Cons.prems in auto)
  ultimately show ?case using Cons.prems(1) by (auto simp: priority_group_def)
qed (simp add: priority_group_def)

lemma group_by_priority:
  assumes "\<And>p g. mset (arrange p g) = mset g"
  shows "priority_group (by_priority arrange cs) p =
     (let g = priority_group cs p in if length g = 1 then g else arrange p g)"
proof -
  have s: "set (arrange q g) = set g" for q g using assms [of q g] by (metis set_mset_mset)
  have e: "arrange q [] = []" for q using assms [of q "[]"] by simp
  have "p \<notin> prv_Priority ` set cs \<Longrightarrow> priority_group cs p = []"
    by (auto simp: priority_group_def filter_empty_conv)
  then show ?thesis
    unfolding by_priority_def
    by (subst group_of_concat) (auto simp: s e Let_def, auto simp: priority_group_def)
qed

lemma sorted_least_loaded:
  "sorted_wrt (\<lambda>a b. getLoadScore st ft (prv_Name a) \<le> getLoadScore st ft (prv_Name b))
     (least_loaded st ft g)"
proof -
  let ?f = "\<lambda>c. - getLoadScore st ft (prv_Name c)"
  have "sorted_wrt (\<lambda>a b. \<not> ?f a < ?f b) (exchange_sort (\<lambda>a b. ?f a < ?f b) g)"
    by (rule key_desc.exchange_sort_sorted [of ?f])
  then show ?thesis by (simp add: least_loaded_def not_less)
qed

text \<open>Every arrangement of a group is the result of some draws of the shuffle.\<close>

lemma shuffle_down_cong:
  "(\<And>j. j \<le> i \<Longrightarrow> d j = d' j) \<Longrightarrow> shuffle_down d i xs = shuffle_down d' i xs"
  by (induction i arbitrary: xs) auto

lemma shuffle_down_surj:
  assumes "i < length xs" "mset ys = mset xs" "\<And>k. i < k \<Longrightarrow> k < length xs \<Longrightarrow> ys ! k = xs ! k"
  shows "\<exists>draw. shuffle_down draw i xs = ys"
  using assms
proof (induction i arbitrary: xs)
  case 0
  have l: "length ys = length xs" using 0(2) by (metis size_mset)
  obtain x xs' where xs: "xs = x # xs'" using 0(1) by (cases xs) auto
  then obtain y ys' where ys: "ys = y # ys'" using l by (cases ys) auto
  have "ys' = xs'" using 0(3) l xs ys by (intro nth_equalityI) force+
  then show ?case using 0(2) xs ys by simp
next
  case (Suc i)
  have l: "length ys = length xs" using Suc.prems(2) by (metis size_mset)
  have "drop (Suc (Suc i)) ys = drop (Suc (Suc i)) xs"
    using Suc.prems(3) l by (intro nth_equalityI) auto
  then have "mset (take (Suc (Suc i)) ys) = mset (take (Suc (Suc i)) xs)"
    using Suc.prems(2) by (metis add_right_cancel append_take_drop_id mset_append)
  moreover have "ys ! Suc i \<in> set (take (Suc (Suc i)) ys)"
    using Suc.prems(1) l by (simp add: take_Suc_conv_app_nth)
  ultimately obtain j where j: "j < Suc (Suc i)" "xs ! j = ys ! Suc i"
    by (metis (no_types, lifting) in_set_conv_nth length_take min_less_iff_conj nth_take set_mset_mset)
  let ?xs = "swap (Suc i) j xs"
  have jl: "j < length xs" using j(1) Suc.prems(1) by linarith
  have "\<exists>draw. shuffle_down draw i ?xs = ys"
  proof (rule Suc.IH)
    show "mset ys = mset ?xs" using Suc.prems(1,2) jl by (simp add: swap_def mset_swap)
    show "ys ! k = ?xs ! k" if "i < k" "k < length ?xs" for k
      using that Suc.prems(1,3) j jl by (cases "k = Suc i") (auto simp: swap_def nth_list_update)
  qed (use Suc.prems(1) in \<open>simp add: swap_def\<close>)
  then obtain draw where d: "shuffle_down draw i ?xs = ys" ..
  have "shuffle_down (draw(Suc i := j)) (Suc i) xs = ys"
    using j(1) d shuffle_down_cong [of i "draw(Suc i := j)" draw ?xs] by simp
  then show ?case by blast
qed

lemma shuffled_surj:
  assumes "mset ys = mset g"
  shows "\<exists>draw. \<forall>d. d p = draw \<longrightarrow> shuffled d p g = ys"
proof (cases "g = []")
  case False
  then have "\<exists>draw. shuffle_down draw (length g - 1) g = ys"
    by (intro shuffle_down_surj assms) auto
  then show ?thesis by (auto simp: shuffled_def)
qed (use assms in \<open>simp add: shuffled_def\<close>)

text \<open>
  C7: Every strategy returns the available providers, each exactly once. Priority-only keeps the
  order it is given, and adaptive selection orders by falling effective score. Round-robin,
  random and least-loaded selection never put a provider before one of a higher priority (a
  lower number); and the providers of one priority are, for round-robin, the group rotated by
  its index, for least-loaded, sorted by rising load score, and for random, any arrangement of
  the group, each of which some draws give.
\<close>

theorem SelectProviders_order:
  "mset (SelectProviders env s available) = mset available \<and>
   (case s of
      PriorityOnlySelector \<Rightarrow> SelectProviders env s available = available
    | AdaptiveSelector \<Rightarrow>
        sorted_wrt (\<lambda>a b. GetEffectiveScore (prv_Name a) (sn_engine env) \<ge>
                         GetEffectiveScore (prv_Name b) (sn_engine env))
          (SelectProviders env s available)
    | _ \<Rightarrow> sorted (map prv_Priority (SelectProviders env s available)) \<and>
          (\<forall>p. let g = priority_group available p;
                   g' = priority_group (SelectProviders env s available) p
               in case s of
                    RoundRobinSelector idx \<Rightarrow> g' = rotate (idx p mod length g) g
                  | LeastLoadedSelector st \<Rightarrow>
                      mset g' = mset g \<and>
                      sorted_wrt (\<lambda>a b. getLoadScore st (sn_failures env) (prv_Name a) \<le>
                                       getLoadScore st (sn_failures env) (prv_Name b)) g'
                  | _ \<Rightarrow> {ys. \<exists>draw. priority_group
                            (SelectProviders (env\<lparr>sn_draw := draw\<rparr>) RandomSelector available) p = ys} =
                        {ys. mset ys = mset g}))"
proof (cases s)
  case AdaptiveSelector
  let ?f = "\<lambda>c. GetEffectiveScore (prv_Name c) (sn_engine env)"
  have "sorted_wrt (\<lambda>a b. \<not> ?f a < ?f b) (exchange_sort (\<lambda>a b. ?f a < ?f b) available)"
    by (rule key_desc.exchange_sort_sorted [of ?f])
  then have "sorted_wrt (\<lambda>a b. ?f b \<le> ?f a) (adaptive_sort (sn_engine env) available)"
    by (simp add: adaptive_sort_def not_less)
  with AdaptiveSelector strategy.select_mset [of env s available] show ?thesis by simp
next
  case (RoundRobinSelector idx)
  have "rr_arrange idx p g = rotate (idx p mod length g) g" "length g = 1 \<Longrightarrow> rotate k g = g"
    for p k and g :: "'a provider_config list"
    by (auto simp: rr_arrange_def rotated_rotate length_Suc_conv)
  with RoundRobinSelector strategy.select_mset [of env s available] show ?thesis
    by (simp add: sorted_by_priority [OF mset_rr_arrange] group_by_priority [OF mset_rr_arrange] Let_def)
next
  case (LeastLoadedSelector st)
  have "length g = 1 \<Longrightarrow> sorted_wrt r g" for r and g :: "'a provider_config list"
    by (auto simp: length_Suc_conv)
  with LeastLoadedSelector strategy.select_mset [of env s available] show ?thesis
    by (simp add: sorted_by_priority group_by_priority mset_least_loaded sorted_least_loaded Let_def)
next
  case RandomSelector
  have one: "length g = 1 \<Longrightarrow> mset ys = mset g \<Longrightarrow> ys = g" for ys g :: "'a provider_config list"
    by (auto simp: length_Suc_conv)
  have "\<exists>draw. shuffled draw p g = ys" if "mset ys = mset g" for p ys and g :: "'a provider_config list"
    using shuffled_surj [OF that, of p] by (metis fun_upd_same)
  with one RandomSelector strategy.select_mset [of env s available] show ?thesis
    by (auto simp: sorted_by_priority group_by_priority mset_shuffled Let_def)
qed (simp)

text \<open>The state of the round-robin selector after \<open>k\<close> recorded attempts at a priority.\<close>

lemma RecordAttempt_power:
  "(RecordAttempt n p ^^ k) (RoundRobinSelector idx) = RoundRobinSelector (idx(p := idx p + k))"
  by (induction k) auto

lemma hd_rr_arrange:
  "g \<noteq> [] \<Longrightarrow> hd (rr_arrange idx p g) = g ! (idx p mod length g)"
  by (simp add: rr_arrange_def rotated_rotate hd_rotate_conv_nth)

lemma by_priority_single:
  assumes "\<forall>c \<in> set g. prv_Priority c = p" "g \<noteq> []"
  shows "by_priority (rr_arrange idx) g = rr_arrange idx p g"
proof -
  have "prv_Priority ` set g = {p}" using assms by (cases g) auto
  then have "group_priorities g = [p]"
    using sorted_distinct_set_unique [of "group_priorities g" "[p]"] by simp
  moreover have "priority_group g p = g" using assms(1) by (simp add: priority_group_def)
  moreover have "rr_arrange idx p g = g" if "length g = 1"
    using that by (auto simp: rr_arrange_def rotated_rotate length_Suc_conv)
  ultimately show ?thesis by (auto simp: by_priority_def Let_def)
qed

lemma mset_window: "n = length g \<Longrightarrow> mset (map (\<lambda>k. g ! ((i + k) mod n)) [0..<n]) = mset g"
  using mset_rotate_eq [of i g] unfolding rotated_rotate [symmetric] rotated_def by simp

text \<open>
  C8: Round-robin is fair. While the same group of equal-priority providers is available and
  each operation succeeds, over as many consecutive operations as there are providers every
  provider is tried first exactly once, whatever the index starts from.
\<close>

theorem round_robin_fair:
  assumes "\<forall>c \<in> set g. prv_Priority c = p" "g \<noteq> []"
  shows "mset (map (\<lambda>k. hd (SelectProviders env
              ((RecordAttempt n p ^^ k) (RoundRobinSelector idx)) g)) [0..<length g]) = mset g"
proof -
  have "hd (SelectProviders env ((RecordAttempt n p ^^ k) (RoundRobinSelector idx)) g) =
      g ! ((idx p + k) mod length g)" for k
    using assms(2) by (simp add: RecordAttempt_power by_priority_single [OF assms] hd_rr_arrange)
  then show ?thesis using mset_window [of "length g" g "idx p"] by simp
qed

theorem round_robin_fair_witness:
  "let a = \<lparr>prv_Provider = (), prv_Priority = 1, prv_Name = ''a''\<rparr>;
       b = \<lparr>prv_Provider = (), prv_Priority = 1, prv_Name = ''b''\<rparr>;
       env = \<lparr>sn_failures = Map.empty, sn_engine = snd (NewEngine (memory_ops sorted_keys) NewMemoryStore []),
              sn_draw = \<lambda>_ _. 0\<rparr>
   in mset (map (\<lambda>k. hd (SelectProviders env
        ((RecordAttempt ''x'' 1 ^^ k) (RoundRobinSelector (\<lambda>_. 5))) [a, b])) [0..<2]) = {#a, b#}"
  using round_robin_fair [of "[\<lparr>prv_Provider = (), prv_Priority = 1, prv_Name = ''a''\<rparr>,
      \<lparr>prv_Provider = (), prv_Priority = 1, prv_Name = ''b''\<rparr>]" 1
      "\<lparr>sn_failures = Map.empty, sn_engine = snd (NewEngine (memory_ops sorted_keys) NewMemoryStore []),
              sn_draw = \<lambda>_ _. 0\<rparr>" "''x''" "\<lambda>_. 5"]
  by (simp add: Let_def numeral_2_eq_2)

end
