(* ===== verification/Rate_Limit.thy ===== *)
theory Rate_Limit
  imports Chain_Config
begin

text \<open>
  The rate limiter of \<open>manager.go\<close>: a sliding window of request times and a bucket of burst
  tokens. Integer division by zero panics in Go, so the admission test has an outcome.
\<close>

record rate_limit_state =
  rs_RequestTimes :: "gotime list"
  rs_BurstTokens :: int
  rs_LastRefill :: gotime

definition newRateLimitState :: "int \<Rightarrow> gotime \<Rightarrow> rate_limit_state" where
  "newRateLimitState burstSize now =
     \<lparr>rs_RequestTimes = [], rs_BurstTokens = burstSize, rs_LastRefill = now\<rparr>"

definition minInt :: "int \<Rightarrow> int \<Rightarrow> int" where
  "minInt a b = (if a < b then a else b)"

definition CanMakeRequest ::
  "rate_limit_config \<Rightarrow> gotime \<Rightarrow> rate_limit_state \<Rightarrow> (rate_limit_state \<times> bool) outcome" where
  "CanMakeRequest config now rls =
     (if \<not> rl_Enabled config then Returns (rls, True)
      else
        let windowStart = now - rl_Window config;
            rls1 = rls\<lparr>rs_RequestTimes := filter (\<lambda>reqTime. reqTime > windowStart) (rs_RequestTimes rls)\<rparr>
        in if int (length (rs_RequestTimes rls1)) < rl_MaxRequests config then Returns (rls1, True)
           else if rl_BurstSize config > 0 then
             (if rl_MaxRequests config = 0 then Panics
              else
                let timeSinceRefill = now - rs_LastRefill rls1;
                    refillInterval = go_quot (rl_Window config) (rl_MaxRequests config)
                in if refillInterval = 0 then Panics
                   else
                     let tokensToAdd = go_quot timeSinceRefill refillInterval;
                         rls2 = (if tokensToAdd > 0
                                 then rls1\<lparr>rs_BurstTokens :=
                                             minInt (rs_BurstTokens rls1 + tokensToAdd) (rl_BurstSize config),
                                           rs_LastRefill := now\<rparr>
                                 else rls1)
                     in if rs_BurstTokens rls2 > 0
                        then Returns (rls2\<lparr>rs_BurstTokens := rs_BurstTokens rls2 - 1\<rparr>, True)
                        else Returns (rls2, False))
           else Returns (rls1, False))"

definition RecordRequest :: "rate_limit_config \<Rightarrow> gotime \<Rightarrow> rate_limit_state \<Rightarrow> rate_limit_state" where
  "RecordRequest config now rls =
     (if \<not> rl_Enabled config then rls
      else rls\<lparr>rs_RequestTimes := rs_RequestTimes rls @ [now]\<rparr>)"

subsection \<open>The window is respected\<close>

text \<open>
  The limiter of one provider as the manager uses it, with a monotone clock and one
  configuration: an operation tests it when it reads the available providers, and records a
  request only when its call has succeeded; a failed call, and a call that is not made, leave no
  record. \<open>A\<close> are the times recorded so far and \<open>P\<close> is the number of admitted operations that
  have not finished; no more than \<open>K\<close> operations run at once.
\<close>

inductive limiter_reach ::
  "rate_limit_config \<Rightarrow> nat \<Rightarrow> gotime list \<Rightarrow> nat \<Rightarrow> gotime \<Rightarrow> rate_limit_state \<Rightarrow> bool" for c K where
  start: "limiter_reach c K [] 0 t0 (newRateLimitState b t0)"
| tested: "limiter_reach c K A P now rls \<Longrightarrow> now \<le> t \<Longrightarrow> P < K \<Longrightarrow>
     CanMakeRequest c t rls = Returns (rls', ok) \<Longrightarrow>
     limiter_reach c K A (if ok then Suc P else P) t rls'"
| succeeded: "limiter_reach c K A (Suc P) now rls \<Longrightarrow> now \<le> t \<Longrightarrow>
     limiter_reach c K (A @ [t]) P t (RecordRequest c t rls)"
| failed: "limiter_reach c K A (Suc P) now rls \<Longrightarrow> now \<le> t \<Longrightarrow> limiter_reach c K A P t rls"

definition in_window :: "duration \<Rightarrow> gotime \<Rightarrow> gotime list \<Rightarrow> gotime list" where
  "in_window W t xs = filter (\<lambda>x. t - W < x \<and> x \<le> t) xs"

text \<open>The state still knows the records of the last window.\<close>

definition tracks :: "duration \<Rightarrow> gotime \<Rightarrow> gotime list \<Rightarrow> rate_limit_state \<Rightarrow> bool" where
  "tracks W now A rls \<longleftrightarrow>
     filter (\<lambda>x. now - W < x) (rs_RequestTimes rls) = filter (\<lambda>x. now - W < x) A \<and>
     (\<forall>x \<in> set A. x \<le> now)"

lemma tracks_later:
  assumes "tracks W now A rls" "now \<le> t"
  shows "tracks W t A rls"
proof -
  have "filter (\<lambda>x. t - W < x) ys = filter (\<lambda>x. t - W < x) (filter (\<lambda>x. now - W < x) ys)" for ys
    using assms(2) by (auto intro: filter_cong)
  then show ?thesis using assms unfolding tracks_def by (metis order_trans)
qed

lemma CanMakeRequest_no_burst:
  assumes "rl_Enabled c" "rl_BurstSize c \<le> 0"
  shows "CanMakeRequest c t rls =
    (let rs = filter (\<lambda>x. x > t - rl_Window c) (rs_RequestTimes rls)
     in Returns (rls\<lparr>rs_RequestTimes := rs\<rparr>, int (length rs) < rl_MaxRequests c))"
  using assms by (simp add: CanMakeRequest_def Let_def)

definition window_ok :: "rate_limit_config \<Rightarrow> nat \<Rightarrow> gotime list \<Rightarrow> nat \<Rightarrow> gotime \<Rightarrow> bool" where
  "window_ok c K A P now \<longleftrightarrow>
     int (length (filter (\<lambda>x. now - rl_Window c < x) A) + P) < rl_MaxRequests c + int K \<and>
     (\<forall>t. int (length (in_window (rl_Window c) t A)) < rl_MaxRequests c + int K)"

lemma filter_later_length:
  "now \<le> (t :: int) \<Longrightarrow> length (filter (\<lambda>x. t - W < x) A) \<le> length (filter (\<lambda>x. now - W < x) A)"
  by (induction A) auto

lemma window_ok_later: "window_ok c K A P now \<Longrightarrow> now \<le> t \<Longrightarrow> window_ok c K A P t"
  using filter_later_length [of now t "rl_Window c" A] by (auto simp: window_ok_def)

lemma window_ok_record:
  assumes "window_ok c K A (Suc P) now"
  shows "window_ok c K (A @ [now]) P now"
proof -
  let ?W = "rl_Window c"
  have "int (length (in_window ?W t (A @ [now]))) < rl_MaxRequests c + int K" for t
  proof (cases "now \<le> t")
    case True
    have "length (in_window ?W t (A @ [now])) \<le> Suc (length (filter (\<lambda>x. now - ?W < x) A))"
      using True unfolding in_window_def by (induction A) auto
    then show ?thesis using assms by (simp add: window_ok_def)
  qed (use assms in \<open>simp add: window_ok_def in_window_def\<close>)
  moreover have "length (filter (\<lambda>x. now - ?W < x) (A @ [now])) + P \<le>
      length (filter (\<lambda>x. now - ?W < x) A) + Suc P" by simp
  ultimately show ?thesis using assms unfolding window_ok_def by (simp add: algebra_simps)
qed

lemma limiter_invariant:
  assumes "limiter_reach c K A P now rls" "rl_Enabled c" "rl_BurstSize c \<le> 0" "0 < K" "0 \<le> rl_MaxRequests c"
  shows "tracks (rl_Window c) now A rls \<and> window_ok c K A P now"
  using assms
proof (induction rule: limiter_reach.induct)
  case (start t0 b)
  then show ?case by (simp add: tracks_def window_ok_def newRateLimitState_def in_window_def)
next
  case (tested A P now rls t rls' ok)
  let ?rs = "filter (\<lambda>x. x > t - rl_Window c) (rs_RequestTimes rls)"
  have tr: "tracks (rl_Window c) t A rls" and w: "window_ok c K A P t"
    using tested by (auto intro: tracks_later window_ok_later)
  have r: "rls' = rls\<lparr>rs_RequestTimes := ?rs\<rparr>" "ok \<longleftrightarrow> int (length ?rs) < rl_MaxRequests c"
    using tested.hyps(4) CanMakeRequest_no_burst [OF tested.prems(1,2), of t rls] by (auto simp: Let_def)
  have "?rs = filter (\<lambda>x. t - rl_Window c < x) A" using tr by (simp add: tracks_def)
  then show ?case using tr w r tested.hyps(3) by (auto simp: tracks_def window_ok_def)
next
  case (succeeded A P now rls t)
  then have "tracks (rl_Window c) t A rls" "window_ok c K (A @ [t]) P t"
    by (auto intro: tracks_later window_ok_later window_ok_record)
  then show ?case using succeeded.prems(1) by (auto simp: tracks_def RecordRequest_def)
next
  case (failed A P now rls t)
  then have "tracks (rl_Window c) t A rls" "window_ok c K A (Suc P) t"
    by (auto intro: tracks_later window_ok_later)
  then show ?case by (auto simp: window_ok_def)
qed

text \<open>
  C9: The sliding window, under one configuration whose \<open>BurstSize\<close> is not positive. When at
  most \<open>K\<close> operations use the provider at once and the clock is monotone, no time window of the
  configured length contains \<open>MaxRequests + K\<close> or more recorded requests, which are the
  successful ones; operations one after the other (\<open>K = 1\<close>) never exceed \<open>MaxRequests\<close>. The
  admission test then never panics, and it refuses exactly when the window before it holds
  \<open>MaxRequests\<close> recorded requests.
\<close>

theorem rate_limit_window:
  assumes "limiter_reach c K A P now rls" "rl_Enabled c" "rl_BurstSize c \<le> 0"
    and "0 \<le> rl_MaxRequests c" "0 < K"
  shows "(\<forall>t. int (length (in_window (rl_Window c) t A)) < rl_MaxRequests c + int K) \<and>
    (\<forall>t. now \<le> t \<longrightarrow> (\<exists>rls'. CanMakeRequest c t rls =
        Returns (rls', int (length (in_window (rl_Window c) t A)) < rl_MaxRequests c)))"
proof -
  note inv = limiter_invariant [OF assms(1-3,5,4)]
  have "\<exists>rls'. CanMakeRequest c t rls =
      Returns (rls', int (length (in_window (rl_Window c) t A)) < rl_MaxRequests c)" if "now \<le> t" for t
  proof -
    have tr: "tracks (rl_Window c) t A rls" using inv tracks_later that by blast
    then have "in_window (rl_Window c) t A = filter (\<lambda>x. x > t - rl_Window c) (rs_RequestTimes rls)"
      by (auto simp: tracks_def in_window_def intro: filter_cong)
    then show ?thesis by (simp add: CanMakeRequest_no_burst [OF assms(2,3)] Let_def)
  qed
  then show ?thesis using inv by (simp add: window_ok_def)
qed

text \<open>Three operations, of which two overlap, with a quota of one request in ten ticks.\<close>

definition demo_limit :: rate_limit_config where
  "demo_limit = \<lparr>rl_Enabled = True, rl_MaxRequests = 1, rl_Window = 10, rl_BurstSize = 0\<rparr>"

lemma demo_limiter_reach:
  "limiter_reach demo_limit 2 [3, 4] 0 5 \<lparr>rs_RequestTimes = [3, 4], rs_BurstTokens = 0, rs_LastRefill = 0\<rparr>"
proof -
  let ?rls = "newRateLimitState 0 0"
  have c: "CanMakeRequest demo_limit t ?rls = Returns (?rls, True)" for t
    by (simp add: CanMakeRequest_def demo_limit_def newRateLimitState_def)
  have "limiter_reach demo_limit 2 [] (if True then Suc 0 else 0) 1 ?rls"
    by (rule limiter_reach.tested [OF limiter_reach.start _ _ c]) simp_all
  then have "limiter_reach demo_limit 2 [] (if True then Suc (Suc 0) else Suc 0) 2 ?rls"
    using limiter_reach.tested [OF _ _ _ c] by simp
  then have "limiter_reach demo_limit 2 ([] @ [3]) (Suc 0) 3 (RecordRequest demo_limit 3 ?rls)"
    using limiter_reach.succeeded [of demo_limit 2 "[]" "Suc 0" 2 ?rls 3] by simp
  then have 4: "limiter_reach demo_limit 2 ([3] @ [4]) 0 4
      (RecordRequest demo_limit 4 (RecordRequest demo_limit 3 ?rls))"
    using limiter_reach.succeeded [of demo_limit 2 "[3]" 0 3 "RecordRequest demo_limit 3 ?rls" 4] by simp
  have "CanMakeRequest demo_limit 5 (RecordRequest demo_limit 4 (RecordRequest demo_limit 3 ?rls)) =
      Returns (\<lparr>rs_RequestTimes = [3, 4], rs_BurstTokens = 0, rs_LastRefill = 0\<rparr>, False)"
    by (simp add: CanMakeRequest_def RecordRequest_def demo_limit_def newRateLimitState_def)
  from limiter_reach.tested [OF 4 _ _ this] show ?thesis by simp
qed

theorem rate_limit_window_witness:
  "(\<forall>t. length (in_window 10 t [3, 4]) < 3) \<and>
   (\<exists>rls'. CanMakeRequest demo_limit 13 \<lparr>rs_RequestTimes = [3, 4], rs_BurstTokens = 0, rs_LastRefill = 0\<rparr> =
      Returns (rls', False)) \<and>
   (\<exists>rls'. CanMakeRequest demo_limit 14 \<lparr>rs_RequestTimes = [3, 4], rs_BurstTokens = 0, rs_LastRefill = 0\<rparr> =
      Returns (rls', True))"
proof -
  let ?rls = "\<lparr>rs_RequestTimes = [3, 4], rs_BurstTokens = 0, rs_LastRefill = 0\<rparr>"
  have l: "\<forall>t. int (length (in_window 10 t [3, 4])) < 3"
    "\<forall>t. 5 \<le> t \<longrightarrow> (\<exists>rls'. CanMakeRequest demo_limit t ?rls =
        Returns (rls', int (length (in_window 10 t [3, 4])) < 1))"
    using rate_limit_window [OF demo_limiter_reach] by (simp_all add: demo_limit_def)
  show ?thesis
    using l(1) l(2) [rule_format, of 13] l(2) [rule_format, of 14] by (simp add: in_window_def)
qed

subsection \<open>A configuration that panics\<close>

text \<open>
  with burst tokens and no base quota the limiter divides by zero: every admission test
  panics, whatever the state.
\<close>

lemma rate_limit_zero_quota_panics:
  assumes "rl_Enabled c" "rl_MaxRequests c = 0" "0 < rl_BurstSize c"
  shows "CanMakeRequest c now rls = Panics"
  using assms by (simp add: CanMakeRequest_def Let_def)

end
