(* ===== verification/Manager.thy ===== *)
theory Manager
  imports Selection Rate_Limit
begin

text \<open>
  \<open>manager.go\<close>: the manager of one provider chain, with its failure tracking, circuit breakers,
  rate limits and the operation loop. The scoring engine is shared between the managers of a
  client, so it is a separate part of the state. Each critical section of the code is a
  function; the time it reads is an argument. Clock readings, measured durations, random
  numbers, the results of the provider calls and the cancellation of the context come from
  \<open>op_env\<close>, indexed by the number of the attempt.

  \<open>sort.Slice\<close> is not stable, so the sort that \<open>addProvider\<close> uses is an argument too;
  \<open>sort_slice_ok\<close> states what the library documents about it.
\<close>

datatype circuit_status = CLOSED | OPEN | HALF_OPEN

record circuit_state =
  cs_State :: circuit_status
  cs_LastStateChange :: gotime
  cs_ConsecutiveFailures :: int
  cs_ConsecutiveSuccesses :: int
  cs_HalfOpenCalls :: int
  cs_LastFailureTime :: gotime

definition new_circuit_state :: "gotime \<Rightarrow> circuit_state" where
  "new_circuit_state now =
     \<lparr>cs_State = CLOSED, cs_LastStateChange = now, cs_ConsecutiveFailures = 0,
      cs_ConsecutiveSuccesses = 0, cs_HalfOpenCalls = 0, cs_LastFailureTime = 0\<rparr>"

record health_state =
  hst_IsHealthy :: bool
  hst_LastHealthCheck :: gotime
  hst_ConsecutiveHealthyChecks :: int
  hst_ConsecutiveUnhealthyChecks :: int
  hst_LastError :: "goerror option"

definition new_health_state :: "gotime \<Rightarrow> health_state" where
  "new_health_state now =
     \<lparr>hst_IsHealthy = True, hst_LastHealthCheck = now, hst_ConsecutiveHealthyChecks = 0,
      hst_ConsecutiveUnhealthyChecks = 0, hst_LastError = None\<rparr>"

record 'p provider_manager =
  pm_providers :: "'p provider_config list"
  pm_selectedProvider :: string
  pm_failureTracker :: failure_map
  pm_circuitStates :: "string \<rightharpoonup> circuit_state"
  pm_healthStates :: "string \<rightharpoonup> health_state"
  pm_rateLimitStates :: "string \<rightharpoonup> rate_limit_state"
  pm_config :: chain_config
  pm_semaphore :: int
  pm_selector :: selector
  pm_hasEngine :: bool

definition authFailureCircuitThreshold :: int where
  "authFailureCircuitThreshold = 3"

definition authFailureCircuitTimeout :: duration where
  "authFailureCircuitTimeout = 10 * minute"

subsection \<open>Construction\<close>

definition strategy_or_priority :: "selection_strategy \<Rightarrow> selector" where
  "strategy_or_priority s = (case newSelectionStrategy s of Inl e \<Rightarrow> PriorityOnlySelector | Inr x \<Rightarrow> x)"

text \<open>\<open>make(chan struct{}, n)\<close> panics for a negative \<open>n\<close>.\<close>

definition newProviderManager :: "chain_config \<Rightarrow> 'p provider_manager outcome" where
  "newProviderManager config =
     (if cc_MaxConcurrency config < 0 then Panics
      else Returns
        \<lparr>pm_providers = [], pm_selectedProvider = '''', pm_failureTracker = Map.empty,
         pm_circuitStates = Map.empty, pm_healthStates = Map.empty,
         pm_rateLimitStates = Map.empty, pm_config = config,
         pm_semaphore = cc_MaxConcurrency config,
         pm_selector = strategy_or_priority (cc_SelectionStrategy config),
         pm_hasEngine = False\<rparr>)"

definition manager_HasProvider :: "string \<Rightarrow> 'p provider_manager \<Rightarrow> bool" where
  "manager_HasProvider name pm \<longleftrightarrow> list_ex (\<lambda>c. prv_Name c = name) (pm_providers pm)"

definition sort_slice_ok :: "('p provider_config list \<Rightarrow> 'p provider_config list) \<Rightarrow> bool" where
  "sort_slice_ok srt \<longleftrightarrow> (\<forall>xs. mset (srt xs) = mset xs \<and> sorted (map prv_Priority (srt xs)))"

definition addProvider ::
  "('p provider_config list \<Rightarrow> 'p provider_config list) \<Rightarrow> (nat \<Rightarrow> gotime) \<Rightarrow> 'p option \<Rightarrow>
   int \<Rightarrow> string \<Rightarrow> 'p provider_manager \<Rightarrow> 'p provider_manager" where
  "addProvider srt clk provider priority name pm =
     (case provider of
        None \<Rightarrow> pm
      | Some p \<Rightarrow>
          pm\<lparr>pm_providers := srt (pm_providers pm @
                 [\<lparr>prv_Provider = p, prv_Priority = priority, prv_Name = name\<rparr>]),
             pm_failureTracker := (pm_failureTracker pm)(name \<mapsto> zero_failure_info),
             pm_circuitStates := (pm_circuitStates pm)(name \<mapsto> new_circuit_state (clk 0)),
             pm_healthStates := (pm_healthStates pm)(name \<mapsto> new_health_state (clk 1)),
             pm_rateLimitStates := (pm_rateLimitStates pm)
               (name \<mapsto> newRateLimitState (rl_BurstSize (cc_RateLimit (pm_config pm))) (clk 2))\<rparr>)"

subsection \<open>Availability\<close>

text \<open>The four checks of \<open>isProviderAvailable\<close>, in its order; each may change the state.\<close>

definition check_failures :: "string \<Rightarrow> gotime \<Rightarrow> 'p provider_manager \<Rightarrow> 'p provider_manager \<times> bool" where
  "check_failures name now pm =
     (case pm_failureTracker pm name of
        None \<Rightarrow> (pm, True)
      | Some f \<Rightarrow>
          if fi_IsTemporarilyDown f then
            (if now - fi_LastFailureTime f \<ge> cb_Timeout (cc_CircuitBreaker (pm_config pm))
             then (pm\<lparr>pm_failureTracker := (pm_failureTracker pm)
                       (name \<mapsto> f\<lparr>fi_IsTemporarilyDown := False, fi_ConsecutiveFailures := 0\<rparr>)\<rparr>, True)
             else (pm, False))
          else (pm, True))"

definition open_timeout :: "string \<Rightarrow> 'p provider_manager \<Rightarrow> duration" where
  "open_timeout name pm =
     (case pm_failureTracker pm name of
        None \<Rightarrow> cb_Timeout (cc_CircuitBreaker (pm_config pm))
      | Some f \<Rightarrow>
          if fi_ConsecutiveAuthFailures f \<ge> authFailureCircuitThreshold
          then authFailureCircuitTimeout else cb_Timeout (cc_CircuitBreaker (pm_config pm)))"

definition check_circuit :: "string \<Rightarrow> gotime \<Rightarrow> 'p provider_manager \<Rightarrow> 'p provider_manager \<times> bool" where
  "check_circuit name now pm =
     (if \<not> cb_Enabled (cc_CircuitBreaker (pm_config pm)) then (pm, True)
      else
        case pm_circuitStates pm name of
          None \<Rightarrow> (pm, True)
        | Some cs \<Rightarrow>
            (case cs_State cs of
               OPEN \<Rightarrow>
                 if now - cs_LastStateChange cs \<ge> open_timeout name pm
                 then (pm\<lparr>pm_circuitStates := (pm_circuitStates pm)
                           (name \<mapsto> cs\<lparr>cs_State := HALF_OPEN, cs_LastStateChange := now,
                                       cs_HalfOpenCalls := 0\<rparr>)\<rparr>, True)
                 else (pm, False)
             | HALF_OPEN \<Rightarrow>
                 (pm, \<not> cs_HalfOpenCalls cs \<ge> cb_HalfOpenMaxCalls (cc_CircuitBreaker (pm_config pm)))
             | CLOSED \<Rightarrow> (pm, True)))"

definition check_health :: "string \<Rightarrow> 'p provider_manager \<Rightarrow> bool" where
  "check_health name pm =
     (if \<not> hc_Enabled (cc_HealthCheck (pm_config pm)) then True
      else case pm_healthStates pm name of None \<Rightarrow> True | Some hs \<Rightarrow> hst_IsHealthy hs)"

definition check_rate ::
  "string \<Rightarrow> gotime \<Rightarrow> 'p provider_manager \<Rightarrow> ('p provider_manager \<times> bool) outcome" where
  "check_rate name now pm =
     (if \<not> rl_Enabled (cc_RateLimit (pm_config pm)) then Returns (pm, True)
      else
        case pm_rateLimitStates pm name of
          None \<Rightarrow> Returns (pm, True)
        | Some rls \<Rightarrow>
            (case CanMakeRequest (cc_RateLimit (pm_config pm)) now rls of
               Panics \<Rightarrow> Panics
             | Returns (rls', ok) \<Rightarrow>
                 Returns (pm\<lparr>pm_rateLimitStates := (pm_rateLimitStates pm)(name \<mapsto> rls')\<rparr>, ok)))"

definition isProviderAvailable ::
  "string \<Rightarrow> gotime \<Rightarrow> 'p provider_manager \<Rightarrow> ('p provider_manager \<times> bool) outcome" where
  "isProviderAvailable name now pm =
     (case check_failures name now pm of
        (pm1, False) \<Rightarrow> Returns (pm1, False)
      | (pm1, True) \<Rightarrow>
          (case check_circuit name now pm1 of
             (pm2, False) \<Rightarrow> Returns (pm2, False)
           | (pm2, True) \<Rightarrow>
               if \<not> check_health name pm2 then Returns (pm2, False)
               else check_rate name now pm2))"

fun filter_available ::
  "gotime \<Rightarrow> 'p provider_config list \<Rightarrow> 'p provider_manager \<Rightarrow>
   ('p provider_manager \<times> 'p provider_config list) outcome" where
  "filter_available now [] pm = Returns (pm, [])"
| "filter_available now (c # cs) pm =
     (case isProviderAvailable (prv_Name c) now pm of
        Panics \<Rightarrow> Panics
      | Returns (pm1, ok) \<Rightarrow>
          (case filter_available now cs pm1 of
             Panics \<Rightarrow> Panics
           | Returns (pm2, avail) \<Rightarrow> Returns (pm2, if ok then c # avail else avail)))"

definition getAvailableProviders ::
  "gotime \<Rightarrow> (int \<Rightarrow> nat \<Rightarrow> nat) \<Rightarrow> engine \<Rightarrow> 'p provider_manager \<Rightarrow>
   ('p provider_manager \<times> 'p provider_config list) outcome" where
  "getAvailableProviders now draw e pm =
     (case filter_available now (pm_providers pm) pm of
        Panics \<Rightarrow> Panics
      | Returns (pm', avail) \<Rightarrow>
          Returns (pm', SelectProviders
            \<lparr>sn_failures = pm_failureTracker pm', sn_engine = e, sn_draw = draw\<rparr>
            (pm_selector pm') avail))"

subsection \<open>Bookkeeping of successes and failures\<close>

definition success_failure_info :: "failure_info \<Rightarrow> failure_info" where
  "success_failure_info f =
     f\<lparr>fi_ConsecutiveFailures := 0, fi_IsTemporarilyDown := False,
       fi_TotalSuccesses := fi_TotalSuccesses f + 1, fi_RetryCount := 0,
       fi_ConsecutiveAuthFailures := 0\<rparr>"

definition success_circuit :: "circuit_breaker_config \<Rightarrow> gotime \<Rightarrow> circuit_state \<Rightarrow> circuit_state" where
  "success_circuit cb now cs =
     (let cs1 = cs\<lparr>cs_ConsecutiveFailures := 0,
                   cs_ConsecutiveSuccesses := cs_ConsecutiveSuccesses cs + 1\<rparr>
      in if cs_State cs1 = HALF_OPEN \<and> cs_ConsecutiveSuccesses cs1 \<ge> cb_SuccessThreshold cb
         then cs1\<lparr>cs_State := CLOSED, cs_LastStateChange := now, cs_HalfOpenCalls := 0\<rparr>
         else cs1)"

definition recordSuccess_state ::
  "(nat \<Rightarrow> gotime) \<Rightarrow> string \<Rightarrow> 'p provider_manager \<Rightarrow> 'p provider_manager" where
  "recordSuccess_state clk name pm =
     (let cfg = pm_config pm;
          pm1 = pm\<lparr>pm_failureTracker := (pm_failureTracker pm)
                    (name := map_option success_failure_info (pm_failureTracker pm name))\<rparr>;
          pm2 = (if cb_Enabled (cc_CircuitBreaker cfg)
                 then pm1\<lparr>pm_circuitStates := (pm_circuitStates pm1)
                        (name := map_option (success_circuit (cc_CircuitBreaker cfg) (clk 0))
                                   (pm_circuitStates pm1 name))\<rparr>
                 else pm1)
      in if rl_Enabled (cc_RateLimit cfg)
         then pm2\<lparr>pm_rateLimitStates := (pm_rateLimitStates pm2)
                   (name := map_option (RecordRequest (cc_RateLimit cfg) (clk 1))
                              (pm_rateLimitStates pm2 name))\<rparr>
         else pm2)"

definition success_event :: "string \<Rightarrow> gotime \<Rightarrow> duration \<Rightarrow> score_event" where
  "success_event name now responseTime =
     \<lparr>ev_Type = EventOperationSuccess, ev_Provider = name, ev_Timestamp = now,
      ev_ResponseTime = responseTime, ev_HTTPStatus = 0, ev_Error = None,
      ev_Metadata = Map.empty\<rparr>"

text \<open>
  \<open>eclk\<close> is the clock inside the engine calls (by call, then by reading), and \<open>order\<close> the
  iteration order of the engine's map.
\<close>

definition recordSuccess ::
  "string list \<Rightarrow> (nat \<Rightarrow> nat \<Rightarrow> gotime) \<Rightarrow> (nat \<Rightarrow> gotime) \<Rightarrow> string \<Rightarrow>
   'p provider_manager \<times> engine \<Rightarrow> 'p provider_manager \<times> engine" where
  "recordSuccess order eclk clk name st =
     (case st of (pm, e) \<Rightarrow>
        (recordSuccess_state clk name pm,
         if pm_hasEngine pm
         then engine_RecordEvent order (eclk 0) (success_event name (clk 2) 0) e else e))"

definition recordSuccessWithLatency ::
  "string list \<Rightarrow> (nat \<Rightarrow> nat \<Rightarrow> gotime) \<Rightarrow> (nat \<Rightarrow> gotime) \<Rightarrow> string \<Rightarrow> duration \<Rightarrow>
   'p provider_manager \<times> engine \<Rightarrow> 'p provider_manager \<times> engine" where
  "recordSuccessWithLatency order eclk clk name responseTime st =
     (case recordSuccess order eclk clk name st of (pm, e) \<Rightarrow>
        (pm, if pm_hasEngine pm
             then engine_RecordEvent order (eclk 1) (success_event name (clk 3) responseTime) e
             else e))"

definition failure_failure_info :: "circuit_breaker_config \<Rightarrow> gotime \<Rightarrow> failure_info \<Rightarrow> failure_info" where
  "failure_failure_info cb now f =
     (let f1 = f\<lparr>fi_ConsecutiveFailures := fi_ConsecutiveFailures f + 1, fi_LastFailureTime := now,
                 fi_TotalFailures := fi_TotalFailures f + 1\<rparr>
      in if fi_ConsecutiveFailures f1 \<ge> cb_FailureThreshold cb
         then f1\<lparr>fi_IsTemporarilyDown := True\<rparr> else f1)"

definition failure_circuit :: "circuit_breaker_config \<Rightarrow> gotime \<Rightarrow> circuit_state \<Rightarrow> circuit_state" where
  "failure_circuit cb now cs =
     (let cs1 = cs\<lparr>cs_ConsecutiveFailures := cs_ConsecutiveFailures cs + 1,
                   cs_ConsecutiveSuccesses := 0, cs_LastFailureTime := now\<rparr>;
          cs2 = (if cs_State cs1 = HALF_OPEN
                 then cs1\<lparr>cs_HalfOpenCalls := cs_HalfOpenCalls cs1 + 1\<rparr> else cs1)
      in if cs_ConsecutiveFailures cs2 \<ge> cb_FailureThreshold cb
         then cs2\<lparr>cs_State := OPEN, cs_LastStateChange := now\<rparr> else cs2)"

definition updateFailureState :: "string \<Rightarrow> gotime \<Rightarrow> 'p provider_manager \<Rightarrow> 'p provider_manager" where
  "updateFailureState name now pm =
     (let cb = cc_CircuitBreaker (pm_config pm);
          pm1 = pm\<lparr>pm_failureTracker := (pm_failureTracker pm)
                    (name \<mapsto> (case pm_failureTracker pm name of
                                Some f \<Rightarrow> failure_failure_info cb now f
                              | None \<Rightarrow> zero_failure_info\<lparr>fi_ConsecutiveFailures := 1,
                                          fi_LastFailureTime := now, fi_TotalFailures := 1\<rparr>))\<rparr>
      in if cb_Enabled cb
         then pm1\<lparr>pm_circuitStates := (pm_circuitStates pm1)
                   (name := map_option (failure_circuit cb now) (pm_circuitStates pm1 name))\<rparr>
         else pm1)"

definition handleAuthFailure :: "string \<Rightarrow> gotime \<Rightarrow> 'p provider_manager \<Rightarrow> 'p provider_manager" where
  "handleAuthFailure name now pm =
     (case pm_failureTracker pm name of
        None \<Rightarrow> pm
      | Some f \<Rightarrow>
          let f1 = f\<lparr>fi_ConsecutiveAuthFailures := fi_ConsecutiveAuthFailures f + 1\<rparr>;
              pm1 = pm\<lparr>pm_failureTracker := (pm_failureTracker pm)(name \<mapsto> f1)\<rparr>
          in if fi_ConsecutiveAuthFailures f1 < authFailureCircuitThreshold then pm1
             else if cb_Enabled (cc_CircuitBreaker (pm_config pm1))
             then pm1\<lparr>pm_circuitStates := (pm_circuitStates pm1)
                      (name := map_option (\<lambda>cs. cs\<lparr>cs_State := OPEN, cs_LastStateChange := now\<rparr>)
                                 (pm_circuitStates pm1 name))\<rparr>
             else pm1)"

definition failure_event ::
  "op_context \<Rightarrow> string \<Rightarrow> goerror \<Rightarrow> duration \<Rightarrow> gotime \<Rightarrow> score_event" where
  "failure_event ctx name err responseTime now =
     (let ev = (if errors_Is err ErrAuthFailure
                then \<lparr>ev_Type = EventOperationAuthFail, ev_Provider = name, ev_Timestamp = now,
                      ev_ResponseTime = responseTime, ev_HTTPStatus = 0, ev_Error = Some err,
                      ev_Metadata = Map.empty\<rparr>
                else (ClassifyOperationEvent name responseTime (Some err) now)\<lparr>ev_Timestamp := now\<rparr>)
      in case extractOperationMetadata ctx of
           None \<Rightarrow> ev
         | Some m \<Rightarrow> ev\<lparr>ev_Metadata := metadata_map m\<rparr>)"

definition recordFailureWithError ::
  "string list \<Rightarrow> (nat \<Rightarrow> gotime) \<Rightarrow> op_context \<Rightarrow> string \<Rightarrow> goerror \<Rightarrow> duration \<Rightarrow> gotime \<Rightarrow>
   'p provider_manager \<times> engine \<Rightarrow> 'p provider_manager \<times> engine" where
  "recordFailureWithError order clk ctx name err responseTime now st =
     (case st of (pm, e) \<Rightarrow>
        let pm1 = updateFailureState name now pm;
            e1 = (if pm_hasEngine pm1
                  then engine_RecordEvent order clk (failure_event ctx name err responseTime now) e
                  else e)
        in (if errors_Is err ErrAuthFailure then handleAuthFailure name now pm1 else pm1, e1))"

definition RecordHealthCheckResult ::
  "string list \<Rightarrow> (nat \<Rightarrow> gotime) \<Rightarrow> string \<Rightarrow> int \<Rightarrow> duration \<Rightarrow> goerror option \<Rightarrow> gotime \<Rightarrow>
   'p provider_manager \<times> engine \<Rightarrow> 'p provider_manager \<times> engine" where
  "RecordHealthCheckResult order clk name httpStatus responseTime err now st =
     (case st of (pm, e) \<Rightarrow>
        (pm, if pm_hasEngine pm
             then engine_RecordEvent order clk
                    (ClassifyHealthCheckEvent name httpStatus responseTime err now) e
             else e))"

subsection \<open>Configuration\<close>

definition updateChainConfig :: "chain_config \<Rightarrow> 'p provider_manager \<Rightarrow> 'p provider_manager outcome" where
  "updateChainConfig config pm =
     (let oldStrategy = cc_SelectionStrategy (pm_config pm);
          pm1 = pm\<lparr>pm_config := config\<rparr>
      in if pm_semaphore pm1 \<noteq> cc_MaxConcurrency config \<and> cc_MaxConcurrency config < 0 then Panics
         else
           let pm2 = (if pm_semaphore pm1 \<noteq> cc_MaxConcurrency config
                      then pm1\<lparr>pm_semaphore := cc_MaxConcurrency config\<rparr> else pm1)
           in Returns
                (if oldStrategy \<noteq> cc_SelectionStrategy config
                 then pm2\<lparr>pm_selector := strategy_or_priority (cc_SelectionStrategy config)\<rparr>
                 else pm2))"

definition manager_SetSelectionStrategy ::
  "selection_strategy \<Rightarrow> 'p provider_manager \<Rightarrow> 'p provider_manager \<times> goerror option" where
  "manager_SetSelectionStrategy s pm =
     (if \<not> strategy_IsValid s then (pm, Some (Errorf (''invalid selection strategy: '' @ s)))
      else
        case newSelectionStrategy s of
          Inl e \<Rightarrow> (pm, Some e)
        | Inr sel \<Rightarrow>
            (pm\<lparr>pm_selector := sel, pm_config := (pm_config pm)\<lparr>cc_SelectionStrategy := s\<rparr>\<rparr>, None))"

definition GetSelectionStrategy :: "'p provider_manager \<Rightarrow> selection_strategy" where
  "GetSelectionStrategy pm = cc_SelectionStrategy (pm_config pm)"

definition register_all :: "(nat \<Rightarrow> gotime) \<Rightarrow> 'p provider_config list \<Rightarrow> engine \<Rightarrow> engine" where
  "register_all clk cs e =
     fold (\<lambda>(i, c). RegisterProvider (prv_Name c) (prv_Priority c) (clk i)) (enumerate 0 cs) e"

definition SetScoringEngine ::
  "(nat \<Rightarrow> gotime) \<Rightarrow> engine option \<Rightarrow> 'p provider_manager \<Rightarrow> 'p provider_manager \<times> engine option" where
  "SetScoringEngine clk eng pm =
     (case eng of
        None \<Rightarrow> (pm\<lparr>pm_hasEngine := False\<rparr>, None)
      | Some e \<Rightarrow>
          (pm\<lparr>pm_hasEngine := True, pm_selector := AdaptiveSelector,
              pm_config := (pm_config pm)\<lparr>cc_SelectionStrategy := SelectionStrategyAdaptive\<rparr>\<rparr>,
           Some (register_all clk (pm_providers pm) e)))"

definition GetScoringEngine :: "engine \<Rightarrow> 'p provider_manager \<Rightarrow> engine option" where
  "GetScoringEngine e pm = (if pm_hasEngine pm then Some e else None)"

subsection \<open>Statistics\<close>

datatype stat_value = SInt int | SBool bool | STime gotime | SString string | STimes "gotime list"

fun circuit_status_String :: "circuit_status \<Rightarrow> string" where
  "circuit_status_String CLOSED = ''CLOSED''"
| "circuit_status_String OPEN = ''OPEN''"
| "circuit_status_String HALF_OPEN = ''HALF_OPEN''"

definition manager_GetProviderStats :: "string \<Rightarrow> 'p provider_manager \<Rightarrow> string \<rightharpoonup> stat_value" where
  "manager_GetProviderStats name pm =
     (case pm_failureTracker pm name of
        None \<Rightarrow> Map.empty
      | Some f \<Rightarrow>
          [''consecutive_failures'' \<mapsto> SInt (fi_ConsecutiveFailures f),
           ''total_failures'' \<mapsto> SInt (fi_TotalFailures f),
           ''total_successes'' \<mapsto> SInt (fi_TotalSuccesses f),
           ''is_temporarily_down'' \<mapsto> SBool (fi_IsTemporarilyDown f),
           ''last_failure_time'' \<mapsto> STime (fi_LastFailureTime f),
           ''retry_count'' \<mapsto> SInt (fi_RetryCount f)]) ++
     (case pm_circuitStates pm name of
        None \<Rightarrow> Map.empty
      | Some cs \<Rightarrow>
          [''circuit_state'' \<mapsto> SString (circuit_status_String (cs_State cs)),
           ''circuit_consecutive_failures'' \<mapsto> SInt (cs_ConsecutiveFailures cs),
           ''circuit_consecutive_successes'' \<mapsto> SInt (cs_ConsecutiveSuccesses cs),
           ''circuit_last_state_change'' \<mapsto> STime (cs_LastStateChange cs),
           ''circuit_half_open_calls'' \<mapsto> SInt (cs_HalfOpenCalls cs)]) ++
     (case pm_healthStates pm name of
        None \<Rightarrow> Map.empty
      | Some hs \<Rightarrow>
          [''is_healthy'' \<mapsto> SBool (hst_IsHealthy hs),
           ''last_health_check'' \<mapsto> STime (hst_LastHealthCheck hs),
           ''consecutive_healthy_checks'' \<mapsto> SInt (hst_ConsecutiveHealthyChecks hs),
           ''consecutive_unhealthy_checks'' \<mapsto> SInt (hst_ConsecutiveUnhealthyChecks hs)] ++
          (case hst_LastError hs of
             None \<Rightarrow> Map.empty
           | Some err \<Rightarrow> [''last_health_error'' \<mapsto> SString (err_msg err)])) ++
     (case pm_rateLimitStates pm name of
        None \<Rightarrow> Map.empty
      | Some rls \<Rightarrow>
          [''rate_limit_request_times'' \<mapsto> STimes (rs_RequestTimes rls),
           ''rate_limit_burst_tokens'' \<mapsto> SInt (rs_BurstTokens rls),
           ''rate_limit_last_refill'' \<mapsto> STime (rs_LastRefill rls)])"

subsection \<open>The operation loop\<close>

text \<open>
  Go leaves the conversion of a float outside the \<open>int64\<close> range to the implementation:
  \<open>cvt\<close> is that conversion.
\<close>

definition float_to_int64 :: "(real \<Rightarrow> int) \<Rightarrow> real \<Rightarrow> int" where
  "float_to_int64 cvt x =
     (let t = (if x < 0 then \<lceil>x\<rceil> else \<lfloor>x\<rfloor>)
      in if - (2 ^ 63) \<le> t \<and> t < 2 ^ 63 then t else cvt x)"

definition retryDelay :: "(real \<Rightarrow> int) \<Rightarrow> real \<Rightarrow> retry_policy \<Rightarrow> nat \<Rightarrow> duration" where
  "retryDelay cvt rnd policy attempt =
     (let delay = of_int (rp_InitialDelay policy) * rp_BackoffMultiplier policy ^ (attempt - 1);
          delay1 = (if rp_MaxDelay policy > 0 \<and> float_to_int64 cvt delay > rp_MaxDelay policy
                    then of_int (rp_MaxDelay policy) else delay);
          delay2 = (if rp_Jitter policy then delay1 * (1 + rnd / 5) else delay1)
      in float_to_int64 cvt delay2)"

text \<open>
  What an operation meets, by the number \<open>n\<close> of provider calls made before: the result of
  the call, its duration, the clocks, the random number of the backoff before it, and
  whether that backoff ended because the context was done.
\<close>

record ('p, 'r) op_env =
  oe_op :: "nat \<Rightarrow> 'p \<Rightarrow> goerror + 'r"
  oe_elapsed :: "nat \<Rightarrow> duration"
  oe_ctxDone :: "nat \<Rightarrow> goerror option"
  oe_cvt :: "real \<Rightarrow> int"
  oe_rand :: "nat \<Rightarrow> real"
  oe_clk :: "nat \<Rightarrow> nat \<Rightarrow> gotime"
  oe_eclk :: "nat \<Rightarrow> nat \<Rightarrow> nat \<Rightarrow> gotime"
  oe_order :: "nat \<Rightarrow> string list"
  oe_since :: "nat \<Rightarrow> duration"

text \<open>
  The state of a running operation: the manager and the engine, the names of the providers
  called so far (so its length is the call number), the backoff waits, and the list that a
  debug context collects.
\<close>

record 'p op_run =
  or_pm :: "'p provider_manager"
  or_engine :: engine
  or_calls :: "string list"
  or_waits :: "duration list"
  or_failed :: "string list"

abbreviation or_n :: "'p op_run \<Rightarrow> nat" where
  "or_n run \<equiv> length (or_calls run)"

definition recordFailedProvider :: "op_context \<Rightarrow> string \<Rightarrow> 'p op_run \<Rightarrow> 'p op_run" where
  "recordFailedProvider ctx name run =
     (if cx_Debug ctx then run\<lparr>or_failed := or_failed run @ [name]\<rparr> else run)"

definition set_state :: "'p provider_manager \<times> engine \<Rightarrow> 'p op_run \<Rightarrow> 'p op_run" where
  "set_state st run = run\<lparr>or_pm := fst st, or_engine := snd st\<rparr>"

text \<open>One call of the provider with its bookkeeping: the body of the retry loop.\<close>

definition dispatch ::
  "('p, 'r) op_env \<Rightarrow> op_context \<Rightarrow> 'p provider_config \<Rightarrow> 'p op_run \<Rightarrow>
   'p op_run \<times> (goerror + 'r)" where
  "dispatch env ctx pc run =
     (let n = or_n run; st = (or_pm run, or_engine run); name = prv_Name pc;
          run1 = run\<lparr>or_calls := or_calls run @ [name]\<rparr>
      in case oe_op env n (prv_Provider pc) of
           Inr v \<Rightarrow>
             (set_state (recordSuccessWithLatency (oe_order env n) (oe_eclk env n) (oe_clk env n)
                           name (oe_elapsed env n) st) run1, Inr v)
         | Inl err \<Rightarrow>
             (set_state (recordFailureWithError (oe_order env n) (oe_eclk env n 0) ctx name err
                           (oe_elapsed env n) (oe_clk env n 0) st) run1, Inl err))"

text \<open>
  The loop of \<open>attemptWithRetry\<close>: \<open>left\<close> iterations remain, \<open>attempt\<close> have run. The result is
  the data, the number of attempts and the error.
\<close>

fun retry_loop ::
  "('p, 'r) op_env \<Rightarrow> op_context \<Rightarrow> 'p provider_config \<Rightarrow> retry_policy \<Rightarrow> nat \<Rightarrow> nat \<Rightarrow>
   goerror option \<Rightarrow> 'p op_run \<Rightarrow> 'p op_run \<times> 'r option \<times> nat \<times> goerror option" where
  "retry_loop env ctx pc policy 0 attempt lastErr run = (run, None, attempt, lastErr)"
| "retry_loop env ctx pc policy (Suc left) attempt lastErr run =
     (if attempt > 0 \<and> oe_ctxDone env (or_n run) \<noteq> None
      then (run, None, attempt, oe_ctxDone env (or_n run))
      else
        let delay = retryDelay (oe_cvt env) (oe_rand env (or_n run)) policy attempt;
            run1 = (if attempt > 0 then run\<lparr>or_waits := or_waits run @ [delay]\<rparr> else run)
        in case dispatch env ctx pc run1 of
             (run2, Inr v) \<Rightarrow> (run2, Some v, Suc attempt, None)
           | (run2, Inl err) \<Rightarrow> retry_loop env ctx pc policy left (Suc attempt) (Some err) run2)"

definition max_attempts :: "retry_policy \<Rightarrow> nat" where
  "max_attempts policy =
     (if rp_Enabled policy \<and> rp_MaxAttempts policy > 1 then nat (rp_MaxAttempts policy) else 1)"

definition attemptWithRetry ::
  "('p, 'r) op_env \<Rightarrow> op_context \<Rightarrow> 'p provider_config \<Rightarrow> retry_policy \<Rightarrow> 'p op_run \<Rightarrow>
   'p op_run \<times> 'r option \<times> nat \<times> goerror option" where
  "attemptWithRetry env ctx pc policy run =
     retry_loop env ctx pc policy (max_attempts policy) 0 None run"

definition findProviderByName :: "'p provider_config list \<Rightarrow> string \<Rightarrow> 'p provider_config option" where
  "findProviderByName cs name = find (\<lambda>p. ToLower (prv_Name p) = ToLower name) cs"

record 'r op_result =
  res_data :: "'r option"
  res_provider :: string
  res_duration :: duration
  res_attempts :: nat
  res_err :: "goerror option"

fun run_chain ::
  "('p, 'r) op_env \<Rightarrow> op_context \<Rightarrow> retry_policy \<Rightarrow> 'p provider_config list \<Rightarrow> nat \<Rightarrow>
   goerror option \<Rightarrow> 'p op_run \<Rightarrow> 'p op_run \<times> 'r op_result" where
  "run_chain env ctx policy [] total_attempts lastErr run =
     (run, \<lparr>res_data = None, res_provider = '''', res_duration = oe_since env (or_n run),
            res_attempts = total_attempts,
            res_err = map_option (wrap_error ''all providers failed, last error: '') lastErr\<rparr>)"
| "run_chain env ctx policy (pc # pcs) total_attempts lastErr run =
     (case attemptWithRetry env ctx pc policy run of
        (run1, data, k, None) \<Rightarrow>
          (run1\<lparr>or_pm := (or_pm run1)\<lparr>pm_selector :=
                  RecordAttempt (prv_Name pc) (prv_Priority pc) (pm_selector (or_pm run1))\<rparr>\<rparr>,
           \<lparr>res_data = data, res_provider = prv_Name pc,
            res_duration = oe_since env (or_n run1), res_attempts = total_attempts + k,
            res_err = None\<rparr>)
      | (run1, data, k, Some err) \<Rightarrow>
          run_chain env ctx policy pcs (total_attempts + k) (Some err)
            (recordFailedProvider ctx (prv_Name pc) run1))"

definition op_error :: "('p, 'r) op_env \<Rightarrow> goerror \<Rightarrow> 'p op_run \<Rightarrow> 'p op_run \<times> 'r op_result" where
  "op_error env err run =
     (run, \<lparr>res_data = None, res_provider = '''', res_duration = oe_since env (or_n run),
            res_attempts = 0, res_err = Some err\<rparr>)"

text \<open>The narrowing of the chain to a pinned provider.\<close>

definition pin_providers ::
  "op_context \<Rightarrow> string \<Rightarrow> 'p provider_config list \<Rightarrow> goerror + 'p provider_config list" where
  "pin_providers ctx sel cs =
     (case GetProviderName ctx of
        Some name \<Rightarrow>
          (case findProviderByName cs name of
             None \<Rightarrow> Inl (Errorf (''context-specified provider '' @ name @ '' is not available''))
           | Some p \<Rightarrow> Inr [p])
      | None \<Rightarrow>
          if sel \<noteq> '''' then
            (case findProviderByName cs sel of
               None \<Rightarrow> Inl (Errorf (''selected provider '' @ sel @ '' is not available''))
             | Some p \<Rightarrow> Inr [p])
          else Inr cs)"

definition runOp ::
  "('p, 'r) op_env \<Rightarrow> op_context \<Rightarrow> gotime \<Rightarrow> (int \<Rightarrow> nat \<Rightarrow> nat) \<Rightarrow> 'p op_run \<Rightarrow>
   ('p op_run \<times> 'r op_result) outcome" where
  "runOp env ctx now draw run =
     (case getAvailableProviders now draw (or_engine run) (or_pm run) of
        Panics \<Rightarrow> Panics
      | Returns (pm, providers) \<Rightarrow>
          let run1 = run\<lparr>or_pm := pm\<rparr>
          in if providers = []
             then Returns (op_error env
               (sentinel_error ''provider not configured: no available providers'' ErrProviderNotConfigured) run1)
             else
               case pin_providers ctx (pm_selectedProvider pm) providers of
                 Inl err \<Rightarrow> Returns (op_error env err run1)
               | Inr cs \<Rightarrow> Returns (run_chain env ctx (cc_RetryPolicy (pm_config pm)) cs 0 None run1))"

end
