(* ===== verification/Circuit.thy ===== *)
theory Circuit
  imports Manager
begin

text \<open>
  The circuit breakers of \<open>manager.go\<close>. \<open>chain_reach\<close> is reachability under every
  interleaving of the critical sections of a manager, with its run-time reconfiguration; the
  breaker invariants hold there. The rest of the theory follows one breaker through
  opening, probing and closing.
\<close>

subsection \<open>What each critical section does to one provider\<close>

lemma check_failures_circuit [simp]:
  "pm_circuitStates (fst (check_failures n now pm)) = pm_circuitStates pm"
  "pm_config (fst (check_failures n now pm)) = pm_config pm"
  "pm_rateLimitStates (fst (check_failures n now pm)) = pm_rateLimitStates pm"
  "pm_providers (fst (check_failures n now pm)) = pm_providers pm"
  "pm_selector (fst (check_failures n now pm)) = pm_selector pm"
  "pm_hasEngine (fst (check_failures n now pm)) = pm_hasEngine pm"
  "pm_selectedProvider (fst (check_failures n now pm)) = pm_selectedProvider pm"
  "pm_healthStates (fst (check_failures n now pm)) = pm_healthStates pm"
  by (auto simp: check_failures_def split: option.splits)

lemma check_circuit_keeps [simp]:
  "pm_failureTracker (fst (check_circuit n now pm)) = pm_failureTracker pm"
  "pm_config (fst (check_circuit n now pm)) = pm_config pm"
  "pm_rateLimitStates (fst (check_circuit n now pm)) = pm_rateLimitStates pm"
  "pm_providers (fst (check_circuit n now pm)) = pm_providers pm"
  "pm_selector (fst (check_circuit n now pm)) = pm_selector pm"
  "pm_hasEngine (fst (check_circuit n now pm)) = pm_hasEngine pm"
  "pm_selectedProvider (fst (check_circuit n now pm)) = pm_selectedProvider pm"
  "pm_healthStates (fst (check_circuit n now pm)) = pm_healthStates pm"
  by (auto simp: check_circuit_def split: option.splits circuit_status.splits)

lemma check_rate_keeps:
  assumes "check_rate n now pm = Returns (pm', ok)"
  shows "pm_failureTracker pm' = pm_failureTracker pm" "pm_circuitStates pm' = pm_circuitStates pm"
    "pm_config pm' = pm_config pm" "pm_providers pm' = pm_providers pm"
    "pm_selector pm' = pm_selector pm" "pm_hasEngine pm' = pm_hasEngine pm"
    "pm_selectedProvider pm' = pm_selectedProvider pm" "pm_healthStates pm' = pm_healthStates pm"
  using assms by (auto simp: check_rate_def split: if_splits option.splits outcome.splits)

text \<open>The failure and circuit state after an availability test, in terms of the two checks.\<close>

lemma isProviderAvailable_states:
  assumes "isProviderAvailable n now pm = Returns (pm', ok)"
  defines "p1 \<equiv> fst (check_failures n now pm)"
  shows "pm_failureTracker pm' = pm_failureTracker p1"
    "pm_circuitStates pm' =
       (if snd (check_failures n now pm) then pm_circuitStates (fst (check_circuit n now p1))
        else pm_circuitStates pm)"
    "pm_config pm' = pm_config pm" "pm_providers pm' = pm_providers pm"
    "pm_selector pm' = pm_selector pm" "pm_hasEngine pm' = pm_hasEngine pm"
    "pm_selectedProvider pm' = pm_selectedProvider pm" "pm_healthStates pm' = pm_healthStates pm"
    "ok \<Longrightarrow> snd (check_failures n now pm) \<and> snd (check_circuit n now p1)"
proof -
  obtain b1 where 1: "check_failures n now pm = (p1, b1)" by (metis prod.collapse p1_def)
  obtain p2 b2 where 2: "check_circuit n now p1 = (p2, b2)" by fastforce
  note k1 = check_failures_circuit [of n now pm, unfolded 1 fst_conv]
  note k2 = check_circuit_keeps [of n now p1, unfolded 2 fst_conv]
  have "(pm', ok) = (p1, False) \<and> \<not> b1 \<or> b1 \<and> \<not> ok \<and> pm' = p2 \<or>
        b1 \<and> b2 \<and> check_rate n now p2 = Returns (pm', ok)"
    using assms(1) 1 2 by (cases b1; cases b2) (auto simp: isProviderAvailable_def split: if_splits)
  then show "pm_failureTracker pm' = pm_failureTracker p1"
    "pm_circuitStates pm' =
       (if snd (check_failures n now pm) then pm_circuitStates (fst (check_circuit n now p1))
        else pm_circuitStates pm)"
    "pm_config pm' = pm_config pm" "pm_providers pm' = pm_providers pm"
    "pm_selector pm' = pm_selector pm" "pm_hasEngine pm' = pm_hasEngine pm"
    "pm_selectedProvider pm' = pm_selectedProvider pm" "pm_healthStates pm' = pm_healthStates pm"
    "ok \<Longrightarrow> snd (check_failures n now pm) \<and> snd (check_circuit n now p1)"
    using 1 2 k1 k2 check_rate_keeps [of n now p2 pm' ok] by auto
qed

lemma check_failures_other:
  "m \<noteq> n \<Longrightarrow> pm_failureTracker (fst (check_failures n now pm)) m = pm_failureTracker pm m"
  by (auto simp: check_failures_def split: option.splits)

lemma check_circuit_other:
  "m \<noteq> n \<Longrightarrow> pm_circuitStates (fst (check_circuit n now pm)) m = pm_circuitStates pm m"
  by (auto simp: check_circuit_def split: option.splits circuit_status.splits)

lemma recordSuccess_state_fields [simp]:
  "pm_config (recordSuccess_state clk n pm) = pm_config pm"
  "pm_providers (recordSuccess_state clk n pm) = pm_providers pm"
  "pm_hasEngine (recordSuccess_state clk n pm) = pm_hasEngine pm"
  "pm_selector (recordSuccess_state clk n pm) = pm_selector pm"
  "pm_healthStates (recordSuccess_state clk n pm) = pm_healthStates pm"
  "pm_failureTracker (recordSuccess_state clk n pm) =
     (pm_failureTracker pm)(n := map_option success_failure_info (pm_failureTracker pm n))"
  "pm_circuitStates (recordSuccess_state clk n pm) =
     (if cb_Enabled (cc_CircuitBreaker (pm_config pm))
      then (pm_circuitStates pm)(n := map_option
             (success_circuit (cc_CircuitBreaker (pm_config pm)) (clk 0)) (pm_circuitStates pm n))
      else pm_circuitStates pm)"
  by (simp_all add: recordSuccess_state_def Let_def)

lemma updateFailureState_fields [simp]:
  "pm_config (updateFailureState n now pm) = pm_config pm"
  "pm_providers (updateFailureState n now pm) = pm_providers pm"
  "pm_hasEngine (updateFailureState n now pm) = pm_hasEngine pm"
  "pm_selector (updateFailureState n now pm) = pm_selector pm"
  "pm_healthStates (updateFailureState n now pm) = pm_healthStates pm"
  "pm_circuitStates (updateFailureState n now pm) =
     (if cb_Enabled (cc_CircuitBreaker (pm_config pm))
      then (pm_circuitStates pm)(n := map_option
             (failure_circuit (cc_CircuitBreaker (pm_config pm)) now) (pm_circuitStates pm n))
      else pm_circuitStates pm)"
  by (simp_all add: updateFailureState_def Let_def)

lemma handleAuthFailure_fields [simp]:
  "pm_config (handleAuthFailure n now pm) = pm_config pm"
  "pm_providers (handleAuthFailure n now pm) = pm_providers pm"
  "pm_hasEngine (handleAuthFailure n now pm) = pm_hasEngine pm"
  "pm_selector (handleAuthFailure n now pm) = pm_selector pm"
  "pm_healthStates (handleAuthFailure n now pm) = pm_healthStates pm"
  by (auto simp: handleAuthFailure_def Let_def split: option.splits)

lemma failure_circuit_fields:
  "cs_State (failure_circuit cb now cs) =
     (if cs_ConsecutiveFailures cs + 1 \<ge> cb_FailureThreshold cb then OPEN else cs_State cs)"
  "cs_LastStateChange (failure_circuit cb now cs) =
     (if cs_ConsecutiveFailures cs + 1 \<ge> cb_FailureThreshold cb then now
      else cs_LastStateChange cs)"
  "cs_ConsecutiveFailures (failure_circuit cb now cs) = cs_ConsecutiveFailures cs + 1"
  "cs_ConsecutiveSuccesses (failure_circuit cb now cs) = 0"
  "cs_HalfOpenCalls (failure_circuit cb now cs) =
     (if cs_State cs = HALF_OPEN then cs_HalfOpenCalls cs + 1 else cs_HalfOpenCalls cs)"
  by (simp_all add: failure_circuit_def Let_def)

lemma success_circuit_fields:
  "cs_State (success_circuit cb now cs) =
     (if cs_State cs = HALF_OPEN \<and> cs_ConsecutiveSuccesses cs + 1 \<ge> cb_SuccessThreshold cb
      then CLOSED else cs_State cs)"
  "cs_ConsecutiveFailures (success_circuit cb now cs) = 0"
  "cs_ConsecutiveSuccesses (success_circuit cb now cs) = cs_ConsecutiveSuccesses cs + 1"
  "cs_HalfOpenCalls (success_circuit cb now cs) =
     (if cs_State cs = HALF_OPEN \<and> cs_ConsecutiveSuccesses cs + 1 \<ge> cb_SuccessThreshold cb
      then 0 else cs_HalfOpenCalls cs)"
  by (simp_all add: success_circuit_def Let_def)

text \<open>
  What the manager does to the rate limiter of a provider are the steps of \<open>limiter_reach\<close>: a
  test that comes to the limiter asks it, a success is recorded, and failures change nothing.
\<close>

lemma manager_limiter_steps:
  assumes "rl_Enabled (cc_RateLimit (pm_config pm))" "pm_rateLimitStates pm n = Some rls"
  shows "isProviderAvailable n t pm = Returns (pm', ok) \<Longrightarrow>
      \<exists>rls'. pm_rateLimitStates pm' n = Some rls' \<and>
        (rls' = rls \<and> \<not> ok \<or> CanMakeRequest (cc_RateLimit (pm_config pm)) t rls = Returns (rls', ok))"
    and "pm_rateLimitStates (recordSuccess_state clk n pm) n =
      Some (RecordRequest (cc_RateLimit (pm_config pm)) (clk 1) rls)"
    and "pm_rateLimitStates (updateFailureState n t pm) n = Some rls"
    and "pm_rateLimitStates (handleAuthFailure n t pm) n = Some rls"
proof -
  obtain p1 b1 where 1: "check_failures n t pm = (p1, b1)" by fastforce
  obtain p2 b2 where 2: "check_circuit n t p1 = (p2, b2)" by fastforce
  have k: "pm_config p2 = pm_config pm" "pm_rateLimitStates p2 = pm_rateLimitStates pm"
      "pm_rateLimitStates p1 = pm_rateLimitStates pm"
    using check_failures_circuit [of n t pm] check_circuit_keeps [of n t p1] 1 2 by simp_all
  show "\<exists>rls'. pm_rateLimitStates pm' n = Some rls' \<and>
        (rls' = rls \<and> \<not> ok \<or> CanMakeRequest (cc_RateLimit (pm_config pm)) t rls = Returns (rls', ok))"
    if "isProviderAvailable n t pm = Returns (pm', ok)"
    using that 1 2 k assms
    by (cases b1; cases b2) (auto simp: isProviderAvailable_def check_rate_def split: if_splits outcome.splits)
qed (use assms in \<open>auto simp: recordSuccess_state_def updateFailureState_def handleAuthFailure_def Let_def
       split: option.splits\<close>)

subsection \<open>Reachable states and the breaker invariant\<close>

text \<open>
  Everything that changes a manager, in any order and for any provider names: providers are
  added, tested, succeed and fail, attempts are counted, and the configuration, the strategy and the
  engine are replaced at run time. \<open>T\<close> bounds the failure thresholds of all configurations that
  have been in force.
\<close>

inductive chain_reach :: "int \<Rightarrow> 'p provider_manager \<Rightarrow> bool" for T where
  start: "newProviderManager cfg = Returns pm \<Longrightarrow> cb_FailureThreshold (cc_CircuitBreaker cfg) \<le> T \<Longrightarrow>
          chain_reach T pm"
| added: "chain_reach T pm \<Longrightarrow> chain_reach T (addProvider srt clk p prio n pm)"
| tested: "chain_reach T pm \<Longrightarrow> isProviderAvailable n now pm = Returns (pm', ok) \<Longrightarrow>
           chain_reach T pm'"
| succeeded: "chain_reach T pm \<Longrightarrow> chain_reach T (recordSuccess_state clk n pm)"
| failed: "chain_reach T pm \<Longrightarrow> chain_reach T (updateFailureState n now pm)"
| auth_failed: "chain_reach T pm \<Longrightarrow> chain_reach T (handleAuthFailure n now pm)"
| attempted: "chain_reach T pm \<Longrightarrow>
              chain_reach T (pm\<lparr>pm_selector := RecordAttempt n prio (pm_selector pm)\<rparr>)"
| configured: "chain_reach T pm \<Longrightarrow> updateChainConfig cfg pm = Returns pm' \<Longrightarrow>
               cb_FailureThreshold (cc_CircuitBreaker cfg) \<le> T \<Longrightarrow> chain_reach T pm'"
| strategy: "chain_reach T pm \<Longrightarrow> chain_reach T (fst (manager_SetSelectionStrategy s pm))"
| engine: "chain_reach T pm \<Longrightarrow> chain_reach T (fst (SetScoringEngine clk eng pm))"

text \<open>
  A closed breaker has seen fewer consecutive failures than the bound, counters are never
  negative, and no provider is unhealthy, because no code changes the health that \<open>addProvider\<close>
  sets.
\<close>

definition breaker_ok :: "int \<Rightarrow> circuit_state \<Rightarrow> bool" where
  "breaker_ok T cs \<longleftrightarrow>
     0 \<le> cs_ConsecutiveFailures cs \<and> 0 \<le> cs_ConsecutiveSuccesses cs \<and> 0 \<le> cs_HalfOpenCalls cs \<and>
     (cs_State cs = CLOSED \<longrightarrow> cs_ConsecutiveFailures cs < T)"

definition tracker_ok :: "failure_info \<Rightarrow> bool" where
  "tracker_ok f \<longleftrightarrow>
     0 \<le> fi_ConsecutiveFailures f \<and> 0 \<le> fi_ConsecutiveAuthFailures f \<and>
     fi_ConsecutiveFailures f \<le> fi_TotalFailures f"

definition manager_ok :: "int \<Rightarrow> 'p provider_manager \<Rightarrow> bool" where
  "manager_ok T pm \<longleftrightarrow>
     cb_FailureThreshold (cc_CircuitBreaker (pm_config pm)) \<le> T \<and>
     (\<forall>n. pred_option (breaker_ok T) (pm_circuitStates pm n)) \<and>
     (\<forall>n. pred_option tracker_ok (pm_failureTracker pm n)) \<and>
     (\<forall>n. pred_option hst_IsHealthy (pm_healthStates pm n))"

lemma manager_okI:
  assumes "manager_ok T pm" "pm_config pm' = pm_config pm" "pm_healthStates pm' = pm_healthStates pm"
    and "\<And>m. m \<noteq> n \<Longrightarrow> pm_circuitStates pm' m = pm_circuitStates pm m"
    and "\<And>m. m \<noteq> n \<Longrightarrow> pm_failureTracker pm' m = pm_failureTracker pm m"
    and "pred_option (breaker_ok T) (pm_circuitStates pm' n)"
    and "pred_option tracker_ok (pm_failureTracker pm' n)"
  shows "manager_ok T pm'"
  unfolding manager_ok_def using assms by (metis manager_ok_def)

lemma manager_ok_at:
  assumes "manager_ok T pm"
  shows "cb_FailureThreshold (cc_CircuitBreaker (pm_config pm)) \<le> T"
    and "pm_circuitStates pm n = Some cs \<Longrightarrow> breaker_ok T cs"
    and "pm_failureTracker pm n = Some f \<Longrightarrow> tracker_ok f"
    and "pm_healthStates pm n = Some h \<Longrightarrow> hst_IsHealthy h"
  using assms unfolding manager_ok_def by (metis option.pred_inject(2))+

lemma manager_ok_cong:
  assumes "manager_ok T pm" "cb_FailureThreshold (cc_CircuitBreaker (pm_config pm')) \<le> T"
    and "pm_circuitStates pm' = pm_circuitStates pm" "pm_failureTracker pm' = pm_failureTracker pm"
    and "pm_healthStates pm' = pm_healthStates pm"
  shows "manager_ok T pm'"
  using assms by (simp add: manager_ok_def)

lemma breaker_ok_steps:
  assumes "breaker_ok T cs" "0 < T" "cb_FailureThreshold cb \<le> T"
  shows "breaker_ok T (success_circuit cb now cs)" "breaker_ok T (failure_circuit cb now cs)"
    "breaker_ok T (cs\<lparr>cs_State := OPEN, cs_LastStateChange := now\<rparr>)"
    "breaker_ok T (cs\<lparr>cs_State := HALF_OPEN, cs_LastStateChange := now, cs_HalfOpenCalls := 0\<rparr>)"
  using assms by (auto simp: breaker_ok_def success_circuit_def failure_circuit_def Let_def)

lemma tracker_ok_steps:
  assumes "tracker_ok f"
  shows "tracker_ok (success_failure_info f)" "tracker_ok (failure_failure_info cb now f)"
    "tracker_ok (f\<lparr>fi_ConsecutiveAuthFailures := fi_ConsecutiveAuthFailures f + 1\<rparr>)"
    "tracker_ok (f\<lparr>fi_IsTemporarilyDown := False, fi_ConsecutiveFailures := 0\<rparr>)"
  using assms by (auto simp: tracker_ok_def success_failure_info_def failure_failure_info_def Let_def)

lemma tracker_ok_first:
  "tracker_ok (zero_failure_info\<lparr>fi_ConsecutiveFailures := 1, fi_LastFailureTime := now,
     fi_TotalFailures := 1\<rparr>)"
  by (simp add: tracker_ok_def zero_failure_info_def)

lemma check_failures_ok:
  assumes "manager_ok T pm"
  shows "manager_ok T (fst (check_failures n now pm))"
  by (rule manager_okI [OF assms, where n = n])
     (use manager_ok_at [OF assms] in \<open>auto simp: check_failures_def option.pred_set tracker_ok_steps
        split: option.splits\<close>)

lemma check_circuit_ok:
  assumes "manager_ok T pm" "0 < T"
  shows "manager_ok T (fst (check_circuit n now pm))"
  by (rule manager_okI [OF assms(1), where n = n])
     (use assms(2) manager_ok_at [OF assms(1)] in \<open>auto simp: check_circuit_def option.pred_set
        breaker_ok_steps(4) check_circuit_other
        split: option.splits circuit_status.splits\<close>)

lemma isProviderAvailable_ok:
  assumes "manager_ok T pm" "0 < T" "isProviderAvailable n now pm = Returns (pm', ok)"
  shows "manager_ok T pm'"
  using check_failures_ok [OF assms(1), of n now]
    check_circuit_ok [OF check_failures_ok [OF assms(1), of n now] assms(2), of n now]
    isProviderAvailable_states [OF assms(3)] assms(1)
  unfolding manager_ok_def by (auto split: if_splits)

lemma updateFailureState_ok:
  assumes "manager_ok T pm" "0 < T"
  shows "manager_ok T (updateFailureState n now pm)"
  by (rule manager_okI [OF assms(1), where n = n])
     (use assms(2) manager_ok_at [OF assms(1)] in \<open>auto simp: updateFailureState_def Let_def option.pred_set
        breaker_ok_steps tracker_ok_steps tracker_ok_first
        split: option.splits\<close>)

lemma recordSuccess_state_ok:
  assumes "manager_ok T pm" "0 < T"
  shows "manager_ok T (recordSuccess_state clk n pm)"
  by (rule manager_okI [OF assms(1), where n = n])
     (use assms(2) manager_ok_at [OF assms(1)] in \<open>auto simp: option.pred_set breaker_ok_steps
        tracker_ok_steps\<close>)

lemma handleAuthFailure_ok:
  assumes "manager_ok T pm" "0 < T"
  shows "manager_ok T (handleAuthFailure n now pm)"
  by (rule manager_okI [OF assms(1), where n = n])
     (use assms(2) manager_ok_at [OF assms(1)] in \<open>auto simp: handleAuthFailure_def Let_def option.pred_set
        breaker_ok_steps(3) tracker_ok_steps split: option.splits\<close>)

lemma addProvider_ok:
  assumes "manager_ok T pm" "0 < T"
  shows "manager_ok T (addProvider srt clk p prio n pm)"
  using assms
  by (auto simp: addProvider_def manager_ok_def breaker_ok_def tracker_ok_def new_circuit_state_def
      zero_failure_info_def new_health_state_def split: option.splits)

lemma config_steps_ok:
  assumes "manager_ok T pm"
  shows "updateChainConfig cfg pm = Returns pm' \<Longrightarrow> cb_FailureThreshold (cc_CircuitBreaker cfg) \<le> T \<Longrightarrow> manager_ok T pm'"
    and "manager_ok T (fst (manager_SetSelectionStrategy s pm))"
    and "manager_ok T (fst (SetScoringEngine clk eng pm))"
    and "manager_ok T (pm\<lparr>pm_selector := sel\<rparr>)"
  using manager_ok_at(1) [OF assms] by (auto intro!: manager_ok_cong [OF assms]
      simp: updateChainConfig_def manager_SetSelectionStrategy_def SetScoringEngine_def Let_def
      split: if_splits sum.splits option.splits)

lemma chain_reach_ok:
  assumes "chain_reach T pm" "0 < T"
  shows "manager_ok T pm"
  using assms
proof (induction rule: chain_reach.induct)
  case (start cfg pm)
  then show ?case by (auto simp: newProviderManager_def manager_ok_def split: if_splits)
qed (auto intro: addProvider_ok isProviderAvailable_ok recordSuccess_state_ok
       updateFailureState_ok handleAuthFailure_ok config_steps_ok)

subsection \<open>An open breaker keeps the provider out\<close>

lemma open_timeout_check_failures [simp]:
  "open_timeout m (fst (check_failures n now pm)) = open_timeout m pm"
  by (cases "m = n") (auto simp: open_timeout_def check_failures_def split: option.splits)

lemma open_timeout_check_circuit [simp]:
  "open_timeout m (fst (check_circuit n now pm)) = open_timeout m pm"
  by (simp add: open_timeout_def split: option.split)

lemma open_unavailable:
  assumes "cb_Enabled (cc_CircuitBreaker (pm_config pm))" "pm_circuitStates pm n = Some cs"
    and "cs_State cs = OPEN" "now - cs_LastStateChange cs < open_timeout n pm"
  shows "isProviderAvailable n now pm = Returns (fst (check_failures n now pm), False)"
proof -
  obtain p1 b where 1: "check_failures n now pm = (p1, b)" by fastforce
  have "check_circuit n now p1 = (p1, False)"
    using assms check_failures_circuit [of n now pm] open_timeout_check_failures [of n n now pm]
    by (simp add: 1 check_circuit_def)
  then show ?thesis by (cases b) (simp_all add: 1 isProviderAvailable_def)
qed

text \<open>
  C3: The failure threshold of the breakers. In every state that a chain reaches, whatever the
  order of calls, configuration changes, strategy changes and engine changes, a closed breaker
  has counted fewer consecutive failures than the largest \<open>FailureThreshold\<close> that has been in
  force; without a change of the configuration this is the configured one. A failure that brings
  the count to the current threshold, also to one that was lowered meanwhile, opens the breaker,
  and the provider is then refused until the timeout (ten minutes after repeated authentication
  failures) has passed.
\<close>

theorem breaker_threshold:
  assumes "chain_reach T pm" "0 < T" "cb_Enabled (cc_CircuitBreaker (pm_config pm))"
    and "pm_circuitStates pm n = Some cs" "cs_State cs = CLOSED"
  shows "cs_ConsecutiveFailures cs < T \<and>
    (cb_FailureThreshold (cc_CircuitBreaker (pm_config pm)) \<le> cs_ConsecutiveFailures cs + 1 \<longrightarrow>
     (\<forall>now now'. let pm' = updateFailureState n now pm in
        map_option cs_State (pm_circuitStates pm' n) = Some OPEN \<and>
        (now' - now < open_timeout n pm' \<longrightarrow>
         map_outcome snd (isProviderAvailable n now' pm') = Returns False)))"
proof -
  let ?cb = "cc_CircuitBreaker (pm_config pm)"
  have ok: "breaker_ok T cs"
    using manager_ok_at(2) [OF chain_reach_ok [OF assms(1,2)]] assms(4) by auto
  have opens: "map_option cs_State (pm_circuitStates (updateFailureState n now pm) n) = Some OPEN \<and>
      (now' - now < open_timeout n (updateFailureState n now pm) \<longrightarrow>
       map_outcome snd (isProviderAvailable n now' (updateFailureState n now pm)) = Returns False)"
    if "cb_FailureThreshold ?cb \<le> cs_ConsecutiveFailures cs + 1" for now now'
  proof -
    define cs' where "cs' = failure_circuit ?cb now cs"
    have cs': "failure_circuit ?cb now cs = cs'" "cs_State cs' = OPEN" "cs_LastStateChange cs' = now"
      using that by (simp_all add: cs'_def failure_circuit_fields)
    have "pm_circuitStates (updateFailureState n now pm) n = Some cs'"
      using assms(3,4) cs'(1) by simp
    with open_unavailable [of "updateFailureState n now pm" n cs' now'] cs' assms(3)
    show ?thesis by auto
  qed
  show ?thesis using ok assms(5) opens by (simp add: breaker_ok_def Let_def)
qed

text \<open>A chain with one provider, one failure away from the threshold.\<close>

definition demo_chain :: "nat provider_manager" where
  "demo_chain = addProvider (sort_key prv_Priority) (\<lambda>_. 0) (Some 7) 1 ''a''
     (case newProviderManager (DefaultChainConfig ProviderChainTxBroadcasters) of Returns pm \<Rightarrow> pm)"

lemma demo_chain_reach:
  "chain_reach 5 demo_chain"
  unfolding demo_chain_def
  by (rule chain_reach.added, rule chain_reach.start [of "DefaultChainConfig ProviderChainTxBroadcasters"])
     (simp_all add: newProviderManager_def DefaultChainConfig_def)

lemma demo_chain_states:
  "pm_circuitStates demo_chain = [''a'' \<mapsto> new_circuit_state 0]"
  "pm_failureTracker demo_chain = [''a'' \<mapsto> zero_failure_info]"
  "pm_config demo_chain = DefaultChainConfig ProviderChainTxBroadcasters"
  by (simp_all add: demo_chain_def addProvider_def newProviderManager_def DefaultChainConfig_def)

theorem breaker_threshold_witness:
  "let pm = updateFailureState ''a'' 4 (updateFailureState ''a'' 3
              (updateFailureState ''a'' 2 (updateFailureState ''a'' 1 demo_chain)));
       pm' = updateFailureState ''a'' 5 pm
   in map_option cs_State (pm_circuitStates pm' ''a'') = Some OPEN \<and>
      map_outcome snd (isProviderAvailable ''a'' (29 * second) pm') = Returns False"
proof -
  define pm where "pm = updateFailureState ''a'' 4 (updateFailureState ''a'' 3
              (updateFailureState ''a'' 2 (updateFailureState ''a'' 1 demo_chain)))"
  have reach: "chain_reach 5 pm"
    unfolding pm_def by (intro chain_reach.failed demo_chain_reach)
  obtain cs where cs: "pm_circuitStates pm ''a'' = Some cs" "cs_State cs = CLOSED"
      "cs_ConsecutiveFailures cs = 4"
    by (simp add: pm_def demo_chain_states failure_circuit_def new_circuit_state_def
          DefaultChainConfig_def)
  have pm_config: "pm_config pm = DefaultChainConfig ProviderChainTxBroadcasters"
    by (simp add: pm_def demo_chain_states)
  have "open_timeout ''a'' (updateFailureState ''a'' 5 pm) = 30 * second"
    by (simp add: pm_def open_timeout_def updateFailureState_def Let_def demo_chain_states
          failure_failure_info_def zero_failure_info_def authFailureCircuitThreshold_def
          DefaultChainConfig_def)
  then show ?thesis
    using breaker_threshold [OF reach _ _ cs(1,2)] cs(3)
    by (simp add: pm_def [symmetric] Let_def DefaultChainConfig_def pm_config)
qed

subsection \<open>Authentication failures\<close>

lemma updateFailureState_tracker:
  "pm_failureTracker (updateFailureState n now pm) n =
     Some (case pm_failureTracker pm n of
             Some f \<Rightarrow> failure_failure_info (cc_CircuitBreaker (pm_config pm)) now f
           | None \<Rightarrow> zero_failure_info\<lparr>fi_ConsecutiveFailures := 1, fi_LastFailureTime := now,
                       fi_TotalFailures := 1\<rparr>)"
  by (simp add: updateFailureState_def Let_def)

lemma failure_failure_info_auth [simp]:
  "fi_ConsecutiveAuthFailures (failure_failure_info cb now f) = fi_ConsecutiveAuthFailures f"
  by (simp add: failure_failure_info_def Let_def)

text \<open>
  C6: The third consecutive authentication failure opens the breaker whatever the failure
  threshold is, and the provider is refused for the following ten minutes.
\<close>

theorem auth_failures_open_circuit:
  assumes "cb_Enabled (cc_CircuitBreaker (pm_config pm))" "errors_Is err ErrAuthFailure"
    and "pm_failureTracker pm n = Some f" "2 \<le> fi_ConsecutiveAuthFailures f"
    and "pm_circuitStates pm n = Some cs"
    and "recordFailureWithError order clk ctx n err d now (pm, e) = (pm', e')"
  shows "map_option cs_State (pm_circuitStates pm' n) = Some OPEN \<and>
    (now' - now < 10 * minute \<longrightarrow> map_outcome snd (isProviderAvailable n now' pm') = Returns False)"
proof -
  let ?cb = "cc_CircuitBreaker (pm_config pm)"
  let ?f = "failure_failure_info ?cb now f"
  define cs' where "cs' = (failure_circuit ?cb now cs)\<lparr>cs_State := OPEN, cs_LastStateChange := now\<rparr>"
  have pm': "pm' = handleAuthFailure n now (updateFailureState n now pm)"
    using assms(2,6) by (simp add: recordFailureWithError_def Let_def)
  have f: "pm_failureTracker (updateFailureState n now pm) n = Some ?f"
    using assms(3) by (simp add: updateFailureState_tracker)
  have cs: "pm_circuitStates pm' n = Some cs'"
    using assms(1,4,5) by (simp add: pm' handleAuthFailure_def f Let_def cs'_def
        authFailureCircuitThreshold_def)
  have "pm_failureTracker pm' n =
      Some (?f\<lparr>fi_ConsecutiveAuthFailures := fi_ConsecutiveAuthFailures f + 1\<rparr>)"
    by (simp add: pm' handleAuthFailure_def f Let_def)
  then have "open_timeout n pm' = 10 * minute"
    using assms(4)
    by (simp add: open_timeout_def authFailureCircuitThreshold_def authFailureCircuitTimeout_def)
  moreover have "cs_State cs' = OPEN" "cs_LastStateChange cs' = now"
    "cb_Enabled (cc_CircuitBreaker (pm_config pm'))"
    using assms(1) by (simp_all add: cs'_def pm')
  ultimately show ?thesis using open_unavailable [of pm' n cs' now'] cs by auto
qed

text \<open>A bad API key, and the demonstration chain after two such failures.\<close>

definition demo_auth_error :: goerror where
  "demo_auth_error = sentinel_error ''authentication failed'' ErrAuthFailure"

definition demo_auth_chain :: "nat provider_manager" where
  "demo_auth_chain = handleAuthFailure ''a'' 2 (updateFailureState ''a'' 2
     (handleAuthFailure ''a'' 1 (updateFailureState ''a'' 1 demo_chain)))"

lemma demo_auth_chain_states:
  "\<exists>f. pm_failureTracker demo_auth_chain ''a'' = Some f \<and> fi_ConsecutiveAuthFailures f = 2"
  "\<exists>cs. pm_circuitStates demo_auth_chain ''a'' = Some cs \<and> cs_State cs = CLOSED"
  by (simp_all add: demo_auth_chain_def handleAuthFailure_def updateFailureState_def Let_def
        demo_chain_states failure_failure_info_def zero_failure_info_def failure_circuit_def
        new_circuit_state_def authFailureCircuitThreshold_def DefaultChainConfig_def)

lemma demo_auth_chain_config:
  "pm_config demo_auth_chain = DefaultChainConfig ProviderChainTxBroadcasters"
  by (simp add: demo_auth_chain_def demo_chain_states)

theorem auth_failures_open_circuit_witness:
  "\<forall>e. \<exists>pm'. recordFailureWithError [] (\<lambda>_. 3) Background ''a'' demo_auth_error 5 3
             (demo_auth_chain, e) = (pm', e) \<and>
         map_outcome snd (isProviderAvailable ''a'' (9 * minute) pm') = Returns False"
proof
  fix e
  obtain f cs where s: "pm_failureTracker demo_auth_chain ''a'' = Some f"
      "fi_ConsecutiveAuthFailures f = 2" "pm_circuitStates demo_auth_chain ''a'' = Some cs"
    using demo_auth_chain_states by blast
  have he: "\<not> pm_hasEngine demo_auth_chain"
    by (simp add: demo_auth_chain_def demo_chain_def addProvider_def newProviderManager_def
          DefaultChainConfig_def)
  obtain pm' where pm': "recordFailureWithError [] (\<lambda>_. 3) Background ''a'' demo_auth_error 5 3
             (demo_auth_chain, e) = (pm', e)"
    using he by (simp add: recordFailureWithError_def Let_def)
  show "\<exists>pm'. recordFailureWithError [] (\<lambda>_. 3) Background ''a'' demo_auth_error 5 3
             (demo_auth_chain, e) = (pm', e) \<and>
         map_outcome snd (isProviderAvailable ''a'' (9 * minute) pm') = Returns False"
    using auth_failures_open_circuit [OF _ _ s(1) _ s(3) pm', of "9 * minute"] s(2) pm'
    by (auto simp: demo_auth_chain_config DefaultChainConfig_def demo_auth_error_def)
qed

subsection \<open>Probing and recovery\<close>

lemma success_half_open:
  assumes "cb_Enabled (cc_CircuitBreaker (pm_config pm))"
    and "pm_circuitStates pm n = Some cs" "cs_State cs = HALF_OPEN"
    and "cs_ConsecutiveSuccesses cs + int k < cb_SuccessThreshold (cc_CircuitBreaker (pm_config pm))"
  shows "\<exists>cs'. pm_circuitStates ((recordSuccess_state clk n ^^ k) pm) n = Some cs' \<and>
           cs_State cs' = HALF_OPEN \<and>
           cs_ConsecutiveSuccesses cs' = cs_ConsecutiveSuccesses cs + int k \<and>
           pm_config ((recordSuccess_state clk n ^^ k) pm) = pm_config pm"
  using assms by (induction k) (auto simp: success_circuit_fields)

lemma success_stays_closed:
  assumes "pm_circuitStates pm n = Some cs" "cs_State cs = CLOSED"
  shows "\<exists>cs'. pm_circuitStates ((recordSuccess_state clk n ^^ k) pm) n = Some cs' \<and>
           cs_State cs' = CLOSED"
  using assms by (induction k) (auto simp: success_circuit_fields)

lemma successes_close:
  assumes "cb_Enabled (cc_CircuitBreaker (pm_config pm))"
    and "pm_circuitStates pm n = Some cs" "cs_State cs = HALF_OPEN" "0 \<le> cs_ConsecutiveSuccesses cs"
    and "0 < k" "cb_SuccessThreshold (cc_CircuitBreaker (pm_config pm)) \<le> int k"
  shows "map_option cs_State (pm_circuitStates ((recordSuccess_state clk n ^^ k) pm) n) = Some CLOSED"
proof -
  let ?T = "cb_SuccessThreshold (cc_CircuitBreaker (pm_config pm))"
  define j where "j = nat (?T - 1 - cs_ConsecutiveSuccesses cs)"
  define p where "p = (recordSuccess_state clk n ^^ j) pm"
  have "\<exists>cs'. pm_circuitStates p n = Some cs' \<and> cs_State cs' = HALF_OPEN \<and>
      cs_ConsecutiveSuccesses cs' = cs_ConsecutiveSuccesses cs + int j \<and> pm_config p = pm_config pm"
  proof (cases "j = 0")
    case False
    then show ?thesis unfolding p_def by (intro success_half_open assms(1-3)) (simp add: j_def)
  qed (use assms in \<open>simp add: p_def\<close>)
  then have "\<exists>cs'. pm_circuitStates (recordSuccess_state clk n p) n = Some cs' \<and> cs_State cs' = CLOSED"
    using assms(1) by (auto simp: success_circuit_fields j_def)
  moreover have "Suc j \<le> k" using assms(4-6) unfolding j_def by linarith
  then obtain i where "k = i + Suc j" by (metis add.commute le_Suc_ex)
  then have "(recordSuccess_state clk n ^^ k) pm =
      (recordSuccess_state clk n ^^ i) (recordSuccess_state clk n p)"
    by (simp only: funpow_add p_def o_apply funpow.simps)
  ultimately show ?thesis
    using success_stays_closed [of "recordSuccess_state clk n p" n _ i clk] by fastforce
qed

lemma check_failures_cooled:
  assumes "pred_option (\<lambda>f. cb_Timeout (cc_CircuitBreaker (pm_config pm)) \<le> now - fi_LastFailureTime f)
      (pm_failureTracker pm n)"
  shows "snd (check_failures n now pm)"
  using assms by (auto simp: check_failures_def split: option.splits)

lemma check_rate_admits:
  assumes "rl_Enabled (cc_RateLimit (pm_config pm)) \<Longrightarrow>
      pred_option (\<lambda>rls. \<exists>rls'. CanMakeRequest (cc_RateLimit (pm_config pm)) now rls = Returns (rls', True))
        (pm_rateLimitStates pm n)"
  shows "\<exists>pm'. check_rate n now pm = Returns (pm', True)"
  using assms by (auto simp: check_rate_def split: option.splits)

text \<open>
  C4: Recovery of a breaker. The state is any that the chain reaches, with any configuration
  changes before. When the timeout of an open breaker has passed since it opened, when the
  failure tracker's last failure is at least the configured timeout ago, and when the rate limiter,
  if enabled, admits a request, the next availability test admits the provider in the half-open
  state; health checks never prevent it. As many recorded successes in a row as
  \<open>SuccessThreshold\<close> asks then close the breaker.
\<close>

theorem breaker_recovers:
  assumes "chain_reach T pm" "0 < T" "cb_Enabled (cc_CircuitBreaker (pm_config pm))"
    and "pm_circuitStates pm n = Some cs" "cs_State cs = OPEN"
    and "open_timeout n pm \<le> now - cs_LastStateChange cs"
    and "pred_option (\<lambda>f. cb_Timeout (cc_CircuitBreaker (pm_config pm)) \<le> now - fi_LastFailureTime f)
      (pm_failureTracker pm n)"
    and "rl_Enabled (cc_RateLimit (pm_config pm)) \<Longrightarrow>
      pred_option (\<lambda>rls. \<exists>rls'. CanMakeRequest (cc_RateLimit (pm_config pm)) now rls = Returns (rls', True))
        (pm_rateLimitStates pm n)"
    and "0 < k" "cb_SuccessThreshold (cc_CircuitBreaker (pm_config pm)) \<le> int k"
  shows "\<exists>pm'. isProviderAvailable n now pm = Returns (pm', True) \<and>
     map_option cs_State (pm_circuitStates pm' n) = Some HALF_OPEN \<and>
     map_option cs_State (pm_circuitStates ((recordSuccess_state clk n ^^ k) pm') n) = Some CLOSED"
proof -
  define cs' where "cs' = cs\<lparr>cs_State := HALF_OPEN, cs_LastStateChange := now, cs_HalfOpenCalls := 0\<rparr>"
  note ok = manager_ok_at [OF chain_reach_ok [OF assms(1,2)]]
  obtain p1 where 1: "check_failures n now pm = (p1, True)"
    using check_failures_cooled [OF assms(7)] by (metis prod.collapse)
  note k1 = check_failures_circuit [of n now pm, unfolded 1 fst_conv]
    open_timeout_check_failures [of n n now pm, unfolded 1 fst_conv]
  define p2 where "p2 = p1\<lparr>pm_circuitStates := (pm_circuitStates p1)(n \<mapsto> cs')\<rparr>"
  have 2: "check_circuit n now p1 = (p2, True)"
    using assms(3-6) k1 by (simp add: check_circuit_def p2_def cs'_def)
  have p2: "pm_config p2 = pm_config pm" "pm_circuitStates p2 n = Some cs'"
      "pm_rateLimitStates p2 = pm_rateLimitStates pm" "pm_healthStates p2 = pm_healthStates pm"
    using k1 by (simp_all add: p2_def)
  have 3: "check_health n p2"
    using ok(4) [of n] p2(4) by (auto simp: check_health_def split: option.splits)
  obtain p3 where 4: "check_rate n now p2 = Returns (p3, True)"
    using check_rate_admits [of p2 now n] assms(8) p2(1,3) by auto
  note p3 = check_rate_keeps [OF 4]
  have "isProviderAvailable n now pm = Returns (p3, True)"
    using 1 2 3 4 by (simp add: isProviderAvailable_def)
  moreover have "map_option cs_State (pm_circuitStates ((recordSuccess_state clk n ^^ k) p3) n) = Some CLOSED"
    by (rule successes_close [of p3 n cs'])
       (use assms(3,9,10) ok(2) [OF assms(4)] p2 p3 in \<open>simp_all add: cs'_def breaker_ok_def\<close>)
  ultimately show ?thesis using p2(2) p3(2) by (simp add: cs'_def)
qed

text \<open>The demonstration chain after five failures.\<close>

definition demo_open_chain :: "nat provider_manager" where
  "demo_open_chain = fold (updateFailureState ''a'') [1, 2, 3, 4, 5] demo_chain"

lemma demo_open_chain_reach:
  "chain_reach 5 demo_open_chain"
  unfolding demo_open_chain_def by (simp, intro chain_reach.failed demo_chain_reach)

lemma demo_open_chain_states:
  "pm_circuitStates demo_open_chain ''a'' =
     Some \<lparr>cs_State = OPEN, cs_LastStateChange = 5, cs_ConsecutiveFailures = 5,
           cs_ConsecutiveSuccesses = 0, cs_HalfOpenCalls = 0, cs_LastFailureTime = 5\<rparr>"
  "pm_failureTracker demo_open_chain ''a'' =
     Some \<lparr>fi_ConsecutiveFailures = 5, fi_LastFailureTime = 5, fi_IsTemporarilyDown = True,
           fi_TotalFailures = 5, fi_TotalSuccesses = 0, fi_LastRetryAttempt = 0,
           fi_RetryCount = 0, fi_ConsecutiveAuthFailures = 0\<rparr>"
  "pm_config demo_open_chain = DefaultChainConfig ProviderChainTxBroadcasters"
  by (simp_all add: demo_open_chain_def updateFailureState_def Let_def demo_chain_states
        failure_failure_info_def zero_failure_info_def failure_circuit_def new_circuit_state_def
        DefaultChainConfig_def)

theorem breaker_recovers_witness:
  "\<exists>pm'. isProviderAvailable ''a'' (31 * second) demo_open_chain = Returns (pm', True) \<and>
     map_option cs_State (pm_circuitStates pm' ''a'') = Some HALF_OPEN \<and>
     map_option cs_State
       (pm_circuitStates ((recordSuccess_state (\<lambda>_. 32 * second) ''a'' ^^ 3) pm') ''a'') = Some CLOSED"
  by (rule breaker_recovers [OF demo_open_chain_reach _ _ demo_open_chain_states(1)])
     (simp_all add: DefaultChainConfig_def open_timeout_def demo_open_chain_states
        authFailureCircuitThreshold_def)

subsection \<open>A half-open breaker that never leaves its state\<close>

text \<open>
  Failures in the half-open state count towards \<open>HalfOpenMaxCalls\<close>, but they reopen the
  breaker only when enough of them are consecutive.
\<close>

fun availability_tests ::
  "string \<Rightarrow> gotime list \<Rightarrow> 'p provider_manager \<Rightarrow> bool list outcome" where
  "availability_tests n [] pm = Returns []"
| "availability_tests n (t # ts) pm =
     (case isProviderAvailable n t pm of
        Panics \<Rightarrow> Panics
      | Returns (pm', ok) \<Rightarrow> map_outcome (Cons ok) (availability_tests n ts pm'))"

definition mixed_probe ::
  "string \<Rightarrow> (nat \<Rightarrow> gotime) \<Rightarrow> gotime \<Rightarrow> 'p provider_manager \<Rightarrow> 'p provider_manager" where
  "mixed_probe n clk now pm = updateFailureState n now (recordSuccess_state clk n pm)"

lemma mixed_probes:
  assumes "cb_Enabled (cc_CircuitBreaker (pm_config pm))"
    and "2 \<le> cb_FailureThreshold (cc_CircuitBreaker (pm_config pm))"
    and "2 \<le> cb_SuccessThreshold (cc_CircuitBreaker (pm_config pm))"
    and "pm_circuitStates pm n = Some cs" "cs_State cs = HALF_OPEN"
    and "cs_ConsecutiveSuccesses cs = 0" "cs_HalfOpenCalls cs = 0"
  shows "\<exists>cs'. pm_circuitStates ((mixed_probe n clk now ^^ k) pm) n = Some cs' \<and>
           cs_State cs' = HALF_OPEN \<and> cs_ConsecutiveSuccesses cs' = 0 \<and>
           cs_HalfOpenCalls cs' = int k \<and>
           pm_config ((mixed_probe n clk now ^^ k) pm) = pm_config pm"
  using assms
  by (induction k) (auto simp: mixed_probe_def success_circuit_fields failure_circuit_fields)

lemma exhausted_refused:
  assumes "cb_Enabled (cc_CircuitBreaker (pm_config pm))" "pm_circuitStates pm n = Some cs"
    and "cs_State cs = HALF_OPEN"
    and "cb_HalfOpenMaxCalls (cc_CircuitBreaker (pm_config pm)) \<le> cs_HalfOpenCalls cs"
  shows "isProviderAvailable n now pm = Returns (fst (check_failures n now pm), False)"
proof -
  obtain p1 b where 1: "check_failures n now pm = (p1, b)" by fastforce
  have "check_circuit n now p1 = (p1, False)"
    using assms check_failures_circuit [of n now pm] by (simp add: 1 check_circuit_def)
  then show ?thesis by (cases b) (simp_all add: 1 isProviderAvailable_def)
qed

lemma exhausted_forever:
  assumes "cb_Enabled (cc_CircuitBreaker (pm_config pm))" "pm_circuitStates pm n = Some cs"
    and "cs_State cs = HALF_OPEN"
    and "cb_HalfOpenMaxCalls (cc_CircuitBreaker (pm_config pm)) \<le> cs_HalfOpenCalls cs"
  shows "availability_tests n ts pm = Returns (replicate (length ts) False)"
  using assms by (induction ts arbitrary: pm) (simp_all add: exhausted_refused)

text \<open>
  C5: A provider that alternates between success and failure while half-open exhausts
  \<open>HalfOpenMaxCalls\<close> without closing or reopening its breaker. From then on every
  availability test, at any later times, refuses it: the breaker is stuck.
\<close>

theorem half_open_stuck:
  assumes "cb_Enabled (cc_CircuitBreaker (pm_config pm))"
    and "2 \<le> cb_FailureThreshold (cc_CircuitBreaker (pm_config pm))"
    and "2 \<le> cb_SuccessThreshold (cc_CircuitBreaker (pm_config pm))"
    and "pm_circuitStates pm n = Some cs" "cs_State cs = HALF_OPEN"
    and "cs_ConsecutiveSuccesses cs = 0" "cs_HalfOpenCalls cs = 0"
    and "cb_HalfOpenMaxCalls (cc_CircuitBreaker (pm_config pm)) \<le> int k"
  shows "map_option cs_State (pm_circuitStates ((mixed_probe n clk now ^^ k) pm) n) = Some HALF_OPEN \<and>
    availability_tests n ts ((mixed_probe n clk now ^^ k) pm) = Returns (replicate (length ts) False)"
proof -
  obtain cs' where "pm_circuitStates ((mixed_probe n clk now ^^ k) pm) n = Some cs'"
      "cs_State cs' = HALF_OPEN" "cs_HalfOpenCalls cs' = int k"
      "pm_config ((mixed_probe n clk now ^^ k) pm) = pm_config pm"
    using mixed_probes [OF assms(1-7)] by blast
  then show ?thesis using exhausted_forever [of "(mixed_probe n clk now ^^ k) pm" n cs'] assms(1,8) by simp
qed

text \<open>Under the default configuration: five failures, thirty seconds, three mixed probes.\<close>

theorem half_open_stuck_witness:
  "\<exists>pm'. isProviderAvailable ''a'' (31 * second) demo_open_chain = Returns (pm', True) \<and>
     availability_tests ''a'' [1 * hour, 1000 * hour]
       ((mixed_probe ''a'' (\<lambda>_. 32 * second) (33 * second) ^^ 3) pm') = Returns [False, False]"
proof -
  define pm' where "pm' = demo_open_chain
    \<lparr>pm_failureTracker := (pm_failureTracker demo_open_chain)
       (''a'' \<mapsto> (the (pm_failureTracker demo_open_chain ''a''))
          \<lparr>fi_IsTemporarilyDown := False, fi_ConsecutiveFailures := 0\<rparr>),
     pm_circuitStates := (pm_circuitStates demo_open_chain)
       (''a'' \<mapsto> (the (pm_circuitStates demo_open_chain ''a''))
          \<lparr>cs_State := HALF_OPEN, cs_LastStateChange := 31 * second, cs_HalfOpenCalls := 0\<rparr>)\<rparr>"
  have "isProviderAvailable ''a'' (31 * second) demo_open_chain = Returns (pm', True)"
    by (simp add: isProviderAvailable_def check_failures_def check_circuit_def check_health_def
          check_rate_def open_timeout_def demo_open_chain_states DefaultChainConfig_def
          authFailureCircuitThreshold_def pm'_def)
  moreover have "availability_tests ''a'' [1 * hour, 1000 * hour]
       ((mixed_probe ''a'' (\<lambda>_. 32 * second) (33 * second) ^^ 3) pm') = Returns [False, False]"
    using half_open_stuck [of pm' "''a''" _ 3 "\<lambda>_. 32 * second" "33 * second" "[1 * hour, 1000 * hour]"]
    by (simp add: pm'_def demo_open_chain_states DefaultChainConfig_def)
  ultimately show ?thesis by blast
qed

end
