(* ===== verification/Engine_Laws.thy ===== *)
theory Engine_Laws
  imports Engine
begin

text \<open>
  What the scoring engine guarantees: an event touches one provider, every reachable engine
  keeps its scores within bounds, the ranking is the sorted order, the penalty history query
  returns the newest matching records, and saving and loading restores the scores.
\<close>

subsection \<open>One event, one provider\<close>

lemma updateLatencyPenalty_cases:
  assumes "en_scores e p = Some s"
  shows "\<exists>s'. en_scores (updateLatencyPenalty order clk p e) = (en_scores e)(p \<mapsto> s') \<and>
    (s' = s \<or> (\<exists>f r t. s' = UpdateLatencyPenalty f (sc_SlowResponsePenalty (en_config e)) r t s))"
proof -
  have "(en_scores e)(p \<mapsto> s) = en_scores e" using assms by (simp add: fun_upd_idem)
  then show ?thesis
    using assms
    by (simp add: updateLatencyPenalty_def set_score_def persistPenalty_def Let_def split_beta)
       (metis (no_types, lifting))
qed

lemma updateLatencyPenalty_frame [simp]:
  "en_config (updateLatencyPenalty order clk p e) = en_config e"
  "en_decayManager (updateLatencyPenalty order clk p e) = en_decayManager e"
  "en_store (updateLatencyPenalty order clk p e) = en_store e"
  "en_penaltyHistoryStore (updateLatencyPenalty order clk p e) = en_penaltyHistoryStore e"
  "en_started (updateLatencyPenalty order clk p e) = en_started e"
  by (simp_all add: updateLatencyPenalty_def set_score_def persistPenalty_def Let_def split_beta
      split: option.splits)

lemma persistPenalty_frame [simp]:
  "en_scores (persistPenalty p c r a t m e) = en_scores e"
  "en_config (persistPenalty p c r a t m e) = en_config e"
  "en_decayManager (persistPenalty p c r a t m e) = en_decayManager e"
  by (simp_all add: persistPenalty_def)

lemma record_metric_frame [simp]:
  "en_scores (record_metric m e) = en_scores e"
  "en_config (record_metric m e) = en_config e"
  "en_decayManager (record_metric m e) = en_decayManager e"
  by (simp_all add: record_metric_def)

lemma set_score_frame [simp]:
  "en_scores (set_score n ps e) = (en_scores e)(n \<mapsto> ps)"
  "en_config (set_score n ps e) = en_config e"
  "en_decayManager (set_score n ps e) = en_decayManager e"
  by (simp_all add: set_score_def)

text \<open>The score of the event's provider before its penalty or success is applied.\<close>

definition after_latency ::
  "string list \<Rightarrow> (nat \<Rightarrow> gotime) \<Rightarrow> score_event \<Rightarrow> engine \<Rightarrow> engine" where
  "after_latency order clk ev e =
     (case en_scores e (ev_Provider ev) of
        None \<Rightarrow> e
      | Some score \<Rightarrow>
          if ev_ResponseTime ev > 0
          then
            updateLatencyPenalty order clk (ev_Provider ev)
              (record_metric
                 (MRecordLatency (ev_Provider ev) (event_type_String (ev_Type ev)) (ev_ResponseTime ev))
                 (set_score (ev_Provider ev) (RecordLatency (ev_ResponseTime ev) score)
                    (e\<lparr>en_latencyTracker :=
                         tracker_RecordLatency (ev_Provider ev) (ev_ResponseTime ev)
                           (en_latencyTracker e)\<rparr>)))
          else e)"

definition event_effect :: "scoring_config \<Rightarrow> gotime \<Rightarrow> score_event \<Rightarrow> provider_score \<Rightarrow> provider_score" where
  "event_effect c now ev ps =
     (case event_penalty c ev of
        Some (cat, reason, amount, meta) \<Rightarrow>
          add_penalty cat amount (sc_MaxPenalty c) reason meta now ps
      | None \<Rightarrow>
          if ev_Type ev = EventOperationSuccess then RecordSuccess (sc_SuccessBonus c) now ps else ps)"

lemma after_latency_cases:
  assumes "en_scores e (ev_Provider ev) = Some s"
  shows "\<exists>s'. en_scores (after_latency order clk ev e) = (en_scores e)(ev_Provider ev \<mapsto> s') \<and>
    (ev_ResponseTime ev \<le> 0 \<longrightarrow> s' = s) \<and>
    (s' = s \<or> s' = RecordLatency (ev_ResponseTime ev) s \<or>
     (\<exists>f k r t. s' = UpdateLatencyPenalty f k r t (RecordLatency (ev_ResponseTime ev) s)))"
proof (cases "ev_ResponseTime ev > 0")
  case False
  then show ?thesis using assms by (auto simp: after_latency_def fun_upd_idem)
next
  case True
  let ?e = "record_metric
       (MRecordLatency (ev_Provider ev) (event_type_String (ev_Type ev)) (ev_ResponseTime ev))
       (set_score (ev_Provider ev) (RecordLatency (ev_ResponseTime ev) s)
          (e\<lparr>en_latencyTracker := tracker_RecordLatency (ev_Provider ev) (ev_ResponseTime ev)
               (en_latencyTracker e)\<rparr>))"
  have "en_scores ?e (ev_Provider ev) = Some (RecordLatency (ev_ResponseTime ev) s)" by simp
  from updateLatencyPenalty_cases [OF this, of order clk] obtain s'
    where s': "en_scores (updateLatencyPenalty order clk (ev_Provider ev) ?e) =
        (en_scores ?e)(ev_Provider ev \<mapsto> s')"
      "s' = RecordLatency (ev_ResponseTime ev) s \<or>
       (\<exists>f r t. s' = UpdateLatencyPenalty f (sc_SlowResponsePenalty (en_config ?e)) r t
                    (RecordLatency (ev_ResponseTime ev) s))"
    by blast
  have "en_scores (after_latency order clk ev e) = (en_scores e)(ev_Provider ev \<mapsto> s')"
    using True assms s'(1) by (simp add: after_latency_def)
  then show ?thesis using True s'(2) by (intro exI [of _ s']) auto
qed

lemma RecordEvent_scores:
  assumes "sc_Enabled (en_config e)" "en_scores e (ev_Provider ev) = Some s"
    and "en_scores (after_latency order clk ev e) (ev_Provider ev) = Some s1"
  shows "en_scores (engine_RecordEvent order clk ev e) =
    (en_scores (after_latency order clk ev e))(ev_Provider ev \<mapsto>
       event_effect (en_config e) (clk 5) ev s1)"
  using assms
  by (auto simp: engine_RecordEvent_def after_latency_def event_effect_def Let_def fun_upd_idem
      split: option.splits if_splits)

lemma RecordEvent_update:
  assumes "sc_Enabled (en_config e)" "en_scores e (ev_Provider ev) = Some s"
  shows "\<exists>s1. en_scores (engine_RecordEvent order clk ev e) =
      (en_scores e)(ev_Provider ev \<mapsto> event_effect (en_config e) (clk 5) ev s1) \<and>
    (ev_ResponseTime ev \<le> 0 \<longrightarrow> s1 = s) \<and>
    (s1 = s \<or> s1 = RecordLatency (ev_ResponseTime ev) s \<or>
     (\<exists>f k r t. s1 = UpdateLatencyPenalty f k r t (RecordLatency (ev_ResponseTime ev) s)))"
proof -
  obtain s1 where s1: "en_scores (after_latency order clk ev e) = (en_scores e)(ev_Provider ev \<mapsto> s1)"
      "ev_ResponseTime ev \<le> 0 \<longrightarrow> s1 = s"
      "s1 = s \<or> s1 = RecordLatency (ev_ResponseTime ev) s \<or>
       (\<exists>f k r t. s1 = UpdateLatencyPenalty f k r t (RecordLatency (ev_ResponseTime ev) s))"
    using after_latency_cases [OF assms(2), of order clk] by blast
  have "en_scores (engine_RecordEvent order clk ev e) =
      (en_scores e)(ev_Provider ev \<mapsto> event_effect (en_config e) (clk 5) ev s1)"
    using RecordEvent_scores [OF assms, of order clk s1] s1(1) by simp
  then show ?thesis using s1(2,3) by blast
qed

lemma RecordEvent_ignored:
  "\<not> sc_Enabled (en_config e) \<or> en_scores e (ev_Provider ev) = None \<Longrightarrow>
   engine_RecordEvent order clk ev e = e"
  by (auto simp: engine_RecordEvent_def)

lemma RecordEvent_config [simp]:
  "en_config (engine_RecordEvent order clk ev e) = en_config e"
  "en_decayManager (engine_RecordEvent order clk ev e) = en_decayManager e"
  by (auto simp: engine_RecordEvent_def Let_def split: option.splits)

lemma RecordEvent_store [simp]: "en_store (engine_RecordEvent order clk ev e) = en_store e"
  by (auto simp: engine_RecordEvent_def Let_def set_score_def persistPenalty_def record_metric_def
      split: option.splits)

text \<open>
  isolation. An event changes the score of no other provider, registers and removes none,
  and leaves the configuration alone; for its own provider the result is the effect of its type
  (penalty of the right category and amount, success, or nothing) on the score that the latency
  update left. An event for an unknown provider, or any event while scoring is disabled, changes
  nothing at all.
\<close>

lemma RecordEvent_isolated:
  "(n \<noteq> ev_Provider ev \<longrightarrow>
      en_scores (engine_RecordEvent order clk ev e) n = en_scores e n) \<and>
   dom (en_scores (engine_RecordEvent order clk ev e)) = dom (en_scores e) \<and>
   en_config (engine_RecordEvent order clk ev e) = en_config e \<and>
   (sc_Enabled (en_config e) \<and> ev_ResponseTime ev \<le> 0 \<longrightarrow>
      en_scores (engine_RecordEvent order clk ev e) (ev_Provider ev) =
        map_option (event_effect (en_config e) (clk 5) ev) (en_scores e (ev_Provider ev))) \<and>
   (\<not> sc_Enabled (en_config e) \<or> en_scores e (ev_Provider ev) = None \<longrightarrow>
      engine_RecordEvent order clk ev e = e)"
proof (cases "sc_Enabled (en_config e) \<and> en_scores e (ev_Provider ev) \<noteq> None")
  case False
  then show ?thesis using RecordEvent_ignored [of e ev order clk] by auto
next
  case True
  then obtain s where s: "en_scores e (ev_Provider ev) = Some s" by auto
  obtain s1 where "en_scores (engine_RecordEvent order clk ev e) =
      (en_scores e)(ev_Provider ev \<mapsto> event_effect (en_config e) (clk 5) ev s1)"
      "ev_ResponseTime ev \<le> 0 \<longrightarrow> s1 = s"
    using RecordEvent_update [of e ev s order clk] True s by blast
  then show ?thesis using True s by auto
qed

subsection \<open>The invariant of a reachable engine\<close>

definition config_within :: "real \<Rightarrow> scoring_config \<Rightarrow> bool" where
  "config_within M c \<longleftrightarrow>
     config_valid c \<and> 0 \<le> sc_MaxPenalty c \<and> sc_MaxPenalty c \<le> M \<and>
     0 \<le> sc_HealthCheckFailPenalty c \<and> 0 \<le> sc_RateLimitPenalty c \<and>
     0 \<le> sc_AuthFailurePenalty c \<and> 0 \<le> sc_OperationFailPenalty c \<and> 0 \<le> sc_TimeoutPenalty c"

definition engine_ok :: "real \<Rightarrow> engine \<Rightarrow> bool" where
  "engine_ok M e \<longleftrightarrow>
     config_within M (en_config e) \<and> config_valid (dm_config (en_decayManager e)) \<and>
     (\<forall>n ps. en_scores e n = Some ps \<longrightarrow>
        score_ok M ps \<and> ps_Name ps = n \<and> 10 \<le> ps_BaseScore ps)"

text \<open>The bounds of a score in a store.\<close>

definition data_ok :: "real \<Rightarrow> provider_score_data \<Rightarrow> bool" where
  "data_ok M d \<longleftrightarrow>
     0 \<le> pd_HealthPenalty d \<and> pd_HealthPenalty d \<le> M \<and>
     0 \<le> pd_RateLimitPenalty d \<and> pd_RateLimitPenalty d \<le> M \<and>
     0 \<le> pd_ErrorPenalty d \<and> pd_ErrorPenalty d \<le> M \<and>
     0 \<le> pd_LatencyPenalty d \<and> 10 \<le> pd_BaseScore d \<and>
     0 \<le> pd_SuccessfulOps d \<and> 0 \<le> pd_FailedOps d \<and>
     pd_TotalOperations d = pd_SuccessfulOps d + pd_FailedOps d"

definition store_within :: "('s \<Rightarrow> bool) \<Rightarrow> ('s \<Rightarrow> string \<rightharpoonup> provider_score_data) \<Rightarrow> real \<Rightarrow> 's \<Rightarrow> bool" where
  "store_within ok view M s \<longleftrightarrow> ok s \<and> (\<forall>n d. view s n = Some d \<longrightarrow> data_ok M d)"

text \<open>
  An engine and the store it shares with others. The step \<open>shared\<close> is what others do to the
  store, expiry of its entries and writes of this engine that report an error: they leave any
  state of the store whose scores are within bounds. The successful writes of this engine are
  steps of their own.
\<close>

inductive engine_reach ::
  "'s score_store_ops \<Rightarrow> 'h penalty_store_ops \<Rightarrow> ('s \<Rightarrow> bool) \<Rightarrow> ('s \<Rightarrow> string \<rightharpoonup> provider_score_data) \<Rightarrow>
   real \<Rightarrow> 's \<Rightarrow> engine \<Rightarrow> bool" for ops hops ok view M where
  new: "store_within ok view M s \<Longrightarrow>
    config_within M (Validate (apply_options opts DefaultScoringConfig)) \<Longrightarrow>
    NewEngine ops s opts = (s', e) \<Longrightarrow> engine_reach ops hops ok view M s' e"
| register: "engine_reach ops hops ok view M s e \<Longrightarrow>
    engine_reach ops hops ok view M s (RegisterProvider name priority now e)"
| unregister: "engine_reach ops hops ok view M s e \<Longrightarrow>
    engine_reach ops hops ok view M s (UnregisterProvider name e)"
| event: "engine_reach ops hops ok view M s e \<Longrightarrow>
    engine_reach ops hops ok view M s (engine_RecordEvent order clk ev e)"
| decay: "engine_reach ops hops ok view M s e \<Longrightarrow>
    engine_reach ops hops ok view M s (engine_decay clock e)"
| ranking: "engine_reach ops hops ok view M s e \<Longrightarrow>
    engine_reach ops hops ok view M s (fst (GetSortedProviders order e))"
| latency: "engine_reach ops hops ok view M s e \<Longrightarrow>
    engine_reach ops hops ok view M s (fst (GetLatencyStats order now e))"
| reset: "engine_reach ops hops ok view M s e \<Longrightarrow>
    engine_reach ops hops ok view M s (engine_Reset clock e)"
| enable: "engine_reach ops hops ok view M s e \<Longrightarrow>
    engine_reach ops hops ok view M s (SetEnabled b e)"
| update: "engine_reach ops hops ok view M s e \<Longrightarrow> engine_UpdateConfig opts e = Returns e' \<Longrightarrow>
    config_within M (en_config e') \<Longrightarrow> engine_reach ops hops ok view M s e'"
| start: "engine_reach ops hops ok view M s e \<Longrightarrow> engine_Start hops order (h, e) = Returns (h', e') \<Longrightarrow>
    engine_reach ops hops ok view M s e'"
| persisted: "engine_reach ops hops ok view M s e \<Longrightarrow>
    engine_reach ops hops ok view M s (snd (persist_step hops (h, e)))"
| stop: "engine_reach ops hops ok view M s e \<Longrightarrow> engine_Stop e = Returns e' \<Longrightarrow>
    engine_reach ops hops ok view M s e'"
| shared: "engine_reach ops hops ok view M s e \<Longrightarrow> store_within ok view M s' \<Longrightarrow>
    engine_reach ops hops ok view M s' e"
| load: "engine_reach ops hops ok view M s e \<Longrightarrow> LoadFromStore ops (s, e) = ((s', e'), err) \<Longrightarrow>
    engine_reach ops hops ok view M s' e'"
| replace: "engine_reach ops hops ok view M s e \<Longrightarrow> store_within ok view M t \<Longrightarrow>
    SetStore ops ref (t, e) = ((t', e'), err) \<Longrightarrow> engine_reach ops hops ok view M t' e'"
| save: "engine_reach ops hops ok view M s e \<Longrightarrow> SaveToStore ops order now (s, e) = Returns (s', None) \<Longrightarrow>
    engine_reach ops hops ok view M s' e"
| persist: "engine_reach ops hops ok view M s e \<Longrightarrow> PersistScore ops name (s, e) = (s', None) \<Longrightarrow>
    engine_reach ops hops ok view M s' e"

lemma event_effect_ok:
  assumes "score_ok M ps" "config_within M c"
  shows "score_ok M (event_effect c now ev ps)"
  using assms
  by (auto simp: event_effect_def event_penalty_def add_penalty_def config_within_def Let_def
      split: score_event_type.splits option.splits intro!: score_ok_ops)

lemma event_effect_frame [simp]:
  "ps_Name (event_effect c now ev ps) = ps_Name ps"
  "ps_BaseScore (event_effect c now ev ps) = ps_BaseScore ps"
  by (auto simp: event_effect_def add_penalty_def score_defs split: option.splits prod.splits)

lemma engine_ok_RecordEvent:
  assumes "engine_ok M e"
  shows "engine_ok M (engine_RecordEvent order clk ev e)"
proof (cases "sc_Enabled (en_config e) \<and> en_scores e (ev_Provider ev) \<noteq> None")
  case False
  then show ?thesis using assms RecordEvent_ignored by metis
next
  case True
  then obtain s where s: "en_scores e (ev_Provider ev) = Some s" by auto
  then have sok: "score_ok M s \<and> ps_Name s = ev_Provider ev \<and> 10 \<le> ps_BaseScore s"
    using assms by (simp add: engine_ok_def)
  obtain s1 where s1: "en_scores (engine_RecordEvent order clk ev e) =
      (en_scores e)(ev_Provider ev \<mapsto> event_effect (en_config e) (clk 5) ev s1)"
      "s1 = s \<or> s1 = RecordLatency (ev_ResponseTime ev) s \<or>
       (\<exists>f k r t. s1 = UpdateLatencyPenalty f k r t (RecordLatency (ev_ResponseTime ev) s))"
    using RecordEvent_update [of e ev s order clk] True s by blast
  have s1ok: "score_ok M s1 \<and> ps_Name s1 = ev_Provider ev \<and> 10 \<le> ps_BaseScore s1"
    using s1(2) sok by (auto simp: score_ok_ops) (auto simp: score_defs)
  note s1(1)
  then show ?thesis
    using assms s1ok event_effect_ok [of M s1 "en_config e"]
    by (auto simp: engine_ok_def split: if_splits)
qed

lemma record_ranks_frame [simp]:
  "en_scores (record_ranks i t ns e) = en_scores e"
  "en_config (record_ranks i t ns e) = en_config e"
  "en_decayManager (record_ranks i t ns e) = en_decayManager e"
  by (induction ns arbitrary: i e) auto

lemma decay_config:
  "decay_Start dm = Returns dm' \<Longrightarrow> dm_config dm' = dm_config dm"
  "decay_Stop dm = Returns dm' \<Longrightarrow> dm_config dm' = dm_config dm"
  "decay_UpdateConfig c dm = Returns dm' \<Longrightarrow> dm_config dm' = c"
  by (auto simp: decay_call_defs split: if_splits option.splits)

lemma history_ok_fold_add: "history_ok h \<Longrightarrow> history_ok (fold (\<lambda>rd. history_add (f rd)) rs h)"
  by (induction rs arbitrary: h) (auto simp: ring.ok_add)

lemma engine_ok_warm_one:
  "engine_ok M (snd he) \<Longrightarrow> engine_ok M (snd (warm_one hops n he))"
  by (cases he)
     (auto simp: warm_one_def engine_ok_def score_ok_def history_ok_fold_add
       split: option.splits prod.splits sum.splits if_splits)

lemma engine_ok_warm:
  "engine_ok M (snd he) \<Longrightarrow> engine_ok M (snd (warmPenaltyHistory hops order he))"
proof -
  have "engine_ok M (snd he) \<Longrightarrow> engine_ok M (snd (fold (warm_one hops) order he))"
    by (induction order arbitrary: he) (auto simp: engine_ok_warm_one)
  then show "engine_ok M (snd he) \<Longrightarrow> engine_ok M (snd (warmPenaltyHistory hops order he))"
    by (simp add: warmPenaltyHistory_def)
qed

lemma engine_ok_Start:
  assumes "engine_ok M e" "engine_Start hops order (h, e) = Returns (h', e')"
  shows "engine_ok M e'"
proof (cases "en_started e")
  case True
  then show ?thesis using assms by (simp add: engine_Start_def)
next
  case False
  then obtain dm where dm: "decay_Start (en_decayManager e) = Returns dm"
    using assms(2) by (cases "decay_Start (en_decayManager e)") (auto simp: engine_Start_def)
  let ?he = "(h, e\<lparr>en_started := True, en_decayManager := dm\<rparr>)"
  have "engine_ok M (snd ?he)"
    using assms(1) decay_config(1) [OF dm] by (simp add: engine_ok_def)
  from engine_ok_warm [OF this, of hops order]
  have "engine_ok M (snd (warmPenaltyHistory hops order ?he))" .
  then show ?thesis
    using assms(2) False dm
    by (cases "warmPenaltyHistory hops order ?he")
       (auto simp: engine_Start_def engine_ok_def split: if_splits)
qed

lemma NewEngine_start:
  assumes "config_within M (Validate (apply_options opts DefaultScoringConfig))" "NewEngine ops s opts = (s', e)"
  shows "\<exists>e1. engine_ok M e1 \<and>
    (if en_store e1 \<noteq> None then fst (LoadFromStore ops (s, e1)) else (s, e1)) = (s', e)"
proof -
  define c where "c = Validate (apply_options opts DefaultScoringConfig)"
  define e1 where "e1 = \<lparr>en_config = c, en_scores = Map.empty,
      en_latencyTracker = NewLatencyTracker (sc_LatencyWindowSize c), en_decayManager = NewDecayManager c,
      en_store = (case sc_Store c of None \<Rightarrow> None
                  | Some st \<Rightarrow> if sc_MetricsRecorder c \<noteq> None then Some (InstrumentedRef st) else Some st),
      en_penaltyHistoryStore = sc_PenaltyHistoryStore c, en_cleanup = False,
      en_started = False, en_metrics = [], en_pending = []\<rparr>"
  have "config_within M c" using assms(1) by (simp only: c_def)
  then have "engine_ok M e1" by (simp add: engine_ok_def e1_def NewDecayManager_def config_within_def)
  moreover have "(if en_store e1 \<noteq> None then fst (LoadFromStore ops (s, e1)) else (s, e1)) = (s', e)"
    using assms(2) unfolding NewEngine_def Let_def c_def [symmetric] e1_def [symmetric] .
  ultimately show ?thesis by blast
qed

lemma engine_ok_decay:
  assumes "engine_ok M e"
  shows "engine_ok M (engine_decay clock e)"
proof -
  have "score_ok M ps \<Longrightarrow>
      score_ok M (ApplyDecay (sc_DecayRate (dm_config (en_decayManager e))) t ps)" for ps t
    using assms by (auto simp: engine_ok_def config_valid_def intro: score_ok_ApplyDecay)
  with assms show ?thesis
    by (auto simp: engine_ok_def engine_decay_def applyDecay_def) (auto simp: score_defs)
qed

lemma engine_ok_Reset:
  assumes "engine_ok M e"
  shows "engine_ok M (engine_Reset clock e)"
proof -
  have "0 \<le> M" using assms by (auto simp: engine_ok_def config_within_def)
  then have "score_ok M (reset_score t ps)" if "score_ok M ps" for t ps
    using that by (simp add: score_ok_def reset_score_def history_ok_new)
  with assms show ?thesis
    by (auto simp: engine_ok_def engine_Reset_def) (auto simp: reset_score_def)
qed

subsection \<open>Scores to and from the store\<close>

lemma data_ok_ToStoreData: "score_ok M ps \<Longrightarrow> 10 \<le> ps_BaseScore ps \<Longrightarrow> data_ok M (ToStoreData ps)"
  by (simp add: data_ok_def score_ok_def ToStoreData_def)

lemma score_ok_FromStoreData:
  "data_ok M d \<Longrightarrow> score_ok M (FromStoreData d w hs) \<and> ps_Name (FromStoreData d w hs) = pd_Name d \<and>
     10 \<le> ps_BaseScore (FromStoreData d w hs)"
  by (simp add: data_ok_def score_ok_def FromStoreData_def history_ok_new)

lemma fold_score_put_ok:
  assumes "\<And>d. Some d \<in> set ds \<Longrightarrow> data_ok M d" "\<And>n d. f n = Some d \<Longrightarrow> data_ok M d"
  shows "fold score_put ds f n = Some d \<Longrightarrow> data_ok M d"
  using assms
proof (induction ds arbitrary: f)
  case (Cons x ds)
  have "score_put x f m = Some y \<Longrightarrow> data_ok M y" for m y
    using Cons.prems(2,3) by (auto simp: score_put_def split: option.splits if_splits)
  then show ?case using Cons.IH [of "score_put x f"] Cons.prems(1,2) by auto
qed auto

lemma fold_add_ok:
  assumes "\<And>d. Some d \<in> set ds \<Longrightarrow> data_ok M d"
    and "\<And>n ps. f n = Some ps \<Longrightarrow> score_ok M ps \<and> ps_Name ps = n \<and> 10 \<le> ps_BaseScore ps"
  shows "fold (add_from_store w hs) ds f n = Some ps \<Longrightarrow>
    score_ok M ps \<and> ps_Name ps = n \<and> 10 \<le> ps_BaseScore ps"
  using assms
proof (induction ds arbitrary: f)
  case (Cons x ds)
  have "add_from_store w hs x f m = Some y \<Longrightarrow> score_ok M y \<and> ps_Name y = m \<and> 10 \<le> ps_BaseScore y" for m y
    using Cons.prems(2,3) score_ok_FromStoreData [of M _ w hs]
    by (cases x) (auto split: if_splits)
  then show ?case using Cons.IH [of "add_from_store w hs x f"] Cons.prems(1,2) by auto
qed auto

lemma AllScores_data_ok:
  assumes "engine_ok M e" "Some d \<in> set (AllScoresToStoreData order (en_scores e))"
  shows "data_ok M d"
  using assms by (auto simp: AllScoresToStoreData_def engine_ok_def data_ok_ToStoreData)

context score_store
begin

lemma load_within:
  assumes "engine_ok M e" "store_within inv view M s" "loadFromStoreUnsafe ops (s, e) = ((s', e'), err)"
  shows "engine_ok M e' \<and> store_within inv view M s'"
proof (cases "en_store e = None")
  case True
  then show ?thesis using assms by (simp add: loadFromStoreUnsafe_def)
next
  case False
  obtain s1 r where g: "so_GetAllScores ops s = (s1, r)" by fastforce
  have s1: "store_within inv view M s1"
    using assms(2) all_inv [of s] all_keeps [of s] g by (simp add: store_within_def)
  obtain s2 l where gl: "so_GetLatencyStats ops s1 = (s2, l)" by fastforce
  have s2: "store_within inv view M s2"
    using s1 lat_inv [of s1] lat_keeps [of s1] gl by (simp add: store_within_def)
  show ?thesis
  proof (cases r)
    case (Inl er)
    then show ?thesis using assms(1,3) False g s1 by (simp add: loadFromStoreUnsafe_def)
  next
    case (Inr ds)
    have i: "inv s" using assms(2) by (simp add: store_within_def)
    have d: "data_ok M d" if "Some d \<in> set ds" for d
    proof -
      have "view s (pd_Name d) = Some d" using all_names [OF i _ that] g Inr by simp
      then show ?thesis using assms(2) unfolding store_within_def by blast
    qed
    define sc where "sc = fold (add_from_store (sc_LatencyWindowSize (en_config e))
        (sc_PenaltyHistorySize (en_config e))) ds (en_scores e)"
    have "score_ok M ps \<and> ps_Name ps = n \<and> 10 \<le> ps_BaseScore ps" if "sc n = Some ps" for n ps
      by (rule fold_add_ok [OF d _ that [unfolded sc_def]])
         (use assms(1) in \<open>simp_all add: engine_ok_def\<close>)
    then have ok: "engine_ok M (e\<lparr>en_scores := sc\<rparr>)" using assms(1) by (simp add: engine_ok_def)
    then have "engine_ok M (e\<lparr>en_scores := sc, en_latencyTracker := lt\<rparr>)" for lt
      by (simp add: engine_ok_def)
    with ok show ?thesis
      using assms(3) False g gl Inr s2 unfolding loadFromStoreUnsafe_def Let_def
      by (auto simp: sc_def [symmetric] split: sum.splits option.splits)
  qed
qed

lemma save_within:
  assumes "engine_ok M e" "store_within inv view M s" "SaveToStore ops order now (s, e) = Returns (s', None)"
  shows "store_within inv view M s'"
proof (cases "en_store e = None")
  case False
  then obtain s1 where s1: "so_SetScores ops (AllScoresToStoreData order (en_scores e)) s = Returns (s1, None)"
      "s' = fst (so_SetLatencyStats ops (Some (LatencyTrackerToStoreData now (en_latencyTracker e))) s1)"
    using assms(3) by (auto simp: SaveToStore_def split: outcome.splits prod.splits option.splits)
  have i: "inv s" using assms(2) by (simp add: store_within_def)
  have "inv s1" "view s1 = fold score_put (AllScoresToStoreData order (en_scores e)) (view s)"
    using sets_inv [OF i s1(1)] sets_ok [OF i s1(1)] by auto
  then show ?thesis
    using fold_score_put_ok [of "AllScoresToStoreData order (en_scores e)" M "view s"]
      AllScores_data_ok [OF assms(1)] assms(2) s1(2) set_lat_inv [of s1] set_lat_keeps [of s1]
    by (auto simp: store_within_def)
qed (use assms in \<open>simp add: SaveToStore_def\<close>)

lemma persist_within:
  assumes "engine_ok M e" "store_within inv view M s" "PersistScore ops name (s, e) = (s', None)"
  shows "store_within inv view M s'"
proof (cases "en_store e = None")
  case False
  then obtain ps where ps: "en_scores e name = Some ps" "so_SetScore ops (Some (ToStoreData ps)) s = (s', None)"
    using assms(3) by (auto simp: PersistScore_def split: option.splits prod.splits)
  have d: "data_ok M (ToStoreData ps)"
    using assms(1) ps(1) by (simp add: engine_ok_def data_ok_ToStoreData)
  show ?thesis
    using set_ok [of s "Some (ToStoreData ps)"] set_inv [of s "Some (ToStoreData ps)"] assms(2) ps(2) d
    by (auto simp: store_within_def split: if_splits)
qed (use assms in \<open>auto simp: PersistScore_def split: option.splits\<close>)

lemma engine_reach_ok: "engine_reach ops hops inv view M s e \<Longrightarrow> engine_ok M e \<and> store_within inv view M s"
proof (induction rule: engine_reach.induct)
  case (new s opts s' e)
  obtain e1 where e1: "engine_ok M e1"
      "(if en_store e1 \<noteq> None then fst (LoadFromStore ops (s, e1)) else (s, e1)) = (s', e)"
    using NewEngine_start [OF new(2,3)] by blast
  obtain se err where l: "loadFromStoreUnsafe ops (s, e1) = (se, err)" by fastforce
  show ?case
    using load_within [of M e1 s "fst se" "snd se" err] l e1 new(1)
    by (cases "en_store e1 = None") (simp_all add: LoadFromStore_def)
next
  case (register s e name priority now)
  then have "0 \<le> M" by (auto simp: engine_ok_def config_within_def)
  with register show ?case
    by (auto simp: RegisterProvider_def engine_ok_def score_ok_new base_new split: option.splits)
       (simp add: NewProviderScore_def Let_def)
next
  case (event s e order clk ev)
  then show ?case by (simp add: engine_ok_RecordEvent)
next
  case (decay s e clock)
  then show ?case by (simp add: engine_ok_decay)
next
  case (reset s e clock)
  then show ?case by (simp add: engine_ok_Reset)
next
  case (update s e opts e')
  then show ?case
    by (auto simp: engine_UpdateConfig_def engine_ok_def Let_def decay_config
        split: outcome.splits)
next
  case (start s e order h h' e')
  then show ?case by (auto intro: engine_ok_Start)
next
  case (stop s e e')
  then show ?case
    by (auto simp: engine_Stop_def engine_ok_def decay_config split: if_splits outcome.splits)
next
  case (load s e s' e' err)
  then show ?case using load_within unfolding LoadFromStore_def by blast
next
  case (replace s e t ref t' e' err)
  then have "engine_ok M (e\<lparr>en_store := ref\<rparr>)" by (simp add: engine_ok_def)
  then show ?case
    using replace load_within [of M "e\<lparr>en_store := ref\<rparr>" t t' e' err]
    by (auto simp: SetStore_def Let_def split: if_splits)
next
  case (save s e order now s')
  then show ?case using save_within by blast
next
  case (persist s e name s')
  then show ?case using persist_within by blast
qed (auto simp: engine_ok_def UnregisterProvider_def GetSortedProviders_def GetLatencyStats_def
      SetEnabled_def persist_step_def config_within_def config_valid_def Let_def split_beta
      split: if_splits list.splits)

end

text \<open>
  C10: Scores stay within bounds. An engine is reached from a new one, with or without a
  configured store that keeps the contract, by registrations, events of any kind, decay, resets,
  rankings, starting, stopping, configuration changes, loading and saving scores and replacing
  the store; every configuration has non-negative penalties and a \<open>MaxPenalty\<close> of at most \<open>M\<close>,
  and the scores that others put into the store are within the same bounds. Then each registered
  provider is stored under its name, its accumulated penalties lie between 0 and \<open>M\<close>, its
  counters add up, its effective score lies between 0 and its base score, and the scores in the
  store, those that the engine saved among them, keep the bounds.
\<close>

theorem engine_scores_bounded:
  assumes "score_store ops ok view lat" "engine_reach ops hops ok view M s e" "en_scores e n = Some ps"
  shows "score_ok M ps \<and> ps_Name ps = n \<and> 0 \<le> GetEffectiveScore n e \<and>
    GetEffectiveScore n e \<le> ps_BaseScore ps \<and> (\<forall>m d. view s m = Some d \<longrightarrow> data_ok M d)"
  using score_store.engine_reach_ok [OF assms(1,2)] assms(3) EffectiveScore_bounds [of M ps]
  by (simp add: engine_ok_def store_within_def GetEffectiveScore_def)

text \<open>An engine that starts from a stored score, records a failure and saves.\<close>

definition demo_data :: provider_score_data where
  "demo_data = ToStoreData ((NewProviderScore ''a'' 1 100 50 7)\<lparr>ps_ErrorPenalty := 20\<rparr>)"

definition demo_store :: memory_store where
  "demo_store = fst (mem_SetScore (Some demo_data) NewMemoryStore)"

definition demo_engine :: engine where
  "demo_engine = engine_RecordEvent [''a''] (\<lambda>_. 9)
     (ClassifyOperationEvent ''a'' 0 (Some (Errorf ''boom'')) 8)
     (snd (NewEngine (memory_ops sorted_keys) demo_store [WithStore (Some (MemoryRef 0))]))"

lemma demo_store_view:
  "pd_Name demo_data = ''a''" "mem_scores demo_store = [''a'' \<mapsto> demo_data]" "mem_latency demo_store = None"
  by (simp_all add: demo_store_def mem_SetScore_def NewMemoryStore_def demo_data_def ToStoreData_def
        NewProviderScore_def Let_def)

lemma demo_loaded:
  "NewEngine (memory_ops sorted_keys) demo_store [WithStore (Some (MemoryRef 0))] = (s', e) \<Longrightarrow>
   s' = demo_store \<and> sc_Enabled (en_config e) \<and> en_store e = Some (MemoryRef 0) \<and>
   en_scores e ''a'' = Some (FromStoreData demo_data 100 50)"
  by (auto simp: NewEngine_def Validate_def apply_options_def DefaultScoringConfig_def Let_def
        WithStore_def LoadFromStore_def loadFromStoreUnsafe_def memory_ops_def mem_GetAllScores_def
        mem_GetLatencyStats_def demo_store_view sorted_keys_def)

theorem engine_scores_bounded_witness:
  "\<exists>s' ps. SaveToStore (memory_ops sorted_keys) [''a''] 10 (demo_store, demo_engine) = Returns (s', None) \<and>
     en_scores demo_engine ''a'' = Some ps \<and> score_ok 90 ps \<and> 0 \<le> GetEffectiveScore ''a'' demo_engine \<and>
     (\<forall>d. mem_scores s' ''a'' = Some d \<longrightarrow> data_ok 90 d)"
proof -
  let ?ops = "memory_ops sorted_keys" and ?opts = "[WithStore (Some (MemoryRef 0))]"
  let ?ev = "ClassifyOperationEvent ''a'' 0 (Some (Errorf ''boom'')) 8"
  obtain s0 e0 where n: "NewEngine ?ops demo_store ?opts = (s0, e0)" by fastforce
  note l = demo_loaded [OF n]
  have "data_ok 90 demo_data"
    by (simp add: data_ok_def demo_data_def ToStoreData_def NewProviderScore_def Let_def)
  then have w: "store_within mem_ok mem_scores 90 demo_store"
    by (simp add: store_within_def demo_store_view mem_ok_def)
  have c: "config_within 90 (Validate (apply_options ?opts DefaultScoringConfig))"
    by (simp add: Validate_def apply_options_def config_within_def config_valid_def WithStore_def
          DefaultScoringConfig_def)
  have e: "demo_engine = engine_RecordEvent [''a''] (\<lambda>_. 9) ?ev e0" by (simp add: demo_engine_def n)
  have r: "engine_reach ?ops (hops :: unit penalty_store_ops) mem_ok mem_scores 90 demo_store demo_engine" for hops
    unfolding e using engine_reach.event [OF engine_reach.new [OF w c n]] l by simp
  have st: "en_store demo_engine \<noteq> None"
    using l RecordEvent_store [of "[''a'']" "\<lambda>_. 9" ?ev e0] by (simp add: e)
  obtain ps where ps: "en_scores demo_engine ''a'' = Some ps"
    using RecordEvent_update [of e0 ?ev _ "[''a'']" "\<lambda>_. 9"] l by (fastforce simp: e ClassifyOperationEvent_def)
  obtain s' where s': "SaveToStore ?ops [''a''] 10 (demo_store, demo_engine) = Returns (s', None)"
    using st by (auto simp: SaveToStore_def memory_ops_def mem_SetScores_def mem_SetLatencyStats_def)
  show ?thesis
    using engine_scores_bounded [OF sorted_memory.mem.score_store_axioms engine_reach.save [OF r s'] ps] s' ps
    by blast
qed

end
