(* ===== verification/Manager_Laws.thy ===== *)
theory Manager_Laws
  imports Circuit Engine_Laws
begin

text \<open>
  The operation loop of \<open>manager.go\<close>: which providers \<open>runOp\<close> calls, how often and in which
  order, what it returns, that it leaves a reachable manager behind, and that a breaker that is
  open when it starts keeps its provider from being called. Further,
  the bounds of the retry delay and the events that the bookkeeping of a success emits.
\<close>

subsection \<open>Traces of provider calls\<close>

text \<open>The calls made when the \<open>i\<close>-th provider is tried \<open>ks ! i\<close> times.\<close>

definition tries :: "'p provider_config list \<Rightarrow> nat list \<Rightarrow> 'p provider_config list" where
  "tries pcs ks = concat (map (\<lambda>(pc, k). replicate k pc) (zip pcs ks))"

fun all_failed :: "('p, 'r) op_env \<Rightarrow> nat \<Rightarrow> 'p provider_config list \<Rightarrow> bool" where
  "all_failed env n [] = True"
| "all_failed env n (pc # tr) = (isl (oe_op env n (prv_Provider pc)) \<and> all_failed env (Suc n) tr)"

text \<open>
  A result that fits the calls: the last call succeeded, all before it failed, and its value
  and provider are returned; or all failed, and an error is returned.
\<close>

definition trace_result ::
  "('p, 'r) op_env \<Rightarrow> nat \<Rightarrow> 'p provider_config list \<Rightarrow> 'r op_result \<Rightarrow> bool" where
  "trace_result env n tr res \<longleftrightarrow>
     res_attempts res = length tr \<and>
     (case res_err res of
        None \<Rightarrow> \<exists>tr0 pc v. tr = tr0 @ [pc] \<and> all_failed env n tr0 \<and>
                  oe_op env (n + length tr0) (prv_Provider pc) = Inr v \<and>
                  res_data res = Some v \<and> res_provider res = prv_Name pc
      | Some _ \<Rightarrow> all_failed env n tr \<and> res_data res = None \<and> res_provider res = '''')"

lemma tries_simps [simp]:
  "tries [] ks = []" "tries pcs [] = []"
  "tries (pc # pcs) (k # ks) = replicate k pc @ tries pcs ks"
  by (simp_all add: tries_def)

lemma length_tries: "length ks \<le> length pcs \<Longrightarrow> length (tries pcs ks) = sum_list ks"
proof (induction pcs arbitrary: ks)
  case (Cons pc pcs)
  then show ?case by (cases ks) auto
qed simp

lemma set_tries: "set (tries pcs ks) \<subseteq> set pcs"
  by (auto simp: tries_def dest: set_zip_leftD)

lemma all_failed_append:
  "all_failed env n (a @ b) \<longleftrightarrow> all_failed env n a \<and> all_failed env (n + length a) b"
  by (induction a arbitrary: n) auto

lemma replicate_Suc_end: "replicate (Suc k) x = replicate k x @ [x]"
  by (simp add: replicate_append_same)

lemma sum_list_bound: "(\<And>k. k \<in> set ks \<Longrightarrow> k \<le> m) \<Longrightarrow> sum_list ks \<le> length ks * (m :: nat)"
proof (induction ks)
  case (Cons k ks)
  from Cons.IH Cons.prems have "sum_list ks \<le> length ks * m" "k \<le> m" by auto
  then show ?case by simp
qed simp

subsection \<open>The loops\<close>

lemma set_state_calls [simp]: "or_calls (set_state st run) = or_calls run"
  by (simp add: set_state_def)

lemma recordFailedProvider_calls [simp]: "or_calls (recordFailedProvider ctx n run) = or_calls run"
  by (simp add: recordFailedProvider_def)

lemma dispatch_trace:
  assumes "dispatch env ctx pc run = (run', x)"
  shows "or_calls run' = or_calls run @ [prv_Name pc]" "x = oe_op env (or_n run) (prv_Provider pc)"
  using assms by (auto simp: dispatch_def Let_def split: sum.splits)

lemma retry_loop_trace:
  assumes "retry_loop env ctx pc policy left attempt lastErr run = (run', data, k, err)"
    and "0 < left \<or> lastErr \<noteq> None"
  shows "\<exists>j. k = attempt + j \<and> j \<le> left \<and> (attempt = 0 \<and> 0 < left \<longrightarrow> 0 < j) \<and>
     or_calls run' = or_calls run @ replicate j (prv_Name pc) \<and>
     (case err of
        None \<Rightarrow> \<exists>i v. j = Suc i \<and> all_failed env (or_n run) (replicate i pc) \<and>
                  oe_op env (or_n run + i) (prv_Provider pc) = Inr v \<and> data = Some v
      | Some _ \<Rightarrow> all_failed env (or_n run) (replicate j pc) \<and> data = None \<and>
                  ((\<forall>m. oe_ctxDone env m = None) \<longrightarrow> j = left))"
  using assms
proof (induction left arbitrary: attempt lastErr run)
  case 0
  then show ?case by auto
next
  case (Suc left)
  show ?case
  proof (cases "attempt > 0 \<and> oe_ctxDone env (or_n run) \<noteq> None")
    case True
    with Suc.prems(1) show ?thesis by auto blast
  next
    case False
    define run1 where "run1 = (if attempt > 0 then run\<lparr>or_waits := or_waits run @
        [retryDelay (oe_cvt env) (oe_rand env (or_n run)) policy attempt]\<rparr> else run)"
    have calls1: "or_calls run1 = or_calls run" by (simp add: run1_def)
    obtain run2 x where d: "dispatch env ctx pc run1 = (run2, x)" by fastforce
    note t = dispatch_trace [OF d, unfolded calls1]
    have step: "(case (run2, x) of
             (run2, Inr v) \<Rightarrow> (run2, Some v, Suc attempt, None)
           | (run2, Inl err) \<Rightarrow> retry_loop env ctx pc policy left (Suc attempt) (Some err) run2)
         = (run', data, k, err)"
      using Suc.prems(1) False d by (simp add: run1_def Let_def split: if_splits)
    show ?thesis
    proof (cases x)
      case (Inr v)
      with step have "run' = run2" "data = Some v" "k = Suc attempt" "err = None" by simp_all
      moreover have "oe_op env (or_n run) (prv_Provider pc) = Inr v" using t(2) Inr by simp
      ultimately show ?thesis using t(1) by (intro exI [of _ 1]) simp
    next
      case (Inl er)
      with step have "retry_loop env ctx pc policy left (Suc attempt) (Some er) run2 = (run', data, k, err)"
        by simp
      from Suc.IH [OF this] obtain j where j: "k = Suc attempt + j" "j \<le> left"
        "or_calls run' = or_calls run2 @ replicate j (prv_Name pc)"
        "case err of
           None \<Rightarrow> \<exists>i v. j = Suc i \<and> all_failed env (or_n run2) (replicate i pc) \<and>
                     oe_op env (or_n run2 + i) (prv_Provider pc) = Inr v \<and> data = Some v
         | Some _ \<Rightarrow> all_failed env (or_n run2) (replicate j pc) \<and> data = None \<and>
                     ((\<forall>m. oe_ctxDone env m = None) \<longrightarrow> j = left)"
        by auto
      have n2: "or_n run2 = Suc (or_n run)" using t(1) by simp
      have "isl (oe_op env (or_n run) (prv_Provider pc))" using t(2) Inl by (metis sum.disc(1))
      then show ?thesis
        using j t(1) n2 by (intro exI [of _ "Suc j"]) (auto split: option.splits)
    qed
  qed
qed

lemma max_attempts_pos [simp]: "0 < max_attempts policy"
  by (simp add: max_attempts_def)

lemma run_chain_trace:
  assumes "run_chain env ctx policy pcs acc lastErr run = (run', res)"
    and "pcs \<noteq> [] \<or> lastErr \<noteq> None"
  shows "\<exists>ks. length ks \<le> length pcs \<and> (\<forall>k \<in> set ks. 1 \<le> k \<and> k \<le> max_attempts policy) \<and>
     or_calls run' = or_calls run @ map prv_Name (tries pcs ks) \<and>
     acc \<le> res_attempts res \<and>
     trace_result env (or_n run) (tries pcs ks) (res\<lparr>res_attempts := res_attempts res - acc\<rparr>) \<and>
     (res_err res \<noteq> None \<longrightarrow> length ks = length pcs \<and>
        ((\<forall>m. oe_ctxDone env m = None) \<longrightarrow> res_attempts res = acc + length pcs * max_attempts policy))"
  using assms
proof (induction pcs arbitrary: acc lastErr run)
  case Nil
  then show ?case by (auto simp: trace_result_def split: option.splits)
next
  case (Cons pc pcs)
  obtain run1 data k err where a: "attemptWithRetry env ctx pc policy run = (run1, data, k, err)"
    by (metis prod_cases4)
  note l = retry_loop_trace [OF a [unfolded attemptWithRetry_def]]
  show ?case
  proof (cases err)
    case None
    with l obtain i v where k: "k = Suc i" "k \<le> max_attempts policy"
      "or_calls run1 = or_calls run @ replicate k (prv_Name pc)"
      "all_failed env (or_n run) (replicate i pc)"
      "oe_op env (or_n run + i) (prv_Provider pc) = Inr v" "data = Some v" by auto
    have "tries (pc # pcs) [k] = replicate i pc @ [pc]"
      using k(1) by (simp add: replicate_Suc_end del: replicate_Suc)
    then show ?thesis
      using Cons.prems(1) None k a
      by (intro exI [of _ "[k]"]) (auto simp: trace_result_def replicate_Suc_end simp del: replicate_Suc)
  next
    case (Some er)
    with l have k: "k \<le> max_attempts policy" "0 < k"
      "or_calls run1 = or_calls run @ replicate k (prv_Name pc)"
      "all_failed env (or_n run) (replicate k pc)"
      "(\<forall>m. oe_ctxDone env m = None) \<longrightarrow> k = max_attempts policy" by auto
    let ?run = "recordFailedProvider ctx (prv_Name pc) run1"
    have "run_chain env ctx policy pcs (acc + k) (Some er) ?run = (run', res)"
      using Cons.prems(1) a Some by simp
    from Cons.IH [OF this] obtain ks where ks: "length ks \<le> length pcs"
      "\<forall>k \<in> set ks. 1 \<le> k \<and> k \<le> max_attempts policy"
      "or_calls run' = or_calls run1 @ map prv_Name (tries pcs ks)" "acc + k \<le> res_attempts res"
      "trace_result env (or_n run1) (tries pcs ks) (res\<lparr>res_attempts := res_attempts res - (acc + k)\<rparr>)"
      "res_err res \<noteq> None \<longrightarrow> length ks = length pcs \<and> ((\<forall>m. oe_ctxDone env m = None) \<longrightarrow>
         res_attempts res = acc + k + length pcs * max_attempts policy)"
      by auto
    have n1: "or_n run1 = or_n run + k" using k(3) by simp
    have "trace_result env (or_n run) (tries (pc # pcs) (k # ks))
        (res\<lparr>res_attempts := res_attempts res - acc\<rparr>)"
      using ks(4,5) k(4) unfolding trace_result_def n1
      by (auto simp: all_failed_append add.assoc split: option.splits)
    then show ?thesis using ks k by (intro exI [of _ "k # ks"]) auto
  qed
qed

subsection \<open>An operation\<close>

text \<open>
  The providers that an operation goes through: the available ones in the order of the
  selection strategy, narrowed to the pinned one, if any.
\<close>

definition op_chain ::
  "op_context \<Rightarrow> gotime \<Rightarrow> (int \<Rightarrow> nat \<Rightarrow> nat) \<Rightarrow> 'p op_run \<Rightarrow> 'p provider_config list" where
  "op_chain ctx now draw run =
     (case getAvailableProviders now draw (or_engine run) (or_pm run) of
        Panics \<Rightarrow> []
      | Returns (pm, cs) \<Rightarrow>
          (case pin_providers ctx (pm_selectedProvider pm) cs of Inl _ \<Rightarrow> [] | Inr cs' \<Rightarrow> cs'))"

lemma filter_available_states:
  assumes "filter_available now cs pm = Returns (pm', avail)"
  shows "pm_config pm' = pm_config pm" "pm_providers pm' = pm_providers pm"
    "pm_selector pm' = pm_selector pm" "pm_hasEngine pm' = pm_hasEngine pm"
    "pm_selectedProvider pm' = pm_selectedProvider pm" "set avail \<subseteq> set cs"
proof -
  have "pm_config pm' = pm_config pm \<and> pm_providers pm' = pm_providers pm \<and>
    pm_selector pm' = pm_selector pm \<and> pm_hasEngine pm' = pm_hasEngine pm \<and>
    pm_selectedProvider pm' = pm_selectedProvider pm \<and> set avail \<subseteq> set cs"
    using assms
  proof (induction cs arbitrary: pm avail)
    case (Cons c cs)
    obtain p1 ok where a: "isProviderAvailable (prv_Name c) now pm = Returns (p1, ok)"
      using Cons.prems(1) by (auto split: outcome.splits)
    obtain p2 av where f: "filter_available now cs p1 = Returns (p2, av)" "pm' = p2"
        "avail = (if ok then c # av else av)"
      using Cons.prems(1) a by (auto split: outcome.splits)
    show ?case using Cons.IH [OF f(1) [folded f(2)]] isProviderAvailable_states(3-7) [OF a] f(3) by auto
  qed simp
  then show "pm_config pm' = pm_config pm" "pm_providers pm' = pm_providers pm"
    "pm_selector pm' = pm_selector pm" "pm_hasEngine pm' = pm_hasEngine pm"
    "pm_selectedProvider pm' = pm_selectedProvider pm" "set avail \<subseteq> set cs" by auto
qed

lemma getAvailableProviders_config:
  "getAvailableProviders now draw e pm = Returns (pm', cs) \<Longrightarrow> pm_config pm' = pm_config pm"
  by (auto simp: getAvailableProviders_def filter_available_states split: outcome.splits)

lemma pin_providers_set:
  assumes "pin_providers ctx sel cs = Inr cs'"
  shows "set cs' \<subseteq> set cs" "cs \<noteq> [] \<Longrightarrow> cs' \<noteq> []"
  using assms
  by (auto simp: pin_providers_def findProviderByName_def find_Some_iff in_set_conv_nth
      split: option.splits if_splits)

text \<open>An operation either finds no chain and fails at once, or runs through its chain.\<close>

lemma runOp_cases:
  assumes "runOp env ctx now draw run = Returns (run', res)"
  obtains (empty) pm err where "op_chain ctx now draw run = []"
      "op_error env err (run\<lparr>or_pm := pm\<rparr>) = (run', res)"
  | (chain) pm cs where "getAvailableProviders now draw (or_engine run) (or_pm run) = Returns (pm, cs)"
      "op_chain ctx now draw run \<noteq> []" "set (op_chain ctx now draw run) \<subseteq> set cs"
      "pm_config pm = pm_config (or_pm run)"
      "run_chain env ctx (cc_RetryPolicy (pm_config (or_pm run))) (op_chain ctx now draw run) 0 None
         (run\<lparr>or_pm := pm\<rparr>) = (run', res)"
proof -
  obtain pm cs where g: "getAvailableProviders now draw (or_engine run) (or_pm run) = Returns (pm, cs)"
    using assms by (auto simp: runOp_def split: outcome.splits)
  note cfg = getAvailableProviders_config [OF g]
  show thesis
  proof (cases "cs = [] \<or> isl (pin_providers ctx (pm_selectedProvider pm) cs)")
    case True
    have "pin_providers ctx (pm_selectedProvider pm) [] = Inr x \<Longrightarrow> x = []" for x
      using pin_providers_set(1) [of ctx "pm_selectedProvider pm" "[]" x] by simp
    with True have "op_chain ctx now draw run = []" by (auto simp: op_chain_def g split: sum.splits)
    moreover have "\<exists>err. op_error env err (run\<lparr>or_pm := pm\<rparr>) = (run', res)"
      using assms g True by (auto simp: runOp_def Let_def split: if_splits sum.splits)
    ultimately show thesis using empty by blast
  next
    case False
    then obtain cs' where c: "cs \<noteq> []" "pin_providers ctx (pm_selectedProvider pm) cs = Inr cs'"
      by (cases "pin_providers ctx (pm_selectedProvider pm) cs") auto
    have o: "op_chain ctx now draw run = cs'" by (simp add: op_chain_def g c(2))
    have "run_chain env ctx (cc_RetryPolicy (pm_config pm)) cs' 0 None (run\<lparr>or_pm := pm\<rparr>) = (run', res)"
      using assms g c by (simp add: runOp_def Let_def)
    with chain [OF g] pin_providers_set [OF c(2)] c(1) cfg o show thesis by simp
  qed
qed

text \<open>
  C1: An operation tries the providers of its chain strictly in order, each at least once and
  at most \<open>MaxAttempts\<close> times, and stops at the first success. It returns the value and the
  name of the provider whose call succeeded. It returns an error only when every provider of
  the chain has failed in its last attempt; without cancellation each has then been tried
  \<open>MaxAttempts\<close> times. The reported number of attempts is the number of calls.
\<close>

theorem runOp_trace:
  assumes "runOp env ctx now draw run = Returns (run', res)"
  defines "sel \<equiv> op_chain ctx now draw run"
    and "m \<equiv> max_attempts (cc_RetryPolicy (pm_config (or_pm run)))"
  shows "\<exists>ks. length ks \<le> length sel \<and> (\<forall>k \<in> set ks. 1 \<le> k \<and> k \<le> m) \<and>
     or_calls run' = or_calls run @ map prv_Name (tries sel ks) \<and>
     trace_result env (or_n run) (tries sel ks) res \<and>
     (res_err res \<noteq> None \<longrightarrow> length ks = length sel \<and>
        ((\<forall>i. oe_ctxDone env i = None) \<longrightarrow> res_attempts res = length sel * m))"
  using assms(1)
proof (cases rule: runOp_cases)
  case (empty pm err)
  then show ?thesis by (auto simp: sel_def op_error_def trace_result_def)
next
  case (chain pm cs)
  from run_chain_trace [OF chain(5)] chain(2) show ?thesis by (simp add: sel_def m_def)
qed

lemma runOp_result:
  assumes "runOp env ctx now draw run = Returns (run', res)"
  shows "\<exists>tr. set tr \<subseteq> set (op_chain ctx now draw run) \<and>
     length tr \<le> length (op_chain ctx now draw run) * max_attempts (cc_RetryPolicy (pm_config (or_pm run))) \<and>
     or_calls run' = or_calls run @ map prv_Name tr \<and> trace_result env (or_n run) tr res"
  using assms
proof (cases rule: runOp_cases)
  case (empty pm err)
  then show ?thesis by (auto simp: op_error_def trace_result_def)
next
  case (chain pm cs)
  let ?cs = "op_chain ctx now draw run" and ?m = "max_attempts (cc_RetryPolicy (pm_config (or_pm run)))"
  from run_chain_trace [OF chain(5)] chain(2) obtain ks where ks: "length ks \<le> length ?cs"
    "\<forall>k \<in> set ks. 1 \<le> k \<and> k \<le> ?m" "or_calls run' = or_calls run @ map prv_Name (tries ?cs ks)"
    "trace_result env (or_n run) (tries ?cs ks) res"
    by auto
  have "length (tries ?cs ks) \<le> length ks * ?m"
    using sum_list_bound [of ks ?m] ks(2) length_tries [OF ks(1)] by simp
  also have "\<dots> \<le> length ?cs * ?m" using ks(1) by simp
  finally show ?thesis using ks(3,4) set_tries [of ?cs ks] by blast
qed

text \<open>The reported duration is read after the last call.\<close>

lemma run_chain_duration:
  "run_chain env ctx policy pcs acc lastErr run = (run', res) \<Longrightarrow> res_duration res = oe_since env (or_n run')"
  by (induction pcs arbitrary: acc lastErr run) (auto split: prod.splits option.splits)

lemma runOp_duration:
  assumes "runOp env ctx now draw run = Returns (run', res)"
  shows "res_duration res = oe_since env (or_n run')"
  using assms
proof (cases rule: runOp_cases)
  case (empty pm err)
  then show ?thesis by (auto simp: op_error_def)
next
  case (chain pm cs)
  then show ?thesis using run_chain_duration by blast
qed

lemma runOp_returns:
  assumes "getAvailableProviders now draw (or_engine run) (or_pm run) = Returns (pm, cs)"
  shows "\<exists>run' res. runOp env ctx now draw run = Returns (run', res)"
proof (cases "pin_providers ctx (pm_selectedProvider pm) cs")
  case (Inl e)
  then show ?thesis by (simp add: runOp_def assms Let_def op_error_def)
next
  case (Inr cs')
  then show ?thesis by (simp add: runOp_def assms Let_def op_error_def surj_pair)
qed

text \<open>An operation whose first call fails and whose second succeeds.\<close>

definition demo_env :: "(nat, nat) op_env" where
  "demo_env = \<lparr>oe_op = (\<lambda>n p. if n = 0 then Inl (Errorf ''timeout'') else Inr (p + n)),
     oe_elapsed = (\<lambda>_. 3), oe_ctxDone = (\<lambda>_. None), oe_cvt = (\<lambda>_. 0), oe_rand = (\<lambda>_. 0),
     oe_clk = (\<lambda>_ _. 9), oe_eclk = (\<lambda>_ _ _. 9), oe_order = (\<lambda>_. []), oe_since = (\<lambda>_. 12)\<rparr>"

definition demo_run :: "engine \<Rightarrow> nat op_run" where
  "demo_run e = \<lparr>or_pm = demo_chain, or_engine = e, or_calls = [], or_waits = [], or_failed = []\<rparr>"

lemma demo_chain_providers:
  "pm_providers demo_chain = [\<lparr>prv_Provider = 7, prv_Priority = 1, prv_Name = ''a''\<rparr>]"
  "pm_selector demo_chain = PriorityOnlySelector" "pm_selectedProvider demo_chain = ''''"
  by (simp_all add: demo_chain_def addProvider_def newProviderManager_def DefaultChainConfig_def
        strategy_or_priority_def newSelectionStrategy_def)

lemma demo_chain_available:
  "getAvailableProviders 1 draw e demo_chain =
     Returns (demo_chain, [\<lparr>prv_Provider = 7, prv_Priority = 1, prv_Name = ''a''\<rparr>])"
  by (simp add: getAvailableProviders_def demo_chain_providers isProviderAvailable_def
        check_failures_def check_circuit_def check_health_def check_rate_def demo_chain_states
        zero_failure_info_def new_circuit_state_def DefaultChainConfig_def)

lemma demo_all_failed:
  "all_failed demo_env n (replicate k pc) \<longleftrightarrow> k = 0 \<or> n = 0 \<and> k = 1"
proof (cases k)
  case (Suc j)
  then show ?thesis by (cases j) (auto simp: demo_env_def)
qed simp

lemma demo_trace:
  assumes "trace_result demo_env 0 (replicate k \<lparr>prv_Provider = 7, prv_Priority = 1, prv_Name = ''a''\<rparr>) res"
    and "res_err res \<noteq> None \<longrightarrow> res_attempts res = 3"
  shows "k = 2" "res_data res = Some 8"
proof -
  have "k = 2 \<and> res_data res = Some 8"
  proof (cases "res_err res")
    case None
    with assms(1) obtain tr0 pc v where v:
      "replicate k \<lparr>prv_Provider = 7, prv_Priority = 1, prv_Name = ''a''\<rparr> = tr0 @ [pc]"
      "all_failed demo_env 0 tr0" "oe_op demo_env (length tr0) (prv_Provider pc) = Inr v"
      "res_data res = Some v" by (auto simp: trace_result_def)
    then have "k = Suc (length tr0)" by (metis length_append_singleton length_replicate)
    moreover from this v(1) have "tr0 = replicate (length tr0) \<lparr>prv_Provider = 7, prv_Priority = 1, prv_Name = ''a''\<rparr>"
      "pc = \<lparr>prv_Provider = 7, prv_Priority = 1, prv_Name = ''a''\<rparr>"
      by (auto simp: replicate_Suc_end simp del: replicate_Suc)
    moreover from this v(2) have "length tr0 = 0 \<or> length tr0 = 1" by (metis demo_all_failed)
    ultimately show ?thesis using v(3,4) by (auto simp: demo_env_def)
  next
    case (Some e)
    with assms show ?thesis by (auto simp: trace_result_def demo_all_failed)
  qed
  then show "k = 2" "res_data res = Some 8" by auto
qed

theorem runOp_trace_witness:
  "\<forall>e. \<exists>run' res. runOp demo_env Background 1 (\<lambda>_ _. 0) (demo_run e) = Returns (run', res) \<and>
     or_calls run' = [''a'', ''a''] \<and> res_data res = Some 8"
proof
  fix e
  let ?pc = "\<lparr>prv_Provider = 7, prv_Priority = 1, prv_Name = ''a''\<rparr> :: nat provider_config"
  have sel: "op_chain Background 1 (\<lambda>_ _. 0) (demo_run e) = [?pc]"
    by (simp add: op_chain_def demo_run_def demo_chain_available pin_providers_def
          demo_chain_providers GetProviderName_def Background_def)
  obtain run' res where o: "runOp demo_env Background 1 (\<lambda>_ _. 0) (demo_run e) = Returns (run', res)"
    using runOp_returns [of 1 "\<lambda>_ _. 0" "demo_run e"] by (fastforce simp: demo_run_def demo_chain_available)
  have r: "or_calls (demo_run e) = []" "max_attempts (cc_RetryPolicy (pm_config (or_pm (demo_run e)))) = 3"
    by (simp_all add: demo_run_def demo_chain_states DefaultChainConfig_def max_attempts_def)
  have d: "\<forall>i. oe_ctxDone demo_env i = None" by (simp add: demo_env_def)
  from runOp_trace [OF o, unfolded sel r] d obtain ks where ks: "length ks \<le> 1"
    "or_calls run' = map prv_Name (tries [?pc] ks)" "trace_result demo_env 0 (tries [?pc] ks) res"
    "res_err res \<noteq> None \<longrightarrow> length ks = 1 \<and> res_attempts res = 3" by auto
  have t: "tries [?pc] ks = replicate (sum_list ks) ?pc"
    using ks(1) by (cases ks) auto
  have "or_calls run' = [''a'', ''a''] \<and> res_data res = Some 8"
    using demo_trace [OF ks(3) [unfolded t]] ks(2,4) t by (auto simp: numeral_2_eq_2)
  with o show "\<exists>run' res. runOp demo_env Background 1 (\<lambda>_ _. 0) (demo_run e) = Returns (run', res) \<and>
     or_calls run' = [''a'', ''a''] \<and> res_data res = Some 8" by blast
qed

subsection \<open>Providers whose breaker is open are not called\<close>

lemma open_timeout_cong:
  "pm_failureTracker p n = pm_failureTracker q n \<Longrightarrow> pm_config p = pm_config q \<Longrightarrow>
   open_timeout n p = open_timeout n q"
  by (simp add: open_timeout_def split: option.split)

lemma open_refused_by_filter:
  assumes "filter_available now cs pm = Returns (pm', avail)"
    and "cb_Enabled (cc_CircuitBreaker (pm_config pm))" "pm_circuitStates pm n = Some st"
    and "cs_State st = OPEN" "now - cs_LastStateChange st < open_timeout n pm"
  shows "\<forall>c \<in> set avail. prv_Name c \<noteq> n"
  using assms
proof (induction cs arbitrary: pm avail)
  case (Cons c cs)
  obtain p1 ok where a: "isProviderAvailable (prv_Name c) now pm = Returns (p1, ok)"
    using Cons.prems(1) by (auto split: outcome.splits)
  obtain av where f: "filter_available now cs p1 = Returns (pm', av)"
      "avail = (if ok then c # av else av)"
    using Cons.prems(1) a by (auto split: outcome.splits)
  note s = isProviderAvailable_states [OF a]
  have "\<not> ok" if "prv_Name c = n"
    using open_unavailable [OF Cons.prems(2-5)] a that by simp
  moreover have "pm_circuitStates p1 n = Some st"
  proof (cases "prv_Name c = n")
    case True
    then show ?thesis
      using open_unavailable [OF Cons.prems(2-5)] a Cons.prems(3) check_failures_circuit(1) by auto
  next
    case False
    then show ?thesis using s(2) Cons.prems(3) by (simp add: check_circuit_other)
  qed
  moreover have "open_timeout n p1 = open_timeout n pm"
    using open_timeout_check_failures [of n "prv_Name c" now pm] s(1,3)
    by (metis open_timeout_cong check_failures_circuit(2))
  ultimately show ?case
    using Cons.IH [OF f(1)] Cons.prems(2-5) s(3) f(2) by auto
qed simp

lemma count_tries:
  assumes "\<forall>k \<in> set ks. k \<le> b"
  shows "count_list (map prv_Name (tries cs ks)) m \<le> b * length (filter (\<lambda>c. prv_Name c = m) cs)"
  using assms
proof (induction cs arbitrary: ks)
  case (Cons c cs)
  show ?case
  proof (cases ks)
    case (Cons k ks')
    have rep: "count_list (replicate k x) y = (if x = y then k else 0)" for x y :: string
      by (induction k) auto
    from Cons.IH [of ks'] Cons.prems Cons show ?thesis by (auto simp: rep)
  qed simp
qed simp

text \<open>
  C2: When an operation reads the available providers, it leaves out every provider whose
  breaker is open and whose timeout has not passed, and it does not call such a provider, also
  when the context pins it. The breakers are tested only at that moment: the retries of a
  provider whose breaker opens during the operation go on. Each provider is called at most
  \<open>MaxAttempts\<close> times for each of its entries in the chain.
\<close>

theorem open_circuit_not_called:
  assumes "runOp env ctx now draw run = Returns (run', res)"
    and "cb_Enabled (cc_CircuitBreaker (pm_config (or_pm run)))"
    and "pm_circuitStates (or_pm run) n = Some st" "cs_State st = OPEN"
    and "now - cs_LastStateChange st < open_timeout n (or_pm run)"
  shows "n \<notin> set (drop (or_n run) (or_calls run')) \<and>
    (\<forall>m. count_list (drop (or_n run) (or_calls run')) m \<le>
       max_attempts (cc_RetryPolicy (pm_config (or_pm run))) *
       length (filter (\<lambda>c. prv_Name c = m) (op_chain ctx now draw run)))"
  using assms(1)
proof (cases rule: runOp_cases)
  case (empty pm err)
  then show ?thesis by (auto simp: op_error_def)
next
  case (chain pm cs)
  obtain pm1 av where f: "filter_available now (pm_providers (or_pm run)) (or_pm run) = Returns (pm1, av)"
      "set cs = set av"
    using chain(1) by (auto simp: getAvailableProviders_def split: outcome.splits)
  obtain ks where ks: "or_calls run' = or_calls run @ map prv_Name (tries (op_chain ctx now draw run) ks)"
      "\<forall>k \<in> set ks. k \<le> max_attempts (cc_RetryPolicy (pm_config (or_pm run)))"
    using run_chain_trace [OF chain(5)] chain(2) by auto
  have "set (tries (op_chain ctx now draw run) ks) \<subseteq> set av"
    using set_tries chain(3) f(2) by fast
  then show ?thesis
    using open_refused_by_filter [OF f(1) assms(2-5)] ks(1) count_tries [OF ks(2)] by auto
qed

theorem open_circuit_not_called_witness:
  "\<forall>e. \<exists>run' res. runOp demo_env (WithProviderName Background ''a'') (20 * second) (\<lambda>_ _. 0)
      ((demo_run e)\<lparr>or_pm := demo_open_chain\<rparr>) = Returns (run', res) \<and> ''a'' \<notin> set (or_calls run')"
proof
  fix e
  let ?run = "(demo_run e)\<lparr>or_pm := demo_open_chain\<rparr>"
  have "pm_providers demo_open_chain = pm_providers demo_chain"
    by (simp add: demo_open_chain_def)
  then have "\<exists>run' res. runOp demo_env (WithProviderName Background ''a'') (20 * second) (\<lambda>_ _. 0)
      ?run = Returns (run', res)"
    by (simp add: runOp_def getAvailableProviders_def demo_chain_providers isProviderAvailable_def
          check_failures_def demo_open_chain_states DefaultChainConfig_def op_error_def Let_def)
  then obtain run' res where "runOp demo_env (WithProviderName Background ''a'') (20 * second) (\<lambda>_ _. 0)
      ?run = Returns (run', res)" by blast
  moreover from open_circuit_not_called [OF this, of "''a''"]
  have "''a'' \<notin> set (or_calls run')"
    by (simp add: demo_open_chain_states DefaultChainConfig_def open_timeout_def
          authFailureCircuitThreshold_def demo_run_def)
  ultimately show "\<exists>run' res. runOp demo_env (WithProviderName Background ''a'') (20 * second)
      (\<lambda>_ _. 0) ?run = Returns (run', res) \<and> ''a'' \<notin> set (or_calls run')" by blast
qed

subsection \<open>Operations and reachable managers\<close>

lemma recordSuccess_reach:
  "chain_reach T (fst st) \<Longrightarrow> chain_reach T (fst (recordSuccessWithLatency order eclk clk n d st))"
  by (cases st) (simp add: recordSuccessWithLatency_def recordSuccess_def chain_reach.succeeded)

lemma recordFailure_reach:
  "chain_reach T (fst st) \<Longrightarrow> chain_reach T (fst (recordFailureWithError order clk ctx n err d now st))"
  by (cases st) (simp add: recordFailureWithError_def Let_def chain_reach.failed chain_reach.auth_failed)

lemma set_state_pm [simp]: "or_pm (set_state st run) = fst st"
  by (simp add: set_state_def)

lemma dispatch_reach:
  "chain_reach T (or_pm run) \<Longrightarrow> chain_reach T (or_pm (fst (dispatch env ctx pc run)))"
  by (auto simp: dispatch_def Let_def recordSuccess_reach recordFailure_reach split: sum.splits)

lemma retry_loop_reach:
  "chain_reach T (or_pm run) \<Longrightarrow>
   chain_reach T (or_pm (fst (retry_loop env ctx pc policy left attempt lastErr run)))"
proof (induction left arbitrary: attempt lastErr run)
  case (Suc left)
  then show ?case
    using dispatch_reach [of T "if attempt > 0 then run\<lparr>or_waits := or_waits run @
        [retryDelay (oe_cvt env) (oe_rand env (or_n run)) policy attempt]\<rparr> else run" env ctx pc]
    by (auto simp: Let_def split: prod.splits sum.splits)
qed simp

lemma recordFailedProvider_pm [simp]: "or_pm (recordFailedProvider ctx n run) = or_pm run"
  by (simp add: recordFailedProvider_def)

lemma run_chain_reach:
  "chain_reach T (or_pm run) \<Longrightarrow> chain_reach T (or_pm (fst (run_chain env ctx policy cs acc lastErr run)))"
proof (induction cs arbitrary: acc lastErr run)
  case (Cons c cs)
  obtain run1 data k err where a: "attemptWithRetry env ctx c policy run = (run1, data, k, err)"
    by (metis prod_cases4)
  have "chain_reach T (or_pm run1)"
    using retry_loop_reach [OF Cons.prems, of env ctx c policy "max_attempts policy" 0 None]
      a [unfolded attemptWithRetry_def] by simp
  then show ?case using a Cons.IH by (cases err) (simp_all add: chain_reach.attempted)
qed simp

lemma filter_available_reach:
  "chain_reach T pm \<Longrightarrow> filter_available now cs pm = Returns (pm', av) \<Longrightarrow> chain_reach T pm'"
proof (induction cs arbitrary: pm av)
  case (Cons c cs)
  then show ?case using chain_reach.tested [of T pm "prv_Name c" now] by (auto split: outcome.splits)
qed simp

lemma runOp_reach:
  assumes "chain_reach T (or_pm run)" "runOp env ctx now draw run = Returns (run', res)"
  shows "chain_reach T (or_pm run')"
proof -
  obtain pm cs where g: "getAvailableProviders now draw (or_engine run) (or_pm run) = Returns (pm, cs)"
    using assms(2) by (auto simp: runOp_def split: outcome.splits)
  then have "chain_reach T pm"
    using filter_available_reach [OF assms(1)] by (auto simp: getAvailableProviders_def split: outcome.splits)
  with run_chain_reach [of T "run\<lparr>or_pm := pm\<rparr>" env ctx "cc_RetryPolicy (pm_config pm)" _ 0 None]
  show ?thesis
    using assms(2) g by (auto simp: runOp_def op_error_def Let_def split: if_splits sum.splits) (metis fst_conv)
qed

subsection \<open>Retry delays\<close>

lemma float_to_int64_floor:
  assumes "0 \<le> x" "x < 2 ^ 63"
  shows "float_to_int64 cvt x = \<lfloor>x\<rfloor>"
proof -
  have "0 \<le> \<lfloor>x\<rfloor>" "\<lfloor>x\<rfloor> < 2 ^ 63" using assms by (simp_all add: floor_less_iff)
  with assms(1) show ?thesis by (simp add: float_to_int64_def Let_def)
qed

text \<open>
  When the exponential delay fits into 64 bits, the wait before a retry is never negative.
  It is at most \<open>MaxDelay\<close> without jitter, and less than a fifth longer with it.
\<close>

lemma retryDelay_bounded:
  assumes "0 \<le> rp_InitialDelay policy" "0 \<le> rp_BackoffMultiplier policy" "0 < rp_MaxDelay policy"
    and "of_int (rp_InitialDelay policy) * rp_BackoffMultiplier policy ^ (attempt - 1) < 2 ^ 63"
    and "rp_MaxDelay policy \<le> 2 ^ 62" "0 \<le> rnd" "rnd < 1"
  shows "0 \<le> retryDelay cvt rnd policy attempt \<and>
     (\<not> rp_Jitter policy \<longrightarrow> retryDelay cvt rnd policy attempt \<le> rp_MaxDelay policy) \<and>
     5 * retryDelay cvt rnd policy attempt < 6 * (rp_MaxDelay policy + 1)"
proof -
  define d where "d = of_int (rp_InitialDelay policy) * rp_BackoffMultiplier policy ^ (attempt - 1)"
  define M where "M = rp_MaxDelay policy"
  define d1 where "d1 = (if M > 0 \<and> float_to_int64 cvt d > M then of_int M else d)"
  define d2 where "d2 = (if rp_Jitter policy then d1 * (1 + rnd / 5) else d1)"
  have d: "0 \<le> d" "d < 2 ^ 63" using assms(1,2,4) by (simp_all add: d_def)
  have d1: "0 \<le> d1" "\<lfloor>d1\<rfloor> \<le> M"
    using d assms(3) float_to_int64_floor [OF d, of cvt] by (auto simp: d1_def M_def)
  then have d1': "d1 < of_int M + 1" by linarith
  have "d1 * (1 + rnd / 5) \<le> d1 * (6 / 5)"
    using d1(1) assms(7) by (intro mult_left_mono) simp_all
  then have "d2 \<le> d1 * (6 / 5)" using d1(1) by (auto simp: d2_def)
  then have d2: "0 \<le> d2" "5 * d2 < 6 * (of_int M + 1)"
    using d1(1) d1' assms(6) by (auto simp: d2_def)
  have "real_of_int M \<le> 2 ^ 62" using assms(5) by (simp add: M_def)
  with d2 have "float_to_int64 cvt d2 = \<lfloor>d2\<rfloor>" by (intro float_to_int64_floor) simp_all
  moreover have "retryDelay cvt rnd policy attempt = float_to_int64 cvt d2"
    unfolding retryDelay_def Let_def d2_def d1_def d_def M_def ..
  ultimately have f: "retryDelay cvt rnd policy attempt = \<lfloor>d2\<rfloor>" by simp
  have "5 * real_of_int \<lfloor>d2\<rfloor> < 6 * (of_int M + 1)"
    using d2(2) of_int_floor_le [of d2] by linarith
  then have "real_of_int (5 * \<lfloor>d2\<rfloor>) < real_of_int (6 * (M + 1))" by simp
  then have "5 * \<lfloor>d2\<rfloor> < 6 * (M + 1)" by (simp only: of_int_less_iff)
  moreover have "\<not> rp_Jitter policy \<longrightarrow> \<lfloor>d2\<rfloor> \<le> M" using d1(2) by (simp add: d2_def)
  ultimately show ?thesis using d2(1) by (simp add: f M_def)
qed

subsection \<open>A success is counted twice\<close>

lemma success_event_counts:
  assumes "sc_Enabled (en_config e)" "en_scores e n = Some s"
  shows "\<exists>s'. en_scores (engine_RecordEvent order clk (success_event n t d) e) n = Some s' \<and>
     ps_SuccessfulOps s' = ps_SuccessfulOps s + 1 \<and> ps_TotalOperations s' = ps_TotalOperations s + 1"
proof -
  let ?ev = "success_event n t d"
  have p: "ev_Provider ?ev = n" by (simp add: success_event_def)
  obtain s1 where s1: "en_scores (engine_RecordEvent order clk ?ev e) =
      (en_scores e)(n \<mapsto> event_effect (en_config e) (clk 5) ?ev s1)"
    "ps_SuccessfulOps s1 = ps_SuccessfulOps s" "ps_TotalOperations s1 = ps_TotalOperations s"
    using RecordEvent_update [of e ?ev s order clk] assms
    by (auto simp: p RecordLatency_def UpdateLatencyPenalty_def Let_def split: if_splits)
  then show ?thesis
    by (simp add: event_effect_def event_penalty_def success_event_def RecordSuccess_def Let_def)
qed

text \<open>
  With a scoring engine, one successful call with a measured latency is recorded as two
  successful operations of the provider, since \<open>recordSuccess\<close> and
  \<open>recordSuccessWithLatency\<close> both emit an event.
\<close>

lemma success_counted_twice:
  assumes "pm_hasEngine pm" "sc_Enabled (en_config e)" "en_scores e n = Some s"
    and "recordSuccessWithLatency order eclk clk n d (pm, e) = (pm', e')"
  shows "map_option ps_SuccessfulOps (en_scores e' n) = Some (ps_SuccessfulOps s + 2) \<and>
     map_option ps_TotalOperations (en_scores e' n) = Some (ps_TotalOperations s + 2)"
proof -
  define e1 where "e1 = engine_RecordEvent order (eclk 0) (success_event n (clk 2) 0) e"
  have e': "e' = engine_RecordEvent order (eclk 1) (success_event n (clk 3) d) e1"
    using assms(1,4) by (simp add: recordSuccessWithLatency_def recordSuccess_def e1_def)
  obtain s1 where s1: "en_scores e1 n = Some s1" "ps_SuccessfulOps s1 = ps_SuccessfulOps s + 1"
      "ps_TotalOperations s1 = ps_TotalOperations s + 1"
    unfolding e1_def using success_event_counts [OF assms(2,3)] by blast
  have "sc_Enabled (en_config e1)" using assms(2) by (simp add: e1_def)
  from success_event_counts [OF this s1(1), of order "eclk 1" "clk 3" d] show ?thesis
    using s1(2,3) by (auto simp: e')
qed

end
