(* ===== verification/Mixed_Providers.thy ===== *)
theory Mixed_Providers
  imports Manager_Laws Engine_Laws
begin

text \<open>
  The client: \<open>builder.go\<close>, \<open>providers.go\<close>, \<open>metrics.go\<close>, \<open>debug.go\<close>, \<open>provider_selector.go\<close>
  and \<open>config_updater.go\<close>. A client has one manager per chain, a metrics recorder and,
  optionally, one scoring engine that all managers share. The thirteen manager fields of the
  Go structs are a function of the chain type. A provider is a value of the type parameter;
  the method that an operation calls on it is an argument of the operation.
\<close>

subsection \<open>Metrics\<close>

record request_event =
  rq_Provider :: string
  rq_Operation :: string
  rq_Success :: bool
  rq_Duration :: duration
  rq_AttemptCount :: nat
  rq_ErrorClass :: string

datatype metrics_recorder = NoOpMetricsRecorder | SimpleRecorder | RichRecorder

datatype request_call =
    SimpleRequest string string bool duration
  | RichRequest request_event

definition classifyError :: "goerror option \<Rightarrow> string" where
  "classifyError err =
     (case err of
        None \<Rightarrow> ''''
      | Some e \<Rightarrow>
          if errors_Is e ErrAuthFailure then ''auth''
          else if errors_Is e ErrProviderNotConfigured then ''config''
          else if errors_Is e DeadlineExceeded \<or> errors_Is e Canceled then ''timeout''
          else
            let msg = ToLower (err_msg e)
            in if strings_Contains msg ''rate limit'' \<or> strings_Contains msg ''429'' \<or>
                  strings_Contains msg ''too many requests''
               then ''rate_limit'' else ''other'')"

text \<open>
  The call that the recorder gets. Only a rich recorder satisfies \<open>RichMetricsRecorder\<close>; the
  others, \<open>NoOpMetricsRecorder\<close> included, which ignores it, get the simple call.
\<close>

definition record_request :: "metrics_recorder \<Rightarrow> string \<Rightarrow> 'r op_result \<Rightarrow> request_call" where
  "record_request recorder operation res =
     (if recorder = RichRecorder
      then RichRequest
             \<lparr>rq_Provider = res_provider res, rq_Operation = operation,
              rq_Success = (res_err res = None), rq_Duration = res_duration res,
              rq_AttemptCount = res_attempts res, rq_ErrorClass = classifyError (res_err res)\<rparr>
      else SimpleRequest (res_provider res) operation (res_err res = None) (res_duration res))"

subsection \<open>The client and its operations\<close>

record 'p client =
  mp_managers :: "provider_chain_type \<Rightarrow> 'p provider_manager"
  mp_recorder :: metrics_recorder
  mp_calls :: "request_call list"
  mp_engine :: "engine option"

text \<open>
  A manager without an engine neither reads nor changes the engine component of the state;
  \<open>no_engine\<close> fills it.
\<close>

definition no_engine :: engine where
  "no_engine = \<lparr>en_config = DefaultScoringConfig, en_scores = Map.empty,
     en_latencyTracker = NewLatencyTracker 100, en_decayManager = NewDecayManager DefaultScoringConfig,
     en_store = None, en_penaltyHistoryStore = None, en_cleanup = False, en_started = False,
     en_metrics = [], en_pending = []\<rparr>"

definition engine_or_none :: "'p client \<Rightarrow> engine" where
  "engine_or_none c = (case mp_engine c of Some e \<Rightarrow> e | None \<Rightarrow> no_engine)"

definition start_run :: "provider_chain_type \<Rightarrow> 'p client \<Rightarrow> 'p op_run" where
  "start_run chain c = \<lparr>or_pm = mp_managers c chain, or_engine = engine_or_none c, or_calls = [],
     or_waits = [], or_failed = []\<rparr>"

text \<open>
  The result is the client, the failed providers that a debug context has collected, and the
  error or value. The type assertion on a missing value would panic.
\<close>

definition executeWithFallbackAndMetrics ::
  "('p, 'r) op_env \<Rightarrow> gotime \<Rightarrow> (int \<Rightarrow> nat \<Rightarrow> nat) \<Rightarrow> op_context \<Rightarrow> provider_chain_type \<Rightarrow> string \<Rightarrow>
   'p client \<Rightarrow> ('p client \<times> string list \<times> (goerror + 'r)) outcome" where
  "executeWithFallbackAndMetrics env now draw ctx chain operation c =
     (case runOp env ctx now draw (start_run chain c) of
        Panics \<Rightarrow> Panics
      | Returns (run, res) \<Rightarrow>
          let c1 = c\<lparr>mp_managers := (mp_managers c)(chain := or_pm run),
                     mp_engine := map_option (\<lambda>_. or_engine run) (mp_engine c),
                     mp_calls := mp_calls c @ [record_request (mp_recorder c) operation res]\<rparr>
          in case res_err res of
               Some e \<Rightarrow> Returns (c1, or_failed run, Inl e)
             | None \<Rightarrow>
                 (case res_data res of
                    None \<Rightarrow> Panics
                  | Some v \<Rightarrow> Returns (c1, or_failed run, Inr v)))"

definition DeriveAddress where
  "DeriveAddress m env now draw ctx xpub index childIndex c =
     executeWithFallbackAndMetrics (env\<lparr>oe_op := (\<lambda>n p. m n p ctx xpub index childIndex)\<rparr>) now draw ctx
       ProviderChainAddressGenerators ''DeriveAddress'' c"

definition GetTxFees where
  "GetTxFees m env now draw ctx c =
     executeWithFallbackAndMetrics (env\<lparr>oe_op := (\<lambda>n p. m n p ctx)\<rparr>) now draw ctx
       ProviderChainFeeRecommenders ''GetTxFees'' c"

definition GetTxFee where
  "GetTxFee m env now draw ctx priority c =
     executeWithFallbackAndMetrics (env\<lparr>oe_op := (\<lambda>n p. m n p ctx priority)\<rparr>) now draw ctx
       ProviderChainFeeRecommenders ''GetTxFee'' c"

definition CalculateFee where
  "CalculateFee m env now draw ctx txSize feePerByte c =
     executeWithFallbackAndMetrics (env\<lparr>oe_op := (\<lambda>n p. m n p ctx txSize feePerByte)\<rparr>) now draw ctx
       ProviderChainFeeEstimators ''CalculateFee'' c"

definition PushTx where
  "PushTx m env now draw ctx rawTx c =
     executeWithFallbackAndMetrics (env\<lparr>oe_op := (\<lambda>n p. m n p ctx rawTx)\<rparr>) now draw ctx
       ProviderChainTxBroadcasters ''PushTx'' c"

definition CreateTransaction where
  "CreateTransaction m env now draw ctx utxos outputs c =
     executeWithFallbackAndMetrics (env\<lparr>oe_op := (\<lambda>n p. m n p ctx utxos outputs)\<rparr>) now draw ctx
       ProviderChainTxAssemblers ''CreateTransaction'' c"

definition CalculateTransactionSize where
  "CalculateTransactionSize m env now draw ctx tx c =
     executeWithFallbackAndMetrics (env\<lparr>oe_op := (\<lambda>n p. m n p ctx tx)\<rparr>) now draw ctx
       ProviderChainTxSizers ''CalculateTransactionSize'' c"

definition SignTransaction where
  "SignTransaction m env now draw ctx tx utxos privWIF c =
     executeWithFallbackAndMetrics (env\<lparr>oe_op := (\<lambda>n p. m n p ctx tx utxos privWIF)\<rparr>) now draw ctx
       ProviderChainTxSigners ''SignTransaction'' c"

definition GetUTXOs where
  "GetUTXOs m env now draw ctx address c =
     executeWithFallbackAndMetrics (env\<lparr>oe_op := (\<lambda>n p. m n p ctx address)\<rparr>) now draw ctx
       ProviderChainUTXOFetchers ''GetUTXOs'' c"

definition GetBalance where
  "GetBalance m env now draw ctx address c =
     executeWithFallbackAndMetrics (env\<lparr>oe_op := (\<lambda>n p. m n p ctx address)\<rparr>) now draw ctx
       ProviderChainBalanceFetchers ''GetBalance'' c"

definition ValidateAddress where
  "ValidateAddress m env now draw ctx address c =
     executeWithFallbackAndMetrics (env\<lparr>oe_op := (\<lambda>n p. m n p ctx address)\<rparr>) now draw ctx
       ProviderChainAddressValidators ''ValidateAddress'' c"

definition GetExchangeRate where
  "GetExchangeRate m env now draw ctx coin currency c =
     executeWithFallbackAndMetrics (env\<lparr>oe_op := (\<lambda>n p. m n p ctx coin currency)\<rparr>) now draw ctx
       ProviderChainRateFetchers ''GetExchangeRate'' c"

definition GetExchangeRates where
  "GetExchangeRates m env now draw ctx coin c =
     executeWithFallbackAndMetrics (env\<lparr>oe_op := (\<lambda>n p. m n p ctx coin)\<rparr>) now draw ctx
       ProviderChainRateFetchers ''GetExchangeRates'' c"

definition GetHistoricalRates where
  "GetHistoricalRates m env now draw ctx coin currency since until_t c =
     executeWithFallbackAndMetrics (env\<lparr>oe_op := (\<lambda>n p. m n p ctx coin currency since until_t)\<rparr>)
       now draw ctx ProviderChainHistoricalRateFetchers ''GetHistoricalRates'' c"

definition GetTxStatus where
  "GetTxStatus m env now draw ctx txID c =
     executeWithFallbackAndMetrics (env\<lparr>oe_op := (\<lambda>n p. m n p ctx txID)\<rparr>) now draw ctx
       ProviderChainTxStatusFetchers ''GetTxStatus'' c"

subsection \<open>Pinning and debug information\<close>

text \<open>
  A \<open>ProviderSelector\<close> forwards every call with the context that \<open>ctxWithProvider\<close> gives;
  \<open>call\<close> is the operation of the wrapped provider.
\<close>

definition ctxWithProvider :: "string \<Rightarrow> op_context \<Rightarrow> op_context" where
  "ctxWithProvider sel ctx = (if sel \<noteq> '''' then WithProviderName ctx sel else ctx)"

definition selector_call :: "string \<Rightarrow> (op_context \<Rightarrow> 'a) \<Rightarrow> op_context \<Rightarrow> 'a" where
  "selector_call sel call ctx = call (ctxWithProvider sel ctx)"

record debug_info =
  di_Provider :: string
  di_FailedProviders :: "string list"
  di_ProcessedAt :: gotime

definition ExtractDebugInfo :: "op_context \<Rightarrow> string list \<Rightarrow> gotime \<Rightarrow> debug_info" where
  "ExtractDebugInfo ctx failed now =
     \<lparr>di_Provider = (case GetProviderName ctx of Some n \<Rightarrow> n | None \<Rightarrow> ''unknown''),
      di_FailedProviders = (if cx_Debug ctx then failed else []), di_ProcessedAt = now\<rparr>"

subsection \<open>Queries and scoring control\<close>

text \<open>The chains that \<open>ProviderExists\<close> looks at.\<close>

definition role_chains :: "provider_chain_type list" where
  "role_chains =
     [ProviderChainAddressGenerators, ProviderChainAddressValidators, ProviderChainFeeEstimators,
      ProviderChainFeeRecommenders, ProviderChainTxBroadcasters, ProviderChainUTXOFetchers,
      ProviderChainTxAssemblers, ProviderChainTxSizers, ProviderChainTxSigners,
      ProviderChainTxStatusFetchers, ProviderChainBalanceFetchers, ProviderChainRateFetchers]"

definition ProviderExists :: "string \<Rightarrow> 'p client \<Rightarrow> bool" where
  "ProviderExists name c \<longleftrightarrow> list_ex (\<lambda>ch. manager_HasProvider name (mp_managers c ch)) role_chains"

definition StopScoring :: "'p client \<Rightarrow> 'p client outcome" where
  "StopScoring c =
     (case mp_engine c of
        None \<Rightarrow> Returns c
      | Some e \<Rightarrow> map_outcome (\<lambda>e'. c\<lparr>mp_engine := Some e'\<rparr>) (engine_Stop e))"

definition GetScoringStats :: "string list \<Rightarrow> 'p client \<Rightarrow> provider_score_stats list option" where
  "GetScoringStats order c = map_option (GetAllProviderStats order) (mp_engine c)"

definition GetProviderScoringStats :: "string \<Rightarrow> 'p client \<Rightarrow> provider_score_stats option" where
  "GetProviderScoringStats name c = Option.bind (mp_engine c) (engine_GetProviderStats name)"

definition IsScoringEnabled :: "'p client \<Rightarrow> bool" where
  "IsScoringEnabled c = (case mp_engine c of None \<Rightarrow> False | Some e \<Rightarrow> IsEnabled e)"

definition SetScoringEnabled :: "bool \<Rightarrow> 'p client \<Rightarrow> 'p client" where
  "SetScoringEnabled enabled c = c\<lparr>mp_engine := map_option (SetEnabled enabled) (mp_engine c)\<rparr>"

definition ResetScoring :: "(string \<Rightarrow> gotime) \<Rightarrow> 'p client \<Rightarrow> 'p client" where
  "ResetScoring clock c = c\<lparr>mp_engine := map_option (engine_Reset clock) (mp_engine c)\<rparr>"

definition client_GetSortedProviders :: "string list \<Rightarrow> 'p client \<Rightarrow> 'p client \<times> string list option" where
  "client_GetSortedProviders order c =
     (case mp_engine c of
        None \<Rightarrow> (c, None)
      | Some e \<Rightarrow> (case GetSortedProviders order e of (e', ns) \<Rightarrow> (c\<lparr>mp_engine := Some e'\<rparr>, Some ns)))"

subsection \<open>Runtime configuration\<close>

record scoring_weights =
  sw_HealthCheckFailPenalty :: real
  sw_RateLimitPenalty :: real
  sw_AuthFailurePenalty :: real
  sw_SlowResponsePenalty :: real
  sw_OperationFailPenalty :: real
  sw_TimeoutPenalty :: real
  sw_SuccessBonus :: real
  sw_MaxPenalty :: real
  sw_DecayInterval :: duration
  sw_DecayRate :: real
  sw_LatencyWindowSize :: int
  sw_SlowThresholdStdDev :: real
  sw_MinSamplesForLatencyComparison :: int

definition scoringConfigToWeights :: "scoring_config \<Rightarrow> scoring_weights" where
  "scoringConfigToWeights c =
     \<lparr>sw_HealthCheckFailPenalty = sc_HealthCheckFailPenalty c,
      sw_RateLimitPenalty = sc_RateLimitPenalty c, sw_AuthFailurePenalty = sc_AuthFailurePenalty c,
      sw_SlowResponsePenalty = sc_SlowResponsePenalty c,
      sw_OperationFailPenalty = sc_OperationFailPenalty c, sw_TimeoutPenalty = sc_TimeoutPenalty c,
      sw_SuccessBonus = sc_SuccessBonus c, sw_MaxPenalty = sc_MaxPenalty c,
      sw_DecayInterval = sc_DecayInterval c, sw_DecayRate = sc_DecayRate c,
      sw_LatencyWindowSize = sc_LatencyWindowSize c,
      sw_SlowThresholdStdDev = sc_SlowThresholdStdDev c,
      sw_MinSamplesForLatencyComparison = sc_MinSamplesForLatencyComparison c\<rparr>"

definition scoringWeightsToOptions :: "scoring_weights \<Rightarrow> scoring_option list" where
  "scoringWeightsToOptions w =
     [WithHealthCheckPenalty (sw_HealthCheckFailPenalty w), WithRateLimitPenalty (sw_RateLimitPenalty w),
      WithAuthFailurePenalty (sw_AuthFailurePenalty w), WithSlowResponsePenalty (sw_SlowResponsePenalty w),
      WithOperationFailPenalty (sw_OperationFailPenalty w), WithTimeoutPenalty (sw_TimeoutPenalty w),
      WithSuccessBonus (sw_SuccessBonus w), WithMaxPenalty (sw_MaxPenalty w),
      WithDecayInterval (sw_DecayInterval w), WithDecayRate (sw_DecayRate w),
      WithLatencyWindow (sw_LatencyWindowSize w), WithSlowThreshold (sw_SlowThresholdStdDev w),
      WithMinLatencySamples (sw_MinSamplesForLatencyComparison w)]"

definition all_chains :: "provider_chain_type list" where
  "all_chains = role_chains @ [ProviderChainHistoricalRateFetchers]"

text \<open>The chain name is a string in the code; an unknown one is an error.\<close>

definition managerFor :: "string \<Rightarrow> goerror + provider_chain_type" where
  "managerFor chain =
     (case find (\<lambda>ch. chain_type_String ch = chain) all_chains of
        None \<Rightarrow> Inl (Errorf (''unknown provider chain: '' @ go_quote chain))
      | Some ch \<Rightarrow> Inr ch)"

definition UpdateChainConfig ::
  "string \<Rightarrow> chain_config \<Rightarrow> 'p client \<Rightarrow> ('p client \<times> goerror option) outcome" where
  "UpdateChainConfig chain cfg c =
     (case managerFor chain of
        Inl e \<Rightarrow> Returns (c, Some e)
      | Inr ch \<Rightarrow>
          map_outcome (\<lambda>pm. (c\<lparr>mp_managers := (mp_managers c)(ch := pm)\<rparr>, None))
            (updateChainConfig cfg (mp_managers c ch)))"

definition client_SetSelectionStrategy ::
  "string \<Rightarrow> selection_strategy \<Rightarrow> 'p client \<Rightarrow> 'p client \<times> goerror option" where
  "client_SetSelectionStrategy chain s c =
     (case managerFor chain of
        Inl e \<Rightarrow> (c, Some e)
      | Inr ch \<Rightarrow>
          (case manager_SetSelectionStrategy s (mp_managers c ch) of
             (pm, err) \<Rightarrow> (c\<lparr>mp_managers := (mp_managers c)(ch := pm)\<rparr>, err)))"

definition SetScoringWeights :: "scoring_weights \<Rightarrow> 'p client \<Rightarrow> 'p client outcome" where
  "SetScoringWeights w c =
     (case mp_engine c of
        None \<Rightarrow> Returns c
      | Some e \<Rightarrow>
          map_outcome (\<lambda>e'. c\<lparr>mp_engine := Some e'\<rparr>)
            (engine_UpdateConfig (scoringWeightsToOptions w) e))"

record config_snapshot =
  sn_Chains :: "string \<rightharpoonup> chain_config"
  sn_ScoringEnabled :: bool
  sn_ScoringWeights :: scoring_weights

text \<open>Without an engine the weights keep their zero value.\<close>

definition zero_weights :: scoring_weights where
  "zero_weights = \<lparr>sw_HealthCheckFailPenalty = 0, sw_RateLimitPenalty = 0,
     sw_AuthFailurePenalty = 0, sw_SlowResponsePenalty = 0, sw_OperationFailPenalty = 0,
     sw_TimeoutPenalty = 0, sw_SuccessBonus = 0, sw_MaxPenalty = 0, sw_DecayInterval = 0,
     sw_DecayRate = 0, sw_LatencyWindowSize = 0, sw_SlowThresholdStdDev = 0,
     sw_MinSamplesForLatencyComparison = 0\<rparr>"

definition Snapshot :: "'p client \<Rightarrow> config_snapshot" where
  "Snapshot c =
     \<lparr>sn_Chains = (\<lambda>chain. case managerFor chain of
         Inl _ \<Rightarrow> None | Inr ch \<Rightarrow> Some (pm_config (mp_managers c ch))),
      sn_ScoringEnabled = IsScoringEnabled c,
      sn_ScoringWeights = (case mp_engine c of
         None \<Rightarrow> zero_weights | Some e \<Rightarrow> scoringConfigToWeights (en_config e))\<rparr>"

end
