(* ===== verification/Builder.thy ===== *)
theory Builder
  imports Mixed_Providers
begin

text \<open>
  \<open>builder.go\<close>: the builder of a client. The thirteen \<open>With...Chain\<close> methods have the same
  body over their own manager, which is \<open>with_chain\<close>. The sort of \<open>addProvider\<close>, the clock and
  the names that providers report of themselves come from \<open>build_env\<close>.
\<close>

record 'p chain_entry =
  ce_Provider :: "'p option"
  ce_Priority :: int
  ce_Name :: string
  ce_ChainConfig :: "chain_config option"

record 'p build_env =
  be_sort :: "'p provider_config list \<Rightarrow> 'p provider_config list"
  be_Name :: "'p \<Rightarrow> string option"
  be_clk :: "nat \<Rightarrow> nat \<Rightarrow> gotime"

record 'p builder =
  bd_managers :: "provider_chain_type \<Rightarrow> 'p provider_manager"
  bd_chainConfigs :: "string \<rightharpoonup> chain_config"
  bd_recorder :: metrics_recorder
  bd_engine :: "engine option"

text \<open>The default configurations have a positive concurrency, so no manager panics.\<close>

definition new_manager :: "chain_config \<Rightarrow> 'p provider_manager" where
  "new_manager config =
     \<lparr>pm_providers = [], pm_selectedProvider = '''', pm_failureTracker = Map.empty,
      pm_circuitStates = Map.empty, pm_healthStates = Map.empty,
      pm_rateLimitStates = Map.empty, pm_config = config,
      pm_semaphore = cc_MaxConcurrency config,
      pm_selector = strategy_or_priority (cc_SelectionStrategy config), pm_hasEngine = False\<rparr>"

lemma new_manager_default: "newProviderManager (DefaultChainConfig ch) = Returns (new_manager (DefaultChainConfig ch))"
  by (simp add: newProviderManager_def new_manager_def DefaultChainConfig_def)

definition NewMixedProvidersBuilder :: "'p builder" where
  "NewMixedProvidersBuilder =
     \<lparr>bd_managers = (\<lambda>ch. new_manager (DefaultChainConfig ch)), bd_chainConfigs = Map.empty,
      bd_recorder = NoOpMetricsRecorder, bd_engine = None\<rparr>"

text \<open>An unknown chain type is stored and otherwise ignored.\<close>

definition WithChainConfig :: "string \<Rightarrow> chain_config \<Rightarrow> 'p builder \<Rightarrow> 'p builder outcome" where
  "WithChainConfig chainType config b =
     (let b1 = b\<lparr>bd_chainConfigs := (bd_chainConfigs b)(chainType \<mapsto> config)\<rparr>
      in case managerFor chainType of
           Inl _ \<Rightarrow> Returns b1
         | Inr ch \<Rightarrow>
             map_outcome (\<lambda>pm. b1\<lparr>bd_managers := (bd_managers b1)(ch := pm)\<rparr>)
               (updateChainConfig config (bd_managers b1 ch)))"

definition WithMetricsRecorder :: "metrics_recorder option \<Rightarrow> 'p builder \<Rightarrow> 'p builder" where
  "WithMetricsRecorder recorder b =
     b\<lparr>bd_recorder := (case recorder of None \<Rightarrow> NoOpMetricsRecorder | Some r \<Rightarrow> r)\<rparr>"

definition WithAdaptiveScoring ::
  "'s score_store_ops \<Rightarrow> 's \<Rightarrow> scoring_option list \<Rightarrow> 'p builder \<Rightarrow> 's \<times> 'p builder" where
  "WithAdaptiveScoring ops s opts b =
     (case NewEngine ops s opts of (s', e) \<Rightarrow> (s', b\<lparr>bd_engine := Some e\<rparr>))"

definition WithAdaptiveScoringEngine :: "engine option \<Rightarrow> 'p builder \<Rightarrow> 'p builder" where
  "WithAdaptiveScoringEngine e b = b\<lparr>bd_engine := e\<rparr>"

definition entry_name :: "'p build_env \<Rightarrow> 'p chain_entry \<Rightarrow> 'p \<Rightarrow> string" where
  "entry_name env x p =
     (if ce_Name x = '''' then (case be_Name env p of Some n \<Rightarrow> n | None \<Rightarrow> ''unknown'') else ce_Name x)"

text \<open>The loop of a \<open>With...Chain\<close> method: only the first chain configuration is applied.\<close>

fun add_entries ::
  "'p build_env \<Rightarrow> nat \<Rightarrow> bool \<Rightarrow> 'p chain_entry list \<Rightarrow> 'p provider_manager \<Rightarrow>
   'p provider_manager outcome" where
  "add_entries env i applied [] pm = Returns pm"
| "add_entries env i applied (x # xs) pm =
     (case ce_Provider x of
        None \<Rightarrow> add_entries env (Suc i) applied xs pm
      | Some p \<Rightarrow>
          let use = (ce_ChainConfig x \<noteq> None \<and> \<not> applied)
          in case (if use then updateChainConfig (the (ce_ChainConfig x)) pm else Returns pm) of
               Panics \<Rightarrow> Panics
             | Returns pm1 \<Rightarrow>
                 add_entries env (Suc i) (applied \<or> use) xs
                   (addProvider (be_sort env) (be_clk env i) (Some p) (ce_Priority x)
                      (entry_name env x p) pm1))"

definition with_chain ::
  "provider_chain_type \<Rightarrow> 'p build_env \<Rightarrow> 'p chain_entry list \<Rightarrow> 'p builder \<Rightarrow> 'p builder outcome" where
  "with_chain ch env xs b =
     map_outcome (\<lambda>pm. b\<lparr>bd_managers := (bd_managers b)(ch := pm)\<rparr>)
       (add_entries env 0 False xs (bd_managers b ch))"

definition WithBalanceFetcherChain where
  "WithBalanceFetcherChain = with_chain ProviderChainBalanceFetchers"
definition WithRateFetcherChain where
  "WithRateFetcherChain = with_chain ProviderChainRateFetchers"
definition WithHistoricalRateFetcherChain where
  "WithHistoricalRateFetcherChain = with_chain ProviderChainHistoricalRateFetchers"
definition WithAddressGeneratorChain where
  "WithAddressGeneratorChain = with_chain ProviderChainAddressGenerators"
definition WithFeeRecommenderChain where
  "WithFeeRecommenderChain = with_chain ProviderChainFeeRecommenders"
definition WithFeeEstimatorChain where
  "WithFeeEstimatorChain = with_chain ProviderChainFeeEstimators"
definition WithTxBroadcasterChain where
  "WithTxBroadcasterChain = with_chain ProviderChainTxBroadcasters"
definition WithTxAssemblerChain where
  "WithTxAssemblerChain = with_chain ProviderChainTxAssemblers"
definition WithTxSizerChain where
  "WithTxSizerChain = with_chain ProviderChainTxSizers"
definition WithTxSignerChain where
  "WithTxSignerChain = with_chain ProviderChainTxSigners"
definition WithUTXOFetcherChain where
  "WithUTXOFetcherChain = with_chain ProviderChainUTXOFetchers"
definition WithAddressValidatorChain where
  "WithAddressValidatorChain = with_chain ProviderChainAddressValidators"
definition WithTxStatusFetcherChain where
  "WithTxStatusFetcherChain = with_chain ProviderChainTxStatusFetchers"

subsection \<open>Build\<close>

definition build_order :: "provider_chain_type list" where
  "build_order =
     [ProviderChainAddressGenerators, ProviderChainAddressValidators, ProviderChainFeeRecommenders,
      ProviderChainFeeEstimators, ProviderChainTxBroadcasters, ProviderChainTxAssemblers,
      ProviderChainTxSizers, ProviderChainTxSigners, ProviderChainTxStatusFetchers,
      ProviderChainUTXOFetchers, ProviderChainBalanceFetchers, ProviderChainRateFetchers,
      ProviderChainHistoricalRateFetchers]"

definition attach_engine ::
  "(provider_chain_type \<Rightarrow> nat \<Rightarrow> gotime) \<Rightarrow> provider_chain_type \<Rightarrow>
   (provider_chain_type \<Rightarrow> 'p provider_manager) \<times> engine \<Rightarrow>
   (provider_chain_type \<Rightarrow> 'p provider_manager) \<times> engine" where
  "attach_engine clk ch me =
     (case me of (ms, e) \<Rightarrow>
        (case SetScoringEngine (clk ch) (Some e) (ms ch) of
           (pm, Some e') \<Rightarrow> (ms(ch := pm), e')
         | (pm, None) \<Rightarrow> (ms(ch := pm), e)))"

definition Build ::
  "'h penalty_store_ops \<Rightarrow> (provider_chain_type \<Rightarrow> nat \<Rightarrow> gotime) \<Rightarrow> string list \<Rightarrow>
   'h \<times> 'p builder \<Rightarrow> ('h \<times> 'p client) outcome" where
  "Build hops clk order hb =
     (case hb of (h, b) \<Rightarrow>
        (case bd_engine b of
           None \<Rightarrow>
             Returns (h, \<lparr>mp_managers = bd_managers b, mp_recorder = bd_recorder b, mp_calls = [],
                          mp_engine = None\<rparr>)
         | Some e \<Rightarrow>
             (case fold (attach_engine clk) build_order (bd_managers b, e) of (ms, e1) \<Rightarrow>
                (case engine_Start hops order (h, e1) of
                   Panics \<Rightarrow> Panics
                 | Returns (h', e2) \<Rightarrow>
                     Returns (h', \<lparr>mp_managers = ms, mp_recorder = bd_recorder b, mp_calls = [],
                                   mp_engine = Some e2\<rparr>)))))"

end
