(* ===== verification/Client_Laws.thy ===== *)
theory Client_Laws
  imports Builder Score_Store
begin

text \<open>
  Properties of the client: the metrics of an operation agree with its result, \<open>Build\<close>
  connects every chain to the engine, scoring weights written through the updater can be read
  back, and a chain does not return to adaptive selection by name.
\<close>

subsection \<open>One metrics call per operation\<close>

lemma classifyError_class:
  "classifyError (Some e) \<in> {''auth'', ''config'', ''timeout'', ''rate_limit'', ''other''}"
  by (simp add: classifyError_def Let_def)

lemma trace_result_data: "trace_result env n tr res \<Longrightarrow> res_err res = None \<Longrightarrow> res_data res \<noteq> None"
  by (auto simp: trace_result_def)

text \<open>The type assertion on the result never panics: only the admission test can.\<close>

lemma execute_panics_iff:
  "executeWithFallbackAndMetrics env now draw ctx chain opname c = Panics \<longleftrightarrow>
   runOp env ctx now draw (start_run chain c) = Panics"
proof (cases "runOp env ctx now draw (start_run chain c)")
  case (Returns rr)
  then obtain run res where "runOp env ctx now draw (start_run chain c) = Returns (run, res)"
    by (cases rr) auto
  moreover from runOp_result [OF this] have "res_err res = None \<Longrightarrow> res_data res \<noteq> None"
    using trace_result_data by blast
  ultimately show ?thesis
    by (cases "res_err res") (auto simp: executeWithFallbackAndMetrics_def Let_def)
qed (simp add: executeWithFallbackAndMetrics_def)

lemma execute_run:
  assumes "executeWithFallbackAndMetrics env now draw ctx chain opname c = Returns (c', failed, r)"
  obtains run res where "runOp env ctx now draw (start_run chain c) = Returns (run, res)"
    "mp_calls c' = mp_calls c @ [record_request (mp_recorder c) opname res]"
    "mp_managers c' = (mp_managers c)(chain := or_pm run)"
    "r = (case res_err res of Some e \<Rightarrow> Inl e | None \<Rightarrow> Inr (the (res_data res)))"
    "res_err res = None \<Longrightarrow> res_data res \<noteq> None"
  using assms
  by (auto simp: executeWithFallbackAndMetrics_def Let_def split: outcome.splits option.splits)

text \<open>
  C25: Every operation makes exactly one call of the metrics recorder, whatever happened inside:
  the rich one if the recorder is rich, the simple one otherwise. The call names the operation.
  It says success exactly when a value is returned, and then names a provider of the chain whose
  call returned that value as the last of the attempts; otherwise it names no provider, and the
  rich event carries the class of the error that is returned. The duration is the time since
  the start of the operation, read after its last attempt. The attempts, which the rich event
  counts, are bounded by the length of the chain times \<open>MaxAttempts\<close>, and the managers of the
  other chains are untouched.
\<close>

theorem execute_reports:
  assumes "executeWithFallbackAndMetrics env now draw ctx chain opname c = Returns (c', failed, r)"
  shows "\<exists>p ok k cls.
     mp_calls c' = mp_calls c @
       [if mp_recorder c = RichRecorder
        then RichRequest \<lparr>rq_Provider = p, rq_Operation = opname, rq_Success = ok,
               rq_Duration = oe_since env k, rq_AttemptCount = k, rq_ErrorClass = cls\<rparr>
        else SimpleRequest p opname ok (oe_since env k)] \<and>
     k \<le> length (op_chain ctx now draw (start_run chain c)) *
        max_attempts (cc_RetryPolicy (pm_config (mp_managers c chain))) \<and>
     (\<forall>ch. ch \<noteq> chain \<longrightarrow> mp_managers c' ch = mp_managers c ch) \<and>
     (case r of
        Inr v \<Rightarrow> ok \<and> cls = '''' \<and> 0 < k \<and>
          (\<exists>pc \<in> set (op_chain ctx now draw (start_run chain c)). p = prv_Name pc \<and>
             oe_op env (k - 1) (prv_Provider pc) = Inr v)
      | Inl e \<Rightarrow> \<not> ok \<and> p = '''' \<and> cls = classifyError (Some e))"
  using assms
proof (rule execute_run)
  fix run res
  assume run: "runOp env ctx now draw (start_run chain c) = Returns (run, res)"
    and c': "mp_calls c' = mp_calls c @ [record_request (mp_recorder c) opname res]"
      "mp_managers c' = (mp_managers c)(chain := or_pm run)"
    and r: "r = (case res_err res of Some e \<Rightarrow> Inl e | None \<Rightarrow> Inr (the (res_data res)))"
  have s: "or_calls (start_run chain c) = []" "or_pm (start_run chain c) = mp_managers c chain"
    by (simp_all add: start_run_def)
  from runOp_result [OF run, unfolded s] obtain tr where tr:
    "set tr \<subseteq> set (op_chain ctx now draw (start_run chain c))"
    "length tr \<le> length (op_chain ctx now draw (start_run chain c)) *
       max_attempts (cc_RetryPolicy (pm_config (mp_managers c chain)))"
    "or_calls run = map prv_Name tr" "trace_result env 0 tr res" by auto
  have d: "res_duration res = oe_since env (res_attempts res)"
    using runOp_duration [OF run] tr(3,4) by (simp add: trace_result_def)
  show ?thesis
    by (rule exI [of _ "res_provider res"], rule exI [of _ "res_err res = None"],
        rule exI [of _ "res_attempts res"], rule exI [of _ "classifyError (res_err res)"])
       (use c' tr(1,2,4) r d in \<open>auto simp: record_request_def trace_result_def classifyError_def
          split: option.splits\<close>)
qed

definition demo_client :: "nat client" where
  "demo_client = \<lparr>mp_managers = (\<lambda>_. demo_chain), mp_recorder = RichRecorder, mp_calls = [],
     mp_engine = None\<rparr>"

theorem execute_reports_witness:
  "\<exists>c' failed r p ok k cls. executeWithFallbackAndMetrics demo_env 1 (\<lambda>_ _. 0) Background
       ProviderChainTxBroadcasters ''PushTx'' demo_client = Returns (c', failed, r) \<and>
     mp_calls c' = [RichRequest \<lparr>rq_Provider = p, rq_Operation = ''PushTx'', rq_Success = ok,
       rq_Duration = 12, rq_AttemptCount = k, rq_ErrorClass = cls\<rparr>] \<and> k \<le> 3"
proof -
  let ?x = "executeWithFallbackAndMetrics demo_env 1 (\<lambda>_ _. 0) Background
       ProviderChainTxBroadcasters ''PushTx'' demo_client"
  let ?run = "start_run ProviderChainTxBroadcasters demo_client"
  have pm: "or_pm ?run = demo_chain" by (simp add: start_run_def demo_client_def)
  have "?x \<noteq> Panics"
    using runOp_returns [of 1 "\<lambda>_ _. 0" ?run demo_chain _ demo_env Background]
    by (auto simp: execute_panics_iff pm demo_chain_available)
  then obtain c' failed r where x: "?x = Returns (c', failed, r)"
    by (cases ?x) auto
  have "op_chain Background 1 (\<lambda>_ _. 0) ?run =
      [\<lparr>prv_Provider = 7, prv_Priority = 1, prv_Name = ''a''\<rparr>]"
    by (simp add: op_chain_def pm demo_chain_available pin_providers_def demo_chain_providers
        GetProviderName_def Background_def)
  then show ?thesis
    using execute_reports [OF x] x
    by (auto simp: demo_client_def demo_chain_states DefaultChainConfig_def max_attempts_def demo_env_def)
qed

subsection \<open>Build connects every chain to the engine\<close>

lemma register_dom:
  "dom (en_scores (RegisterProvider n p t e)) = insert n (dom (en_scores e))"
  by (auto simp: RegisterProvider_def set_score_def split: option.splits)

lemma register_all_dom:
  "dom (en_scores (register_all clk cs e)) = prv_Name ` set cs \<union> dom (en_scores e)"
proof -
  have "dom (en_scores (fold (\<lambda>(i, c). RegisterProvider (prv_Name c) (prv_Priority c) (clk i)) ics e)) =
      prv_Name ` snd ` set ics \<union> dom (en_scores e)" for ics :: "(nat \<times> 'a provider_config) list"
    by (induction ics arbitrary: e) (simp_all add: register_dom split_beta)
  then show ?thesis
    by (simp add: register_all_def) (metis map_snd_enumerate set_map)
qed

lemma attach_engine_simp:
  "attach_engine clk ch (ms, e) =
     (ms(ch := fst (SetScoringEngine (clk ch) (Some e) (ms ch))),
      register_all (clk ch) (pm_providers (ms ch)) e)"
  by (simp add: attach_engine_def SetScoringEngine_def)

lemma fst_SetScoringEngine:
  "fst (SetScoringEngine clk (Some e) pm) = fst (SetScoringEngine clk' (Some e') pm)"
  "pm_providers (fst (SetScoringEngine clk (Some e) pm)) = pm_providers pm"
  by (simp_all add: SetScoringEngine_def)

text \<open>What attaching the engine does to the managers, and which names the engine then knows.\<close>

lemma attach_engine_managers:
  assumes "fold (attach_engine clk) chs (ms, e) = (ms', e')" "ch \<in> set chs \<or> ms ch = fst (SetScoringEngine ck (Some e0) pm)"
    and "pm_providers (ms ch) = pm_providers pm" "ms ch = pm \<or> ms ch = fst (SetScoringEngine ck (Some e0) pm)"
  shows "ms' ch = fst (SetScoringEngine ck (Some e0) pm)"
  using assms
proof (induction chs arbitrary: ms e)
  case (Cons c chs)
  have idem: "fst (SetScoringEngine k (Some x) (fst (SetScoringEngine ck (Some e0) pm))) =
      fst (SetScoringEngine ck (Some e0) pm)" for k x
    by (simp add: SetScoringEngine_def)
  show ?case
    by (rule Cons.IH [OF Cons.prems(1) [unfolded fold_simps attach_engine_simp]])
       (use Cons.prems(2-4) in \<open>auto simp: idem fst_SetScoringEngine(2) intro: fst_SetScoringEngine(1)\<close>)
qed simp

lemma attach_engine_names:
  assumes "fold (attach_engine clk) chs (ms, e) = (ms', e')"
  shows "dom (en_scores e') = dom (en_scores e) \<union> (\<Union>ch \<in> set chs. prv_Name ` set (pm_providers (ms ch)))"
  using assms
proof (induction chs arbitrary: ms e)
  case (Cons c chs)
  note IH = Cons.IH [OF Cons.prems [unfolded fold_simps attach_engine_simp]]
  have p: "pm_providers ((ms(c := fst (SetScoringEngine (clk c) (Some e) (ms c)))) ch) =
      pm_providers (ms ch)" for ch
    by (simp add: fst_SetScoringEngine(2))
  show ?case unfolding IH p register_all_dom by auto
qed simp

lemma register_frame:
  "en_started (RegisterProvider n p t e) = en_started e"
  "en_decayManager (RegisterProvider n p t e) = en_decayManager e"
  by (simp_all add: RegisterProvider_def set_score_def split: option.splits)

lemma attach_engine_frame:
  assumes "fold (attach_engine clk) chs (ms, e) = (ms', e')"
  shows "en_started e' = en_started e" "en_decayManager e' = en_decayManager e"
proof -
  have r: "en_started (register_all ck cs x) = en_started x \<and>
      en_decayManager (register_all ck cs x) = en_decayManager x"
    for ck x and cs :: "'a provider_config list"
  proof -
    have "en_started (fold (\<lambda>(i, c). RegisterProvider (prv_Name c) (prv_Priority c) (ck i)) ics x) = en_started x \<and>
        en_decayManager (fold (\<lambda>(i, c). RegisterProvider (prv_Name c) (prv_Priority c) (ck i)) ics x) = en_decayManager x"
      for ics :: "(nat \<times> 'a provider_config) list"
      by (induction ics arbitrary: x) (simp_all add: register_frame split_beta)
    then show ?thesis by (simp add: register_all_def)
  qed
  have "en_started e' = en_started e \<and> en_decayManager e' = en_decayManager e"
    using assms
    by (induction chs arbitrary: ms e) (simp_all add: attach_engine_simp r)
  then show "en_started e' = en_started e" "en_decayManager e' = en_decayManager e" by auto
qed

lemma warm_dom: "dom (en_scores (snd (warmPenaltyHistory hops order (h, e)))) = dom (en_scores e)"
proof -
  have "dom (en_scores (snd (fold (warm_one hops) order he))) = dom (en_scores (snd he))" for he
  proof (induction order arbitrary: he)
    case (Cons n ns)
    have "dom (en_scores (snd (warm_one hops n he))) = dom (en_scores (snd he))"
      by (auto simp: warm_one_def set_score_def split: prod.splits option.splits sum.splits)
    with Cons.IH show ?case by simp
  qed simp
  then show ?thesis by (simp add: warmPenaltyHistory_def)
qed

lemma engine_Start_dom:
  assumes "engine_Start hops order (h, e) = Returns (h', e')"
  shows "dom (en_scores e') = dom (en_scores e)"
proof (cases "en_started e")
  case False
  with assms obtain dm where dm: "decay_Start (en_decayManager e) = Returns dm"
    by (auto simp: engine_Start_def split: outcome.splits)
  have "en_scores e' = en_scores (snd (warmPenaltyHistory hops order
      (h, e\<lparr>en_started := True, en_decayManager := dm\<rparr>)))"
    using assms False dm by (auto simp: engine_Start_def Let_def split_beta split: if_splits)
  then show ?thesis by (simp add: warm_dom)
qed (use assms in \<open>simp add: engine_Start_def\<close>)

lemma build_order_all: "ch \<in> set build_order"
  by (cases ch) (simp_all add: build_order_def)

lemma warm_decay: "en_decayManager (snd (warmPenaltyHistory hops order (h, e))) = en_decayManager e"
  and warm_started: "en_started (snd (warmPenaltyHistory hops order (h, e))) = en_started e"
proof -
  have "en_decayManager (snd (fold (warm_one hops) order he)) = en_decayManager (snd he) \<and>
      en_started (snd (fold (warm_one hops) order he)) = en_started (snd he)" for he
  proof (induction order arbitrary: he)
    case (Cons n ns)
    have "en_decayManager (snd (warm_one hops n he)) = en_decayManager (snd he) \<and>
        en_started (snd (warm_one hops n he)) = en_started (snd he)"
      by (auto simp: warm_one_def set_score_def split: prod.splits option.splits sum.splits)
    with Cons.IH show ?case by simp
  qed simp
  then show "en_decayManager (snd (warmPenaltyHistory hops order (h, e))) = en_decayManager e"
    "en_started (snd (warmPenaltyHistory hops order (h, e))) = en_started e"
    by (simp_all add: warmPenaltyHistory_def)
qed

lemma engine_Start_started:
  assumes "engine_Start hops order (h, e) = Returns (h', e')"
  shows "en_started e'" "\<not> en_started e \<Longrightarrow> dm_running (en_decayManager e')"
proof -
  have "en_started e' \<and> (\<not> en_started e \<longrightarrow> dm_running (en_decayManager e'))"
  proof (cases "en_started e")
    case False
    with assms obtain dm where dm: "decay_Start (en_decayManager e) = Returns dm"
      by (auto simp: engine_Start_def split: outcome.splits)
    then have "dm_running dm" by (auto simp: decay_call_defs split: if_splits)
    moreover have "en_started e' = en_started (snd (warmPenaltyHistory hops order
          (h, e\<lparr>en_started := True, en_decayManager := dm\<rparr>)))"
        "en_decayManager e' = en_decayManager (snd (warmPenaltyHistory hops order
          (h, e\<lparr>en_started := True, en_decayManager := dm\<rparr>)))"
      using assms False dm by (auto simp: engine_Start_def Let_def split_beta split: if_splits)
    ultimately show ?thesis by (simp add: warm_decay warm_started)
  qed (use assms in \<open>simp add: engine_Start_def\<close>)
  then show "en_started e'" "\<not> en_started e \<Longrightarrow> dm_running (en_decayManager e')" by auto
qed

text \<open>
  C26: When a client is built with an engine, every chain selects adaptively through that
  engine, its providers are those that were registered with the builder, the engine knows
  each of them by name, and the engine is started: if it was not started before, its decay runs.
\<close>

theorem Build_connects:
  assumes "bd_engine b = Some e" "Build hops clk order (h, b) = Returns (h', c)"
  shows "pm_providers (mp_managers c ch) = pm_providers (bd_managers b ch) \<and>
     pm_selector (mp_managers c ch) = AdaptiveSelector \<and> pm_hasEngine (mp_managers c ch) \<and>
     (\<exists>e'. mp_engine c = Some e' \<and> en_started e' \<and>
        (\<not> en_started e \<longrightarrow> dm_running (en_decayManager e')) \<and>
        (\<forall>pc \<in> set (pm_providers (mp_managers c ch)). HasProvider (prv_Name pc) e'))"
proof -
  obtain ms e1 where f: "fold (attach_engine clk) build_order (bd_managers b, e) = (ms, e1)" by fastforce
  obtain e2 where e2: "engine_Start hops order (h, e1) = Returns (h', e2)" "mp_managers c = ms"
      "mp_engine c = Some e2"
    using assms f by (auto simp: Build_def split: outcome.splits)
  have "mp_managers c ch = fst (SetScoringEngine (clk ch) (Some e) (bd_managers b ch))"
    using attach_engine_managers [OF f, of ch] build_order_all [of ch] e2(2) by simp
  moreover have "prv_Name ` set (pm_providers (bd_managers b ch)) \<subseteq> dom (en_scores e2)"
    using attach_engine_names [OF f] engine_Start_dom [OF e2(1)] build_order_all [of ch] by auto
  ultimately show ?thesis
    using e2(3) engine_Start_started [OF e2(1)] attach_engine_frame(1) [OF f]
    by (auto simp: SetScoringEngine_def HasProvider_def)
qed

text \<open>A builder with one broadcaster and an engine that keeps no penalty store.\<close>

definition demo_penalty_ops :: "unit penalty_store_ops" where
  "demo_penalty_ops = \<lparr>po_Append = (\<lambda>_ h. (h, None)), po_GetRecent = (\<lambda>_ _ h. (h, Inr [])),
     po_PurgeOld = (\<lambda>_ h. (h, None)), po_Close = (\<lambda>h. (h, None)), po_Ping = (\<lambda>h. (h, None)),
     po_Name = ''none''\<rparr>"

definition demo_builder :: "nat builder" where
  "demo_builder = NewMixedProvidersBuilder
     \<lparr>bd_managers := (\<lambda>_. demo_chain), bd_engine := Some no_engine\<rparr>"

theorem Build_connects_witness:
  "\<exists>c. Build demo_penalty_ops (\<lambda>_ _. 0) [] ((), demo_builder) = Returns ((), c) \<and>
     pm_selector (mp_managers c ProviderChainTxBroadcasters) = AdaptiveSelector \<and>
     (\<exists>e'. mp_engine c = Some e' \<and> en_started e' \<and> dm_running (en_decayManager e') \<and> HasProvider ''a'' e')"
proof -
  obtain ms e1 where f: "fold (attach_engine (\<lambda>_ _. 0)) build_order (bd_managers demo_builder, no_engine) = (ms, e1)"
    by fastforce
  have "\<not> en_started e1" "en_decayManager e1 = NewDecayManager DefaultScoringConfig"
    using attach_engine_frame [OF f] by (simp_all add: no_engine_def)
  then have "\<exists>e2. engine_Start demo_penalty_ops [] ((), e1) = Returns ((), e2)"
    by (auto simp: engine_Start_def decay_Start_def NewTicker_def NewDecayManager_def
        DefaultScoringConfig_def Let_def split: prod.splits)
  then have "\<exists>c. Build demo_penalty_ops (\<lambda>_ _. 0) [] ((), demo_builder) = Returns ((), c)"
    using f by (auto simp: Build_def demo_builder_def)
  then obtain c where c: "Build demo_penalty_ops (\<lambda>_ _. 0) [] ((), demo_builder) = Returns ((), c)" by blast
  have "bd_engine demo_builder = Some no_engine" "pm_providers (bd_managers demo_builder ch) =
      [\<lparr>prv_Provider = 7, prv_Priority = 1, prv_Name = ''a''\<rparr>]" for ch
    by (simp_all add: demo_builder_def demo_chain_providers)
  then show ?thesis
    using Build_connects [OF _ c, of no_engine ProviderChainTxBroadcasters] c by (auto simp: no_engine_def)
qed

subsection \<open>Writing and reading the scoring weights\<close>

definition weights_valid :: "scoring_weights \<Rightarrow> bool" where
  "weights_valid w \<longleftrightarrow> 0 \<le> sw_DecayRate w \<and> sw_DecayRate w \<le> 1 \<and> 10 \<le> sw_LatencyWindowSize w \<and>
     0 \<le> sw_DecayInterval w"

lemmas weight_option_defs =
  WithHealthCheckPenalty_def WithRateLimitPenalty_def WithAuthFailurePenalty_def
  WithSlowResponsePenalty_def WithOperationFailPenalty_def WithTimeoutPenalty_def
  WithSuccessBonus_def WithMaxPenalty_def WithDecayInterval_def WithDecayRate_def
  WithLatencyWindow_def WithSlowThreshold_def WithMinLatencySamples_def

lemma weights_config:
  assumes "weights_valid w"
  shows "scoringConfigToWeights (Validate (apply_options (scoringWeightsToOptions w) cfg)) = w"
    "sc_Enabled (Validate (apply_options (scoringWeightsToOptions w) cfg)) = sc_Enabled cfg"
proof -
  let ?cfg = "apply_options (scoringWeightsToOptions w) cfg"
  have o: "scoringConfigToWeights ?cfg = w" "sc_Enabled ?cfg = sc_Enabled cfg"
    using assms
    by (simp_all add: apply_options_def scoringWeightsToOptions_def scoringConfigToWeights_def
        weights_valid_def weight_option_defs)
  have "config_valid ?cfg"
    using assms arg_cong [OF o(1), of sw_DecayRate] arg_cong [OF o(1), of sw_LatencyWindowSize]
      arg_cong [OF o(1), of sw_DecayInterval]
    by (simp add: config_valid_def weights_valid_def scoringConfigToWeights_def)
  then have "Validate ?cfg = ?cfg" by (rule Validate_id)
  then show "scoringConfigToWeights (Validate ?cfg) = w" "sc_Enabled (Validate ?cfg) = sc_Enabled cfg"
    using o by simp_all
qed

text \<open>
  Valid weights that are set at run time are the weights that \<open>Snapshot\<close> then reports, and
  nothing else of the configuration changes: neither the chains nor the enabled flag.
\<close>

lemma SetScoringWeights_snapshot:
  assumes "weights_valid w" "mp_engine c = Some e" "SetScoringWeights w c = Returns c'"
  shows "sn_ScoringWeights (Snapshot c') = w \<and> sn_Chains (Snapshot c') = sn_Chains (Snapshot c) \<and>
     sn_ScoringEnabled (Snapshot c') = sn_ScoringEnabled (Snapshot c)"
proof -
  obtain e' where e': "engine_UpdateConfig (scoringWeightsToOptions w) e = Returns e'"
      "c' = c\<lparr>mp_engine := Some e'\<rparr>"
    using assms(2,3) by (cases "engine_UpdateConfig (scoringWeightsToOptions w) e")
      (auto simp: SetScoringWeights_def)
  then have "en_config e' = Validate (apply_options (scoringWeightsToOptions w) (en_config e))"
    by (auto simp: engine_UpdateConfig_def Let_def split: outcome.splits)
  then show ?thesis
    using weights_config [OF assms(1), of "en_config e"] e'(2) assms(2)
    by (auto simp: Snapshot_def IsScoringEnabled_def IsEnabled_def fun_eq_iff split: sum.splits)
qed

subsection \<open>Adaptive selection is not restored by name\<close>

text \<open>
  Setting the strategy of a chain to \<open>adaptive\<close> by name succeeds and is reported by
  \<open>Snapshot\<close>, but it installs the priority order: whatever the scores of the engine are, the
  available providers keep their static order.
\<close>

lemma adaptive_by_name_is_static:
  assumes "managerFor chain = Inr ch"
    and "client_SetSelectionStrategy chain SelectionStrategyAdaptive c = (c', err)"
  shows "err = None \<and> map_option cc_SelectionStrategy (sn_Chains (Snapshot c') chain) = Some SelectionStrategyAdaptive \<and>
     (\<forall>now draw e. map_outcome snd (getAvailableProviders now draw e (mp_managers c' ch)) =
        map_outcome snd (filter_available now (pm_providers (mp_managers c' ch)) (mp_managers c' ch)))"
proof -
  have c': "mp_managers c' ch = (mp_managers c ch)\<lparr>pm_selector := PriorityOnlySelector,
      pm_config := (pm_config (mp_managers c ch))\<lparr>cc_SelectionStrategy := SelectionStrategyAdaptive\<rparr>\<rparr>"
    "err = None"
    using assms by (auto simp: client_SetSelectionStrategy_def manager_SetSelectionStrategy_def
        strategy_IsValid_def newSelectionStrategy_def)
  have "map_outcome snd (getAvailableProviders now draw e pm) =
      map_outcome snd (filter_available now (pm_providers pm) pm)"
    if "pm_selector pm = PriorityOnlySelector" for now draw e and pm :: "'a provider_manager"
    using that by (auto simp: getAvailableProviders_def filter_available_states(3) split: outcome.splits)
  then show ?thesis using c' assms(1) by (simp add: Snapshot_def)
qed

end
