(* ===== verification/Transport.thy ===== *)
theory Transport
  imports Mixed_Providers
begin

text \<open>
  The telemetry agent: \<open>cloudagent/transport.go\<close>, \<open>options.go\<close>, \<open>recorders.go\<close>, \<open>wire.go\<close> and
  \<open>http_transport.go\<close>. Each critical section of the HTTP transport is a function on its state;
  what the HTTP exchange of a flush results in is an argument. The batches that the cloud
  accepted are part of the state (\<open>ht_delivered\<close>), as are the errors that reached the
  \<open>OnError\<close> callback, so that properties can speak of them.
\<close>

subsection \<open>Events\<close>

record cloud_score =
  cse_Provider :: string
  cse_Kind :: string
  cse_EventType :: string
  cse_ScoreType :: string
  cse_Operation :: string
  cse_Store :: string
  cse_OldValue :: real
  cse_NewValue :: real
  cse_Score :: real
  cse_Latency :: duration
  cse_Success :: bool
  cse_CacheHit :: bool
  cse_Rank :: int
  cse_TotalProviders :: int
  cse_StoreErrText :: string

definition zero_score :: cloud_score where
  "zero_score = \<lparr>cse_Provider = '''', cse_Kind = '''', cse_EventType = '''', cse_ScoreType = '''',
     cse_Operation = '''', cse_Store = '''', cse_OldValue = 0, cse_NewValue = 0, cse_Score = 0,
     cse_Latency = 0, cse_Success = False, cse_CacheHit = False, cse_Rank = 0,
     cse_TotalProviders = 0, cse_StoreErrText = ''''\<rparr>"

record cloud_event =
  cev_CapturedAt :: gotime
  cev_Request :: "request_event option"
  cev_Score :: "cloud_score option"

subsection \<open>Options\<close>

record agent_options =
  ao_Endpoint :: string
  ao_APIKey :: string
  ao_BatchSize :: int
  ao_FlushInterval :: duration
  ao_BufferSize :: int
  ao_SampleRate :: real
  ao_PollInterval :: duration
  ao_MaxBackoff :: duration
  ao_EventTTL :: duration
  ao_Chain :: string
  ao_Network :: string
  ao_AgentName :: string

abbreviation DefaultBatchSize :: int where "DefaultBatchSize \<equiv> 200"
abbreviation DefaultFlushInterval :: duration where "DefaultFlushInterval \<equiv> 5 * second"
abbreviation DefaultBufferSize :: int where "DefaultBufferSize \<equiv> 10000"
abbreviation DefaultPollInterval :: duration where "DefaultPollInterval \<equiv> 30 * second"
abbreviation DefaultMaxBackoff :: duration where "DefaultMaxBackoff \<equiv> 5 * minute"
abbreviation DefaultEventTTL :: duration where "DefaultEventTTL \<equiv> 10 * minute"

text \<open>The HTTP client and the logger have no part in the model.\<close>

definition withDefaults :: "agent_options \<Rightarrow> agent_options" where
  "withDefaults opts =
     \<lparr>ao_Endpoint = ao_Endpoint opts, ao_APIKey = ao_APIKey opts,
      ao_BatchSize = (if ao_BatchSize opts \<le> 0 then DefaultBatchSize else ao_BatchSize opts),
      ao_FlushInterval = (if ao_FlushInterval opts \<le> 0 then DefaultFlushInterval else ao_FlushInterval opts),
      ao_BufferSize = (if ao_BufferSize opts \<le> 0 then DefaultBufferSize else ao_BufferSize opts),
      ao_SampleRate = (if ao_SampleRate opts \<le> 0 then 1 else ao_SampleRate opts),
      ao_PollInterval = (if ao_PollInterval opts \<le> 0 then DefaultPollInterval else ao_PollInterval opts),
      ao_MaxBackoff = (if ao_MaxBackoff opts \<le> 0 then DefaultMaxBackoff else ao_MaxBackoff opts),
      ao_EventTTL = (if ao_EventTTL opts \<le> 0 then DefaultEventTTL else ao_EventTTL opts),
      ao_Chain = (if ao_Chain opts = '''' then ''btc'' else ao_Chain opts),
      ao_Network = (if ao_Network opts = '''' then ''mainnet'' else ao_Network opts),
      ao_AgentName = (if ao_AgentName opts = '''' then ''chainkit-go-sdk/dev cloudagent/v1''
                      else ao_AgentName opts)\<rparr>"

subsection \<open>The buffer\<close>

record http_transport =
  ht_buf :: "cloud_event list"
  ht_inflight :: "cloud_event list"
  ht_terminalErr :: "goerror option"
  ht_drainErr :: "goerror option"
  ht_dropped :: nat
  ht_signal :: bool
  ht_delivered :: "cloud_event list"
  ht_errors :: "goerror list"

definition newHTTPTransport :: http_transport where
  "newHTTPTransport = \<lparr>ht_buf = [], ht_inflight = [], ht_terminalErr = None, ht_drainErr = None,
     ht_dropped = 0, ht_signal = False, ht_delivered = [], ht_errors = []\<rparr>"

definition Push :: "agent_options \<Rightarrow> cloud_event \<Rightarrow> http_transport \<Rightarrow> http_transport" where
  "Push opts e t =
     (if ht_terminalErr t \<noteq> None then t\<lparr>ht_dropped := ht_dropped t + 1\<rparr>
      else
        let t1 = (if int (length (ht_buf t)) \<ge> ao_BufferSize opts
                  then t\<lparr>ht_buf := tl (ht_buf t), ht_dropped := ht_dropped t + 1\<rparr> else t);
            t2 = t1\<lparr>ht_buf := ht_buf t1 @ [e]\<rparr>
        in if int (length (ht_buf t2)) \<ge> ao_BatchSize opts then t2\<lparr>ht_signal := True\<rparr> else t2)"

definition pruneStale :: "agent_options \<Rightarrow> gotime \<Rightarrow> http_transport \<Rightarrow> http_transport" where
  "pruneStale opts now t =
     (let cutoff = now - ao_EventTTL opts;
          stale = takeWhile (\<lambda>e. cev_CapturedAt e < cutoff) (ht_buf t)
      in t\<lparr>ht_buf := drop (length stale) (ht_buf t), ht_dropped := ht_dropped t + length stale\<rparr>)"

definition takeInflight :: "agent_options \<Rightarrow> http_transport \<Rightarrow> http_transport" where
  "takeInflight opts t =
     (if ht_inflight t \<noteq> [] then t
      else
        let n = min (length (ht_buf t)) (nat (ao_BatchSize opts))
        in if n = 0 then t
           else t\<lparr>ht_inflight := take n (ht_buf t), ht_buf := drop n (ht_buf t)\<rparr>)"

definition discardInflight :: "http_transport \<Rightarrow> http_transport" where
  "discardInflight t = t\<lparr>ht_inflight := []\<rparr>"

definition returnInflightToHead :: "agent_options \<Rightarrow> http_transport \<Rightarrow> http_transport" where
  "returnInflightToHead opts t =
     (if ht_inflight t = [] then t
      else
        let combined = ht_inflight t @ ht_buf t;
            dropn = nat (int (length combined) - ao_BufferSize opts)
        in t\<lparr>ht_buf := drop dropn combined, ht_inflight := [],
             ht_dropped := ht_dropped t + dropn\<rparr>)"

definition setTerminal :: "goerror \<Rightarrow> http_transport \<Rightarrow> http_transport" where
  "setTerminal err t =
     (if ht_terminalErr t \<noteq> None then t
      else t\<lparr>ht_terminalErr := Some err, ht_buf := [], ht_inflight := [],
             ht_dropped := ht_dropped t + length (ht_buf t) + length (ht_inflight t),
             ht_errors := ht_errors t @ [err]\<rparr>)"

definition isTerminal :: "http_transport \<Rightarrow> bool" where
  "isTerminal t \<longleftrightarrow> ht_terminalErr t \<noteq> None"

subsection \<open>Flushing\<close>

text \<open>What becomes of the in-flight batch outside the transport.\<close>

datatype flush_outcome =
    SerialiseFails goerror
  | BuildFails goerror
  | PostFails goerror
  | Responds int

text \<open>The part of \<open>flushOnce\<close> after the batch was taken and the exchange has ended.\<close>

definition drop_inflight :: "http_transport \<Rightarrow> http_transport" where
  "drop_inflight t =
     discardInflight (t\<lparr>ht_dropped := ht_dropped t + length (ht_inflight t)\<rparr>)"

definition finish_flush ::
  "agent_options \<Rightarrow> flush_outcome \<Rightarrow> http_transport \<Rightarrow> http_transport \<times> bool \<times> goerror option" where
  "finish_flush opts out t =
     (case out of
        SerialiseFails e \<Rightarrow> (drop_inflight t, False, Some (wrap_error ''serialise: '' e))
      | BuildFails e \<Rightarrow> (returnInflightToHead opts t, False, Some (wrap_error ''build request: '' e))
      | PostFails e \<Rightarrow> (returnInflightToHead opts t, False, Some (wrap_error ''post: '' e))
      | Responds status \<Rightarrow>
          if status \<ge> 200 \<and> status < 300 then
            (discardInflight (t\<lparr>ht_delivered := ht_delivered t @ ht_inflight t\<rparr>), True, None)
          else if status = 429 \<or> status \<ge> 500 then
            (returnInflightToHead opts t, False, Some (Errorf (''retryable status '' @ Itoa status)))
          else if status = 401 \<or> status = 403 then
            (let err = Errorf (''chainkit rejected the API key (status '' @ Itoa status @
                   ''): telemetry will not be delivered '' @
                   [CHR 0xE2, CHR 0x80, CHR 0x94] @ '' check cloudagent.Options.APIKey'')
             in (setTerminal err (drop_inflight t), False, Some err))
          else
            (drop_inflight t, False,
             Some (Errorf (''non-retryable status '' @ Itoa status @ '' (dropped '' @
               Itoa (int (length (ht_inflight t))) @ '' events)''))))"

definition flushOnce ::
  "agent_options \<Rightarrow> flush_outcome \<Rightarrow> http_transport \<Rightarrow> http_transport \<times> bool \<times> goerror option" where
  "flushOnce opts out t =
     (if isTerminal t then (t, False, None)
      else
        let t1 = takeInflight opts t
        in if ht_inflight t1 = [] then (t1, False, None) else finish_flush opts out t1)"

subsection \<open>The flush loop\<close>

text \<open>
  \<open>rand.Int63n\<close> panics when its argument is not positive. \<open>jitter\<close> is its result otherwise,
  \<open>neg\<close> the outcome of the coin.
\<close>

definition nextBackoff :: "(int \<Rightarrow> int) \<Rightarrow> bool \<Rightarrow> duration \<Rightarrow> duration \<Rightarrow> duration outcome" where
  "nextBackoff jitter neg current mx =
     (let c1 = (if current \<le> 0 then 250 * millisecond else wrap64 (current * 2));
          c2 = (if c1 > mx then mx else c1);
          lim5 = go_quot c2 5
      in if lim5 \<le> 0 then Panics
         else Returns (if neg then c2 - jitter lim5 else c2 + jitter lim5))"

definition on_error :: "goerror \<Rightarrow> http_transport \<Rightarrow> http_transport" where
  "on_error err t = t\<lparr>ht_errors := ht_errors t @ [err]\<rparr>"

text \<open>One round of \<open>loop\<close> after its wake-up and its backoff: the transport and the next backoff.\<close>

definition loop_round ::
  "agent_options \<Rightarrow> (int \<Rightarrow> int) \<Rightarrow> bool \<Rightarrow> gotime \<Rightarrow> flush_outcome \<Rightarrow> duration \<times> http_transport \<Rightarrow>
   (duration \<times> http_transport) outcome" where
  "loop_round opts jitter neg now out bt =
     (case bt of (backoff, t) \<Rightarrow>
        (case flushOnce opts out (pruneStale opts now t) of
           (t1, True, err) \<Rightarrow> Returns (0, t1)
         | (t1, False, None) \<Rightarrow> Returns (0, t1)
         | (t1, False, Some err) \<Rightarrow>
             if isTerminal t1 then Returns (0, t1)
             else
               map_outcome (\<lambda>b. (b, on_error err t1))
                 (nextBackoff jitter neg backoff (ao_MaxBackoff opts))))"

text \<open>
  The drain of \<open>Stop\<close>, once no further event is pushed. It may loop without end when a flush
  takes nothing, so it is a partial function; \<open>outs i\<close> is the result of its \<open>i\<close>-th exchange.
\<close>

definition pending :: "http_transport \<Rightarrow> nat" where
  "pending t = length (ht_buf t) + length (ht_inflight t)"

definition undelivered :: "nat \<Rightarrow> goerror \<Rightarrow> goerror" where
  "undelivered n e = wrap_error (itoa_nat n @ '' telemetry events undelivered at shutdown: '') e"

partial_function (option) drainAndExit ::
  "agent_options \<Rightarrow> (nat \<Rightarrow> flush_outcome) \<Rightarrow> nat \<Rightarrow> http_transport \<Rightarrow> http_transport option" where
  "drainAndExit opts outs i t =
     (if pending t = 0 then Some t
      else
        case flushOnce opts (outs i) t of
          (t1, sent, err) \<Rightarrow>
            if sent then drainAndExit opts outs (Suc i) t1
            else if isTerminal t1 then Some t1
            else
              (case err of
                 None \<Rightarrow> drainAndExit opts outs (Suc i) t1
               | Some e \<Rightarrow>
                   Some (on_error (undelivered (pending t) e)
                          (t1\<lparr>ht_drainErr := Some (undelivered (pending t) e)\<rparr>))))"

definition stop_verdict :: "http_transport \<Rightarrow> goerror option" where
  "stop_verdict t = (if ht_terminalErr t \<noteq> None then ht_terminalErr t else ht_drainErr t)"

definition transport_Stop ::
  "agent_options \<Rightarrow> (nat \<Rightarrow> flush_outcome) \<Rightarrow> http_transport \<Rightarrow> (http_transport \<times> goerror option) option" where
  "transport_Stop opts outs t =
     map_option (\<lambda>t1. (t1, stop_verdict t1)) (drainAndExit opts outs 0 t)"

subsection \<open>Recorders\<close>

text \<open>
  The transport of a recorder: without an endpoint the one that keeps the events in memory, which
  knows no bound and whose \<open>Stop\<close> has nothing to report.
\<close>

datatype agent_transport = NoopTransport "cloud_event list" | HTTPTransport http_transport

definition selectTransport :: "agent_options \<Rightarrow> agent_transport" where
  "selectTransport opts = (if ao_Endpoint opts = '''' then NoopTransport [] else HTTPTransport newHTTPTransport)"

fun agent_Push :: "agent_options \<Rightarrow> cloud_event \<Rightarrow> agent_transport \<Rightarrow> agent_transport" where
  "agent_Push opts e (NoopTransport events) = NoopTransport (events @ [e])"
| "agent_Push opts e (HTTPTransport t) = HTTPTransport (Push opts e t)"

fun agent_Stop ::
  "agent_options \<Rightarrow> (nat \<Rightarrow> flush_outcome) \<Rightarrow> agent_transport \<Rightarrow> (agent_transport \<times> goerror option) option" where
  "agent_Stop opts outs (NoopTransport events) = Some (NoopTransport events, None)"
| "agent_Stop opts outs (HTTPTransport t) = map_option (apfst HTTPTransport) (transport_Stop opts outs t)"

record agent_recorder =
  ar_opts :: agent_options
  ar_transport :: agent_transport

definition NewRecorder :: "agent_options \<Rightarrow> agent_recorder" where
  "NewRecorder opts = \<lparr>ar_opts = withDefaults opts, ar_transport = selectTransport (withDefaults opts)\<rparr>"

definition recorder_push :: "cloud_event \<Rightarrow> agent_recorder \<Rightarrow> agent_recorder" where
  "recorder_push e r = r\<lparr>ar_transport := agent_Push (ar_opts r) e (ar_transport r)\<rparr>"

text \<open>The random number of \<open>shouldSample\<close> is an argument.\<close>

definition shouldSample :: "agent_options \<Rightarrow> real \<Rightarrow> bool" where
  "shouldSample opts rnd =
     (if ao_SampleRate opts \<ge> 1 then True
      else if ao_SampleRate opts \<le> 0 then False
      else rnd < ao_SampleRate opts)"

definition RecordBlockchainRequestRich ::
  "real \<Rightarrow> gotime \<Rightarrow> request_event \<Rightarrow> agent_recorder \<Rightarrow> agent_recorder" where
  "RecordBlockchainRequestRich rnd now e r =
     (if \<not> shouldSample (ar_opts r) rnd then r
      else recorder_push \<lparr>cev_CapturedAt = now, cev_Request = Some e, cev_Score = None\<rparr> r)"

definition RecordBlockchainRequest ::
  "real \<Rightarrow> gotime \<Rightarrow> string \<Rightarrow> string \<Rightarrow> bool \<Rightarrow> duration \<Rightarrow> agent_recorder \<Rightarrow> agent_recorder" where
  "RecordBlockchainRequest rnd now provider operation success dur r =
     RecordBlockchainRequestRich rnd now
       \<lparr>rq_Provider = provider, rq_Operation = operation, rq_Success = success, rq_Duration = dur,
        rq_AttemptCount = 0, rq_ErrorClass = ''''\<rparr> r"

definition push_score :: "gotime \<Rightarrow> cloud_score \<Rightarrow> agent_recorder \<Rightarrow> agent_recorder" where
  "push_score now ev r =
     recorder_push \<lparr>cev_CapturedAt = now, cev_Request = None, cev_Score = Some ev\<rparr> r"

text \<open>The calls of the scoring metrics interface, as the engine makes them.\<close>

definition RecordScoreChange :: "string \<Rightarrow> string \<Rightarrow> real \<Rightarrow> real \<Rightarrow> cloud_score" where
  "RecordScoreChange provider scoreType oldValue newValue =
     zero_score\<lparr>cse_Provider := provider, cse_Kind := ''score_change'', cse_ScoreType := scoreType,
       cse_OldValue := oldValue, cse_NewValue := newValue\<rparr>"

definition RecordEffectiveScore :: "string \<Rightarrow> real \<Rightarrow> cloud_score" where
  "RecordEffectiveScore provider score =
     zero_score\<lparr>cse_Provider := provider, cse_Kind := ''effective'', cse_ScoreType := ''effective'',
       cse_Score := score\<rparr>"

definition cloud_RecordEvent :: "string \<Rightarrow> string \<Rightarrow> bool \<Rightarrow> cloud_score" where
  "cloud_RecordEvent provider eventType success =
     zero_score\<lparr>cse_Provider := provider, cse_Kind := ''event'', cse_EventType := eventType,
       cse_Success := success\<rparr>"

definition cloud_RecordLatency :: "string \<Rightarrow> string \<Rightarrow> duration \<Rightarrow> cloud_score" where
  "cloud_RecordLatency provider operation dur =
     zero_score\<lparr>cse_Provider := provider, cse_Kind := ''latency'', cse_Operation := operation,
       cse_Latency := dur\<rparr>"

definition cloud_RecordStoreOperation :: "string \<Rightarrow> string \<Rightarrow> duration \<Rightarrow> goerror option \<Rightarrow> cloud_score" where
  "cloud_RecordStoreOperation store operation dur err =
     zero_score\<lparr>cse_Kind := ''store_op'', cse_Store := store, cse_Operation := operation,
       cse_Latency := dur, cse_Success := (err = None),
       cse_StoreErrText := (if err = None then '''' else ''error'')\<rparr>"

definition cloud_RecordCacheHit :: "string \<Rightarrow> bool \<Rightarrow> cloud_score" where
  "cloud_RecordCacheHit store hit =
     zero_score\<lparr>cse_Kind := ''cache_hit'', cse_Store := store, cse_CacheHit := hit\<rparr>"

definition RecordProviderRank :: "string \<Rightarrow> int \<Rightarrow> int \<Rightarrow> cloud_score" where
  "RecordProviderRank provider rank tot =
     zero_score\<lparr>cse_Provider := provider, cse_Kind := ''provider_rank'', cse_Rank := rank,
       cse_TotalProviders := tot\<rparr>"

text \<open>A recorder with an endpoint hands its events to the HTTP transport in the order of the calls.\<close>

lemma recorder_pushes:
  assumes "ar_transport r = HTTPTransport t"
  shows "fold recorder_push evs r = r\<lparr>ar_transport := HTTPTransport (fold (Push (ar_opts r)) evs t)\<rparr>"
  using assms by (induction evs arbitrary: r t) (simp_all add: recorder_push_def)

lemma NewRecorder_transport:
  "ar_transport (NewRecorder opts) =
     (if ao_Endpoint opts = '''' then NoopTransport [] else HTTPTransport newHTTPTransport)"
  by (simp add: NewRecorder_def selectTransport_def withDefaults_def Let_def)

end
