(* ===== verification/Poller.thy ===== *)
theory Poller
  imports Client_Laws Transport
begin

text \<open>
  \<open>cloudagent/poller.go\<close>: the configuration poller. The updater is a client. What one GET of
  the configuration results in, for the etag that the request carried, is a function
  \<open>server\<close>: a failure before or during the exchange, or a status with the ETag header and the
  decoded body. The order in which a Go map of chains is iterated is the list \<open>order\<close>.
\<close>

subsection \<open>Fetching\<close>

record fetch_result =
  fr_snap :: config_snapshot
  fr_etag :: string
  fr_notModified :: bool

type_synonym fetch_fn = "string \<Rightarrow> goerror + fetch_result"

datatype config_exchange =
    ConfigRequestFails goerror
  | ConfigGetFails goerror
  | ConfigResponds int string "goerror + string \<times> config_snapshot"

definition empty_snapshot :: config_snapshot where
  "empty_snapshot = \<lparr>sn_Chains = Map.empty, sn_ScoringEnabled = False, sn_ScoringWeights = zero_weights\<rparr>"

definition noopFetch :: fetch_fn where
  "noopFetch etag = Inr \<lparr>fr_snap = empty_snapshot, fr_etag = etag, fr_notModified = True\<rparr>"

definition makeFetcher :: "agent_options \<Rightarrow> (string \<Rightarrow> config_exchange) \<Rightarrow> fetch_fn" where
  "makeFetcher opts server =
     (if ao_Endpoint opts = '''' then noopFetch
      else (\<lambda>etag.
        case server etag of
          ConfigRequestFails e \<Rightarrow> Inl (wrap_error ''build request: '' e)
        | ConfigGetFails e \<Rightarrow> Inl (wrap_error ''get config: '' e)
        | ConfigResponds status header body \<Rightarrow>
            if status = 304 then noopFetch etag
            else if status = 404 then noopFetch etag
            else if status \<ge> 200 \<and> status < 300 then
              (case body of
                 Inl e \<Rightarrow> Inl (wrap_error ''decode config: '' e)
               | Inr (bodyETag, snap) \<Rightarrow>
                   Inr \<lparr>fr_snap = snap, fr_etag = (if header = '''' then bodyETag else header),
                        fr_notModified = False\<rparr>)
            else Inl (Errorf (''config endpoint returned '' @ Itoa status))))"

subsection \<open>The poller\<close>

record 'p config_poller =
  po_updater :: "'p client"
  po_opts :: agent_options
  po_applied :: config_snapshot
  po_etag :: string
  po_running :: bool

definition NewConfigPoller :: "'p client \<Rightarrow> agent_options \<Rightarrow> 'p config_poller" where
  "NewConfigPoller updater opts =
     \<lparr>po_updater = updater, po_opts = withDefaults opts, po_applied = empty_snapshot, po_etag = '''',
      po_running = False\<rparr>"

text \<open>\<open>Start\<close> also says whether it launches a goroutine.\<close>

definition poller_Start :: "'p config_poller \<Rightarrow> 'p config_poller \<times> bool" where
  "poller_Start p = (if po_running p then (p, False) else (p\<lparr>po_running := True\<rparr>, True))"

definition poller_Stop :: "'p config_poller \<Rightarrow> 'p config_poller" where
  "poller_Stop p = (if \<not> po_running p then p else p\<lparr>po_running := False\<rparr>)"

definition LastApplied :: "'p config_poller \<Rightarrow> config_snapshot" where
  "LastApplied p = po_applied p"

definition first_error :: "goerror option \<Rightarrow> goerror option \<Rightarrow> goerror option" where
  "first_error firstErr err = (if err \<noteq> None \<and> firstErr = None then err else firstErr)"

fun apply_chains ::
  "config_snapshot \<Rightarrow> string list \<Rightarrow> 'p client \<times> goerror option \<Rightarrow> ('p client \<times> goerror option) outcome" where
  "apply_chains snap [] (c, firstErr) = Returns (c, firstErr)"
| "apply_chains snap (chain # order) (c, firstErr) =
     (case sn_Chains snap chain of
        None \<Rightarrow> apply_chains snap order (c, firstErr)
      | Some cfg \<Rightarrow>
          (case UpdateChainConfig chain cfg c of
             Panics \<Rightarrow> Panics
           | Returns (c', err) \<Rightarrow> apply_chains snap order (c', first_error firstErr err)))"

definition applySnapshot ::
  "string list \<Rightarrow> config_snapshot \<Rightarrow> 'p client \<Rightarrow> ('p client \<times> goerror option) outcome" where
  "applySnapshot order snap c =
     (case apply_chains snap order (c, None) of
        Panics \<Rightarrow> Panics
      | Returns (c1, firstErr) \<Rightarrow>
          (case SetScoringWeights (sn_ScoringWeights snap) c1 of
             Panics \<Rightarrow> Panics
           | Returns c2 \<Rightarrow> Returns (SetScoringEnabled (sn_ScoringEnabled snap) c2, firstErr)))"

definition tick ::
  "string list \<Rightarrow> fetch_fn \<Rightarrow> 'p config_poller \<Rightarrow> ('p config_poller \<times> goerror option) outcome" where
  "tick order fetch p =
     (case fetch (po_etag p) of
        Inl err \<Rightarrow> Returns (p, Some err)
      | Inr res \<Rightarrow>
          if fr_notModified res then Returns (p, None)
          else
            (case applySnapshot order (fr_snap res) (po_updater p) of
               Panics \<Rightarrow> Panics
             | Returns (c, Some err) \<Rightarrow> Returns (p\<lparr>po_updater := c\<rparr>, Some err)
             | Returns (c, None) \<Rightarrow>
                 Returns (p\<lparr>po_updater := c, po_applied := fr_snap res, po_etag := fr_etag res\<rparr>, None)))"

text \<open>One round of \<open>loop\<close> after its wait: the poller and the next wait, or None when the loop ends.\<close>

definition poll_round ::
  "string list \<Rightarrow> fetch_fn \<Rightarrow> duration \<Rightarrow> 'p config_poller \<Rightarrow> ('p config_poller \<times> duration option) outcome" where
  "poll_round order fetch backoff p =
     (case tick order fetch p of
        Panics \<Rightarrow> Panics
      | Returns (p', None) \<Rightarrow> Returns (p', Some (ao_PollInterval (po_opts p)))
      | Returns (p', Some err) \<Rightarrow>
          if errors_Is err Canceled then Returns (p', None)
          else
            let b = wrap64 (backoff * 2)
            in Returns (p', Some (if b > ao_MaxBackoff (po_opts p) then ao_MaxBackoff (po_opts p) else b)))"

subsection \<open>Applying a snapshot\<close>

definition snapshot_ok :: "config_snapshot \<Rightarrow> bool" where
  "snapshot_ok snap \<longleftrightarrow> weights_valid (sn_ScoringWeights snap) \<and> 0 < sw_DecayInterval (sn_ScoringWeights snap) \<and>
     (\<forall>chain cfg. sn_Chains snap chain = Some cfg \<longrightarrow>
        (\<exists>ch. managerFor chain = Inr ch) \<and> 0 \<le> cc_MaxConcurrency cfg)"

lemma find_SomeE:
  assumes "find P xs = Some x"
  shows "P x \<and> x \<in> set xs"
  using assms by (induction xs) (auto split: if_splits)

lemma managerFor_name: "managerFor chain = Inr ch \<Longrightarrow> chain_type_String ch = chain"
  by (auto simp: managerFor_def dest: find_SomeE split: option.splits)

lemma UpdateChainConfig_known:
  assumes "managerFor chain = Inr ch" "0 \<le> cc_MaxConcurrency cfg"
  shows "\<exists>c'. UpdateChainConfig chain cfg c = Returns (c', None) \<and> mp_engine c' = mp_engine c \<and>
     sn_Chains (Snapshot c') = (sn_Chains (Snapshot c))(chain \<mapsto> cfg)"
proof -
  obtain pm where pm: "updateChainConfig cfg (mp_managers c ch) = Returns pm" "pm_config pm = cfg"
    using assms(2) by (auto simp: updateChainConfig_def Let_def)
  have "sn_Chains (Snapshot (c\<lparr>mp_managers := (mp_managers c)(ch := pm)\<rparr>)) =
      (sn_Chains (Snapshot c))(chain \<mapsto> cfg)"
  proof
    fix x
    show "sn_Chains (Snapshot (c\<lparr>mp_managers := (mp_managers c)(ch := pm)\<rparr>)) x =
        ((sn_Chains (Snapshot c))(chain \<mapsto> cfg)) x"
    proof (cases "x = chain")
      case True
      then show ?thesis using assms(1) pm(2) by (simp add: Snapshot_def)
    next
      case False
      then have "managerFor x \<noteq> Inr ch" using managerFor_name assms(1) by metis
      then show ?thesis using False by (cases "managerFor x") (auto simp: Snapshot_def)
    qed
  qed
  then show ?thesis using assms(1) pm(1) by (simp add: UpdateChainConfig_def)
qed

lemma apply_chains_known:
  assumes "\<And>chain cfg. sn_Chains snap chain = Some cfg \<Longrightarrow>
      (\<exists>ch. managerFor chain = Inr ch) \<and> 0 \<le> cc_MaxConcurrency cfg"
  shows "\<exists>c'. apply_chains snap order (c, None) = Returns (c', None) \<and> mp_engine c' = mp_engine c \<and>
     sn_Chains (Snapshot c') = sn_Chains (Snapshot c) ++ (sn_Chains snap |` set order)"
proof (induction order arbitrary: c)
  case Nil
  then show ?case by simp
next
  case (Cons chain order)
  show ?case
  proof (cases "sn_Chains snap chain")
    case None
    then have "sn_Chains snap |` set (chain # order) = sn_Chains snap |` set order"
      by (auto simp: restrict_map_def fun_eq_iff)
    with Cons.IH [of c] None show ?thesis by simp
  next
    case (Some cfg)
    with assms obtain ch where ch: "managerFor chain = Inr ch" "0 \<le> cc_MaxConcurrency cfg" by blast
    from UpdateChainConfig_known [OF this] obtain c1 where
      c1: "UpdateChainConfig chain cfg c = Returns (c1, None)" "mp_engine c1 = mp_engine c"
        "sn_Chains (Snapshot c1) = (sn_Chains (Snapshot c))(chain \<mapsto> cfg)"
      by blast
    have maps: "(sn_Chains (Snapshot c))(chain \<mapsto> cfg) ++ (sn_Chains snap |` set order) =
        sn_Chains (Snapshot c) ++ (sn_Chains snap |` set (chain # order))"
      using Some by (auto simp: restrict_map_def map_add_def fun_eq_iff split: option.splits)
    have step: "apply_chains snap (chain # order) (c, None) = apply_chains snap order (c1, None)"
      using Some c1(1) by (simp add: first_error_def)
    from Cons.IH [of c1] show ?thesis unfolding step c1(2,3) maps .
  qed
qed

lemma SetScoringWeights_returns:
  assumes "weights_valid w" "0 < sw_DecayInterval w" "mp_engine c = Some e"
  shows "\<exists>c'. SetScoringWeights w c = Returns c'"
proof -
  have "sc_DecayInterval (Validate (apply_options (scoringWeightsToOptions w) (en_config e))) = sw_DecayInterval w"
    using arg_cong [OF weights_config(1) [OF assms(1), of "en_config e"], of sw_DecayInterval]
    by (simp add: scoringConfigToWeights_def)
  then show ?thesis
    using assms(2,3) by (auto simp: SetScoringWeights_def engine_UpdateConfig_def decay_UpdateConfig_def
        NewTicker_def Let_def)
qed

lemma restrict_dom: "m |` dom m = m"
  by (auto simp: restrict_map_def dom_def fun_eq_iff)

lemma SetScoringEnabled_snapshot:
  "mp_engine c = Some e \<Longrightarrow> Snapshot (SetScoringEnabled b c) = (Snapshot c)\<lparr>sn_ScoringEnabled := b\<rparr>"
  by (simp add: Snapshot_def SetScoringEnabled_def IsScoringEnabled_def IsEnabled_def SetEnabled_def
      scoringConfigToWeights_def fun_eq_iff split: sum.split)

text \<open>
  What \<open>Snapshot\<close> reports after \<open>snap\<close> has been applied: the chains of \<open>snap\<close>, and the old
  configuration of the chains that it does not mention; a client without an engine drops the
  scoring part.
\<close>

definition merged_snapshot :: "'p client \<Rightarrow> config_snapshot \<Rightarrow> config_snapshot" where
  "merged_snapshot c snap =
     \<lparr>sn_Chains = sn_Chains (Snapshot c) ++ sn_Chains snap,
      sn_ScoringEnabled = (mp_engine c \<noteq> None \<and> sn_ScoringEnabled snap),
      sn_ScoringWeights = (if mp_engine c = None then zero_weights else sn_ScoringWeights snap)\<rparr>"

lemma applySnapshot_ok:
  assumes "snapshot_ok snap" "set order = dom (sn_Chains snap)"
  shows "\<exists>c'. applySnapshot order snap c = Returns (c', None) \<and> Snapshot c' = merged_snapshot c snap"
proof -
  obtain c1 where c1: "apply_chains snap order (c, None) = Returns (c1, None)" "mp_engine c1 = mp_engine c"
      "sn_Chains (Snapshot c1) = sn_Chains (Snapshot c) ++ sn_Chains snap"
    using apply_chains_known [of snap order c] assms by (auto simp: snapshot_ok_def restrict_dom)
  show ?thesis
  proof (cases "mp_engine c")
    case None
    then have "Snapshot c1 = merged_snapshot c snap"
      using c1(2,3) by (intro config_snapshot.equality)
        (simp_all add: merged_snapshot_def, simp_all add: Snapshot_def IsScoringEnabled_def)
    moreover have "Snapshot (c1\<lparr>mp_engine := None\<rparr>) = Snapshot c1"
      using c1(2) None by (simp add: Snapshot_def IsScoringEnabled_def fun_eq_iff split: sum.split)
    ultimately show ?thesis
      using c1(1,2) None by (simp add: applySnapshot_def SetScoringWeights_def SetScoringEnabled_def)
  next
    case (Some e)
    then have e: "mp_engine c1 = Some e" using c1(2) by simp
    obtain c2 where c2: "SetScoringWeights (sn_ScoringWeights snap) c1 = Returns c2"
      using SetScoringWeights_returns [OF _ _ e, of "sn_ScoringWeights snap"] assms(1)
      by (auto simp: snapshot_ok_def)
    have w: "sn_ScoringWeights (Snapshot c2) = sn_ScoringWeights snap"
        "sn_Chains (Snapshot c2) = sn_Chains (Snapshot c1)"
      using SetScoringWeights_snapshot [OF _ e c2] assms(1) by (auto simp: snapshot_ok_def)
    obtain e2 where "mp_engine c2 = Some e2"
      using c2 e by (cases "engine_UpdateConfig (scoringWeightsToOptions (sn_ScoringWeights snap)) e")
        (auto simp: SetScoringWeights_def)
    from SetScoringEnabled_snapshot [OF this]
    have "Snapshot (SetScoringEnabled (sn_ScoringEnabled snap) c2) = merged_snapshot c snap"
      using w c1(3) Some by (intro config_snapshot.equality) (simp_all add: merged_snapshot_def)
    then show ?thesis using c1(1) c2 by (simp add: applySnapshot_def)
  qed
qed

definition demo_snapshot :: config_snapshot where
  "demo_snapshot = \<lparr>sn_Chains = [''TxBroadcasters'' \<mapsto> (DefaultChainConfig ProviderChainTxBroadcasters)\<lparr>cc_MaxConcurrency := 3\<rparr>],
     sn_ScoringEnabled = False, sn_ScoringWeights = scoringConfigToWeights DefaultScoringConfig\<rparr>"

definition demo_agent :: agent_options where
  "demo_agent = \<lparr>ao_Endpoint = ''https://cloud'', ao_APIKey = ''k'', ao_BatchSize = 200,
     ao_FlushInterval = 5 * second, ao_BufferSize = 10000, ao_SampleRate = 1,
     ao_PollInterval = 30 * second, ao_MaxBackoff = 5 * minute, ao_EventTTL = 10 * minute,
     ao_Chain = '''', ao_Network = '''', ao_AgentName = ''agent''\<rparr>"

definition demo_poller :: "engine \<Rightarrow> nat config_poller" where
  "demo_poller e = \<lparr>po_updater = demo_client\<lparr>mp_engine := Some e\<rparr>,
     po_opts = demo_agent, po_applied = empty_snapshot, po_etag = '''', po_running = True\<rparr>"

lemma demo_snapshot_ok: "snapshot_ok demo_snapshot"
  by (auto simp: snapshot_ok_def demo_snapshot_def weights_valid_def scoringConfigToWeights_def
      DefaultScoringConfig_def managerFor_def all_chains_def role_chains_def split: if_splits)

text \<open>
  A poll converges to the configuration that the cloud serves, whatever the iteration order; it
  remembers snapshot and etag, and while the cloud answers 304 for that etag, further polls
  change nothing.
\<close>

lemma poll_converges:
  assumes "snapshot_ok snap" "set order = dom (sn_Chains snap)"
    and "ao_Endpoint opts \<noteq> ''''" "server (po_etag p) = ConfigResponds 200 etag (Inr (tag, snap))" "etag \<noteq> ''''"
    and "server etag = ConfigResponds 304 header body"
  shows "\<exists>p'. tick order (makeFetcher opts server) p = Returns (p', None) \<and>
     Snapshot (po_updater p') = merged_snapshot (po_updater p) snap \<and>
     LastApplied p' = snap \<and> po_etag p' = etag \<and>
     (\<forall>order'. tick order' (makeFetcher opts server) p' = Returns (p', None))"
  using applySnapshot_ok [OF assms(1,2), of "po_updater p"] assms(3-6)
  by (auto simp: tick_def makeFetcher_def noopFetch_def LastApplied_def)

text \<open>
  A served configuration that carries no scoring weights, so that they decode to zeros,
  crashes a client whose decay is running: the decay ticker is replaced by one with interval 0,
  and \<open>time.NewTicker\<close> panics in the polling goroutine.
\<close>

lemma poll_without_weights_panics:
  assumes "mp_engine (po_updater p) = Some e" "dm_running (en_decayManager e)"
    and "sc_DecayInterval (dm_config (en_decayManager e)) \<noteq> 0"
    and "snapshot_ok (snap\<lparr>sn_ScoringWeights := w\<rparr>)" "sn_ScoringWeights snap = zero_weights"
    and "fetch (po_etag p) = Inr \<lparr>fr_snap = snap, fr_etag = etag, fr_notModified = False\<rparr>"
  shows "tick order fetch p = Panics"
proof -
  obtain c1 where c1: "apply_chains snap order (po_updater p, None) = Returns (c1, None)" "mp_engine c1 = Some e"
    using apply_chains_known [of snap order "po_updater p"] assms(1,4) by (auto simp: snapshot_ok_def)
  have "sc_DecayInterval (Validate (apply_options (scoringWeightsToOptions zero_weights) (en_config e))) = 0"
    by (simp add: apply_options_def scoringWeightsToOptions_def zero_weights_def Validate_def Let_def
        weight_option_defs)
  then have "SetScoringWeights zero_weights c1 = Panics"
    using assms(2,3) c1(2)
    by (simp add: SetScoringWeights_def engine_UpdateConfig_def decay_UpdateConfig_def NewTicker_def Let_def)
  with c1(1) assms(5,6) show ?thesis by (simp add: tick_def applySnapshot_def)
qed

end
