(* ===== verification/Json.thy ===== *)
theory Json
  imports Go_Strings Sha256 "HOL-Library.AList"
begin

text \<open>
  The part of Go's \<open>encoding/json\<close> that the provider adapters use: the grammar of JSON texts,
  decoding into Go values, and encoding. Strings are bytes, taken to be valid UTF-8. A number
  keeps its literal, because decoding into an integer depends on how it is written. Floating
  point values are reals. The messages of syntax and type errors are not modelled: they are all
  \<open>json_error\<close>.
\<close>

datatype json =
    JNull
  | JBool bool
  | JNum string
  | JStr string
  | JArr "json list"
  | JObj "(string \<times> json) list"

subsection \<open>Strings and numbers\<close>

definition json_ws :: "char \<Rightarrow> bool" where
  "json_ws c \<longleftrightarrow> c = CHR '' '' \<or> c = CHR 0x09 \<or> c = CHR 0x0A \<or> c = CHR 0x0D"

abbreviation skip_ws :: "string \<Rightarrow> string" where "skip_ws s \<equiv> dropWhile json_ws s"

definition is_digit :: "char \<Rightarrow> bool" where
  "is_digit c \<longleftrightarrow> digit_value c \<noteq> None"

definition hex4 :: "char \<Rightarrow> char \<Rightarrow> char \<Rightarrow> char \<Rightarrow> nat option" where
  "hex4 a b c d =
     (case (from_hex_char a, from_hex_char b, from_hex_char c, from_hex_char d) of
        (Some w, Some x, Some y, Some z) \<Rightarrow> Some (4096 * w + 256 * x + 16 * y + z)
      | _ \<Rightarrow> None)"

definition utf8 :: "nat \<Rightarrow> string" where
  "utf8 n =
     (if n < 128 then [char_of n]
      else if n < 2048 then [char_of (192 + n div 64), char_of (128 + n mod 64)]
      else if n < 65536
      then [char_of (224 + n div 4096), char_of (128 + n div 64 mod 64), char_of (128 + n mod 64)]
      else [char_of (240 + n div 262144), char_of (128 + n div 4096 mod 64),
            char_of (128 + n div 64 mod 64), char_of (128 + n mod 64)])"

text \<open>The escapes of one letter.\<close>

definition simple_escape :: "char \<Rightarrow> char option" where
  "simple_escape e =
     (if e = CHR 0x22 \<or> e = CHR 0x5C \<or> e = CHR ''/'' then Some e
      else if e = CHR ''b'' then Some (CHR 0x08) else if e = CHR ''f'' then Some (CHR 0x0C)
      else if e = CHR ''n'' then Some (CHR 0x0A) else if e = CHR ''r'' then Some (CHR 0x0D)
      else if e = CHR ''t'' then Some (CHR 0x09) else None)"

text \<open>
  The code unit of a \<open>\u\<close> escape; the second half of a surrogate pair; and an escape after its
  backslash, as the bytes it stands for. A surrogate that is not half of a pair becomes the
  replacement character.
\<close>

definition lex_u4 :: "string \<Rightarrow> (nat \<times> string) option" where
  "lex_u4 s =
     (case s of
        a # b # c # d # r \<Rightarrow> map_option (\<lambda>u. (u, r)) (hex4 a b c d)
      | _ \<Rightarrow> None)"

definition lex_low :: "string \<Rightarrow> (nat \<times> string) option" where
  "lex_low s =
     (case s of
        b # v # r \<Rightarrow>
          if b = CHR 0x5C \<and> v = CHR ''u'' then
            (case lex_u4 r of
               Some (l, r') \<Rightarrow> if 0xDC00 \<le> l \<and> l < 0xE000 then Some (l, r') else None
             | None \<Rightarrow> None)
          else None
      | _ \<Rightarrow> None)"

definition lex_unicode :: "string \<Rightarrow> (string \<times> string) option" where
  "lex_unicode s =
     (case lex_u4 s of
        None \<Rightarrow> None
      | Some (u, r) \<Rightarrow>
          if 0xD800 \<le> u \<and> u < 0xDC00 then
            (case lex_low r of
               Some (l, r') \<Rightarrow> Some (utf8 (0x10000 + (u - 0xD800) * 1024 + (l - 0xDC00)), r')
             | None \<Rightarrow> Some (utf8 0xFFFD, r))
          else if 0xDC00 \<le> u \<and> u < 0xE000 then Some (utf8 0xFFFD, r)
          else Some (utf8 u, r))"

definition lex_escape :: "string \<Rightarrow> (string \<times> string) option" where
  "lex_escape s =
     (case s of
        [] \<Rightarrow> None
      | e # r \<Rightarrow> if e = CHR ''u'' then lex_unicode r else map_option (\<lambda>x. ([x], r)) (simple_escape e))"

lemma lex_u4_shorter: "lex_u4 s = Some (u, r) \<Longrightarrow> length r < length s"
  by (auto simp: lex_u4_def split: list.splits)

lemma lex_low_shorter: "lex_low s = Some (u, r) \<Longrightarrow> length r < length s"
  by (fastforce simp: lex_low_def split: list.splits if_splits option.splits dest: lex_u4_shorter)

lemma lex_escape_shorter: "lex_escape s = Some (b, r) \<Longrightarrow> length r < length s"
  by (fastforce simp: lex_escape_def lex_unicode_def split: list.splits if_splits option.splits
      dest: lex_u4_shorter lex_low_shorter)

text \<open>The bytes of a string up to its closing quote, and what follows.\<close>

function lex_string :: "string \<Rightarrow> (string \<times> string) option" where
  "lex_string [] = None"
| "lex_string (c # cs) =
     (if c = CHR 0x22 then Some ([], cs)
      else if c = CHR 0x5C then
        (case lex_escape cs of
           None \<Rightarrow> None
         | Some (b, r) \<Rightarrow> map_option (apfst (\<lambda>t. b @ t)) (lex_string r))
      else if (of_char c :: nat) < 32 then None
      else map_option (apfst (\<lambda>t. c # t)) (lex_string cs))"
  by pat_completeness auto
termination
  by (relation "measure length") (auto dest: lex_escape_shorter)

text \<open>The literal of a number and what follows.\<close>

definition lex_digits :: "string \<Rightarrow> (string \<times> string) option" where
  "lex_digits s =
     (let ds = takeWhile is_digit s in if ds = [] then None else Some (ds, dropWhile is_digit s))"

definition lex_int :: "string \<Rightarrow> (string \<times> string) option" where
  "lex_int s =
     (case s of
        [] \<Rightarrow> None
      | c # cs \<Rightarrow> if c = CHR ''0'' then Some ([c], cs) else lex_digits s)"

definition lex_frac :: "string \<Rightarrow> (string \<times> string) option" where
  "lex_frac s =
     (case s of
        c # cs \<Rightarrow> if c = CHR ''.'' then map_option (apfst (\<lambda>ds. c # ds)) (lex_digits cs) else Some ([], s)
      | [] \<Rightarrow> Some ([], []))"

definition lex_exp :: "string \<Rightarrow> (string \<times> string) option" where
  "lex_exp s =
     (case s of
        c # cs \<Rightarrow>
          if c = CHR ''e'' \<or> c = CHR ''E'' then
            (case cs of
               g # ds \<Rightarrow>
                 if g = CHR ''+'' \<or> g = CHR ''-'' then map_option (apfst (\<lambda>t. c # g # t)) (lex_digits ds)
                 else map_option (apfst (\<lambda>t. c # t)) (lex_digits cs)
             | [] \<Rightarrow> None)
          else Some ([], s)
      | [] \<Rightarrow> Some ([], []))"

definition lex_unsigned :: "string \<Rightarrow> (string \<times> string) option" where
  "lex_unsigned s =
     (case lex_int s of
        None \<Rightarrow> None
      | Some (i, s1) \<Rightarrow>
          (case lex_frac s1 of
             None \<Rightarrow> None
           | Some (f, s2) \<Rightarrow> map_option (apfst (\<lambda>e. i @ f @ e)) (lex_exp s2)))"

definition lex_number :: "string \<Rightarrow> (string \<times> string) option" where
  "lex_number s =
     (case s of
        [] \<Rightarrow> None
      | c # cs \<Rightarrow>
          if c = CHR ''-'' then map_option (apfst (\<lambda>t. c # t)) (lex_unsigned cs) else lex_unsigned s)"

subsection \<open>Texts\<close>

definition strip_prefix :: "string \<Rightarrow> string \<Rightarrow> string option" where
  "strip_prefix p s = (if take (length p) s = p then Some (drop (length p) s) else None)"

text \<open>
  Recursive descent. The first argument bounds the depth of the recursion; \<open>parse_text\<close>
  starts with enough for any text of its length (\<open>parse_fuel\<close>).
\<close>

fun parse_value :: "nat \<Rightarrow> string \<Rightarrow> (json \<times> string) option"
  and parse_elems :: "nat \<Rightarrow> string \<Rightarrow> (json list \<times> string) option"
  and parse_members :: "nat \<Rightarrow> string \<Rightarrow> ((string \<times> json) list \<times> string) option" where
  "parse_value 0 s = None"
| "parse_value (Suc n) s =
     (case skip_ws s of
        [] \<Rightarrow> None
      | c # cs \<Rightarrow>
          if c = CHR ''{'' then
            (case skip_ws cs of
               [] \<Rightarrow> None
             | d # ds \<Rightarrow>
                 if d = CHR ''}'' then Some (JObj [], ds)
                 else map_option (apfst JObj) (parse_members n (d # ds)))
          else if c = CHR ''['' then
            (case skip_ws cs of
               [] \<Rightarrow> None
             | d # ds \<Rightarrow>
                 if d = CHR '']'' then Some (JArr [], ds)
                 else map_option (apfst JArr) (parse_elems n (d # ds)))
          else if c = CHR 0x22 then map_option (apfst JStr) (lex_string cs)
          else if c = CHR ''t'' then map_option (\<lambda>r. (JBool True, r)) (strip_prefix ''rue'' cs)
          else if c = CHR ''f'' then map_option (\<lambda>r. (JBool False, r)) (strip_prefix ''alse'' cs)
          else if c = CHR ''n'' then map_option (\<lambda>r. (JNull, r)) (strip_prefix ''ull'' cs)
          else map_option (apfst JNum) (lex_number (c # cs)))"
| "parse_elems 0 s = None"
| "parse_elems (Suc n) s =
     (case parse_value n s of
        None \<Rightarrow> None
      | Some (v, r) \<Rightarrow>
          (case skip_ws r of
             [] \<Rightarrow> None
           | c # cs \<Rightarrow>
               if c = CHR '','' then map_option (apfst (\<lambda>vs. v # vs)) (parse_elems n cs)
               else if c = CHR '']'' then Some ([v], cs) else None))"
| "parse_members 0 s = None"
| "parse_members (Suc n) s =
     (case skip_ws s of
        [] \<Rightarrow> None
      | q # cs \<Rightarrow>
          if q \<noteq> CHR 0x22 then None
          else
            (case lex_string cs of
               None \<Rightarrow> None
             | Some (k, r) \<Rightarrow>
                 (case skip_ws r of
                    [] \<Rightarrow> None
                  | col # r1 \<Rightarrow>
                      if col \<noteq> CHR '':'' then None
                      else
                        (case parse_value n r1 of
                           None \<Rightarrow> None
                         | Some (v, r2) \<Rightarrow>
                             (case skip_ws r2 of
                                [] \<Rightarrow> None
                              | d # ds \<Rightarrow>
                                  if d = CHR '','' then map_option (apfst (\<lambda>ms. (k, v) # ms)) (parse_members n ds)
                                  else if d = CHR ''}'' then Some ([(k, v)], ds) else None)))))"

definition parse_text :: "string \<Rightarrow> (json \<times> string) option" where
  "parse_text s = parse_value (2 * length s + 2) s"

text \<open>\<open>json.Unmarshal\<close> wants nothing but white space after the value; a \<open>Decoder\<close> stops there.\<close>

definition text_value :: "string \<Rightarrow> json option" where
  "text_value s =
     (case parse_text s of Some (v, r) \<Rightarrow> if skip_ws r = [] then Some v else None | None \<Rightarrow> None)"

definition stream_value :: "string \<Rightarrow> json option" where
  "stream_value s = map_option fst (parse_text s)"

subsection \<open>Decoding\<close>

text \<open>
  A decoder stores a JSON value into a Go value: it returns the new value and whether there was
  no type error. \<open>null\<close> leaves a value that is not a pointer, map or slice as it was. After a
  type error decoding goes on with the rest of the document, as Go does.
\<close>

type_synonym 'a decoder = "json \<Rightarrow> 'a \<Rightarrow> 'a \<times> bool"

definition json_error :: goerror where
  "json_error = Errorf ''invalid JSON''"

definition dec_string :: "string decoder" where
  "dec_string v x = (case v of JNull \<Rightarrow> (x, True) | JStr s \<Rightarrow> (s, True) | _ \<Rightarrow> (x, False))"

definition dec_bool :: "bool decoder" where
  "dec_bool v x = (case v of JNull \<Rightarrow> (x, True) | JBool b \<Rightarrow> (b, True) | _ \<Rightarrow> (x, False))"

text \<open>Integers: the literal has neither fraction nor exponent, and the value is in range.\<close>

definition lit_int :: "string \<Rightarrow> int option" where
  "lit_int s =
     (case s of
        [] \<Rightarrow> None
      | c # cs \<Rightarrow>
          if c = CHR ''-'' then (if cs = [] then None else map_option (\<lambda>n. - int n) (digits_value 0 cs))
          else map_option int (digits_value 0 s))"

definition dec_int :: "int \<Rightarrow> int \<Rightarrow> int decoder" where
  "dec_int lo hi v x =
     (case v of
        JNull \<Rightarrow> (x, True)
      | JNum l \<Rightarrow>
          (case lit_int l of
             Some i \<Rightarrow> if lo \<le> i \<and> i \<le> hi then (i, True) else (x, False)
           | None \<Rightarrow> (x, False))
      | _ \<Rightarrow> (x, False))"

abbreviation dec_int64 :: "int decoder" where "dec_int64 \<equiv> dec_int (- (2 ^ 63)) (2 ^ 63 - 1)"
abbreviation dec_int32 :: "int decoder" where "dec_int32 \<equiv> dec_int (- (2 ^ 31)) (2 ^ 31 - 1)"

text \<open>For an unsigned integer the literal may not have a sign.\<close>

definition dec_uint :: "('a :: len) word decoder" where
  "dec_uint v x =
     (case v of
        JNull \<Rightarrow> (x, True)
      | JNum l \<Rightarrow>
          (case digits_value 0 l of
             Some n \<Rightarrow> if l \<noteq> [] \<and> n < 2 ^ LENGTH('a) then (word_of_nat n, True) else (x, False)
           | None \<Rightarrow> (x, False))
      | _ \<Rightarrow> (x, False))"

text \<open>The value of a decimal literal.\<close>

definition the_default :: "'a \<Rightarrow> 'a option \<Rightarrow> 'a" where
  "the_default d x = (case x of None \<Rightarrow> d | Some y \<Rightarrow> y)"

definition signed_nat :: "string \<Rightarrow> int" where
  "signed_nat s =
     (case s of
        c # cs \<Rightarrow>
          if c = CHR ''-'' then - int (the_default 0 (digits_value 0 cs))
          else if c = CHR ''+'' then int (the_default 0 (digits_value 0 cs))
          else int (the_default 0 (digits_value 0 s))
      | [] \<Rightarrow> 0)"

definition scale10 :: "real \<Rightarrow> int \<Rightarrow> real" where
  "scale10 m e = (if e \<ge> 0 then m * 10 ^ nat e else m / 10 ^ nat (- e))"

definition lit_real :: "string \<Rightarrow> real" where
  "lit_real s =
     (let neg = (s \<noteq> [] \<and> hd s = CHR ''-'');
          s1 = (if neg then tl s else s);
          ip = takeWhile is_digit s1; r = dropWhile is_digit s1;
          fp = (if r \<noteq> [] \<and> hd r = CHR ''.'' then takeWhile is_digit (tl r) else []);
          r2 = (if r \<noteq> [] \<and> hd r = CHR ''.'' then dropWhile is_digit (tl r) else r);
          e = (if r2 = [] then 0 else signed_nat (tl r2));
          m = scale10 (real (the_default 0 (digits_value 0 (ip @ fp)))) (e - int (length fp))
      in if neg then - m else m)"

definition dec_float :: "real decoder" where
  "dec_float v x = (case v of JNull \<Rightarrow> (x, True) | JNum l \<Rightarrow> (lit_real l, True) | _ \<Rightarrow> (x, False))"

text \<open>Structures, slices, maps and pointers. A key that names no field exactly is compared without case.\<close>

definition fld :: "string \<Rightarrow> ('a \<Rightarrow> 'b) \<Rightarrow> (('b \<Rightarrow> 'b) \<Rightarrow> 'a \<Rightarrow> 'a) \<Rightarrow> 'b decoder \<Rightarrow> string \<times> 'a decoder" where
  "fld name get upd d = (name, \<lambda>v x. case d v (get x) of (y, ok) \<Rightarrow> (upd (\<lambda>_. y) x, ok))"

definition field_for :: "(string \<times> 'a decoder) list \<Rightarrow> string \<Rightarrow> 'a decoder option" where
  "field_for fs k =
     (case find (\<lambda>(n, _). n = k) fs of
        Some (_, d) \<Rightarrow> Some d
      | None \<Rightarrow> map_option snd (find (\<lambda>(n, _). ToLower n = ToLower k) fs))"

definition dec_member :: "(string \<times> 'a decoder) list \<Rightarrow> string \<times> json \<Rightarrow> 'a \<times> bool \<Rightarrow> 'a \<times> bool" where
  "dec_member fs kv st =
     (case field_for fs (fst kv) of
        None \<Rightarrow> st
      | Some d \<Rightarrow> (case d (snd kv) (fst st) of (y, ok) \<Rightarrow> (y, snd st \<and> ok)))"

definition dec_struct :: "(string \<times> 'a decoder) list \<Rightarrow> 'a decoder" where
  "dec_struct fs v x =
     (case v of
        JNull \<Rightarrow> (x, True)
      | JObj kvs \<Rightarrow> fold (dec_member fs) kvs (x, True)
      | _ \<Rightarrow> (x, False))"

definition dec_slice :: "'a \<Rightarrow> 'a decoder \<Rightarrow> 'a list decoder" where
  "dec_slice zero d v x =
     (case v of
        JNull \<Rightarrow> ([], True)
      | JArr vs \<Rightarrow> (let rs = map (\<lambda>w. d w zero) vs in (map fst rs, list_all snd rs))
      | _ \<Rightarrow> (x, False))"

text \<open>A map keeps the keys in the order of the document; a repeated key replaces its value.\<close>

definition dec_map :: "'a \<Rightarrow> 'a decoder \<Rightarrow> (string \<times> 'a) list decoder" where
  "dec_map zero d v x =
     (case v of
        JNull \<Rightarrow> ([], True)
      | JObj kvs \<Rightarrow>
          fold (\<lambda>(k, w) (m, ok). case d w zero of (y, ok') \<Rightarrow> (AList.update k y m, ok \<and> ok')) kvs (x, True)
      | _ \<Rightarrow> (x, False))"

definition dec_ptr :: "'a \<Rightarrow> 'a decoder \<Rightarrow> 'a option decoder" where
  "dec_ptr zero d v x =
     (case v of
        JNull \<Rightarrow> (None, True)
      | _ \<Rightarrow> (case d v (case x of None \<Rightarrow> zero | Some y \<Rightarrow> y) of (y, ok) \<Rightarrow> (Some y, ok)))"

text \<open>A \<open>json.RawMessage\<close> is None while no member has set it.\<close>

definition dec_raw :: "json option decoder" where
  "dec_raw v x = (Some v, True)"

definition decoded :: "'a decoder \<Rightarrow> 'a \<Rightarrow> json option \<Rightarrow> goerror + 'a" where
  "decoded d zero v =
     (case v of
        None \<Rightarrow> Inl json_error
      | Some w \<Rightarrow> (case d w zero of (y, ok) \<Rightarrow> if ok then Inr y else Inl json_error))"

abbreviation json_Unmarshal :: "'a decoder \<Rightarrow> 'a \<Rightarrow> string \<Rightarrow> goerror + 'a" where
  "json_Unmarshal d zero body \<equiv> decoded d zero (text_value body)"

abbreviation json_Decode :: "'a decoder \<Rightarrow> 'a \<Rightarrow> string \<Rightarrow> goerror + 'a" where
  "json_Decode d zero body \<equiv> decoded d zero (stream_value body)"

subsection \<open>Encoding\<close>

text \<open>\<open>json.Marshal\<close>: no white space; control characters and the three HTML characters are escaped.\<close>

definition json_char :: "char \<Rightarrow> string" where
  "json_char c =
     (let n = of_char c :: nat
      in if n = 34 \<or> n = 92 then [CHR 0x5C, c]
         else if n = 8 then [CHR 0x5C, CHR ''b''] else if n = 12 then [CHR 0x5C, CHR ''f'']
         else if n = 10 then [CHR 0x5C, CHR ''n''] else if n = 13 then [CHR 0x5C, CHR ''r'']
         else if n = 9 then [CHR 0x5C, CHR ''t'']
         else if n < 32 \<or> n = 60 \<or> n = 62 \<or> n = 38
         then [CHR 0x5C, CHR ''u'', CHR ''0'', CHR ''0'', hex_char (n div 16), hex_char n]
         else [c])"

definition json_string :: "string \<Rightarrow> string" where
  "json_string s = CHR 0x22 # concat (map json_char s) @ [CHR 0x22]"

fun json_text :: "json \<Rightarrow> string"
  and json_elems :: "json list \<Rightarrow> string"
  and json_members :: "(string \<times> json) list \<Rightarrow> string" where
  "json_text JNull = ''null''"
| "json_text (JBool b) = (if b then ''true'' else ''false'')"
| "json_text (JNum l) = l"
| "json_text (JStr s) = json_string s"
| "json_text (JArr vs) = (if vs = [] then ''[]'' else ''['' @ json_elems vs)"
| "json_text (JObj kvs) = (if kvs = [] then ''{}'' else ''{'' @ json_members kvs)"
| "json_elems [] = '']''"
| "json_elems (v # vs) = json_text v @ (if vs = [] then '']'' else '','' @ json_elems vs)"
| "json_members [] = ''}''"
| "json_members ((k, v) # kvs) =
     json_string k @ '':'' @ json_text v @ (if kvs = [] then ''}'' else '','' @ json_members kvs)"

subsection \<open>Consumption and fuel\<close>

text \<open>A lexer returns a shorter rest, so a parser does too; hence the fuel of \<open>parse_text\<close> is enough.\<close>

lemma lex_string_shorter: "lex_string s = Some (t, r) \<Longrightarrow> length r < length s"
proof (induction s arbitrary: t r rule: lex_string.induct)
  case (2 c cs)
  show ?case
  proof (cases "c = CHR 0x5C")
    case True
    then obtain b r1 u where "lex_escape cs = Some (b, r1)" "lex_string r1 = Some (u, r)"
      using 2(3) by (auto split: option.splits)
    with 2(1) True show ?thesis by (fastforce dest: lex_escape_shorter)
  next
    case False
    with 2(2,3) show ?thesis by (fastforce split: if_splits)
  qed
qed simp

lemma lex_digits_shorter: "lex_digits s = Some (t, r) \<Longrightarrow> length r < length s"
proof -
  assume a: "lex_digits s = Some (t, r)"
  then have "s = t @ r" "t \<noteq> []" by (auto simp: lex_digits_def Let_def split: if_splits)
  then show ?thesis by simp
qed

lemma lex_int_shorter: "lex_int s = Some (t, r) \<Longrightarrow> length r < length s"
  by (auto simp: lex_int_def split: list.splits if_splits dest: lex_digits_shorter)

lemma lex_frac_length: "lex_frac s = Some (t, r) \<Longrightarrow> length r \<le> length s"
  by (auto simp: lex_frac_def split: list.splits if_splits dest: lex_digits_shorter)

lemma lex_exp_length: "lex_exp s = Some (t, r) \<Longrightarrow> length r \<le> length s"
  by (fastforce simp: lex_exp_def split: list.splits if_splits dest: lex_digits_shorter)

lemma lex_unsigned_shorter: "lex_unsigned s = Some (t, r) \<Longrightarrow> length r < length s"
  by (fastforce simp: lex_unsigned_def split: option.splits
      dest: lex_int_shorter lex_frac_length lex_exp_length)

lemma lex_number_shorter: "lex_number s = Some (t, r) \<Longrightarrow> length r < length s"
  by (fastforce simp: lex_number_def split: list.splits if_splits dest: lex_unsigned_shorter)

end
