(* ===== verification/Json_Laws.thy ===== *)
theory Json_Laws
  imports Json
begin

text \<open>The parser needs no more fuel than it is given, and reads back what the encoder writes.\<close>

subsection \<open>Fuel\<close>

lemma skip_ws_length: "skip_ws s = xs \<Longrightarrow> length xs \<le> length s"
  using length_dropWhile_le by blast

lemma skip_ws_Cons: "skip_ws s = c # cs \<Longrightarrow> length cs < length s"
  using skip_ws_length [of s "c # cs"] by simp

lemma strip_prefix_length: "strip_prefix p s = Some r \<Longrightarrow> length r \<le> length s"
  by (auto simp: strip_prefix_def split: if_splits)

lemma parse_shorter:
  "parse_value n s = Some (v, r) \<Longrightarrow> length r < length s"
  "parse_elems n s = Some (vs, r) \<Longrightarrow> length r < length s"
  "parse_members n s = Some (ms, r) \<Longrightarrow> length r < length s"
proof (induction n s and n s and n s arbitrary: v r and vs r and ms r
    rule: parse_value_parse_elems_parse_members.induct)
  case (2 n s)
  from 2(3) obtain c cs where s: "skip_ws s = c # cs" by (cases "skip_ws s") auto
  have l: "length cs < length s" by (rule skip_ws_Cons [OF s])
  have "length r \<le> length cs"
    using 2(3) s 2(1) [OF s] 2(2) [OF s]
    by (fastforce split: if_splits list.splits dest: lex_string_shorter lex_number_shorter
        strip_prefix_length skip_ws_Cons)
  with l show ?case by simp
next
  case (4 n s)
  then show ?case
    by (fastforce split: if_splits list.splits option.splits dest: skip_ws_Cons)
next
  case (6 n s)
  then show ?case
    by (fastforce split: if_splits list.splits option.splits dest: skip_ws_Cons lex_string_shorter)
qed simp_all

lemma parse_fuel:
  "parse_value n s = Some x \<Longrightarrow> 2 * length s + 1 \<le> m \<Longrightarrow> parse_value m s = Some x"
  "parse_elems n s = Some y \<Longrightarrow> 2 * length s + 2 \<le> m \<Longrightarrow> parse_elems m s = Some y"
  "parse_members n s = Some z \<Longrightarrow> 2 * length s + 2 \<le> m \<Longrightarrow> parse_members m s = Some z"
proof (induction n s and n s and n s arbitrary: x m and y m and z m
    rule: parse_value_parse_elems_parse_members.induct)
  case (2 n s)
  from 2(4) obtain k where m: "m = Suc k" by (cases m) auto
  from 2(3) obtain c cs where s: "skip_ws s = c # cs" by (cases "skip_ws s") auto
  have k: "2 * length xs + 2 \<le> k" if "skip_ws cs = xs" for xs
    using skip_ws_length [OF that] skip_ws_Cons [OF s] 2(4) m by linarith
  consider "c \<noteq> CHR ''{''" "c \<noteq> CHR ''[''" | d ds where "skip_ws cs = d # ds"
    | "skip_ws cs = []" by (cases "skip_ws cs") blast+
  then show ?case
  proof cases
    case 1
    then have "parse_value (Suc n) s = parse_value (Suc k) s" by (simp add: s)
    with 2(3) m show ?thesis by (simp only:)
  next
    case d: 2
    have "parse_members n (d # ds) = Some z \<Longrightarrow> c = CHR ''{'' \<Longrightarrow> d \<noteq> CHR ''}'' \<Longrightarrow>
        parse_members k (d # ds) = Some z" for z
      using 2(1) [OF s _ d] k [OF d] by blast
    moreover have "parse_elems n (d # ds) = Some z \<Longrightarrow> c \<noteq> CHR ''{'' \<Longrightarrow> c = CHR ''['' \<Longrightarrow>
        d \<noteq> CHR '']'' \<Longrightarrow> parse_elems k (d # ds) = Some z" for z
      using 2(2) [OF s _ _ d] k [OF d] by blast
    ultimately show ?thesis
      using 2(3) by (simp add: s d m split: if_split_asm) (elim exE conjE; fastforce)+
  next
    case 3
    then have "parse_value (Suc n) s = parse_value (Suc k) s"
      by (simp add: s del: dropWhile_eq_Nil_conv)
    with 2(3) m show ?thesis by (simp only:)
  qed
next
  case (4 n s)
  from 4(4) obtain k where m: "m = Suc k" by (cases m) auto
  from 4(3) obtain v r where v: "parse_value n s = Some (v, r)" by (auto split: option.splits)
  from 4(3) v obtain c cs where r: "skip_ws r = c # cs" by (cases "skip_ws r") auto
  have "2 * length s + 1 \<le> k" using 4(4) m by linarith
  then have "parse_value k s = Some (v, r)" by (rule 4(1) [OF v])
  moreover have "2 * length cs + 2 \<le> k"
    using 4(4) m parse_shorter(1) [OF v] skip_ws_Cons [OF r] by linarith
  then have "parse_elems n cs = Some z \<Longrightarrow> c = CHR '','' \<Longrightarrow> parse_elems k cs = Some z" for z
    using 4(2) [OF v _ r] by blast
  ultimately show ?case
    using 4(3) by (simp add: v r m split: if_split_asm) (elim exE conjE; fastforce)
next
  case (6 n s)
  from 6(4) obtain k where m: "m = Suc k" by (cases m) auto
  from 6(3) obtain cs key r where s: "skip_ws s = CHR 0x22 # cs" and l: "lex_string cs = Some (key, r)"
    by (auto split: list.splits option.splits if_splits)
  from 6(3) s l obtain r1 v r2 where r: "skip_ws r = CHR '':'' # r1" and v: "parse_value n r1 = Some (v, r2)"
    by (auto split: list.splits option.splits if_splits)
  from 6(3) s l r v obtain d ds where d: "skip_ws r2 = d # ds" by (cases "skip_ws r2") auto
  note sh = skip_ws_Cons [OF s] lex_string_shorter [OF l] skip_ws_Cons [OF r] parse_shorter(1) [OF v]
    skip_ws_Cons [OF d]
  have "2 * length r1 + 1 \<le> k" using 6(4) m sh by linarith
  then have "parse_value k r1 = Some (v, r2)"
    using 6(1) [OF s _ l _ r _ v] by blast
  moreover have "2 * length ds + 2 \<le> k" using 6(4) m sh by linarith
  then have "parse_members n ds = Some w \<Longrightarrow> d = CHR '','' \<Longrightarrow> parse_members k ds = Some w" for w
    using 6(2) [OF s _ l _ r _ v _ d] by blast
  ultimately show ?case
    using 6(3) by (simp add: s l r v d m split: if_split_asm) (elim exE conjE; fastforce)
qed simp_all

text \<open>Whatever some amount of fuel can read, \<open>parse_text\<close> reads.\<close>

lemma parse_text_complete: "parse_value n s = Some x \<Longrightarrow> parse_text s = Some x"
  unfolding parse_text_def by (rule parse_fuel(1)) simp_all

subsection \<open>Reading back what was encoded\<close>

text \<open>A text that can follow a value inside an array or object.\<close>

definition stops :: "string \<Rightarrow> bool" where
  "stops r \<longleftrightarrow> r = [] \<or> hd r = CHR '','' \<or> hd r = CHR '']'' \<or> hd r = CHR ''}''"

lemma stops_not_digit: "stops r \<Longrightarrow> takeWhile is_digit r = [] \<and> dropWhile is_digit r = r"
  by (cases r) (auto simp: stops_def is_digit_def digit_value_def)

lemma lex_digits_append:
  assumes "lex_digits s = Some (a, b)" "stops r"
  shows "lex_digits (s @ r) = Some (a, b @ r)"
proof (cases "\<forall>c \<in> set s. is_digit c")
  case True
  then have "takeWhile is_digit s = s" "dropWhile is_digit s = []" by (simp_all add: takeWhile_eq_all_conv)
  with assms True stops_not_digit [of r] show ?thesis
    by (auto simp: lex_digits_def Let_def split: if_splits)
next
  case False
  then obtain c where "c \<in> set s" "\<not> is_digit c" by blast
  with assms show ?thesis by (auto simp: lex_digits_def Let_def split: if_splits)
qed

lemma lex_int_append: "lex_int s = Some (a, b) \<Longrightarrow> stops r \<Longrightarrow> lex_int (s @ r) = Some (a, b @ r)"
  using lex_digits_append [of s a b r] by (auto simp: lex_int_def split: list.splits if_splits)

lemma lex_frac_append: "lex_frac s = Some (a, b) \<Longrightarrow> stops r \<Longrightarrow> lex_frac (s @ r) = Some (a, b @ r)"
  by (cases s; cases r)
     (auto simp: lex_frac_def stops_def lex_digits_append split: if_splits)

lemma lex_exp_append: "lex_exp s = Some (a, b) \<Longrightarrow> stops r \<Longrightarrow> lex_exp (s @ r) = Some (a, b @ r)"
proof (cases s)
  case Nil
  then show "lex_exp s = Some (a, b) \<Longrightarrow> stops r \<Longrightarrow> ?thesis"
    by (cases r) (auto simp: lex_exp_def stops_def)
next
  case (Cons c cs)
  then show "lex_exp s = Some (a, b) \<Longrightarrow> stops r \<Longrightarrow> ?thesis"
    by (cases cs) (auto simp: lex_exp_def lex_digits_append split: if_splits
        dest: lex_digits_append [where s = "x # xs" for x xs, simplified])
qed

lemma lex_unsigned_append:
  "lex_unsigned s = Some (a, b) \<Longrightarrow> stops r \<Longrightarrow> lex_unsigned (s @ r) = Some (a, b @ r)"
  by (auto simp: lex_unsigned_def lex_int_append lex_frac_append lex_exp_append split: option.splits)

lemma lex_number_append:
  "lex_number s = Some (a, b) \<Longrightarrow> stops r \<Longrightarrow> lex_number (s @ r) = Some (a, b @ r)"
proof (cases s)
  case (Cons c cs)
  then show "lex_number s = Some (a, b) \<Longrightarrow> stops r \<Longrightarrow> ?thesis"
    using lex_unsigned_append [of s a b r]
    by (auto simp: lex_number_def lex_unsigned_append split: if_splits)
qed (simp add: lex_number_def)

lemma lex_number_head:
  "lex_number (c # cs) = Some x \<Longrightarrow> c = CHR ''-'' \<or> is_digit c"
  by (auto simp: lex_number_def lex_unsigned_def lex_int_def lex_digits_def is_digit_def digit_value_def
      Let_def split: if_splits option.splits)

text \<open>An encoded character is read as that character: it stands for itself, or it is an escape.\<close>

definition char_ok :: "char \<Rightarrow> bool" where
  "char_ok c =
     (case json_char c of
        [d] \<Rightarrow> d = c \<and> c \<noteq> CHR 0x22 \<and> c \<noteq> CHR 0x5C \<and> \<not> (of_char c :: nat) < 32
      | [b, e] \<Rightarrow> b = CHR 0x5C \<and> e \<noteq> CHR ''u'' \<and> simple_escape e = Some c
      | [b, u, z, z', x, y] \<Rightarrow>
          b = CHR 0x5C \<and> u = CHR ''u'' \<and> hex4 z z' x y = Some (of_char c) \<and> (of_char c :: nat) < 128
      | _ \<Rightarrow> False)"

lemma of_char_iff: "n < 256 \<Longrightarrow> of_char c = (n :: nat) \<longleftrightarrow> c = char_of n"
  using char_of_char [of c, where ?'a = nat] of_char_of [of n] by force

lemma escape_chars:
  "char_of (34 :: nat) = CHR 0x22" "char_of (92 :: nat) = CHR 0x5C" "char_of (8 :: nat) = CHR 0x08"
  "char_of (12 :: nat) = CHR 0x0C" "char_of (10 :: nat) = CHR 0x0A" "char_of (13 :: nat) = CHR 0x0D"
  "char_of (9 :: nat) = CHR 0x09"
  by code_simp+

lemma hex4_byte: "n < 128 \<Longrightarrow> hex4 (CHR ''0'') (CHR ''0'') (hex_char (n div 16)) (hex_char n) = Some n"
  by (simp add: hex4_def) (simp add: from_hex_char_def)

lemma char_ok_all: "char_ok c"
proof -
  have "(of_char c :: nat) = 34 \<longleftrightarrow> c = CHR 0x22" "(of_char c :: nat) = 92 \<longleftrightarrow> c = CHR 0x5C"
    "(of_char c :: nat) = 8 \<longleftrightarrow> c = CHR 0x08" "(of_char c :: nat) = 12 \<longleftrightarrow> c = CHR 0x0C"
    "(of_char c :: nat) = 10 \<longleftrightarrow> c = CHR 0x0A" "(of_char c :: nat) = 13 \<longleftrightarrow> c = CHR 0x0D"
    "(of_char c :: nat) = 9 \<longleftrightarrow> c = CHR 0x09"
    by (simp_all add: of_char_iff escape_chars)
  then show ?thesis
    unfolding char_ok_def json_char_def Let_def
    by (auto simp: simple_escape_def hex4_byte hex4_byte [of 60, simplified] hex4_byte [of 62, simplified]
        hex4_byte [of 38, simplified])
qed

lemma append_single: "(@) [c] = (#) c"
  by (rule ext) simp

lemma lex_json_char: "lex_string (json_char c @ t) = map_option (apfst (\<lambda>s. c # s)) (lex_string t)"
proof -
  consider "json_char c = [c]" "c \<noteq> CHR 0x22" "c \<noteq> CHR 0x5C" "\<not> (of_char c :: nat) < 32"
    | e where "json_char c = [CHR 0x5C, e]" "e \<noteq> CHR ''u''" "simple_escape e = Some c"
    | z z' x y where "json_char c = [CHR 0x5C, CHR ''u'', z, z', x, y]"
        "hex4 z z' x y = Some (of_char c)" "(of_char c :: nat) < 128"
    using char_ok_all [of c] unfolding char_ok_def by (simp split: list.split_asm)
  then show ?thesis
  proof cases
    case 1
    then show ?thesis by simp
  next
    case 2
    then show ?thesis by (simp add: lex_escape_def append_single)
  next
    case 3
    then show ?thesis by (simp add: lex_escape_def lex_unicode_def lex_u4_def utf8_def append_single)
  qed
qed

lemma lex_json_string: "lex_string (concat (map json_char s) @ CHR 0x22 # r) = Some (s, r)"
  by (induction s) (simp_all add: lex_json_char)

text \<open>Values whose number literals are JSON numbers.\<close>

fun json_ok :: "json \<Rightarrow> bool" where
  "json_ok (JNum l) \<longleftrightarrow> lex_number l = Some (l, [])"
| "json_ok (JArr vs) \<longleftrightarrow> (\<forall>v \<in> set vs. json_ok v)"
| "json_ok (JObj kvs) \<longleftrightarrow> (\<forall>kv \<in> set kvs. json_ok (snd kv))"
| "json_ok v \<longleftrightarrow> True"

lemma json_ws_simps [simp]:
  "\<not> json_ws (CHR ''{'')" "\<not> json_ws (CHR ''['')" "\<not> json_ws (CHR 0x22)" "\<not> json_ws (CHR '','')"
  "\<not> json_ws (CHR '']'')" "\<not> json_ws (CHR ''}'')" "\<not> json_ws (CHR '':'')"
  "\<not> json_ws (CHR ''t'')" "\<not> json_ws (CHR ''f'')" "\<not> json_ws (CHR ''n'')"
  by (simp_all add: json_ws_def)

lemma number_start:
  assumes "lex_number l = Some x"
  obtains c cs where "l = c # cs" "\<not> json_ws c" "c \<notin> set ''{[]tfn''" "c \<noteq> CHR 0x22"
proof -
  obtain c cs where l: "l = c # cs" using assms by (cases l) (auto simp: lex_number_def)
  have "c = CHR ''-'' \<or> is_digit c" using assms l by (auto dest: lex_number_head)
  then have "\<not> json_ws c \<and> c \<notin> set ''{[]tfn'' \<and> c \<noteq> CHR 0x22"
    by (auto simp: json_ws_def is_digit_def digit_value_def)
  with that l show ?thesis by blast
qed

lemma parse_number:
  assumes "lex_number l = Some (l, [])" "stops r"
  shows "parse_value (Suc n) (l @ r) = Some (JNum l, r)"
  using number_start [OF assms(1)] lex_number_append [OF assms] by force

lemma json_text_head:
  "json_ok v \<Longrightarrow> \<exists>c cs. json_text v = c # cs \<and> \<not> json_ws c \<and> c \<noteq> CHR '']''"
  by (cases v) (auto simp: json_string_def elim: number_start)

lemma parse_elems_cons:
  assumes "parse_value n (s @ CHR '','' # r) = Some (v, CHR '','' # r)" "parse_elems m r = Some (vs, r')"
  shows "\<exists>k. parse_elems k (s @ CHR '','' # r) = Some (v # vs, r')"
proof -
  define k where "k = 2 * length (s @ CHR '','' # r) + 1"
  have "parse_value k (s @ CHR '','' # r) = Some (v, CHR '','' # r)" "parse_elems k r = Some (vs, r')"
    using parse_fuel(1) [OF assms(1), of k] parse_fuel(2) [OF assms(2), of k] by (simp_all add: k_def)
  then have "parse_elems (Suc k) (s @ CHR '','' # r) = Some (v # vs, r')" by simp
  then show ?thesis by blast
qed

lemma parse_members_cons:
  assumes "parse_value n (s @ CHR '','' # r) = Some (v, CHR '','' # r)" "parse_members m r = Some (ms, r')"
  shows "\<exists>l. parse_members l (json_string k @ CHR '':'' # s @ CHR '','' # r) = Some ((k, v) # ms, r')"
proof -
  define l where "l = 2 * length (s @ CHR '','' # r) + 1"
  have "parse_value l (s @ CHR '','' # r) = Some (v, CHR '','' # r)" "parse_members l r = Some (ms, r')"
    using parse_fuel(1) [OF assms(1), of l] parse_fuel(3) [OF assms(2), of l] by (simp_all add: l_def)
  then have "parse_members (Suc l) (json_string k @ CHR '':'' # s @ CHR '','' # r) = Some ((k, v) # ms, r')"
    by (simp add: json_string_def lex_json_string)
  then show ?thesis by blast
qed

lemma parse_json_text:
  "json_ok v \<Longrightarrow> stops r \<Longrightarrow> \<exists>n. parse_value n (json_text v @ r) = Some (v, r)"
  "(\<forall>v \<in> set vs. json_ok v) \<Longrightarrow> vs \<noteq> [] \<Longrightarrow> \<exists>n. parse_elems n (json_elems vs @ r') = Some (vs, r')"
  "(\<forall>kv \<in> set kvs. json_ok (snd kv)) \<Longrightarrow> kvs \<noteq> [] \<Longrightarrow>
     \<exists>n. parse_members n (json_members kvs @ r') = Some (kvs, r')"
proof (induction v and vs and kvs arbitrary: r and r' and r' rule: json_text_json_elems_json_members.induct)
  case 1
  show ?case by (rule exI [of _ "Suc 0"]) (simp add: strip_prefix_def)
next
  case (2 b)
  show ?case by (rule exI [of _ "Suc 0"]) (simp add: strip_prefix_def)
next
  case (3 l)
  then have "parse_value (Suc 0) (l @ r) = Some (JNum l, r)" by (intro parse_number) simp_all
  then show ?case unfolding json_text.simps by blast
next
  case (4 s)
  show ?case by (rule exI [of _ "Suc 0"]) (simp add: json_string_def lex_json_string)
next
  case (5 vs)
  show ?case
  proof (cases vs)
    case Nil
    then show ?thesis by (intro exI [of _ "Suc 0"]) simp
  next
    case (Cons v ws)
    obtain n where "parse_elems n (json_elems vs @ r) = Some (vs, r)" using 5 Cons by auto
    moreover obtain c cs where "json_text v = c # cs" "\<not> json_ws c" "c \<noteq> CHR '']''"
      using 5(2) Cons json_text_head [of v] by auto
    ultimately have "parse_value (Suc n) (json_text (JArr vs) @ r) = Some (JArr vs, r)"
      using Cons by simp
    then show ?thesis by blast
  qed
next
  case (6 kvs)
  show ?case
  proof (cases kvs)
    case Nil
    then show ?thesis by (intro exI [of _ "Suc 0"]) simp
  next
    case (Cons kv ws)
    obtain n where "parse_members n (json_members kvs @ r) = Some (kvs, r)" using 6 Cons by auto
    then have "parse_value (Suc n) (json_text (JObj kvs) @ r) = Some (JObj kvs, r)"
      using Cons by (cases kv) (simp add: json_string_def)
    then show ?thesis by blast
  qed
next
  case (8 v vs)
  let ?t = "if vs = [] then CHR '']'' # r' else CHR '','' # json_elems vs @ r'"
  have "stops ?t" by (simp add: stops_def)
  then obtain n where n: "parse_value n (json_text v @ ?t) = Some (v, ?t)" using 8(1,3) by fastforce
  show ?case
  proof (cases "vs = []")
    case True
    with n have "parse_elems (Suc n) (json_elems (v # vs) @ r') = Some (v # vs, r')" by simp
    then show ?thesis by blast
  next
    case False
    with 8 obtain m where "parse_elems m (json_elems vs @ r') = Some (vs, r')" by (auto; blast)
    with n False show ?thesis by (simp add: parse_elems_cons)
  qed
next
  case (10 k v kvs)
  let ?t = "if kvs = [] then CHR ''}'' # r' else CHR '','' # json_members kvs @ r'"
  have "stops ?t" by (simp add: stops_def)
  then obtain n where n: "parse_value n (json_text v @ ?t) = Some (v, ?t)" using 10(1,3) by fastforce
  show ?case
  proof (cases "kvs = []")
    case True
    with n have "parse_members (Suc n) (json_members ((k, v) # kvs) @ r') = Some ((k, v) # kvs, r')"
      by (simp add: json_string_def lex_json_string)
    then show ?thesis by blast
  next
    case False
    with 10 obtain m where "parse_members m (json_members kvs @ r') = Some (kvs, r')" by (auto; blast)
    with n False show ?thesis by (simp add: parse_members_cons)
  qed
qed simp_all

lemma json_roundtrip: "json_ok v \<Longrightarrow> text_value (json_text v) = Some v"
proof -
  assume "json_ok v"
  then obtain n where "parse_value n (json_text v @ []) = Some (v, [])"
    using parse_json_text(1) [of v "[]"] by (auto simp: stops_def)
  then show ?thesis using parse_text_complete [of n "json_text v"] by (simp add: text_value_def)
qed

lemma json_stream_roundtrip: "json_ok v \<Longrightarrow> stream_value (json_text v) = Some v"
proof -
  assume "json_ok v"
  then obtain n where "parse_value n (json_text v @ []) = Some (v, [])"
    using parse_json_text(1) [of v "[]"] by (auto simp: stops_def)
  then show ?thesis using parse_text_complete [of n "json_text v"] by (simp add: stream_value_def)
qed

subsection \<open>Integers\<close>

lemma itoa_digits: "c \<in> set (itoa_nat n) \<Longrightarrow> is_digit c"
proof -
  assume "c \<in> set (itoa_nat n)"
  then have "c \<in> set ''0123456789''" using set_itoa by blast
  then show ?thesis by (auto simp: is_digit_def digit_value_def)
qed

lemma hd_itoa_zero: "hd (itoa_nat n) = CHR ''0'' \<Longrightarrow> n = 0"
proof (induction n rule: itoa_nat.induct)
  case (1 n)
  show ?case
  proof (cases "n < 10")
    case True
    have "list_all (\<lambda>d. digit_char d = CHR ''0'' \<longrightarrow> d = 0) [0..<10]" by code_simp
    with True 1(2) show ?thesis by (subst (asm) itoa_nat.simps) (simp add: list_all_iff)
  next
    case False
    then have "hd (itoa_nat (n div 10)) = CHR ''0''" using 1(2) by (subst (asm) itoa_nat.simps) simp
    with 1(1) False show ?thesis by simp
  qed
qed

lemma lex_int_itoa: "lex_int (itoa_nat n) = Some (itoa_nat n, [])"
proof (cases "itoa_nat n")
  case (Cons c cs)
  have all: "\<forall>x \<in> set (c # cs). is_digit x" using itoa_digits [of _ n] Cons by auto
  show ?thesis
  proof (cases "c = CHR ''0''")
    case True
    then have "n = 0" using hd_itoa_zero [of n] Cons by simp
    then show ?thesis by (simp add: itoa_nat.simps lex_int_def digit_char_def)
  next
    case False
    with all Cons show ?thesis
      by (simp add: lex_int_def lex_digits_def Let_def takeWhile_eq_all_conv)
  qed
qed simp

lemma lex_number_Itoa: "lex_number (Itoa i) = Some (Itoa i, [])"
proof -
  have u: "lex_unsigned (itoa_nat n) = Some (itoa_nat n, [])" for n
    by (simp add: lex_unsigned_def lex_int_itoa lex_frac_def lex_exp_def)
  show ?thesis
  proof (cases "i < 0")
    case True
    then show ?thesis by (simp add: Itoa_def lex_number_def u)
  next
    case False
    obtain c cs where c: "itoa_nat (nat i) = c # cs" by (cases "itoa_nat (nat i)") auto
    then have "c \<noteq> CHR ''-''" using hd_itoa [of "nat i"] by simp
    with False c u [of "nat i"] show ?thesis by (simp add: Itoa_def lex_number_def)
  qed
qed

lemma lit_int_Itoa [simp]: "lit_int (Itoa i) = Some i"
proof (cases "i < 0")
  case True
  then show ?thesis by (simp add: Itoa_def lit_int_def digits_value_itoa)
next
  case False
  obtain c cs where c: "itoa_nat (nat i) = c # cs" by (cases "itoa_nat (nat i)") auto
  then have "c \<noteq> CHR ''-''" using hd_itoa [of "nat i"] by simp
  with False c digits_value_itoa [of "nat i"] show ?thesis by (simp add: Itoa_def lit_int_def)
qed

lemma dec_int_Itoa [simp]: "lo \<le> i \<Longrightarrow> i \<le> hi \<Longrightarrow> dec_int lo hi (JNum (Itoa i)) x = (i, True)"
  by (simp add: dec_int_def)

lemma dec_uint_itoa [simp]: "dec_uint (JNum (itoa_nat (unat w))) x = (w :: 'a :: len word, True)"
  using unsigned_less [of w, where ?'a = nat] by (simp add: dec_uint_def digits_value_itoa)

lemma lex_number_itoa_nat: "lex_number (itoa_nat n) = Some (itoa_nat n, [])"
  using lex_number_Itoa [of "int n"] by (simp add: Itoa_def)

lemma json_ok_numbers [simp]: "json_ok (JNum (Itoa i))" "json_ok (JNum (itoa_nat n))"
  by (simp_all add: lex_number_Itoa lex_number_itoa_nat)

end
