(* ===== verification/Store_Json.thy ===== *)
theory Store_Json
  imports Json_Laws Score_Store Penalty_Store "HOL-Library.Monad_Syntax"
begin

text \<open>
  The JSON forms of \<open>ProviderScoreData\<close>, \<open>LatencyStatsData\<close> and \<open>PenaltyRecordData\<close>
  (\<open>scoring/store/store.go\<close>, \<open>scoring/store/penalty_store.go\<close>), which the Redis and PostgreSQL
  stores read and write. How \<open>encoding/json\<close> prints a floating point number and a time, and how
  it reads a time, are the fields of a codec: a number that is not finite and a year past 9999
  have no form. Marshalling fails on these. Values outside the Go types (an integer of more
  than 64 bits, an infinite map) do not occur and have no form either. Nil and empty maps and
  slices are the same.
\<close>

record json_codec =
  cd_float :: "real \<Rightarrow> string option"
  cd_time :: "gotime \<Rightarrow> string option"
  cd_parse_time :: "string \<Rightarrow> gotime option"

definition dec_time :: "json_codec \<Rightarrow> gotime decoder" where
  "dec_time cd v t =
     (case v of
        JNull \<Rightarrow> (t, True)
      | JStr s \<Rightarrow> (case cd_parse_time cd s of Some t' \<Rightarrow> (t', True) | None \<Rightarrow> (t, False))
      | _ \<Rightarrow> (t, False))"

text \<open>Maps: the encoder sorts the keys, the decoder adds to the map that it finds.\<close>

definition map_json :: "('a \<Rightarrow> json) \<Rightarrow> (string \<rightharpoonup> 'a) \<Rightarrow> json" where
  "map_json f m = JObj (map (\<lambda>k. (k, f (the (m k)))) (sorted_list_of_set (dom m)))"

definition dec_fmap :: "'a \<Rightarrow> 'a decoder \<Rightarrow> (string \<rightharpoonup> 'a) decoder" where
  "dec_fmap zero d v x =
     (case v of
        JNull \<Rightarrow> (Map.empty, True)
      | JObj kvs \<Rightarrow> fold (\<lambda>(k, w) (m, ok). case d w zero of (y, ok') \<Rightarrow> (m(k \<mapsto> y), ok \<and> ok')) kvs (x, True)
      | _ \<Rightarrow> (x, False))"

abbreviation int_json :: "int \<Rightarrow> json" where "int_json i \<equiv> JNum (Itoa i)"
abbreviation ints_json :: "int list \<Rightarrow> json" where "ints_json is \<equiv> JArr (map int_json is)"

subsection \<open>Scores\<close>

definition score_typed :: "provider_score_data \<Rightarrow> bool" where
  "score_typed d \<longleftrightarrow>
     int64 (pd_TotalOperations d) \<and> int64 (pd_SuccessfulOps d) \<and> int64 (pd_FailedOps d) \<and>
     list_all int64 (pd_RecentLatencies d)"

definition score_json :: "json_codec \<Rightarrow> provider_score_data \<Rightarrow> json option" where
  "score_json cd d =
     (if \<not> score_typed d then None
      else do {
        base \<leftarrow> cd_float cd (pd_BaseScore d);
        health \<leftarrow> cd_float cd (pd_HealthPenalty d);
        lat \<leftarrow> cd_float cd (pd_LatencyPenalty d);
        err \<leftarrow> cd_float cd (pd_ErrorPenalty d);
        rate \<leftarrow> cd_float cd (pd_RateLimitPenalty d);
        updated \<leftarrow> cd_time cd (pd_LastUpdated d);
        checked \<leftarrow> cd_time cd (pd_LastHealthCheck d);
        operated \<leftarrow> cd_time cd (pd_LastOperation d);
        Some (JObj
          ([(''name'', JStr (pd_Name d)), (''base_score'', JNum base), (''health_penalty'', JNum health),
            (''latency_penalty'', JNum lat), (''error_penalty'', JNum err), (''rate_limit_penalty'', JNum rate),
            (''total_operations'', int_json (pd_TotalOperations d)), (''successful_ops'', int_json (pd_SuccessfulOps d)),
            (''failed_ops'', int_json (pd_FailedOps d)), (''last_updated'', JStr updated),
            (''last_health_check'', JStr checked), (''last_operation'', JStr operated)] @
           (if pd_RecentLatencies d = [] then [] else [(''recent_latencies'', ints_json (pd_RecentLatencies d))])))
      })"

definition zero_score_data :: provider_score_data where
  "zero_score_data =
     \<lparr>pd_Name = '''', pd_BaseScore = 0, pd_HealthPenalty = 0, pd_LatencyPenalty = 0, pd_ErrorPenalty = 0,
      pd_RateLimitPenalty = 0, pd_TotalOperations = 0, pd_SuccessfulOps = 0, pd_FailedOps = 0,
      pd_LastUpdated = 0, pd_LastHealthCheck = 0, pd_LastOperation = 0, pd_RecentLatencies = []\<rparr>"

definition dec_score :: "json_codec \<Rightarrow> provider_score_data decoder" where
  "dec_score cd =
     dec_struct
       [fld ''name'' pd_Name pd_Name_update dec_string,
        fld ''base_score'' pd_BaseScore pd_BaseScore_update dec_float,
        fld ''health_penalty'' pd_HealthPenalty pd_HealthPenalty_update dec_float,
        fld ''latency_penalty'' pd_LatencyPenalty pd_LatencyPenalty_update dec_float,
        fld ''error_penalty'' pd_ErrorPenalty pd_ErrorPenalty_update dec_float,
        fld ''rate_limit_penalty'' pd_RateLimitPenalty pd_RateLimitPenalty_update dec_float,
        fld ''total_operations'' pd_TotalOperations pd_TotalOperations_update dec_int64,
        fld ''successful_ops'' pd_SuccessfulOps pd_SuccessfulOps_update dec_int64,
        fld ''failed_ops'' pd_FailedOps pd_FailedOps_update dec_int64,
        fld ''last_updated'' pd_LastUpdated pd_LastUpdated_update (dec_time cd),
        fld ''last_health_check'' pd_LastHealthCheck pd_LastHealthCheck_update (dec_time cd),
        fld ''last_operation'' pd_LastOperation pd_LastOperation_update (dec_time cd),
        fld ''recent_latencies'' pd_RecentLatencies pd_RecentLatencies_update (dec_slice 0 dec_int64)]"

definition json_Marshal :: "json option \<Rightarrow> goerror + string" where
  "json_Marshal v = (case v of None \<Rightarrow> Inl json_error | Some w \<Rightarrow> Inr (json_text w))"

abbreviation parse_score :: "json_codec \<Rightarrow> string \<Rightarrow> goerror + provider_score_data" where
  "parse_score cd \<equiv> json_Unmarshal (dec_score cd) zero_score_data"

subsection \<open>Latency statistics\<close>

definition samples_typed :: "(string \<rightharpoonup> int list) \<Rightarrow> bool" where
  "samples_typed m \<longleftrightarrow> finite (dom m) \<and> (\<forall>xs \<in> ran m. list_all int64 xs)"

definition samples_json :: "(string \<rightharpoonup> int list) \<Rightarrow> json option" where
  "samples_json m = (if samples_typed m then Some (map_json ints_json m) else None)"

definition dec_samples :: "(string \<rightharpoonup> int list) decoder" where
  "dec_samples = dec_fmap [] (dec_slice 0 dec_int64)"

definition latency_json :: "json_codec \<Rightarrow> latency_stats_data \<Rightarrow> json option" where
  "latency_json cd l = do {
     samples \<leftarrow> samples_json (ld_ProviderSamples l);
     updated \<leftarrow> cd_time cd (ld_LastUpdated l);
     Some (JObj [(''provider_samples'', samples), (''last_updated'', JStr updated)])
   }"

definition dec_latency :: "json_codec \<Rightarrow> latency_stats_data decoder" where
  "dec_latency cd =
     dec_struct
       [fld ''provider_samples'' ld_ProviderSamples ld_ProviderSamples_update dec_samples,
        fld ''last_updated'' ld_LastUpdated ld_LastUpdated_update (dec_time cd)]"

abbreviation parse_latency :: "json_codec \<Rightarrow> string \<Rightarrow> goerror + latency_stats_data" where
  "parse_latency cd \<equiv> json_Unmarshal (dec_latency cd) \<lparr>ld_ProviderSamples = Map.empty, ld_LastUpdated = 0\<rparr>"

subsection \<open>Penalty records\<close>

definition metadata_json :: "metadata \<Rightarrow> json option" where
  "metadata_json m = (if finite (dom m) then Some (map_json JStr m) else None)"

definition dec_metadata :: "metadata decoder" where
  "dec_metadata = dec_fmap '''' dec_string"

definition penalty_json :: "json_codec \<Rightarrow> penalty_record_data \<Rightarrow> json option" where
  "penalty_json cd r = do {
     amount \<leftarrow> cd_float cd (prd_Amount r);
     created \<leftarrow> cd_time cd (prd_CreatedAt r);
     meta \<leftarrow> metadata_json (prd_Metadata r);
     Some (JObj
       ([(''provider_name'', JStr (prd_ProviderName r)), (''category'', JStr (prd_Category r)),
         (''reason'', JStr (prd_Reason r)), (''amount'', JNum amount), (''created_at'', JStr created)] @
        (if prd_Metadata r = Map.empty then [] else [(''metadata'', meta)])))
   }"

definition zero_penalty :: penalty_record_data where
  "zero_penalty =
     \<lparr>prd_ProviderName = '''', prd_Category = '''', prd_Reason = '''', prd_Amount = 0, prd_CreatedAt = 0,
      prd_Metadata = Map.empty\<rparr>"

definition dec_penalty :: "json_codec \<Rightarrow> penalty_record_data decoder" where
  "dec_penalty cd =
     dec_struct
       [fld ''provider_name'' prd_ProviderName prd_ProviderName_update dec_string,
        fld ''category'' prd_Category prd_Category_update dec_string,
        fld ''reason'' prd_Reason prd_Reason_update dec_string,
        fld ''amount'' prd_Amount prd_Amount_update dec_float,
        fld ''created_at'' prd_CreatedAt prd_CreatedAt_update (dec_time cd),
        fld ''metadata'' prd_Metadata prd_Metadata_update dec_metadata]"

abbreviation parse_penalty :: "json_codec \<Rightarrow> string \<Rightarrow> goerror + penalty_record_data" where
  "parse_penalty cd \<equiv> json_Unmarshal (dec_penalty cd) zero_penalty"

subsection \<open>What is written is read back\<close>

lemma dec_ints: "list_all int64 is \<Longrightarrow> dec_slice 0 dec_int64 (ints_json is) x = (is, True)"
  by (simp add: dec_slice_def list_all_iff int64_def map_idI comp_def)

lemma json_ok_ints: "json_ok (ints_json is)"
  by (simp add: lex_number_Itoa)

lemma json_ok_map: "(\<And>y. json_ok (f y)) \<Longrightarrow> json_ok (map_json f m)"
  by (auto simp: map_json_def)

lemma dec_fmap_fold:
  assumes "\<And>k y. m k = Some y \<Longrightarrow> d (f y) zero = (y, True)" "set ks \<subseteq> dom m"
  shows "fold (\<lambda>(k, w) (m, ok). case d w zero of (y, ok') \<Rightarrow> (m(k \<mapsto> y), ok \<and> ok'))
      (map (\<lambda>k. (k, f (the (m k)))) ks) (g, True) = (\<lambda>k. if k \<in> set ks then m k else g k, True)"
  using assms(2)
proof (induction ks arbitrary: g)
  case (Cons k ks)
  then obtain y where "m k = Some y" by auto
  then show ?case using Cons assms(1) [of k y] by (auto simp: fun_eq_iff)
qed simp

lemma dec_fmap_json:
  assumes "finite (dom m)" "\<And>k y. m k = Some y \<Longrightarrow> d (f y) zero = (y, True)"
  shows "dec_fmap zero d (map_json f m) Map.empty = (m, True)"
proof -
  have "(\<lambda>k. if k \<in> dom m then m k else None) = m" by (auto simp: fun_eq_iff domIff)
  then show ?thesis
    using dec_fmap_fold [of m d f zero "sorted_list_of_set (dom m)" Map.empty] assms
    by (simp add: dec_fmap_def map_json_def)
qed

lemma samples_roundtrip:
  assumes "samples_json m = Some v"
  shows "json_ok v \<and> dec_samples v Map.empty = (m, True)"
proof -
  have t: "samples_typed m" and v: "v = map_json ints_json m"
    using assms by (auto simp: samples_json_def split: if_splits)
  have "dec_slice 0 dec_int64 (ints_json is) [] = (is, True)" if "m k = Some is" for k "is"
    using t that by (intro dec_ints) (auto simp: samples_typed_def ran_def)
  then have "dec_samples v Map.empty = (m, True)"
    using dec_fmap_json [of m "dec_slice 0 dec_int64" ints_json "[]"] t
    by (simp add: v dec_samples_def samples_typed_def)
  moreover have "json_ok v" unfolding v by (intro json_ok_map json_ok_ints)
  ultimately show ?thesis by simp
qed

lemma metadata_roundtrip:
  assumes "metadata_json m = Some v"
  shows "json_ok v \<and> dec_metadata v Map.empty = (m, True)"
proof -
  have f: "finite (dom m)" and v: "v = map_json JStr m"
    using assms by (auto simp: metadata_json_def split: if_splits)
  show ?thesis
    using dec_fmap_json [of m dec_string JStr "''''"] f
    by (simp add: v dec_metadata_def dec_string_def json_ok_map)
qed

lemmas dec_defs = dec_struct_def dec_member_def field_for_def fld_def dec_string_def

locale faithful_codec =
  fixes cd :: json_codec
  assumes float_text: "cd_float cd x = Some l \<Longrightarrow> lex_number l = Some (l, []) \<and> lit_real l = x"
    and time_text: "cd_time cd t = Some s \<Longrightarrow> cd_parse_time cd s = Some t"
begin

lemma dec_float_text: "cd_float cd x = Some l \<Longrightarrow> dec_float (JNum l) y = (x, True)"
  by (simp add: dec_float_def float_text)

lemma dec_time_text: "cd_time cd t = Some s \<Longrightarrow> dec_time cd (JStr s) y = (t, True)"
  by (simp add: dec_time_def time_text)

lemma score_json_roundtrip:
  assumes "score_json cd d = Some v"
  shows "json_ok v \<and> dec_score cd v zero_score_data = (d, True)"
proof -
  obtain base health lt err rate upd chk op where
    t: "score_typed d" and
    f: "cd_float cd (pd_BaseScore d) = Some base" "cd_float cd (pd_HealthPenalty d) = Some health"
      "cd_float cd (pd_LatencyPenalty d) = Some lt" "cd_float cd (pd_ErrorPenalty d) = Some err"
      "cd_float cd (pd_RateLimitPenalty d) = Some rate" "cd_time cd (pd_LastUpdated d) = Some upd"
      "cd_time cd (pd_LastHealthCheck d) = Some chk" "cd_time cd (pd_LastOperation d) = Some op"
    using assms by (auto simp: score_json_def bind_eq_Some_conv split: if_splits)
  have i: "int64 (pd_TotalOperations d)" "int64 (pd_SuccessfulOps d)" "int64 (pd_FailedOps d)"
    and l: "list_all int64 (pd_RecentLatencies d)"
    using t by (simp_all add: score_typed_def)
  note n = dec_int_Itoa [of "- (2 ^ 63)" _ "2 ^ 63 - 1", simplified]
  have "dec_score cd v zero_score_data = (d, True)"
    using assms t f dec_float_text dec_time_text dec_ints [OF l] i
    by (cases d) (auto simp: score_json_def dec_score_def dec_defs zero_score_data_def n int64_def)
  moreover have "json_ok v"
    using assms t f float_text json_ok_ints by (auto simp: score_json_def lex_number_Itoa split: if_splits)
  ultimately show ?thesis by simp
qed

lemma parse_marshal_score: "json_Marshal (score_json cd d) = Inr s \<Longrightarrow> parse_score cd s = Inr d"
  using score_json_roundtrip [of d] json_roundtrip
  by (auto simp: json_Marshal_def decoded_def split: option.splits)

lemma parse_marshal_latency: "json_Marshal (latency_json cd l) = Inr s \<Longrightarrow> parse_latency cd s = Inr l"
proof -
  assume "json_Marshal (latency_json cd l) = Inr s"
  then obtain v u where v: "samples_json (ld_ProviderSamples l) = Some v" "cd_time cd (ld_LastUpdated l) = Some u"
    "s = json_text (JObj [(''provider_samples'', v), (''last_updated'', JStr u)])"
    by (auto simp: json_Marshal_def latency_json_def bind_eq_Some_conv split: option.splits)
  note r = samples_roundtrip [OF v(1)]
  have "dec_latency cd (JObj [(''provider_samples'', v), (''last_updated'', JStr u)])
      \<lparr>ld_ProviderSamples = Map.empty, ld_LastUpdated = 0\<rparr> = (l, True)"
    using r dec_time_text [OF v(2)] by (simp add: dec_latency_def dec_defs)
  then show ?thesis
    using r json_roundtrip [of "JObj [(''provider_samples'', v), (''last_updated'', JStr u)]"]
    by (simp add: v(3) decoded_def)
qed

lemma parse_marshal_penalty: "json_Marshal (penalty_json cd r) = Inr s \<Longrightarrow> parse_penalty cd s = Inr r"
proof -
  assume "json_Marshal (penalty_json cd r) = Inr s"
  then obtain v where v: "penalty_json cd r = Some v" "s = json_text v"
    by (auto simp: json_Marshal_def split: option.splits)
  then obtain a c m where f: "cd_float cd (prd_Amount r) = Some a" "cd_time cd (prd_CreatedAt r) = Some c"
    "metadata_json (prd_Metadata r) = Some m"
    by (auto simp: penalty_json_def bind_eq_Some_conv)
  note x = metadata_roundtrip [OF f(3)]
  have "dec_penalty cd v zero_penalty = (r, True)"
    using v(1) f x dec_float_text dec_time_text
    by (cases r) (auto simp: penalty_json_def dec_penalty_def dec_defs zero_penalty_def)
  moreover have "json_ok v" using v(1) f x float_text by (auto simp: penalty_json_def)
  ultimately show ?thesis using json_roundtrip [of v] by (simp add: v(2) decoded_def)
qed

end

text \<open>
  A codec that keeps the laws: whole numbers are printed as integers, and a time as the number of
  its nanoseconds.
\<close>

definition whole_codec :: json_codec where
  "whole_codec =
     \<lparr>cd_float = (\<lambda>x. if x = of_int \<lfloor>x\<rfloor> then Some (Itoa \<lfloor>x\<rfloor>) else None),
      cd_time = (\<lambda>t. Some (Itoa t)), cd_parse_time = lit_int\<rparr>"

lemma takeWhile_itoa: "takeWhile is_digit (itoa_nat n) = itoa_nat n" "dropWhile is_digit (itoa_nat n) = []"
  using itoa_digits [of _ n] by (simp_all add: takeWhile_eq_all_conv dropWhile_eq_Nil_conv)

lemma lit_real_Itoa: "lit_real (Itoa i) = of_int i"
proof (cases "i < 0")
  case True
  then show ?thesis
    by (simp add: Itoa_def lit_real_def Let_def takeWhile_itoa digits_value_itoa the_default_def scale10_def)
next
  case False
  obtain c cs where c: "itoa_nat (nat i) = c # cs" by (cases "itoa_nat (nat i)") auto
  then have "c \<noteq> CHR ''-''" using itoa_digits [of c "nat i"] by (auto simp: is_digit_def digit_value_def)
  with False c show ?thesis
    using takeWhile_itoa [of "nat i"] digits_value_itoa [of "nat i"]
    by (simp add: Itoa_def lit_real_def Let_def the_default_def scale10_def)
qed

interpretation whole: faithful_codec whole_codec
  by unfold_locales
     (auto simp: whole_codec_def lex_number_Itoa lit_real_Itoa split: if_splits)

end
