(* ===== verification/Config_Json.thy ===== *)
theory Config_Json
  imports Poller Store_Json
begin

text \<open>
  The body of a configuration response: \<open>makeFetcher\<close> of \<open>cloudagent/poller.go\<close> decodes it into
  an envelope around a \<open>ConfigSnapshot\<close> of \<open>config_updater.go\<close>, whose chains are the structures of
  \<open>config.go\<close>. Those carry no tags, so their members have the names of the Go fields. The encoders
  give the JSON form of the same structures, which is what the cloud serves.
\<close>

subsection \<open>Decoding\<close>

definition dec_retry_policy :: "retry_policy decoder" where
  "dec_retry_policy =
     dec_struct
       [fld ''Enabled'' rp_Enabled rp_Enabled_update dec_bool,
        fld ''MaxAttempts'' rp_MaxAttempts rp_MaxAttempts_update dec_int64,
        fld ''InitialDelay'' rp_InitialDelay rp_InitialDelay_update dec_int64,
        fld ''MaxDelay'' rp_MaxDelay rp_MaxDelay_update dec_int64,
        fld ''BackoffMultiplier'' rp_BackoffMultiplier rp_BackoffMultiplier_update dec_float,
        fld ''Jitter'' rp_Jitter rp_Jitter_update dec_bool]"

definition dec_circuit_breaker :: "circuit_breaker_config decoder" where
  "dec_circuit_breaker =
     dec_struct
       [fld ''Enabled'' cb_Enabled cb_Enabled_update dec_bool,
        fld ''FailureThreshold'' cb_FailureThreshold cb_FailureThreshold_update dec_int64,
        fld ''SuccessThreshold'' cb_SuccessThreshold cb_SuccessThreshold_update dec_int64,
        fld ''Timeout'' cb_Timeout cb_Timeout_update dec_int64,
        fld ''HalfOpenMaxCalls'' cb_HalfOpenMaxCalls cb_HalfOpenMaxCalls_update dec_int64,
        fld ''RecoveryWindowDuration'' cb_RecoveryWindowDuration cb_RecoveryWindowDuration_update dec_int64]"

definition dec_rate_limit :: "rate_limit_config decoder" where
  "dec_rate_limit =
     dec_struct
       [fld ''Enabled'' rl_Enabled rl_Enabled_update dec_bool,
        fld ''MaxRequests'' rl_MaxRequests rl_MaxRequests_update dec_int64,
        fld ''Window'' rl_Window rl_Window_update dec_int64,
        fld ''BurstSize'' rl_BurstSize rl_BurstSize_update dec_int64]"

definition dec_health_check :: "health_check_config decoder" where
  "dec_health_check =
     dec_struct
       [fld ''Enabled'' hc_Enabled hc_Enabled_update dec_bool,
        fld ''Interval'' hc_Interval hc_Interval_update dec_int64,
        fld ''Timeout'' hc_Timeout hc_Timeout_update dec_int64,
        fld ''UnhealthyThreshold'' hc_UnhealthyThreshold hc_UnhealthyThreshold_update dec_int64,
        fld ''HealthyThreshold'' hc_HealthyThreshold hc_HealthyThreshold_update dec_int64]"

definition dec_chain_config :: "chain_config decoder" where
  "dec_chain_config =
     dec_struct
       [fld ''Name'' cc_Name cc_Name_update dec_string,
        fld ''RetryPolicy'' cc_RetryPolicy cc_RetryPolicy_update dec_retry_policy,
        fld ''CircuitBreaker'' cc_CircuitBreaker cc_CircuitBreaker_update dec_circuit_breaker,
        fld ''RateLimit'' cc_RateLimit cc_RateLimit_update dec_rate_limit,
        fld ''Timeout'' cc_Timeout cc_Timeout_update dec_int64,
        fld ''MaxConcurrency'' cc_MaxConcurrency cc_MaxConcurrency_update dec_int64,
        fld ''HealthCheck'' cc_HealthCheck cc_HealthCheck_update dec_health_check,
        fld ''SelectionStrategy'' cc_SelectionStrategy cc_SelectionStrategy_update dec_string]"

definition dec_weights :: "scoring_weights decoder" where
  "dec_weights =
     dec_struct
       [fld ''health_check_fail_penalty'' sw_HealthCheckFailPenalty sw_HealthCheckFailPenalty_update dec_float,
        fld ''rate_limit_penalty'' sw_RateLimitPenalty sw_RateLimitPenalty_update dec_float,
        fld ''auth_failure_penalty'' sw_AuthFailurePenalty sw_AuthFailurePenalty_update dec_float,
        fld ''slow_response_penalty'' sw_SlowResponsePenalty sw_SlowResponsePenalty_update dec_float,
        fld ''operation_fail_penalty'' sw_OperationFailPenalty sw_OperationFailPenalty_update dec_float,
        fld ''timeout_penalty'' sw_TimeoutPenalty sw_TimeoutPenalty_update dec_float,
        fld ''success_bonus'' sw_SuccessBonus sw_SuccessBonus_update dec_float,
        fld ''max_penalty'' sw_MaxPenalty sw_MaxPenalty_update dec_float,
        fld ''decay_interval'' sw_DecayInterval sw_DecayInterval_update dec_int64,
        fld ''decay_rate'' sw_DecayRate sw_DecayRate_update dec_float,
        fld ''latency_window_size'' sw_LatencyWindowSize sw_LatencyWindowSize_update dec_int64,
        fld ''slow_threshold_std_dev'' sw_SlowThresholdStdDev sw_SlowThresholdStdDev_update dec_float,
        fld ''min_samples_for_latency_comparison'' sw_MinSamplesForLatencyComparison
          sw_MinSamplesForLatencyComparison_update dec_int64]"

definition zero_chain_config :: chain_config where
  "zero_chain_config =
     \<lparr>cc_Name = '''',
      cc_RetryPolicy = \<lparr>rp_Enabled = False, rp_MaxAttempts = 0, rp_InitialDelay = 0, rp_MaxDelay = 0,
        rp_BackoffMultiplier = 0, rp_Jitter = False\<rparr>,
      cc_CircuitBreaker = \<lparr>cb_Enabled = False, cb_FailureThreshold = 0, cb_SuccessThreshold = 0, cb_Timeout = 0,
        cb_HalfOpenMaxCalls = 0, cb_RecoveryWindowDuration = 0\<rparr>,
      cc_RateLimit = \<lparr>rl_Enabled = False, rl_MaxRequests = 0, rl_Window = 0, rl_BurstSize = 0\<rparr>,
      cc_Timeout = 0, cc_MaxConcurrency = 0,
      cc_HealthCheck = \<lparr>hc_Enabled = False, hc_Interval = 0, hc_Timeout = 0, hc_UnhealthyThreshold = 0,
        hc_HealthyThreshold = 0\<rparr>,
      cc_SelectionStrategy = ''''\<rparr>"

definition dec_snapshot :: "config_snapshot decoder" where
  "dec_snapshot =
     dec_struct
       [fld ''chains'' sn_Chains sn_Chains_update (dec_fmap zero_chain_config dec_chain_config),
        fld ''scoring_enabled'' sn_ScoringEnabled sn_ScoringEnabled_update dec_bool,
        fld ''scoring_weights'' sn_ScoringWeights sn_ScoringWeights_update dec_weights]"

record config_envelope =
  ce_Version :: int
  ce_ETag :: string
  ce_Config :: config_snapshot

definition dec_config_envelope :: "config_envelope decoder" where
  "dec_config_envelope =
     dec_struct
       [fld ''version'' ce_Version ce_Version_update dec_int64,
        fld ''etag'' ce_ETag ce_ETag_update dec_string,
        fld ''config'' ce_Config ce_Config_update dec_snapshot]"

definition zero_config_envelope :: config_envelope where
  "zero_config_envelope = \<lparr>ce_Version = 0, ce_ETag = '''', ce_Config = empty_snapshot\<rparr>"

text \<open>What the fetcher makes of the body of a response.\<close>

definition config_body :: "string \<Rightarrow> goerror + string \<times> config_snapshot" where
  "config_body body =
     (case json_Decode dec_config_envelope zero_config_envelope body of
        Inl e \<Rightarrow> Inl e
      | Inr envelope \<Rightarrow> Inr (ce_ETag envelope, ce_Config envelope))"

subsection \<open>Encoding\<close>

definition retry_policy_json :: "string \<Rightarrow> retry_policy \<Rightarrow> json" where
  "retry_policy_json backoff r =
     JObj [(''Enabled'', JBool (rp_Enabled r)), (''MaxAttempts'', int_json (rp_MaxAttempts r)),
       (''InitialDelay'', int_json (rp_InitialDelay r)), (''MaxDelay'', int_json (rp_MaxDelay r)),
       (''BackoffMultiplier'', JNum backoff), (''Jitter'', JBool (rp_Jitter r))]"

definition circuit_breaker_json :: "circuit_breaker_config \<Rightarrow> json" where
  "circuit_breaker_json c =
     JObj [(''Enabled'', JBool (cb_Enabled c)), (''FailureThreshold'', int_json (cb_FailureThreshold c)),
       (''SuccessThreshold'', int_json (cb_SuccessThreshold c)), (''Timeout'', int_json (cb_Timeout c)),
       (''HalfOpenMaxCalls'', int_json (cb_HalfOpenMaxCalls c)),
       (''RecoveryWindowDuration'', int_json (cb_RecoveryWindowDuration c))]"

definition rate_limit_json :: "rate_limit_config \<Rightarrow> json" where
  "rate_limit_json r =
     JObj [(''Enabled'', JBool (rl_Enabled r)), (''MaxRequests'', int_json (rl_MaxRequests r)),
       (''Window'', int_json (rl_Window r)), (''BurstSize'', int_json (rl_BurstSize r))]"

definition health_check_json :: "health_check_config \<Rightarrow> json" where
  "health_check_json h =
     JObj [(''Enabled'', JBool (hc_Enabled h)), (''Interval'', int_json (hc_Interval h)),
       (''Timeout'', int_json (hc_Timeout h)), (''UnhealthyThreshold'', int_json (hc_UnhealthyThreshold h)),
       (''HealthyThreshold'', int_json (hc_HealthyThreshold h))]"

text \<open>The integers of a configuration have 64 bits in Go.\<close>

definition chain_typed :: "chain_config \<Rightarrow> bool" where
  "chain_typed c \<longleftrightarrow> int64 (cc_Timeout c) \<and> int64 (cc_MaxConcurrency c) \<and>
     (case cc_RetryPolicy c of r \<Rightarrow> int64 (rp_MaxAttempts r) \<and> int64 (rp_InitialDelay r) \<and> int64 (rp_MaxDelay r)) \<and>
     (case cc_CircuitBreaker c of b \<Rightarrow> int64 (cb_FailureThreshold b) \<and> int64 (cb_SuccessThreshold b) \<and>
        int64 (cb_Timeout b) \<and> int64 (cb_HalfOpenMaxCalls b) \<and> int64 (cb_RecoveryWindowDuration b)) \<and>
     (case cc_RateLimit c of l \<Rightarrow> int64 (rl_MaxRequests l) \<and> int64 (rl_Window l) \<and> int64 (rl_BurstSize l)) \<and>
     (case cc_HealthCheck c of h \<Rightarrow> int64 (hc_Interval h) \<and> int64 (hc_Timeout h) \<and>
        int64 (hc_UnhealthyThreshold h) \<and> int64 (hc_HealthyThreshold h))"

definition chain_config_json :: "json_codec \<Rightarrow> chain_config \<Rightarrow> json option" where
  "chain_config_json cd c =
     (if \<not> chain_typed c then None
      else do {
        backoff \<leftarrow> cd_float cd (rp_BackoffMultiplier (cc_RetryPolicy c));
        Some (JObj [(''Name'', JStr (cc_Name c)), (''RetryPolicy'', retry_policy_json backoff (cc_RetryPolicy c)),
          (''CircuitBreaker'', circuit_breaker_json (cc_CircuitBreaker c)), (''RateLimit'', rate_limit_json (cc_RateLimit c)),
          (''Timeout'', int_json (cc_Timeout c)), (''MaxConcurrency'', int_json (cc_MaxConcurrency c)),
          (''HealthCheck'', health_check_json (cc_HealthCheck c)), (''SelectionStrategy'', JStr (cc_SelectionStrategy c))])
      })"

definition weights_json :: "json_codec \<Rightarrow> scoring_weights \<Rightarrow> json option" where
  "weights_json cd w =
     (if \<not> (int64 (sw_DecayInterval w) \<and> int64 (sw_LatencyWindowSize w) \<and> int64 (sw_MinSamplesForLatencyComparison w)) then None
      else do {
        health \<leftarrow> cd_float cd (sw_HealthCheckFailPenalty w);
        rate \<leftarrow> cd_float cd (sw_RateLimitPenalty w);
        auth \<leftarrow> cd_float cd (sw_AuthFailurePenalty w);
        slow \<leftarrow> cd_float cd (sw_SlowResponsePenalty w);
        oper \<leftarrow> cd_float cd (sw_OperationFailPenalty w);
        tmo \<leftarrow> cd_float cd (sw_TimeoutPenalty w);
        bonus \<leftarrow> cd_float cd (sw_SuccessBonus w);
        maxp \<leftarrow> cd_float cd (sw_MaxPenalty w);
        decay \<leftarrow> cd_float cd (sw_DecayRate w);
        dev \<leftarrow> cd_float cd (sw_SlowThresholdStdDev w);
        Some (JObj [(''health_check_fail_penalty'', JNum health), (''rate_limit_penalty'', JNum rate),
          (''auth_failure_penalty'', JNum auth), (''slow_response_penalty'', JNum slow),
          (''operation_fail_penalty'', JNum oper), (''timeout_penalty'', JNum tmo), (''success_bonus'', JNum bonus),
          (''max_penalty'', JNum maxp), (''decay_interval'', int_json (sw_DecayInterval w)), (''decay_rate'', JNum decay),
          (''latency_window_size'', int_json (sw_LatencyWindowSize w)), (''slow_threshold_std_dev'', JNum dev),
          (''min_samples_for_latency_comparison'', int_json (sw_MinSamplesForLatencyComparison w))])
      })"

definition snapshot_json :: "json_codec \<Rightarrow> config_snapshot \<Rightarrow> json option" where
  "snapshot_json cd snap =
     (if \<not> (finite (dom (sn_Chains snap)) \<and> (\<forall>c \<in> ran (sn_Chains snap). chain_config_json cd c \<noteq> None)) then None
      else do {
        weights \<leftarrow> weights_json cd (sn_ScoringWeights snap);
        Some (JObj [(''chains'', map_json (\<lambda>c. the (chain_config_json cd c)) (sn_Chains snap)),
          (''scoring_enabled'', JBool (sn_ScoringEnabled snap)), (''scoring_weights'', weights)])
      })"

definition config_envelope_json :: "int \<Rightarrow> string \<Rightarrow> json \<Rightarrow> json" where
  "config_envelope_json version etag config =
     JObj [(''version'', int_json version), (''etag'', JStr etag), (''config'', config)]"

subsection \<open>What is served is what is decoded\<close>

lemma dec_int64_json:
  "int64 i \<Longrightarrow> dec_int (- 9223372036854775808) 9223372036854775807 (int_json i) x = (i, True)"
  by (simp add: int64_def)

lemma dec_circuit_breaker_json:
  "int64 (cb_FailureThreshold c) \<Longrightarrow> int64 (cb_SuccessThreshold c) \<Longrightarrow> int64 (cb_Timeout c) \<Longrightarrow>
   int64 (cb_HalfOpenMaxCalls c) \<Longrightarrow> int64 (cb_RecoveryWindowDuration c) \<Longrightarrow>
   dec_circuit_breaker (circuit_breaker_json c) x = (c, True)"
  by (cases c; cases x) (simp add: dec_circuit_breaker_def circuit_breaker_json_def dec_defs dec_bool_def dec_int64_json)

lemma dec_rate_limit_json:
  "int64 (rl_MaxRequests l) \<Longrightarrow> int64 (rl_Window l) \<Longrightarrow> int64 (rl_BurstSize l) \<Longrightarrow>
   dec_rate_limit (rate_limit_json l) x = (l, True)"
  by (cases l; cases x) (simp add: dec_rate_limit_def rate_limit_json_def dec_defs dec_bool_def dec_int64_json)

lemma dec_health_check_json:
  "int64 (hc_Interval h) \<Longrightarrow> int64 (hc_Timeout h) \<Longrightarrow> int64 (hc_UnhealthyThreshold h) \<Longrightarrow>
   int64 (hc_HealthyThreshold h) \<Longrightarrow> dec_health_check (health_check_json h) x = (h, True)"
  by (cases h; cases x) (simp add: dec_health_check_def health_check_json_def dec_defs dec_bool_def dec_int64_json)

context faithful_codec
begin

lemma dec_retry_policy_json:
  assumes "cd_float cd (rp_BackoffMultiplier r) = Some l"
    and "int64 (rp_MaxAttempts r)" "int64 (rp_InitialDelay r)" "int64 (rp_MaxDelay r)"
  shows "dec_retry_policy (retry_policy_json l r) x = (r, True)"
  using assms
  by (cases r; cases x) (simp add: dec_retry_policy_def retry_policy_json_def dec_defs dec_bool_def dec_int64_json dec_float_text)

lemma chain_config_roundtrip:
  assumes "chain_config_json cd c = Some v"
  shows "json_ok v \<and> dec_chain_config v x = (c, True)"
proof -
  obtain l where t: "chain_typed c" and l: "cd_float cd (rp_BackoffMultiplier (cc_RetryPolicy c)) = Some l"
    using assms by (auto simp: chain_config_json_def bind_eq_Some_conv split: if_splits)
  have "dec_chain_config v x = (c, True)"
    using assms t l
    by (cases c; cases x) (auto simp: chain_config_json_def dec_chain_config_def dec_defs chain_typed_def dec_int64_json
        dec_circuit_breaker_json dec_rate_limit_json dec_health_check_json dec_retry_policy_json)
  moreover have "json_ok v"
    using assms t float_text [OF l] by (auto simp: chain_config_json_def l retry_policy_json_def circuit_breaker_json_def
        rate_limit_json_def health_check_json_def lex_number_Itoa)
  ultimately show ?thesis by simp
qed

lemma weights_roundtrip:
  assumes "weights_json cd w = Some v"
  shows "json_ok v \<and> dec_weights v x = (w, True)"
proof -
  have "dec_weights v x = (w, True)"
    using assms
    by (cases w; cases x) (auto simp: weights_json_def bind_eq_Some_conv dec_weights_def dec_defs dec_int64_json dec_float_text
        split: if_splits)
  moreover have "json_ok v"
    using assms float_text by (auto simp: weights_json_def bind_eq_Some_conv lex_number_Itoa split: if_splits)
  ultimately show ?thesis by simp
qed

lemma snapshot_roundtrip:
  assumes "snapshot_json cd snap = Some v"
  shows "json_ok v \<and> dec_snapshot v empty_snapshot = (snap, True)"
proof -
  obtain w where f: "finite (dom (sn_Chains snap))" and c: "\<forall>c \<in> ran (sn_Chains snap). chain_config_json cd c \<noteq> None"
    and w: "weights_json cd (sn_ScoringWeights snap) = Some w"
    and v: "v = JObj [(''chains'', map_json (\<lambda>c. the (chain_config_json cd c)) (sn_Chains snap)),
          (''scoring_enabled'', JBool (sn_ScoringEnabled snap)), (''scoring_weights'', w)]"
    using assms by (auto simp: snapshot_json_def bind_eq_Some_conv split: if_splits)
  have r: "json_ok (the (chain_config_json cd y)) \<and> dec_chain_config (the (chain_config_json cd y)) z = (y, True)"
    if "sn_Chains snap k = Some y" for k y z
    using c that chain_config_roundtrip [of y] by (auto simp: ran_def)
  have "dec_fmap zero_chain_config dec_chain_config (map_json (\<lambda>c. the (chain_config_json cd c)) (sn_Chains snap)) Map.empty =
      (sn_Chains snap, True)"
    using f r by (intro dec_fmap_json) auto
  then have "dec_snapshot v empty_snapshot = (snap, True)"
    using weights_roundtrip [OF w] unfolding v by (simp add: dec_snapshot_def dec_defs empty_snapshot_def dec_bool_def)
  moreover have "json_ok (map_json (\<lambda>c. the (chain_config_json cd c)) (sn_Chains snap))"
    using f r by (auto simp: map_json_def domIff)
  ultimately show ?thesis using weights_roundtrip [OF w] unfolding v by simp
qed

lemma config_body_served:
  assumes "snapshot_json cd snap = Some v" "int64 version"
  shows "config_body (json_text (config_envelope_json version tag v)) = Inr (tag, snap)"
proof -
  have "json_ok (config_envelope_json version tag v)"
    using snapshot_roundtrip [OF assms(1)] by (simp add: config_envelope_json_def lex_number_Itoa)
  from json_stream_roundtrip [OF this] show ?thesis
    using snapshot_roundtrip [OF assms(1)] assms(2)
    by (simp add: config_body_def decoded_def dec_config_envelope_def config_envelope_json_def dec_defs dec_int64_json
        zero_config_envelope_def)
qed

end

text \<open>The client of the examples, with weights that are whole numbers.\<close>

definition served_snapshot :: config_snapshot where
  "served_snapshot =
     demo_snapshot\<lparr>sn_ScoringWeights := (sn_ScoringWeights demo_snapshot)\<lparr>sw_SuccessBonus := 1, sw_DecayRate := 1\<rparr>\<rparr>"

definition served_json :: json where
  "served_json = the (snapshot_json whole_codec served_snapshot)"

definition text_server :: "string \<Rightarrow> config_exchange" where
  "text_server etag =
     (if etag = ''v1'' then ConfigResponds 304 ''v1'' (config_body '''')
      else ConfigResponds 200 ''v1'' (config_body (json_text (config_envelope_json 1 ''v1'' served_json))))"

lemma served_snapshot_ok: "snapshot_ok served_snapshot"
  using demo_snapshot_ok by (auto simp: snapshot_ok_def served_snapshot_def weights_valid_def)

lemma served_json_some: "snapshot_json whole_codec served_snapshot = Some served_json"
  by (simp add: served_json_def snapshot_json_def weights_json_def chain_config_json_def chain_typed_def
      served_snapshot_def demo_snapshot_def scoringConfigToWeights_def DefaultScoringConfig_def DefaultChainConfig_def
      whole_codec_def int64_def)

text \<open>
  C29: The poller brings the client to the configuration that the cloud serves as text. When the
  body of the response is the JSON form of a valid snapshot, one poll decodes it and applies it,
  whatever the iteration order of its chains. \<open>Snapshot\<close> then reports the served configuration of
  every chain that it mentions and the old one of every other chain. It reports the served weights
  and enabled flag if the client has a scoring engine, and zero weights and scoring disabled if it
  has none. The poller remembers snapshot and etag, and while the cloud answers 304 for that etag,
  further polls change nothing.
\<close>

theorem served_config_applied:
  assumes "faithful_codec cd" "snapshot_json cd snap = Some v" "int64 version" "snapshot_ok snap"
    and "set order = dom (sn_Chains snap)" "ao_Endpoint opts \<noteq> ''''"
    and "server (po_etag p) = ConfigResponds 200 etag (config_body (json_text (config_envelope_json version tag v)))"
    and "etag \<noteq> ''''" "server etag = ConfigResponds 304 header body"
  shows "\<exists>p'. tick order (makeFetcher opts server) p = Returns (p', None) \<and>
     Snapshot (po_updater p') =
       \<lparr>sn_Chains = sn_Chains (Snapshot (po_updater p)) ++ sn_Chains snap,
        sn_ScoringEnabled = (mp_engine (po_updater p) \<noteq> None \<and> sn_ScoringEnabled snap),
        sn_ScoringWeights =
          (if mp_engine (po_updater p) = None then zero_weights else sn_ScoringWeights snap)\<rparr> \<and>
     LastApplied p' = snap \<and> po_etag p' = etag \<and>
     (\<forall>order'. tick order' (makeFetcher opts server) p' = Returns (p', None))"
proof -
  have "server (po_etag p) = ConfigResponds 200 etag (Inr (tag, snap))"
    unfolding assms(7) faithful_codec.config_body_served [OF assms(1-3)] ..
  from poll_converges [of snap order opts server p etag tag header body, OF assms(4-6) this assms(8,9)]
  show ?thesis unfolding merged_snapshot_def .
qed

theorem served_config_applied_witness:
  "\<exists>p'. tick [''TxBroadcasters''] (makeFetcher demo_agent text_server) (demo_poller no_engine) = Returns (p', None) \<and>
     LastApplied p' = served_snapshot \<and>
     sn_ScoringWeights (Snapshot (po_updater p')) = sn_ScoringWeights served_snapshot"
proof -
  let ?p = "demo_poller no_engine"
  have "\<exists>p'. tick [''TxBroadcasters''] (makeFetcher demo_agent text_server) ?p = Returns (p', None) \<and>
     Snapshot (po_updater p') =
       \<lparr>sn_Chains = sn_Chains (Snapshot (po_updater ?p)) ++ sn_Chains served_snapshot,
        sn_ScoringEnabled = (mp_engine (po_updater ?p) \<noteq> None \<and> sn_ScoringEnabled served_snapshot),
        sn_ScoringWeights =
          (if mp_engine (po_updater ?p) = None then zero_weights else sn_ScoringWeights served_snapshot)\<rparr> \<and>
     LastApplied p' = served_snapshot \<and> po_etag p' = ''v1'' \<and>
     (\<forall>order'. tick order' (makeFetcher demo_agent text_server) p' = Returns (p', None))"
    by (rule served_config_applied [OF whole.faithful_codec_axioms served_json_some, where version = 1])
       (simp_all add: served_snapshot_ok, simp_all add: int64_def served_snapshot_def demo_snapshot_def demo_poller_def
         demo_agent_def text_server_def)
  then show ?thesis by (auto simp: demo_poller_def)
qed

text \<open>
  C31: A response whose configuration has no \<open>scoring_weights\<close> crashes a client whose decay is
  running: the missing weights decode to zeros, the decay ticker is replaced by one with interval 0,
  and \<open>time.NewTicker\<close> panics in the polling goroutine.
\<close>

theorem config_without_weights_panics:
  assumes "mp_engine (po_updater p) = Some e" "dm_running (en_decayManager e)"
    and "sc_DecayInterval (dm_config (en_decayManager e)) \<noteq> 0" "int64 version" "ao_Endpoint opts \<noteq> ''''"
    and "server (po_etag p) = ConfigResponds 200 etag (config_body (json_text (config_envelope_json version tag
      (JObj [(''chains'', JObj []), (''scoring_enabled'', JBool b)]))))"
  shows "tick order (makeFetcher opts server) p = Panics"
proof -
  let ?v = "config_envelope_json version tag (JObj [(''chains'', JObj []), (''scoring_enabled'', JBool b)])"
  have "json_ok ?v" by (simp add: config_envelope_json_def lex_number_Itoa)
  from json_stream_roundtrip [OF this]
  have "config_body (json_text ?v) = Inr (tag, empty_snapshot\<lparr>sn_ScoringEnabled := b\<rparr>)"
    using assms(4) by (simp add: config_body_def decoded_def dec_config_envelope_def config_envelope_json_def dec_defs
        dec_int64_json zero_config_envelope_def dec_snapshot_def dec_fmap_def dec_bool_def empty_snapshot_def
        del: json_text.simps)
  then have f: "makeFetcher opts server (po_etag p) = Inr \<lparr>fr_snap = empty_snapshot\<lparr>sn_ScoringEnabled := b\<rparr>,
      fr_etag = (if etag = '''' then tag else etag), fr_notModified = False\<rparr>"
    using assms(5,6) by (simp add: makeFetcher_def del: json_text.simps)
  have "snapshot_ok (empty_snapshot\<lparr>sn_ScoringEnabled := b, sn_ScoringWeights := sn_ScoringWeights demo_snapshot\<rparr>)"
    using demo_snapshot_ok by (simp add: snapshot_ok_def empty_snapshot_def)
  moreover have "sn_ScoringWeights (empty_snapshot\<lparr>sn_ScoringEnabled := b\<rparr>) = zero_weights"
    by (simp add: empty_snapshot_def)
  ultimately show ?thesis
    using poll_without_weights_panics [where fetch = "makeFetcher opts server" and order = order, OF assms(1-3) _ _ f]
    by blast
qed

theorem config_without_weights_panics_witness:
  "tick [] (makeFetcher demo_agent (\<lambda>_. ConfigResponds 200 '''' (config_body (json_text (config_envelope_json 7 ''v7''
       (JObj [(''chains'', JObj []), (''scoring_enabled'', JBool True)]))))))
     (demo_poller (no_engine\<lparr>en_decayManager := (NewDecayManager DefaultScoringConfig)\<lparr>dm_running := True\<rparr>\<rparr>)) = Panics"
  by (rule config_without_weights_panics [where version = 7 and
        e = "no_engine\<lparr>en_decayManager := (NewDecayManager DefaultScoringConfig)\<lparr>dm_running := True\<rparr>\<rparr>"])
     (simp_all add: demo_poller_def NewDecayManager_def DefaultScoringConfig_def int64_def demo_agent_def)

end
