(* ===== verification/Transport_Laws.thy ===== *)
theory Transport_Laws
  imports Transport
begin

text \<open>
  Conservation and order of telemetry events. \<open>ht_reach\<close> interleaves the calls of \<open>Push\<close> by the
  application with the critical sections of the flush goroutine in every possible way; its
  list argument is the history of pushed events.
\<close>

subsection \<open>Reachable states\<close>

inductive ht_reach :: "agent_options \<Rightarrow> cloud_event list \<Rightarrow> http_transport \<Rightarrow> bool" for opts where
  start: "ht_reach opts [] newHTTPTransport"
| pushed: "ht_reach opts es t \<Longrightarrow> ht_reach opts (es @ [e]) (Push opts e t)"
| pruned: "ht_reach opts es t \<Longrightarrow> ht_reach opts es (pruneStale opts now t)"
| taken: "ht_reach opts es t \<Longrightarrow> \<not> isTerminal t \<Longrightarrow> ht_reach opts es (takeInflight opts t)"
| finished: "ht_reach opts es t \<Longrightarrow> ht_inflight t \<noteq> [] \<Longrightarrow>
     ht_reach opts es (fst (finish_flush opts out t))"
| reported: "ht_reach opts es t \<Longrightarrow> ht_reach opts es (on_error err t)"

definition transport_ok :: "agent_options \<Rightarrow> cloud_event list \<Rightarrow> http_transport \<Rightarrow> bool" where
  "transport_ok opts es t \<longleftrightarrow>
     subseq (ht_delivered t @ ht_inflight t @ ht_buf t) es \<and>
     length es = length (ht_delivered t) + length (ht_inflight t) + length (ht_buf t) + ht_dropped t \<and>
     int (length (ht_buf t)) \<le> ao_BufferSize opts \<and> int (length (ht_inflight t)) \<le> ao_BatchSize opts \<and>
     (isTerminal t \<longrightarrow> ht_buf t = [] \<and> ht_inflight t = [])"

lemma transport_okI:
  assumes "transport_ok opts es t"
    and "subseq (ht_delivered t' @ ht_inflight t' @ ht_buf t') (ht_delivered t @ ht_inflight t @ ht_buf t)"
    and "length (ht_delivered t') + length (ht_inflight t') + length (ht_buf t') + ht_dropped t' =
         length (ht_delivered t) + length (ht_inflight t) + length (ht_buf t) + ht_dropped t"
    and "int (length (ht_buf t')) \<le> ao_BufferSize opts" "int (length (ht_inflight t')) \<le> ao_BatchSize opts"
    and "isTerminal t' \<longrightarrow> ht_buf t' = [] \<and> ht_inflight t' = []"
  shows "transport_ok opts es t'"
  using assms subseq_order.order_trans unfolding transport_ok_def by (metis (no_types, lifting))

lemma subseq_drop: "subseq (drop n xs) xs"
  by (metis append_take_drop_id list_emb_append2 subseq_order.order_refl)

lemma subseq_tail: "subseq ys zs \<Longrightarrow> subseq (xs @ ys) (xs @ zs)"
  by (rule list_emb_append_mono) simp_all

lemma Push_ok:
  assumes "transport_ok opts es t" "0 < ao_BufferSize opts"
  shows "transport_ok opts (es @ [e]) (Push opts e t)"
proof (cases "isTerminal t")
  case True
  then show ?thesis
    using assms(1) by (auto simp: transport_ok_def Push_def isTerminal_def intro: list_emb_append2 subseq_rev_drop_many)
next
  case False
  let ?full = "int (length (ht_buf t)) \<ge> ao_BufferSize opts"
  let ?keep = "if ?full then tl (ht_buf t) else ht_buf t"
  have p: "ht_buf (Push opts e t) = ?keep @ [e]" "ht_inflight (Push opts e t) = ht_inflight t"
    "ht_delivered (Push opts e t) = ht_delivered t" "ht_terminalErr (Push opts e t) = ht_terminalErr t"
    "ht_dropped (Push opts e t) = ht_dropped t + (if ?full then 1 else 0)"
    using False by (simp_all add: Push_def isTerminal_def Let_def)
  have "subseq ?keep (ht_buf t)" using subseq_drop [of 1 "ht_buf t"] by (simp add: drop_Suc)
  then have "subseq ((ht_delivered t @ ht_inflight t @ ?keep) @ [e]) ((ht_delivered t @ ht_inflight t @ ht_buf t) @ [e])"
    by (simp only: subseq_append' append_assoc subseq_append)
  also have "subseq \<dots> (es @ [e])"
    by (rule list_emb_append_mono) (use assms(1) in \<open>simp_all add: transport_ok_def\<close>)
  finally have s: "subseq (ht_delivered t @ ht_inflight t @ ?keep @ [e]) (es @ [e])" by simp
  have "ht_buf t \<noteq> [] \<or> \<not> ?full" using assms(2) by auto
  then show ?thesis
    using assms s False unfolding transport_ok_def p isTerminal_def
    by (auto simp: Suc_diff_le split: if_splits)
qed

lemma pruneStale_ok:
  assumes "transport_ok opts es t"
  shows "transport_ok opts es (pruneStale opts now t)"
proof (rule transport_okI [OF assms])
  let ?k = "length (takeWhile (\<lambda>e. cev_CapturedAt e < now - ao_EventTTL opts) (ht_buf t))"
  have k: "?k \<le> length (ht_buf t)" by (rule length_takeWhile_le)
  have p: "ht_buf (pruneStale opts now t) = drop ?k (ht_buf t)"
    "ht_inflight (pruneStale opts now t) = ht_inflight t"
    "ht_delivered (pruneStale opts now t) = ht_delivered t"
    "ht_dropped (pruneStale opts now t) = ht_dropped t + ?k"
    "ht_terminalErr (pruneStale opts now t) = ht_terminalErr t"
    by (simp_all add: pruneStale_def Let_def)
  show "subseq (ht_delivered (pruneStale opts now t) @ ht_inflight (pruneStale opts now t) @
      ht_buf (pruneStale opts now t)) (ht_delivered t @ ht_inflight t @ ht_buf t)"
    unfolding p by (intro subseq_tail subseq_drop)
  show "isTerminal (pruneStale opts now t) \<longrightarrow> ht_buf (pruneStale opts now t) = [] \<and>
      ht_inflight (pruneStale opts now t) = []"
    using assms p by (simp add: transport_ok_def isTerminal_def)
qed (use assms length_takeWhile_le [of "\<lambda>e. cev_CapturedAt e < now - ao_EventTTL opts" "ht_buf t"]
     in \<open>auto simp: transport_ok_def pruneStale_def Let_def\<close>)

lemma takeInflight_ok:
  assumes "transport_ok opts es t" "\<not> isTerminal t" "0 < ao_BatchSize opts"
  shows "transport_ok opts es (takeInflight opts t)"
proof (cases "ht_inflight t = [] \<and> ht_buf t \<noteq> []")
  case True
  let ?n = "min (length (ht_buf t)) (nat (ao_BatchSize opts))"
  have "takeInflight opts t = t\<lparr>ht_inflight := take ?n (ht_buf t), ht_buf := drop ?n (ht_buf t)\<rparr>"
    using True assms(3) by (simp add: takeInflight_def Let_def)
  then show ?thesis
    using assms True
    by (intro transport_okI [OF assms(1)]) (auto simp: transport_ok_def isTerminal_def)
qed (use assms in \<open>auto simp: takeInflight_def Let_def\<close>)

lemma drop_inflight_ok:
  assumes "transport_ok opts es t" "0 < ao_BatchSize opts"
  shows "transport_ok opts es (drop_inflight t)"
  using assms
  by (intro transport_okI [OF assms(1)])
     (auto simp: transport_ok_def drop_inflight_def discardInflight_def isTerminal_def
       intro: list_emb_append_mono)

lemma returnInflightToHead_ok:
  assumes "transport_ok opts es t" "0 < ao_BatchSize opts" "0 < ao_BufferSize opts"
  shows "transport_ok opts es (returnInflightToHead opts t)"
proof (cases "ht_inflight t = []")
  case False
  let ?c = "ht_inflight t @ ht_buf t"
  let ?k = "nat (int (length ?c) - ao_BufferSize opts)"
  have k: "?k \<le> length ?c" using assms(3) by simp
  have p: "returnInflightToHead opts t = t\<lparr>ht_buf := drop ?k ?c, ht_inflight := [],
      ht_dropped := ht_dropped t + ?k\<rparr>"
    using False by (simp add: returnInflightToHead_def Let_def)
  have "subseq (ht_delivered t @ drop ?k ?c) (ht_delivered t @ ?c)" by (intro subseq_tail subseq_drop)
  then show ?thesis
    using assms k False unfolding p
    by (intro transport_okI [OF assms(1)])
       (auto simp: transport_ok_def isTerminal_def simp del: drop_append)
qed (use assms in \<open>simp add: returnInflightToHead_def\<close>)

lemma setTerminal_ok:
  assumes "transport_ok opts es t" "0 < ao_BatchSize opts" "0 < ao_BufferSize opts"
  shows "transport_ok opts es (setTerminal err t)"
  using assms
  by (intro transport_okI [OF assms(1)])
     (auto simp: transport_ok_def setTerminal_def isTerminal_def)

lemma delivered_ok:
  assumes "transport_ok opts es t" "0 < ao_BatchSize opts"
  shows "transport_ok opts es (discardInflight (t\<lparr>ht_delivered := ht_delivered t @ ht_inflight t\<rparr>))"
  using assms
  by (intro transport_okI [OF assms(1)]) (auto simp: transport_ok_def discardInflight_def isTerminal_def)

lemma finish_flush_ok:
  assumes "transport_ok opts es t" "0 < ao_BatchSize opts" "0 < ao_BufferSize opts"
  shows "transport_ok opts es (fst (finish_flush opts out t))"
  using assms
  by (auto simp: finish_flush_def Let_def split: flush_outcome.splits
      intro: drop_inflight_ok returnInflightToHead_ok setTerminal_ok delivered_ok)

lemma on_error_ok: "transport_ok opts es t \<Longrightarrow> transport_ok opts es (on_error err t)"
  by (simp add: transport_ok_def on_error_def isTerminal_def)

lemma ht_reach_ok:
  assumes "ht_reach opts es t" "0 < ao_BatchSize opts" "0 < ao_BufferSize opts"
  shows "transport_ok opts es t"
  using assms
proof (induction rule: ht_reach.induct)
  case start
  then show ?case by (simp add: transport_ok_def newHTTPTransport_def isTerminal_def)
qed (simp_all add: Push_ok pruneStale_ok takeInflight_ok finish_flush_ok on_error_ok)

text \<open>
  C27: Under every interleaving of pushes and flushes, each pushed event is in exactly one
  place: delivered, in flight, buffered or counted as dropped. Events are delivered in the
  order in which they were pushed, none twice, and the buffer never exceeds its size.
\<close>

theorem telemetry_conserved:
  assumes "ht_reach opts es t" "0 < ao_BatchSize opts" "0 < ao_BufferSize opts"
  shows "subseq (ht_delivered t @ ht_inflight t @ ht_buf t) es \<and>
     length es = length (ht_delivered t) + length (ht_inflight t) + length (ht_buf t) + ht_dropped t \<and>
     int (length (ht_buf t)) \<le> ao_BufferSize opts"
  using ht_reach_ok [OF assms] by (simp add: transport_ok_def)

definition demo_options :: agent_options where
  "demo_options = withDefaults \<lparr>ao_Endpoint = ''https://cloud'', ao_APIKey = ''k'', ao_BatchSize = 1,
     ao_FlushInterval = 0, ao_BufferSize = 2, ao_SampleRate = 0, ao_PollInterval = 0,
     ao_MaxBackoff = 0, ao_EventTTL = 0, ao_Chain = '''', ao_Network = '''', ao_AgentName = ''''\<rparr>"

definition demo_event :: "gotime \<Rightarrow> cloud_event" where
  "demo_event now = \<lparr>cev_CapturedAt = now, cev_Request = None, cev_Score = Some zero_score\<rparr>"

theorem telemetry_conserved_witness:
  "let t = Push demo_options (demo_event 4) (Push demo_options (demo_event 3)
             (takeInflight demo_options (Push demo_options (demo_event 2)
               (Push demo_options (demo_event 1) newHTTPTransport))));
       t' = fst (finish_flush demo_options (Responds 503) t)
   in ht_dropped t' = 2 \<and>
      length [demo_event 1, demo_event 2, demo_event 3, demo_event 4] =
        length (ht_delivered t') + length (ht_inflight t') + length (ht_buf t') + ht_dropped t'"
proof -
  let ?es = "((([] @ [demo_event 1]) @ [demo_event 2]) @ [demo_event 3]) @ [demo_event 4]"
  define t2 where "t2 = Push demo_options (demo_event 2) (Push demo_options (demo_event 1) newHTTPTransport)"
  define t where "t = Push demo_options (demo_event 4) (Push demo_options (demo_event 3)
             (takeInflight demo_options t2))"
  have d: "ht_terminalErr t2 = None" "ht_buf t2 = [demo_event 1, demo_event 2]" "ht_inflight t2 = []"
    "ht_dropped t2 = 0"
    by (simp_all add: t2_def Push_def newHTTPTransport_def demo_options_def withDefaults_def Let_def)
  have i: "ht_inflight t = [demo_event 1]" "ht_dropped t = 1"
    by (simp_all add: t_def d Push_def takeInflight_def demo_options_def withDefaults_def Let_def)
  have "ht_reach demo_options ?es t"
    unfolding t_def t2_def
    by (intro ht_reach.pushed ht_reach.taken ht_reach.start)
       (simp add: d isTerminal_def t2_def [symmetric])
  from ht_reach.finished [OF this, of "Responds 503"] i
  have reach: "ht_reach demo_options ?es (fst (finish_flush demo_options (Responds 503) t))" by simp
  have "ht_dropped (fst (finish_flush demo_options (Responds 503) t)) = 2"
    using i by (simp add: finish_flush_def returnInflightToHead_def t_def d Push_def takeInflight_def
        demo_options_def withDefaults_def Let_def)
  then show ?thesis
    using telemetry_conserved [OF reach]
    by (simp add: t_def [symmetric] t2_def [symmetric] Let_def) (simp add: demo_options_def withDefaults_def)
qed

subsection \<open>Stopping\<close>

lemma takeInflight_facts:
  assumes "0 < ao_BatchSize opts" "0 < pending t"
  shows "ht_inflight (takeInflight opts t) \<noteq> []"
    "ht_inflight (takeInflight opts t) @ ht_buf (takeInflight opts t) = ht_inflight t @ ht_buf t"
    "ht_delivered (takeInflight opts t) = ht_delivered t" "ht_dropped (takeInflight opts t) = ht_dropped t"
    "ht_terminalErr (takeInflight opts t) = ht_terminalErr t" "ht_drainErr (takeInflight opts t) = ht_drainErr t"
  using assms by (auto simp: takeInflight_def pending_def Let_def min_def split: if_splits)

lemma flushOnce_pending:
  assumes "0 < ao_BatchSize opts" "0 < pending t" "\<not> isTerminal t"
  shows "flushOnce opts out t = finish_flush opts out (takeInflight opts t)"
  using takeInflight_facts(1) [OF assms(1,2)] assms(3) by (simp add: flushOnce_def Let_def)

lemma finish_flush_sent:
  assumes "finish_flush opts out t = (t', True, err)" "ht_inflight t \<noteq> []"
  shows "t' = t\<lparr>ht_delivered := ht_delivered t @ ht_inflight t, ht_inflight := []\<rparr>"
  using assms by (auto simp: finish_flush_def discardInflight_def Let_def split: flush_outcome.splits if_splits)

lemma finish_flush_failed:
  "finish_flush opts out t = (t', False, err) \<Longrightarrow> err \<noteq> None"
  by (auto simp: finish_flush_def Let_def split: flush_outcome.splits if_splits)

lemma drain_returns:
  assumes "0 < ao_BatchSize opts" "\<not> isTerminal t" "ht_drainErr t = None"
  shows "\<exists>t'. drainAndExit opts outs i t = Some t' \<and>
     (stop_verdict t' = None \<longrightarrow> pending t' = 0 \<and> ht_dropped t' = ht_dropped t \<and>
        ht_delivered t' = ht_delivered t @ ht_inflight t @ ht_buf t)"
  using assms
proof (induction "pending t" arbitrary: t i rule: less_induct)
  case less
  show ?case
  proof (cases "pending t = 0")
    case True
    then show ?thesis by (subst drainAndExit.simps) (simp add: pending_def)
  next
    case False
    then have p: "0 < pending t" by simp
    note k = takeInflight_facts [OF less.prems(1) p]
    obtain t1 sent err where f: "finish_flush opts (outs i) (takeInflight opts t) = (t1, sent, err)"
      using prod_cases3 by blast
    have step: "drainAndExit opts outs i t =
        (if sent then drainAndExit opts outs (Suc i) t1
         else if isTerminal t1 then Some t1
         else case err of
                None \<Rightarrow> drainAndExit opts outs (Suc i) t1
              | Some e \<Rightarrow> Some (on_error (undelivered (pending t) e)
                          (t1\<lparr>ht_drainErr := Some (undelivered (pending t) e)\<rparr>)))"
      by (subst drainAndExit.simps)
         (simp add: False flushOnce_pending [OF less.prems(1) p less.prems(2)] f)
    show ?thesis
    proof (cases sent)
      case True
      with finish_flush_sent [of opts "outs i" "takeInflight opts t" t1 err] f k(1)
      have t1: "t1 = (takeInflight opts t)\<lparr>ht_delivered := ht_delivered t @ ht_inflight (takeInflight opts t),
          ht_inflight := []\<rparr>"
        by (simp add: k(3))
      have "length (ht_inflight (takeInflight opts t) @ ht_buf (takeInflight opts t)) = pending t"
        unfolding k(2) by (simp add: pending_def)
      then have p1: "pending t1 < pending t" using k(1)
        by (cases "ht_inflight (takeInflight opts t)") (simp_all add: t1 pending_def)
      have q1: "\<not> isTerminal t1" "ht_drainErr t1 = None"
        using less.prems k(5,6) by (simp_all add: t1 isTerminal_def)
      from less.hyps [OF p1 less.prems(1) q1, of "Suc i"] show ?thesis
        using step True k(2,4) by (auto simp: t1)
    next
      case nsent: False
      with f have "finish_flush opts (outs i) (takeInflight opts t) = (t1, False, err)" by simp
      from finish_flush_failed [OF this] obtain e where "err = Some e" by blast
      then show ?thesis
        using step nsent by (auto simp: stop_verdict_def isTerminal_def on_error_def)
    qed
  qed
qed

text \<open>
  C28: \<open>Stop\<close> returns: its drain ends after finitely many flushes, whatever the cloud answers. If
  its verdict is nil, everything that was pending at that moment has been accepted by the
  cloud, in order, and nothing was dropped on the way.
\<close>

theorem stop_drains:
  assumes "0 < ao_BatchSize opts" "\<not> isTerminal t" "ht_drainErr t = None"
  shows "\<exists>t' v. transport_Stop opts outs t = Some (t', v) \<and>
     (v = None \<longrightarrow> pending t' = 0 \<and> ht_dropped t' = ht_dropped t \<and>
        ht_delivered t' = ht_delivered t @ ht_inflight t @ ht_buf t)"
  using drain_returns [OF assms, of outs 0] by (auto simp: transport_Stop_def)

theorem stop_drains_witness:
  "\<exists>t' v. transport_Stop demo_options (\<lambda>_. Responds 202)
       (Push demo_options (demo_event 2) (Push demo_options (demo_event 1) newHTTPTransport)) = Some (t', v)"
  using stop_drains [of demo_options "Push demo_options (demo_event 2) (Push demo_options (demo_event 1) newHTTPTransport)"
      "\<lambda>_. Responds 202"]
  by (auto simp: demo_options_def withDefaults_def isTerminal_def Push_def newHTTPTransport_def Let_def)

text \<open>
  A nil verdict of \<open>Stop\<close> does not mean that every recorded event reached the cloud: a batch
  that the cloud answered with a status such as 400 is gone, and \<open>Stop\<close> then returns nil.
\<close>

lemma stop_nil_hides_drops:
  "\<exists>es t. ht_reach demo_options es t \<and> es \<noteq> [] \<and>
     transport_Stop demo_options (\<lambda>_. Responds 202) t = Some (t, None) \<and> ht_delivered t = []"
proof -
  define t0 where "t0 = takeInflight demo_options (Push demo_options (demo_event 1) newHTTPTransport)"
  define t where "t = fst (finish_flush demo_options (Responds 400) t0)"
  have t0: "ht_inflight t0 = [demo_event 1]" "ht_buf t0 = []" "ht_delivered t0 = []"
    "ht_terminalErr t0 = None" "ht_drainErr t0 = None"
    by (simp_all add: t0_def takeInflight_def Push_def newHTTPTransport_def demo_options_def
        withDefaults_def Let_def)
  have "ht_reach demo_options ([] @ [demo_event 1]) t0"
    unfolding t0_def
    by (intro ht_reach.taken ht_reach.pushed ht_reach.start)
       (simp add: isTerminal_def Push_def newHTTPTransport_def Let_def)
  from ht_reach.finished [OF this, of "Responds 400"] t0(1)
  have reach: "ht_reach demo_options [demo_event 1] t" by (simp add: t_def)
  have t: "pending t = 0" "ht_terminalErr t = None" "ht_drainErr t = None" "ht_delivered t = []"
    by (simp_all add: t_def finish_flush_def drop_inflight_def discardInflight_def pending_def t0)
  have "transport_Stop demo_options (\<lambda>_. Responds 202) t = Some (t, None)"
    unfolding transport_Stop_def by (subst drainAndExit.simps) (simp add: t stop_verdict_def)
  with reach t(4) show ?thesis by blast
qed

end
