(* ===== verification/Event_Ids.thy ===== *)
theory Event_Ids
  imports Prelude "HOL-Library.Char_ord" "HOL-Library.List_Lexorder"
begin

text \<open>
  \<open>cloudagent/ids.go\<close>: the identifiers of telemetry events, a 48-bit millisecond time stamp
  and 80 bits of entropy in base 32. The clock and the result of \<open>rand.Read\<close> are arguments of a
  call. The encoder of \<open>encoding/base32\<close> without padding takes five bytes to eight digits and
  fills an incomplete last digit with zero bits.
\<close>

unbundle bit_operations_syntax

subsection \<open>Positional notation\<close>

fun be_value :: "8 word list \<Rightarrow> nat" where
  "be_value [] = 0"
| "be_value (b # bs) = unat b * 256 ^ length bs + be_value bs"

fun be_digits :: "nat \<Rightarrow> nat \<Rightarrow> nat list" where
  "be_digits 0 n = []"
| "be_digits (Suc k) n = n div 32 ^ k mod 32 # be_digits k n"

lemma length_be_digits [simp]: "length (be_digits k n) = k"
  by (induction k) auto

lemma be_digits_less: "d \<in> set (be_digits k n) \<Longrightarrow> d < 32"
  by (induction k) auto

lemma be_value_less: "be_value bs < 256 ^ length bs"
proof (induction bs)
  case (Cons b bs)
  have "unat b < 256" using unsigned_less [of b, where ?'a = nat] by simp
  then have "Suc (unat b) * 256 ^ length bs \<le> 256 * 256 ^ length bs" by (intro mult_le_mono1) simp
  then have "unat b * 256 ^ length bs + 256 ^ length bs \<le> 256 ^ length (b # bs)" by simp
  with Cons show ?case unfolding be_value.simps by linarith
qed simp

lemma be_value_append: "be_value (xs @ ys) = be_value xs * 256 ^ length ys + be_value ys"
proof (induction xs)
  case (Cons x xs)
  then show ?case
    by (simp only: append_Cons be_value.simps length_append power_add add_mult_distrib mult.assoc add.assoc)
qed simp

lemma be_digits_mod: "k \<le> j \<Longrightarrow> be_digits k (n mod 32 ^ j) = be_digits k n"
proof (induction k)
  case (Suc k)
  from Suc.prems obtain i where "j = Suc k + i" using le_Suc_ex by blast
  then have j: "j = k + Suc i" by simp
  have "n mod 32 ^ j div 32 ^ k = n div 32 ^ k mod 32 ^ Suc i"
    unfolding j power_add by (simp add: mod_mult2_eq)
  then have "n mod 32 ^ j div 32 ^ k mod 32 = n div 32 ^ k mod 32"
    by (simp add: mod_mod_cancel)
  with Suc show ?case by simp
qed simp

lemma be_digits_mono:
  assumes "n < m" "m < 32 ^ k"
  shows "be_digits k n < be_digits k m"
  using assms
proof (induction k arbitrary: n m)
  case (Suc k)
  have q: "n div 32 ^ k < 32" "m div 32 ^ k < 32"
    using Suc.prems by (auto simp: less_mult_imp_div_less mult.commute)
  show ?case
  proof (cases "n div 32 ^ k = m div 32 ^ k")
    case True
    have "n mod 32 ^ k < m mod 32 ^ k"
      using Suc.prems(1) True div_mult_mod_eq [of n "32 ^ k"] div_mult_mod_eq [of m "32 ^ k"]
      by (metis nat_add_left_cancel_less)
    from Suc.IH [OF this] have "be_digits k n < be_digits k m" by (simp add: be_digits_mod)
    with True show ?thesis by simp
  next
    case False
    then have "n div 32 ^ k < m div 32 ^ k"
      using Suc.prems(1) by (simp add: div_le_mono le_neq_implies_less)
    with q show ?thesis by simp
  qed
qed simp

subsection \<open>Identifiers\<close>

definition idAlphabet :: string where
  "idAlphabet = ''0123456789ABCDEFGHJKMNPQRSTVWXYZ''"

fun base32_digits :: "8 word list \<Rightarrow> nat list" where
  "base32_digits (a # b # c # d # e # bs) = be_digits 8 (be_value [a, b, c, d, e]) @ base32_digits bs"
| "base32_digits bs =
     (let k = (8 * length bs + 4) div 5 in be_digits k (be_value bs * 2 ^ (5 * k - 8 * length bs)))"

definition EncodeToString :: "8 word list \<Rightarrow> string" where
  "EncodeToString raw = map (\<lambda>d. idAlphabet ! d) (base32_digits raw)"

record id_state =
  id_lastMS :: "64 word"
  id_lastEntropy :: "8 word list"

text \<open>The loop over the entropy from its last byte to its first.\<close>

fun increment_rev :: "8 word list \<Rightarrow> 8 word list" where
  "increment_rev [] = []"
| "increment_rev (b # bs) = (if b + 1 \<noteq> 0 then (b + 1) # bs else (b + 1) # increment_rev bs)"

definition increment_entropy :: "8 word list \<Rightarrow> 8 word list" where
  "increment_entropy bs = rev (increment_rev (rev bs))"

definition raw_id :: "64 word \<Rightarrow> 8 word list \<Rightarrow> 8 word list" where
  "raw_id ms entropy =
     [ucast (drop_bit 40 ms), ucast (drop_bit 32 ms), ucast (drop_bit 24 ms),
      ucast (drop_bit 16 ms), ucast (drop_bit 8 ms), ucast ms] @ entropy"

definition newEventID :: "64 word \<times> 8 word list \<Rightarrow> id_state \<Rightarrow> string \<times> id_state" where
  "newEventID call st =
     (case call of (ms, random) \<Rightarrow>
        let entropy = (if ms = id_lastMS st then increment_entropy (id_lastEntropy st) else random)
        in (EncodeToString (raw_id ms entropy), \<lparr>id_lastMS = ms, id_lastEntropy = entropy\<rparr>))"

fun event_ids :: "(64 word \<times> 8 word list) list \<Rightarrow> id_state \<Rightarrow> string list" where
  "event_ids [] st = []"
| "event_ids (call # calls) st = (case newEventID call st of (s, st') \<Rightarrow> s # event_ids calls st')"

subsection \<open>The encoding keeps the order\<close>

lemma list_less_append:
  fixes xs ys :: "'a::linorder list"
  shows "length xs = length ys \<Longrightarrow> xs < ys \<Longrightarrow> xs @ us < ys @ vs"
  by (induction xs ys rule: list_induct2) auto

lemma list_less_append_same: "us < vs \<Longrightarrow> xs @ us < xs @ (vs :: 'a::linorder list)"
  by (induction xs) auto

lemma list_less_map:
  assumes "\<And>x y. x \<in> set xs \<Longrightarrow> y \<in> set ys \<Longrightarrow> x < y \<Longrightarrow> f x < f y" "length xs = length ys" "xs < ys"
  shows "map f xs < map (f :: nat \<Rightarrow> char) ys"
  using assms(2,1,3) by (induction xs ys rule: list_induct2) auto

lemma alphabet_less:
  assumes "i < j" "j < 32"
  shows "idAlphabet ! i < idAlphabet ! j"
proof -
  have "sorted_wrt (<) idAlphabet" "length idAlphabet = 32" by (simp_all add: idAlphabet_def less_char_def)
  then show ?thesis using assms sorted_wrt_nth_less by metis
qed

lemma length_base32: "length xs = length ys \<Longrightarrow> length (base32_digits xs) = length (base32_digits ys)"
proof (induction xs arbitrary: ys rule: base32_digits.induct)
  case (1 a b c d e bs)
  then obtain a' b' c' d' e' bs' where "ys = a' # b' # c' # d' # e' # bs'" "length bs = length bs'"
    by (auto simp: length_Suc_conv Suc_length_conv)
  with 1 show ?case by simp
qed (auto simp: length_Suc_conv Suc_length_conv Let_def)

lemma base32_less: "d \<in> set (base32_digits bs) \<Longrightarrow> d < 32"
  by (induction bs rule: base32_digits.induct) (auto simp: Let_def simp del: be_digits.simps dest: be_digits_less)

lemma short_mono:
  assumes "be_value xs < be_value ys" "256 ^ length ys * p = 32 ^ k" "0 < p"
  shows "be_digits k (be_value xs * p) < be_digits k (be_value ys * p)"
proof -
  have "be_value ys * p < 256 ^ length ys * p" using be_value_less assms(3) by simp
  then show ?thesis using assms by (intro be_digits_mono) auto
qed

lemma two_digits:
  assumes "u * P + x < v * P + y" "x < P" "y < (P :: nat)"
  shows "u < v \<or> (u = v \<and> x < y)"
proof (cases "v < u")
  case True
  then have "Suc v * P \<le> u * P" by (intro mult_le_mono1) simp
  then have "v * P + P \<le> u * P" by simp
  with assms show ?thesis by linarith
next
  case False
  with assms(1) show ?thesis by (cases "u = v") auto
qed

lemma base32_mono:
  "length xs = length ys \<Longrightarrow> be_value xs < be_value ys \<Longrightarrow> base32_digits xs < base32_digits ys"
proof (induction xs arbitrary: ys rule: base32_digits.induct)
  case (1 a b c d e bs)
  then obtain a' b' c' d' e' bs' where ys: "ys = a' # b' # c' # d' # e' # bs'" "length bs = length bs'"
    by (auto simp: length_Suc_conv Suc_length_conv)
  let ?u = "be_value [a, b, c, d, e]" and ?v = "be_value [a', b', c', d', e']" and ?P = "256 ^ length bs :: nat"
  have less: "?u * ?P + be_value bs < ?v * ?P + be_value bs'"
    using 1(3) be_value_append [of "[a, b, c, d, e]" bs] be_value_append [of "[a', b', c', d', e']" bs']
    unfolding ys(1) ys(2) by (simp only: append_Cons append_Nil)
  have b: "be_value bs < ?P" "be_value bs' < ?P" using be_value_less [of bs] be_value_less [of bs'] ys(2) by simp_all
  have v: "?v < 32 ^ 8" using be_value_less [of "[a', b', c', d', e']"] by (simp del: be_value.simps)
  from two_digits [OF less b] show ?case
  proof
    assume "?u < ?v"
    then show ?thesis
      unfolding ys base32_digits.simps by (intro list_less_append be_digits_mono v) simp_all
  next
    assume "?u = ?v \<and> be_value bs < be_value bs'"
    with 1(1) ys(2) show ?thesis
      unfolding ys base32_digits.simps by (simp only: list_less_append_same)
  qed
qed (auto simp: length_Suc_conv Suc_length_conv simp del: be_digits.simps be_value.simps intro!: short_mono)

lemma EncodeToString_mono:
  assumes "length xs = length ys" "be_value xs < be_value ys"
  shows "EncodeToString xs < EncodeToString ys"
  unfolding EncodeToString_def
  using assms by (intro list_less_map alphabet_less length_base32 base32_mono) (auto dest: base32_less)

subsection \<open>Identifiers ascend\<close>

lemma length_increment_rev [simp]: "length (increment_rev bs) = length bs"
  by (induction bs) auto

lemma length_increment [simp]: "length (increment_entropy bs) = length bs"
  by (simp add: increment_entropy_def)

lemma be_value_snoc: "be_value (bs @ [b]) = 256 * be_value bs + unat b"
  by (simp add: be_value_append)

lemma increment_step:
  assumes "be_value bs + 1 < 256 ^ length bs"
  shows "be_value (increment_entropy bs) = be_value bs + 1"
  using assms
proof (induction bs rule: rev_induct)
  case (snoc b bs)
  show ?case
  proof (cases "b + 1 = 0")
    case True
    then have "b = - 1" by (simp add: eq_neg_iff_add_eq_0)
    then have b: "unat b = 255" by (simp add: unsigned_minus_1_eq_mask mask_eq_exp_minus_1)
    then have "be_value bs + 1 < 256 ^ length bs" using snoc.prems by (simp add: be_value_snoc)
    with snoc.IH True b show ?thesis by (simp add: increment_entropy_def be_value_snoc)
  next
    case False
    then have "unat (b + 1) = unat b + 1" using unatSuc [of b] by (simp add: add.commute)
    with False show ?thesis by (simp add: increment_entropy_def be_value_snoc)
  qed
qed simp

lemma unat_byte: "unat (ucast (drop_bit n w :: 64 word) :: 8 word) = unat w div 2 ^ n mod 256"
  unfolding unsigned_ucast_eq unsigned_drop_bit_eq
  using unsigned_less [of w, where ?'a = nat] by (simp add: drop_bit_eq_div take_bit_eq_mod)

lemma six_digits:
  "n1 * b + r0 = n \<Longrightarrow> n2 * b + r1 = n1 \<Longrightarrow> n3 * b + r2 = n2 \<Longrightarrow> n4 * b + r3 = n3 \<Longrightarrow> n5 * b + r4 = n4 \<Longrightarrow>
   n5 * b ^ 5 + r4 * b ^ 4 + r3 * b ^ 3 + r2 * b ^ 2 + r1 * b + r0 = (n :: nat)"
  by (auto simp: eval_nat_numeral algebra_simps)

lemma raw_id_value:
  assumes "ms < 2 ^ 48" "length entropy = 10"
  shows "be_value (raw_id ms entropy) = unat ms * 256 ^ 10 + be_value entropy"
proof -
  define m where "m = unat ms"
  have m: "m < 2 ^ 48" using assms(1) by (simp add: m_def word_less_nat_alt)
  define m1 m2 m3 m4 m5 where d: "m1 = m div 256" "m2 = m1 div 256" "m3 = m2 div 256" "m4 = m3 div 256" "m5 = m4 div 256"
  have "unat (ucast ms :: 8 word) = m mod 256"
    by (simp add: m_def unsigned_ucast_eq take_bit_eq_mod)
  moreover have "m div 2 ^ 8 = m1" "m div 2 ^ 16 = m2" "m div 2 ^ 24 = m3" "m div 2 ^ 32 = m4" "m div 2 ^ 40 = m5"
    by (simp_all add: d flip: div_mult2_eq)
  moreover have m5: "m5 < 256" using m by (simp add: d less_mult_imp_div_less flip: div_mult2_eq)
  moreover have "m5 * 256 ^ 5 + m4 mod 256 * 256 ^ 4 + m3 mod 256 * 256 ^ 3 + m2 mod 256 * 256 ^ 2 + m1 mod 256 * 256 + m mod 256 = m"
    unfolding d by (rule six_digits [OF div_mult_mod_eq div_mult_mod_eq div_mult_mod_eq div_mult_mod_eq div_mult_mod_eq])
  from arg_cong [OF this, of "\<lambda>x. x * 256 ^ 10"]
  moreover have "m5 * 256 ^ 15 + m4 mod 256 * 256 ^ 14 + m3 mod 256 * 256 ^ 13 + m2 mod 256 * 256 ^ 12 +
      m1 mod 256 * 256 ^ 11 + m mod 256 * 256 ^ 10 = m * 256 ^ 10" by simp
  ultimately show ?thesis
    using assms(2) m5 by (simp add: raw_id_def unat_byte flip: m_def)
qed

definition id_of :: "id_state \<Rightarrow> string" where
  "id_of st = EncodeToString (raw_id (id_lastMS st) (id_lastEntropy st))"

lemma id_of_less:
  assumes "id_lastMS st \<le> id_lastMS st'" "id_lastMS st' < 2 ^ 48"
    and "length (id_lastEntropy st) = 10" "length (id_lastEntropy st') = 10"
    and "id_lastMS st = id_lastMS st' \<Longrightarrow> be_value (id_lastEntropy st) < be_value (id_lastEntropy st')"
  shows "id_of st < id_of st'"
  unfolding id_of_def
proof (rule EncodeToString_mono)
  show "length (raw_id (id_lastMS st) (id_lastEntropy st)) = length (raw_id (id_lastMS st') (id_lastEntropy st'))"
    using assms(3,4) by (simp add: raw_id_def)
  let ?a = "unat (id_lastMS st)" and ?b = "unat (id_lastMS st')"
  have v: "be_value (raw_id (id_lastMS st) (id_lastEntropy st)) = ?a * 256 ^ 10 + be_value (id_lastEntropy st)"
    "be_value (raw_id (id_lastMS st') (id_lastEntropy st')) = ?b * 256 ^ 10 + be_value (id_lastEntropy st')"
    by (rule raw_id_value [OF le_less_trans [OF assms(1,2)] assms(3)], rule raw_id_value [OF assms(2,4)])
  have e: "be_value (id_lastEntropy st) < 256 ^ 10" using be_value_less [of "id_lastEntropy st"] assms(3) by simp
  show "be_value (raw_id (id_lastMS st) (id_lastEntropy st)) < be_value (raw_id (id_lastMS st') (id_lastEntropy st'))"
  proof (cases "id_lastMS st = id_lastMS st'")
    case True
    then show ?thesis using assms(5) unfolding v by simp
  next
    case False
    then have "?a < ?b" using le_neq_trans [OF assms(1)] by (simp add: word_less_nat_alt)
    then have "Suc ?a * 256 ^ 10 \<le> ?b * 256 ^ 10" by (intro mult_le_mono1) simp
    with e show ?thesis unfolding v by simp
  qed
qed

text \<open>No call of a run of \<open>n\<close> calls carries the entropy over its last value.\<close>

definition entropy_room :: "nat \<Rightarrow> 8 word list \<Rightarrow> bool" where
  "entropy_room n bs \<longleftrightarrow> length bs = 10 \<and> be_value bs + n < 256 ^ 10"

lemma newEventID_step:
  assumes "id_lastMS st \<le> fst call" "fst call < 2 ^ 48" "entropy_room (Suc n) (snd call)" "entropy_room (Suc n) (id_lastEntropy st)"
    and "newEventID call st = (s, st')"
  shows "s = id_of st'" "id_of st < id_of st'" "id_lastMS st' = fst call" "entropy_room n (id_lastEntropy st')"
proof -
  have st': "st' = \<lparr>id_lastMS = fst call, id_lastEntropy =
      (if fst call = id_lastMS st then increment_entropy (id_lastEntropy st) else snd call)\<rparr>" "s = id_of st'"
    using assms(5) by (auto simp: newEventID_def id_of_def Let_def split: prod.splits)
  show "s = id_of st'" by (fact st'(2))
  have inc: "be_value (increment_entropy (id_lastEntropy st)) = be_value (id_lastEntropy st) + 1"
    using assms(4) increment_step [of "id_lastEntropy st"] by (simp add: entropy_room_def)
  show "id_lastMS st' = fst call" "entropy_room n (id_lastEntropy st')"
    using assms(3,4) inc by (auto simp: st'(1) entropy_room_def)
  show "id_of st < id_of st'"
  proof (rule id_of_less)
    show "id_lastMS st \<le> id_lastMS st'" "id_lastMS st' < 2 ^ 48" using assms(1,2) by (simp_all only: st'(1) id_state.simps)
    show "length (id_lastEntropy st) = 10" "length (id_lastEntropy st') = 10"
      using assms(3,4) by (simp_all add: st'(1) entropy_room_def)
  qed (simp add: st'(1) inc)
qed

lemma event_ids_above:
  assumes "sorted (map fst calls)" "\<forall>call \<in> set calls. id_lastMS st \<le> fst call \<and> fst call < 2 ^ 48 \<and> entropy_room n (snd call)"
    and "entropy_room n (id_lastEntropy st)" "length calls \<le> n"
  shows "sorted_wrt (<) (id_of st # event_ids calls st)"
  using assms
proof (induction calls arbitrary: st n)
  case (Cons call calls)
  obtain s st' where c: "newEventID call st = (s, st')" by fastforce
  from Cons.prems(4) obtain k where n: "n = Suc k" by (cases n) auto
  note step = newEventID_step [OF _ _ _ _ c, of k]
  have "sorted_wrt (<) (id_of st' # event_ids calls st')"
    using Cons.prems step n by (intro Cons.IH [of st' k]) (auto simp: entropy_room_def)
  then show ?case using Cons.prems step n c by auto
qed simp

text \<open>
  The identifiers of a process ascend in the order of the calls, compared as strings: with a
  clock that does not go back and stays below 2^48 milliseconds, and with entropy that leaves
  room for the calls of one millisecond, every later identifier is greater than every earlier
  one.
\<close>

lemma event_ids_ordered:
  assumes "sorted (map fst calls)" "\<forall>call \<in> set calls. id_lastMS st \<le> fst call \<and> fst call < 2 ^ 48"
    and "\<forall>call \<in> set calls. entropy_room (length calls) (snd call)" "entropy_room (length calls) (id_lastEntropy st)"
  shows "sorted_wrt (<) (event_ids calls st)"
  using event_ids_above [of calls st "length calls"] assms by auto

end
