(* ===== verification/Wire.thy ===== *)
theory Wire
  imports Transport_Laws Event_Ids
begin

text \<open>
  \<open>cloudagent/wire.go\<close>: the batch that a flush sends, as the structure that is handed to
  \<open>json.Marshal\<close>. The generator of identifiers is a state-passing function, so that it can be
  \<open>newEventID\<close> with its global state. Conversions to \<open>int32\<close> and \<open>int16\<close> wrap.
\<close>

record wire_request =
  wr_Provider :: string
  wr_Operation :: string
  wr_Chain :: string
  wr_Network :: string
  wr_OK :: bool
  wr_DurMS :: "32 word"
  wr_Attempts :: "16 word"
  wr_Err :: string

record wire_score =
  ws_Type :: string
  ws_Provider :: string
  ws_EventType :: string
  ws_ScoreType :: string
  ws_Operation :: string
  ws_Store :: string
  ws_OldValue :: real
  ws_NewValue :: real
  ws_Score :: real
  ws_RTMS :: "32 word"
  ws_Success :: bool
  ws_CacheHit :: bool
  ws_Rank :: int
  ws_TotalProviders :: int
  ws_StoreErr :: string

record wire_envelope =
  we_ID :: string
  we_T :: gotime
  we_Kind :: string
  we_Req :: "wire_request option"
  we_Score :: "wire_score option"

record wire_batch =
  wb_Schema :: string
  wb_Agent :: string
  wb_BatchID :: string
  wb_SentAt :: gotime
  wb_Events :: "wire_envelope list"

definition wire_of_request :: "agent_options \<Rightarrow> request_event \<Rightarrow> wire_request" where
  "wire_of_request opts r =
     \<lparr>wr_Provider = rq_Provider r, wr_Operation = rq_Operation r, wr_Chain = ao_Chain opts,
      wr_Network = ao_Network opts, wr_OK = rq_Success r,
      wr_DurMS = word_of_int (Milliseconds (rq_Duration r)),
      wr_Attempts = word_of_int (int (rq_AttemptCount r)), wr_Err = rq_ErrorClass r\<rparr>"

definition wire_of_score :: "cloud_score \<Rightarrow> wire_score" where
  "wire_of_score s =
     \<lparr>ws_Type = cse_Kind s, ws_Provider = cse_Provider s, ws_EventType = cse_EventType s,
      ws_ScoreType = cse_ScoreType s, ws_Operation = cse_Operation s, ws_Store = cse_Store s,
      ws_OldValue = cse_OldValue s, ws_NewValue = cse_NewValue s, ws_Score = cse_Score s,
      ws_RTMS = (if cse_Latency s > 0 then word_of_int (Milliseconds (cse_Latency s)) else 0),
      ws_Success = cse_Success s, ws_CacheHit = cse_CacheHit s, ws_Rank = cse_Rank s,
      ws_TotalProviders = cse_TotalProviders s, ws_StoreErr = cse_StoreErrText s\<rparr>"

fun wire_events ::
  "agent_options \<Rightarrow> ('s \<Rightarrow> string \<times> 's) \<Rightarrow> cloud_event list \<Rightarrow> 's \<Rightarrow> wire_envelope list \<times> 's" where
  "wire_events opts idGen [] s = ([], s)"
| "wire_events opts idGen (ev # evs) s =
     (case cev_Request ev of
        Some r \<Rightarrow>
          (case idGen s of (i, s1) \<Rightarrow>
             case wire_events opts idGen evs s1 of (es, s2) \<Rightarrow>
               (\<lparr>we_ID = i, we_T = cev_CapturedAt ev, we_Kind = ''req'',
                 we_Req = Some (wire_of_request opts r), we_Score = None\<rparr> # es, s2))
      | None \<Rightarrow>
          (case cev_Score ev of
             Some sc \<Rightarrow>
               (case idGen s of (i, s1) \<Rightarrow>
                  case wire_events opts idGen evs s1 of (es, s2) \<Rightarrow>
                    (\<lparr>we_ID = i, we_T = cev_CapturedAt ev, we_Kind = ''score'', we_Req = None,
                      we_Score = Some (wire_of_score sc)\<rparr> # es, s2))
           | None \<Rightarrow> wire_events opts idGen evs s))"

definition buildBatch ::
  "cloud_event list \<Rightarrow> agent_options \<Rightarrow> string \<Rightarrow> gotime \<Rightarrow> ('s \<Rightarrow> string \<times> 's) \<Rightarrow> 's \<Rightarrow> wire_batch \<times> 's" where
  "buildBatch events opts batchID sentAt idGen s =
     (case wire_events opts idGen events s of (es, s') \<Rightarrow>
        (\<lparr>wb_Schema = ''chainkit.ingest.v1'', wb_Agent = ao_AgentName opts, wb_BatchID = batchID,
          wb_SentAt = sentAt, wb_Events = es\<rparr>, s'))"

subsection \<open>What the cloud can read back\<close>

text \<open>The reader of the wire format: the times come back in milliseconds.\<close>

definition request_of_wire :: "wire_request \<Rightarrow> request_event" where
  "request_of_wire w =
     \<lparr>rq_Provider = wr_Provider w, rq_Operation = wr_Operation w, rq_Success = wr_OK w,
      rq_Duration = sint (wr_DurMS w) * millisecond, rq_AttemptCount = nat (sint (wr_Attempts w)),
      rq_ErrorClass = wr_Err w\<rparr>"

definition score_of_wire :: "wire_score \<Rightarrow> cloud_score" where
  "score_of_wire w =
     \<lparr>cse_Provider = ws_Provider w, cse_Kind = ws_Type w, cse_EventType = ws_EventType w,
      cse_ScoreType = ws_ScoreType w, cse_Operation = ws_Operation w, cse_Store = ws_Store w,
      cse_OldValue = ws_OldValue w, cse_NewValue = ws_NewValue w, cse_Score = ws_Score w,
      cse_Latency = sint (ws_RTMS w) * millisecond, cse_Success = ws_Success w,
      cse_CacheHit = ws_CacheHit w, cse_Rank = ws_Rank w, cse_TotalProviders = ws_TotalProviders w,
      cse_StoreErrText = ws_StoreErr w\<rparr>"

definition event_of_wire :: "wire_envelope \<Rightarrow> cloud_event" where
  "event_of_wire w =
     \<lparr>cev_CapturedAt = we_T w, cev_Request = map_option request_of_wire (we_Req w),
      cev_Score = map_option score_of_wire (we_Score w)\<rparr>"

definition to_ms :: "duration \<Rightarrow> duration" where
  "to_ms d = d - d mod millisecond"

definition event_in_ms :: "cloud_event \<Rightarrow> cloud_event" where
  "event_in_ms ev = ev\<lparr>cev_Request := map_option (\<lambda>r. r\<lparr>rq_Duration := to_ms (rq_Duration r)\<rparr>) (cev_Request ev),
     cev_Score := map_option (\<lambda>s. s\<lparr>cse_Latency := to_ms (cse_Latency s)\<rparr>) (cev_Score ev)\<rparr>"

text \<open>
  The recorders make events with exactly one payload. The times of a wire event have 31 bits of
  milliseconds, about 24 days, and its attempts 15 bits.
\<close>

definition wire_range :: "cloud_event \<Rightarrow> bool" where
  "wire_range ev \<longleftrightarrow> (cev_Request ev = None \<longleftrightarrow> cev_Score ev \<noteq> None) \<and>
     (\<forall>r. cev_Request ev = Some r \<longrightarrow>
        0 \<le> rq_Duration r \<and> rq_Duration r < 2 ^ 31 * millisecond \<and> rq_AttemptCount r < 2 ^ 15) \<and>
     (\<forall>s. cev_Score ev = Some s \<longrightarrow> 0 \<le> cse_Latency s \<and> cse_Latency s < 2 ^ 31 * millisecond)"

lemma sint_small:
  fixes n :: int
  shows "0 \<le> n \<Longrightarrow> n < 2 ^ 31 \<Longrightarrow> sint (word_of_int n :: 32 word) = n"
    "0 \<le> n \<Longrightarrow> n < 2 ^ 15 \<Longrightarrow> sint (word_of_int n :: 16 word) = n"
  by (simp_all add: signed_of_int signed_take_bit_int_eq_self)

lemma ms_roundtrip:
  assumes "0 \<le> d" "d < 2 ^ 31 * millisecond"
  shows "sint (word_of_int (Milliseconds d) :: 32 word) * millisecond = to_ms d"
proof -
  have m: "Milliseconds d = d div millisecond"
    using assms(1) by (simp add: Milliseconds_def go_quot_nonneg)
  have "d div millisecond < 2 ^ 31" "0 \<le> d div millisecond" using assms by auto
  then have "sint (word_of_int (Milliseconds d) :: 32 word) = d div millisecond"
    unfolding m by (intro sint_small)
  then show ?thesis by (simp add: to_ms_def minus_mod_eq_div_mult)
qed

lemma request_roundtrip:
  assumes "wire_range ev" "cev_Request ev = Some r"
  shows "request_of_wire (wire_of_request opts r) = r\<lparr>rq_Duration := to_ms (rq_Duration r)\<rparr>"
  using assms ms_roundtrip [of "rq_Duration r"] sint_small(2) [of "int (rq_AttemptCount r)"]
  by (auto simp: request_of_wire_def wire_of_request_def wire_range_def)

lemma score_roundtrip:
  assumes "wire_range ev" "cev_Score ev = Some s"
  shows "score_of_wire (wire_of_score s) = s\<lparr>cse_Latency := to_ms (cse_Latency s)\<rparr>"
  using assms ms_roundtrip [of "cse_Latency s"]
  by (auto simp: score_of_wire_def wire_of_score_def wire_range_def to_ms_def)

lemma wire_events_step:
  assumes "wire_range ev" "idGen s = (i, s1)" "wire_events opts idGen evs s1 = (es, s2)"
  shows "\<exists>e. wire_events opts idGen (ev # evs) s = (e # es, s2) \<and> we_ID e = i \<and>
     event_of_wire e = event_in_ms ev"
proof (cases "cev_Request ev")
  case None
  with assms(1) obtain sc where "cev_Score ev = Some sc" by (auto simp: wire_range_def)
  with None score_roundtrip [OF assms(1) this] assms(2,3) show ?thesis
    by (simp add: event_of_wire_def event_in_ms_def)
next
  case (Some r)
  then have "cev_Score ev = None" using assms(1) by (auto simp: wire_range_def)
  with Some request_roundtrip [OF assms(1) Some] assms(2,3) show ?thesis
    by (simp add: event_of_wire_def event_in_ms_def)
qed

text \<open>\<open>newEventID\<close> as a generator: the clock and the random bytes of its next calls are part of the state.\<close>

fun clocked :: "id_state \<times> (64 word \<times> 8 word list) list \<Rightarrow> string \<times> id_state \<times> (64 word \<times> 8 word list) list" where
  "clocked (st, call # calls) = (case newEventID call st of (i, st') \<Rightarrow> (i, st', calls))"
| "clocked (st, []) = ('''', st, [])"

lemma wire_events_clocked:
  assumes "\<forall>ev \<in> set evs. wire_range ev" "length evs \<le> length calls"
  shows "map event_of_wire (fst (wire_events opts clocked evs (st, calls))) = map event_in_ms evs \<and>
    map we_ID (fst (wire_events opts clocked evs (st, calls))) = event_ids (take (length evs) calls) st"
  using assms
proof (induction evs arbitrary: st calls)
  case (Cons ev evs)
  then obtain call cs where calls: "calls = call # cs" by (cases calls) auto
  obtain i st' where c: "newEventID call st = (i, st')" by fastforce
  obtain es s2 where es: "wire_events opts clocked evs (st', cs) = (es, s2)" by (rule prod.exhaust)
  have "map event_of_wire es = map event_in_ms evs \<and> map we_ID es = event_ids (take (length evs) cs) st'"
    using Cons.IH [of cs st'] Cons.prems calls es by auto
  moreover obtain e where "wire_events opts clocked (ev # evs) (st, calls) = (e # es, s2)" "we_ID e = i"
      "event_of_wire e = event_in_ms ev"
    using wire_events_step [of ev clocked "(st, calls)" i "(st', cs)" opts evs es s2] Cons.prems(1) c es calls
    by auto
  ultimately show ?case using c calls by simp
qed simp

text \<open>
  A batch carries its events faithfully: every event can be read back from its envelope, in
  order, with times cut to milliseconds, and the identifiers of the envelopes ascend as strings
  while the clock does not go back and the entropy of a millisecond has room.
\<close>

lemma batch_roundtrip:
  assumes "\<forall>ev \<in> set events. wire_range ev" "length events = length calls"
    and "sorted (map fst calls)" "\<forall>call \<in> set calls. id_lastMS st \<le> fst call \<and> fst call < 2 ^ 48"
    and "\<forall>call \<in> set calls. entropy_room (length calls) (snd call)" "entropy_room (length calls) (id_lastEntropy st)"
  shows "map event_of_wire (wb_Events (fst (buildBatch events opts batchID sentAt clocked (st, calls)))) = map event_in_ms events \<and>
    sorted_wrt (<) (map we_ID (wb_Events (fst (buildBatch events opts batchID sentAt clocked (st, calls)))))"
  using wire_events_clocked [OF assms(1), of calls opts st] assms(2) event_ids_ordered [OF assms(3-6)]
  by (cases "wire_events opts clocked events (st, calls)") (simp add: buildBatch_def)

end
