(* ===== verification/Wire_Json.thy ===== *)
theory Wire_Json
  imports Wire Store_Json
begin

text \<open>
  \<open>cloudagent/wire.go\<close>: the bytes of a batch. \<open>buildBatch\<close> ends with \<open>json.Marshal\<close> of the
  structure of theory \<open>Wire\<close>; this is its JSON form by the tags of the structures, and the
  decoder that the same tags give to a reader. A field with \<open>omitempty\<close> is left out when it has
  the zero value of its type.
\<close>

definition omit :: "bool \<Rightarrow> string \<Rightarrow> json \<Rightarrow> (string \<times> json) list" where
  "omit zero k v = (if zero then [] else [(k, v)])"

abbreviation omit_str :: "string \<Rightarrow> string \<Rightarrow> (string \<times> json) list" where
  "omit_str k s \<equiv> omit (s = '''') k (JStr s)"
abbreviation omit_bool :: "string \<Rightarrow> bool \<Rightarrow> (string \<times> json) list" where
  "omit_bool k b \<equiv> omit (\<not> b) k (JBool b)"
abbreviation omit_int :: "string \<Rightarrow> int \<Rightarrow> (string \<times> json) list" where
  "omit_int k i \<equiv> omit (i = 0) k (int_json i)"

text \<open>A zero is not printed, so only the other numbers need a text.\<close>

definition omit_float :: "json_codec \<Rightarrow> string \<Rightarrow> real \<Rightarrow> (string \<times> json) list option" where
  "omit_float cd k x = (if x = 0 then Some [] else map_option (\<lambda>l. [(k, JNum l)]) (cd_float cd x))"

definition wire_request_json :: "wire_request \<Rightarrow> json" where
  "wire_request_json r =
     JObj [(''provider'', JStr (wr_Provider r)), (''operation'', JStr (wr_Operation r)), (''chain'', JStr (wr_Chain r)),
       (''network'', JStr (wr_Network r)), (''ok'', JBool (wr_OK r)), (''dur_ms'', int_json (sint (wr_DurMS r))),
       (''attempts'', int_json (sint (wr_Attempts r))), (''err'', JStr (wr_Err r))]"

definition wire_score_json :: "json_codec \<Rightarrow> wire_score \<Rightarrow> json option" where
  "wire_score_json cd s =
     (if \<not> int64 (ws_Rank s) \<or> \<not> int64 (ws_TotalProviders s) then None
      else do {
        old \<leftarrow> omit_float cd ''old_value'' (ws_OldValue s);
        new \<leftarrow> omit_float cd ''new_value'' (ws_NewValue s);
        score \<leftarrow> omit_float cd ''score_after'' (ws_Score s);
        Some (JObj
          ([(''type'', JStr (ws_Type s)), (''provider'', JStr (ws_Provider s))] @
           omit_str ''event_type'' (ws_EventType s) @ omit_str ''score_type'' (ws_ScoreType s) @
           omit_str ''operation'' (ws_Operation s) @ omit_str ''store'' (ws_Store s) @ old @ new @ score @
           omit_int ''rt_ms'' (sint (ws_RTMS s)) @ omit_bool ''success'' (ws_Success s) @
           omit_bool ''cache_hit'' (ws_CacheHit s) @ omit_int ''rank'' (ws_Rank s) @
           omit_int ''total_providers'' (ws_TotalProviders s) @ omit_str ''store_err'' (ws_StoreErr s)))
      })"

definition wire_envelope_json :: "json_codec \<Rightarrow> wire_envelope \<Rightarrow> json option" where
  "wire_envelope_json cd e = do {
     t \<leftarrow> cd_time cd (we_T e);
     score \<leftarrow> (case we_Score e of
                  None \<Rightarrow> Some []
                | Some s \<Rightarrow> map_option (\<lambda>v. [(''score'', v)]) (wire_score_json cd s));
     Some (JObj
       ([(''id'', JStr (we_ID e)), (''t'', JStr t), (''kind'', JStr (we_Kind e))] @
        (case we_Req e of None \<Rightarrow> [] | Some r \<Rightarrow> [(''req'', wire_request_json r)]) @ score))
   }"

fun all_some :: "'a option list \<Rightarrow> 'a list option" where
  "all_some [] = Some []"
| "all_some (x # xs) = do { y \<leftarrow> x; ys \<leftarrow> all_some xs; Some (y # ys) }"

definition wire_batch_json :: "json_codec \<Rightarrow> wire_batch \<Rightarrow> json option" where
  "wire_batch_json cd b = do {
     sent \<leftarrow> cd_time cd (wb_SentAt b);
     events \<leftarrow> all_some (map (wire_envelope_json cd) (wb_Events b));
     Some (JObj [(''schema'', JStr (wb_Schema b)), (''agent'', JStr (wb_Agent b)), (''batch_id'', JStr (wb_BatchID b)),
       (''sent_at'', JStr sent), (''events'', JArr events)])
   }"

definition batch_bytes ::
  "json_codec \<Rightarrow> cloud_event list \<Rightarrow> agent_options \<Rightarrow> string \<Rightarrow> gotime \<Rightarrow> ('s \<Rightarrow> string \<times> 's) \<Rightarrow> 's \<Rightarrow>
   (goerror + string) \<times> 's" where
  "batch_bytes cd events opts batchID sentAt idGen s =
     (case buildBatch events opts batchID sentAt idGen s of (wb, s') \<Rightarrow> (json_Marshal (wire_batch_json cd wb), s'))"

subsection \<open>Reading a batch\<close>

definition dec_sint32 :: "32 word decoder" where
  "dec_sint32 v w = (case dec_int32 v (sint w) of (i, ok) \<Rightarrow> (word_of_int i, ok))"

definition dec_sint16 :: "16 word decoder" where
  "dec_sint16 v w = (case dec_int (- (2 ^ 15)) (2 ^ 15 - 1) v (sint w) of (i, ok) \<Rightarrow> (word_of_int i, ok))"

definition dec_wire_request :: "wire_request decoder" where
  "dec_wire_request =
     dec_struct
       [fld ''provider'' wr_Provider wr_Provider_update dec_string,
        fld ''operation'' wr_Operation wr_Operation_update dec_string,
        fld ''chain'' wr_Chain wr_Chain_update dec_string,
        fld ''network'' wr_Network wr_Network_update dec_string,
        fld ''ok'' wr_OK wr_OK_update dec_bool,
        fld ''dur_ms'' wr_DurMS wr_DurMS_update dec_sint32,
        fld ''attempts'' wr_Attempts wr_Attempts_update dec_sint16,
        fld ''err'' wr_Err wr_Err_update dec_string]"

definition wire_score_fields :: "(string \<times> wire_score decoder) list" where
  "wire_score_fields =
       [fld ''type'' ws_Type ws_Type_update dec_string,
        fld ''provider'' ws_Provider ws_Provider_update dec_string,
        fld ''event_type'' ws_EventType ws_EventType_update dec_string,
        fld ''score_type'' ws_ScoreType ws_ScoreType_update dec_string,
        fld ''operation'' ws_Operation ws_Operation_update dec_string,
        fld ''store'' ws_Store ws_Store_update dec_string,
        fld ''old_value'' ws_OldValue ws_OldValue_update dec_float,
        fld ''new_value'' ws_NewValue ws_NewValue_update dec_float,
        fld ''score_after'' ws_Score ws_Score_update dec_float,
        fld ''rt_ms'' ws_RTMS ws_RTMS_update dec_sint32,
        fld ''success'' ws_Success ws_Success_update dec_bool,
        fld ''cache_hit'' ws_CacheHit ws_CacheHit_update dec_bool,
        fld ''rank'' ws_Rank ws_Rank_update dec_int64,
        fld ''total_providers'' ws_TotalProviders ws_TotalProviders_update dec_int64,
        fld ''store_err'' ws_StoreErr ws_StoreErr_update dec_string]"

definition dec_wire_score :: "wire_score decoder" where
  "dec_wire_score = dec_struct wire_score_fields"

definition zero_wire_request :: wire_request where
  "zero_wire_request =
     \<lparr>wr_Provider = '''', wr_Operation = '''', wr_Chain = '''', wr_Network = '''', wr_OK = False, wr_DurMS = 0,
      wr_Attempts = 0, wr_Err = ''''\<rparr>"

definition zero_wire_score :: wire_score where
  "zero_wire_score =
     \<lparr>ws_Type = '''', ws_Provider = '''', ws_EventType = '''', ws_ScoreType = '''', ws_Operation = '''',
      ws_Store = '''', ws_OldValue = 0, ws_NewValue = 0, ws_Score = 0, ws_RTMS = 0, ws_Success = False,
      ws_CacheHit = False, ws_Rank = 0, ws_TotalProviders = 0, ws_StoreErr = ''''\<rparr>"

definition dec_wire_envelope :: "json_codec \<Rightarrow> wire_envelope decoder" where
  "dec_wire_envelope cd =
     dec_struct
       [fld ''id'' we_ID we_ID_update dec_string,
        fld ''t'' we_T we_T_update (dec_time cd),
        fld ''kind'' we_Kind we_Kind_update dec_string,
        fld ''req'' we_Req we_Req_update (dec_ptr zero_wire_request dec_wire_request),
        fld ''score'' we_Score we_Score_update (dec_ptr zero_wire_score dec_wire_score)]"

definition zero_envelope :: wire_envelope where
  "zero_envelope = \<lparr>we_ID = '''', we_T = 0, we_Kind = '''', we_Req = None, we_Score = None\<rparr>"

definition dec_wire_batch :: "json_codec \<Rightarrow> wire_batch decoder" where
  "dec_wire_batch cd =
     dec_struct
       [fld ''schema'' wb_Schema wb_Schema_update dec_string,
        fld ''agent'' wb_Agent wb_Agent_update dec_string,
        fld ''batch_id'' wb_BatchID wb_BatchID_update dec_string,
        fld ''sent_at'' wb_SentAt wb_SentAt_update (dec_time cd),
        fld ''events'' wb_Events wb_Events_update (dec_slice zero_envelope (dec_wire_envelope cd))]"

definition zero_batch :: wire_batch where
  "zero_batch = \<lparr>wb_Schema = '''', wb_Agent = '''', wb_BatchID = '''', wb_SentAt = 0, wb_Events = []\<rparr>"

subsection \<open>What the agent sends is what the cloud reads\<close>

lemma sint_range32: "- (2 ^ 31) \<le> sint (w :: 32 word)" "sint (w :: 32 word) \<le> 2 ^ 31 - 1"
  using sint_greater_eq [of w] sint_less [of w] by simp_all

lemma sint_range16: "- (2 ^ 15) \<le> sint (w :: 16 word)" "sint (w :: 16 word) \<le> 2 ^ 15 - 1"
  using sint_greater_eq [of w] sint_less [of w] by simp_all

lemma dec_sint [simp]:
  "dec_sint32 (int_json (sint w)) x = (w, True)" "dec_sint16 (int_json (sint u)) y = (u, True)"
  using dec_int_Itoa [OF sint_range32 [of w]] dec_int_Itoa [OF sint_range16 [of u]]
  by (simp_all add: dec_sint32_def dec_sint16_def)

lemma wire_request_json_roundtrip:
  "json_ok (wire_request_json r) \<and> dec_wire_request (wire_request_json r) zero_wire_request = (r, True)"
  by (cases r) (simp add: wire_request_json_def dec_wire_request_def zero_wire_request_def dec_defs dec_bool_def
      lex_number_Itoa)

lemma fold_omit: "fold f (omit zero k v) st = (if zero then st else f (k, v) st)"
  by (simp add: omit_def)

lemma ball_omit: "(\<forall>m \<in> set (omit zero k v). P m) \<longleftrightarrow> zero \<or> P (k, v)"
  by (simp add: omit_def)

text \<open>
  One member of a score after another: an omitted one leaves the field, whose value is the zero
  of its type.
\<close>

lemma dec_score_strings:
  "ws_EventType s = '''' \<Longrightarrow> fold (dec_member wire_score_fields) (omit_str ''event_type'' x) (s, True) = (s\<lparr>ws_EventType := x\<rparr>, True)"
  "ws_ScoreType s = '''' \<Longrightarrow> fold (dec_member wire_score_fields) (omit_str ''score_type'' x) (s, True) = (s\<lparr>ws_ScoreType := x\<rparr>, True)"
  "ws_Operation s = '''' \<Longrightarrow> fold (dec_member wire_score_fields) (omit_str ''operation'' x) (s, True) = (s\<lparr>ws_Operation := x\<rparr>, True)"
  "ws_Store s = '''' \<Longrightarrow> fold (dec_member wire_score_fields) (omit_str ''store'' x) (s, True) = (s\<lparr>ws_Store := x\<rparr>, True)"
  "ws_StoreErr s = '''' \<Longrightarrow> fold (dec_member wire_score_fields) (omit_str ''store_err'' x) (s, True) = (s\<lparr>ws_StoreErr := x\<rparr>, True)"
  by (cases s; simp add: fold_omit wire_score_fields_def dec_defs)+

lemma dec_score_bools:
  "ws_Success s = False \<Longrightarrow> fold (dec_member wire_score_fields) (omit_bool ''success'' b) (s, True) = (s\<lparr>ws_Success := b\<rparr>, True)"
  "ws_CacheHit s = False \<Longrightarrow> fold (dec_member wire_score_fields) (omit_bool ''cache_hit'' b) (s, True) = (s\<lparr>ws_CacheHit := b\<rparr>, True)"
  by (cases s; simp add: fold_omit wire_score_fields_def dec_defs dec_bool_def)+

lemma dec_score_floats:
  "ws_OldValue s = 0 \<Longrightarrow> (y \<noteq> 0 \<Longrightarrow> lit_real l = y) \<Longrightarrow>
     fold (dec_member wire_score_fields) (omit (y = 0) ''old_value'' (JNum l)) (s, True) = (s\<lparr>ws_OldValue := y\<rparr>, True)"
  "ws_NewValue s = 0 \<Longrightarrow> (y \<noteq> 0 \<Longrightarrow> lit_real l = y) \<Longrightarrow>
     fold (dec_member wire_score_fields) (omit (y = 0) ''new_value'' (JNum l)) (s, True) = (s\<lparr>ws_NewValue := y\<rparr>, True)"
  "ws_Score s = 0 \<Longrightarrow> (y \<noteq> 0 \<Longrightarrow> lit_real l = y) \<Longrightarrow>
     fold (dec_member wire_score_fields) (omit (y = 0) ''score_after'' (JNum l)) (s, True) = (s\<lparr>ws_Score := y\<rparr>, True)"
  by (cases s; simp add: fold_omit wire_score_fields_def dec_defs dec_float_def)+

lemma dec_score_ints:
  "ws_RTMS s = 0 \<Longrightarrow> fold (dec_member wire_score_fields) (omit_int ''rt_ms'' (sint w)) (s, True) = (s\<lparr>ws_RTMS := w\<rparr>, True)"
  "ws_Rank s = 0 \<Longrightarrow> int64 i \<Longrightarrow>
     fold (dec_member wire_score_fields) (omit_int ''rank'' i) (s, True) = (s\<lparr>ws_Rank := i\<rparr>, True)"
  "ws_TotalProviders s = 0 \<Longrightarrow> int64 i \<Longrightarrow>
     fold (dec_member wire_score_fields) (omit_int ''total_providers'' i) (s, True) = (s\<lparr>ws_TotalProviders := i\<rparr>, True)"
  using dec_int_Itoa [of "- (2 ^ 63)" i "2 ^ 63 - 1"]
  by (cases s; simp add: fold_omit wire_score_fields_def dec_defs int64_def signed_eq_0_iff)+

lemma dec_score_names:
  "dec_member wire_score_fields (''type'', JStr x) (s, True) = (s\<lparr>ws_Type := x\<rparr>, True)"
  "dec_member wire_score_fields (''provider'', JStr x) (s, True) = (s\<lparr>ws_Provider := x\<rparr>, True)"
  by (simp_all add: wire_score_fields_def dec_defs)

context faithful_codec
begin

lemma omit_floatE:
  assumes "omit_float cd k x = Some ms"
  obtains l where "ms = omit (x = 0) k (JNum l)" "x \<noteq> 0 \<Longrightarrow> lex_number l = Some (l, []) \<and> lit_real l = x"
  using assms float_text [of x] by (auto simp: omit_float_def omit_def split: if_splits)

lemma wire_score_json_roundtrip:
  assumes "wire_score_json cd s = Some v"
  shows "json_ok v \<and> dec_wire_score v zero_wire_score = (s, True)"
proof -
  obtain old new sc where i: "int64 (ws_Rank s)" "int64 (ws_TotalProviders s)"
    and f: "omit_float cd ''old_value'' (ws_OldValue s) = Some old"
      "omit_float cd ''new_value'' (ws_NewValue s) = Some new"
      "omit_float cd ''score_after'' (ws_Score s) = Some sc"
    using assms by (auto simp: wire_score_json_def bind_eq_Some_conv split: if_splits)
  from omit_floatE [OF f(1)] obtain l1 where l1: "old = omit (ws_OldValue s = 0) ''old_value'' (JNum l1)"
    "ws_OldValue s \<noteq> 0 \<Longrightarrow> lex_number l1 = Some (l1, []) \<and> lit_real l1 = ws_OldValue s" by blast
  from omit_floatE [OF f(2)] obtain l2 where l2: "new = omit (ws_NewValue s = 0) ''new_value'' (JNum l2)"
    "ws_NewValue s \<noteq> 0 \<Longrightarrow> lex_number l2 = Some (l2, []) \<and> lit_real l2 = ws_NewValue s" by blast
  from omit_floatE [OF f(3)] obtain l3 where l3: "sc = omit (ws_Score s = 0) ''score_after'' (JNum l3)"
    "ws_Score s \<noteq> 0 \<Longrightarrow> lex_number l3 = Some (l3, []) \<and> lit_real l3 = ws_Score s" by blast
  have v: "v = JObj
      ([(''type'', JStr (ws_Type s)), (''provider'', JStr (ws_Provider s))] @
       omit_str ''event_type'' (ws_EventType s) @ omit_str ''score_type'' (ws_ScoreType s) @
       omit_str ''operation'' (ws_Operation s) @ omit_str ''store'' (ws_Store s) @ old @ new @ sc @
       omit_int ''rt_ms'' (sint (ws_RTMS s)) @ omit_bool ''success'' (ws_Success s) @
       omit_bool ''cache_hit'' (ws_CacheHit s) @ omit_int ''rank'' (ws_Rank s) @
       omit_int ''total_providers'' (ws_TotalProviders s) @ omit_str ''store_err'' (ws_StoreErr s))"
    using assms i f by (simp add: wire_score_json_def)
  have "dec_wire_score v zero_wire_score = (s, True)"
    using i l1(2) l2(2) l3(2) unfolding v l1(1) l2(1) l3(1)
    by (simp add: dec_wire_score_def dec_struct_def dec_score_strings dec_score_bools dec_score_floats
        dec_score_ints dec_score_names zero_wire_score_def)
  moreover have "json_ok v"
    unfolding v l1(1) l2(1) l3(1) using l1(2) l2(2) l3(2) by (simp add: ball_omit ball_Un lex_number_Itoa disj_imp)
  ultimately show ?thesis by simp
qed

lemma wire_envelope_json_roundtrip:
  assumes "wire_envelope_json cd e = Some v"
  shows "json_ok v \<and> dec_wire_envelope cd v zero_envelope = (e, True)"
proof -
  obtain t sc where t: "cd_time cd (we_T e) = Some t"
    and sc: "(case we_Score e of None \<Rightarrow> Some [] | Some s \<Rightarrow> map_option (\<lambda>v. [(''score'', v)]) (wire_score_json cd s)) = Some sc"
    and v: "v = JObj ([(''id'', JStr (we_ID e)), (''t'', JStr t), (''kind'', JStr (we_Kind e))] @
        (case we_Req e of None \<Rightarrow> [] | Some r \<Rightarrow> [(''req'', wire_request_json r)]) @ sc)"
    using assms by (auto simp: wire_envelope_json_def bind_eq_Some_conv)
  have p: "dec_ptr zero_wire_request dec_wire_request (wire_request_json r) None = (Some r, True)" for r
    using wire_request_json_roundtrip [of r] by (simp add: dec_ptr_def wire_request_json_def)
  have q: "dec_ptr zero_wire_score dec_wire_score w None = (Some s, True)" if "wire_score_json cd s = Some w" for s w
    using wire_score_json_roundtrip [OF that] that
    by (auto simp: dec_ptr_def wire_score_json_def bind_eq_Some_conv split: if_splits)
  have "dec_wire_envelope cd v zero_envelope = (e, True)"
    using t sc p q dec_time_text [OF t] unfolding v
    by (cases e) (auto simp: dec_wire_envelope_def dec_defs zero_envelope_def split: option.splits)
  moreover have "json_ok v"
    using sc wire_request_json_roundtrip wire_score_json_roundtrip unfolding v by (auto split: option.splits)
  ultimately show ?thesis by simp
qed

lemma all_some_map:
  assumes "all_some (map f xs) = Some vs" "\<And>x v. f x = Some v \<Longrightarrow> ok v \<and> d v zero = (x, True)"
  shows "list_all ok vs \<and> map (\<lambda>v. d v zero) vs = map (\<lambda>x. (x, True)) xs"
  using assms(1)
proof (induction xs arbitrary: vs)
  case (Cons x xs)
  then show ?case using assms(2) by (auto simp: bind_eq_Some_conv)
qed simp

lemma wire_batch_json_roundtrip:
  assumes "wire_batch_json cd b = Some v"
  shows "json_ok v \<and> dec_wire_batch cd v zero_batch = (b, True)"
proof -
  obtain t es where t: "cd_time cd (wb_SentAt b) = Some t"
    and es: "all_some (map (wire_envelope_json cd) (wb_Events b)) = Some es"
    and v: "v = JObj [(''schema'', JStr (wb_Schema b)), (''agent'', JStr (wb_Agent b)), (''batch_id'', JStr (wb_BatchID b)),
       (''sent_at'', JStr t), (''events'', JArr es)]"
    using assms by (auto simp: wire_batch_json_def bind_eq_Some_conv)
  note r = all_some_map [OF es, of json_ok "dec_wire_envelope cd" zero_envelope, OF wire_envelope_json_roundtrip]
  have "dec_slice zero_envelope (dec_wire_envelope cd) (JArr es) x = (wb_Events b, True)" for x
    using r by (simp add: dec_slice_def Let_def comp_def list_all_iff)
  then have "dec_wire_batch cd v zero_batch = (b, True)"
    using dec_time_text [OF t] unfolding v by (cases b) (simp add: dec_wire_batch_def dec_defs zero_batch_def)
  moreover have "json_ok v" using r unfolding v by (simp add: list_all_iff)
  ultimately show ?thesis by simp
qed

lemma batch_bytes_read:
  assumes "batch_bytes cd events opts batchID sentAt idGen s = (Inr bytes, s')"
  shows "json_Unmarshal (dec_wire_batch cd) zero_batch bytes = Inr (fst (buildBatch events opts batchID sentAt idGen s))"
proof -
  obtain wb s1 where b: "buildBatch events opts batchID sentAt idGen s = (wb, s1)" by fastforce
  with assms obtain v where v: "wire_batch_json cd wb = Some v" "bytes = json_text v"
    by (auto simp: batch_bytes_def json_Marshal_def split: option.splits)
  then show ?thesis using wire_batch_json_roundtrip [OF v(1)] json_roundtrip [of v] b
    by (simp add: decoded_def)
qed

end

text \<open>Marshalling succeeds when the times and numbers of the events have a text and their integers fit.\<close>

definition printable :: "json_codec \<Rightarrow> cloud_event \<Rightarrow> bool" where
  "printable cd ev \<longleftrightarrow> cd_time cd (cev_CapturedAt ev) \<noteq> None \<and>
     (case cev_Score ev of
        None \<Rightarrow> True
      | Some s \<Rightarrow> cd_float cd (cse_OldValue s) \<noteq> None \<and> cd_float cd (cse_NewValue s) \<noteq> None \<and>
          cd_float cd (cse_Score s) \<noteq> None \<and> int64 (cse_Rank s) \<and> int64 (cse_TotalProviders s))"

lemma wire_score_marshal:
  assumes "printable cd ev" "cev_Score ev = Some sc"
  shows "wire_score_json cd (wire_of_score sc) \<noteq> None"
  using assms by (auto simp: printable_def wire_score_json_def wire_of_score_def omit_float_def)

lemma wire_envelope_marshal:
  assumes "printable cd ev" "we_T e = cev_CapturedAt ev"
    and "\<And>w. we_Score e = Some w \<Longrightarrow> wire_score_json cd w \<noteq> None"
  shows "\<exists>v. wire_envelope_json cd e = Some v"
  using assms by (cases "we_Score e") (auto simp: printable_def wire_envelope_json_def)

lemma wire_events_marshal:
  assumes "\<forall>ev \<in> set events. printable cd ev"
  shows "all_some (map (wire_envelope_json cd) (fst (wire_events opts idGen events s))) \<noteq> None"
  using assms
proof (induction events arbitrary: s)
  case (Cons ev events)
  then have ih: "\<exists>vs. all_some (map (wire_envelope_json cd) (fst (wire_events opts idGen events s'))) = Some vs" for s'
    by simp
  have step: "all_some (map (wire_envelope_json cd) (e # fst (wire_events opts idGen events s'))) \<noteq> None"
    if "we_T e = cev_CapturedAt ev" "\<And>w. we_Score e = Some w \<Longrightarrow> wire_score_json cd w \<noteq> None" for e s'
    using wire_envelope_marshal [of cd ev e] that ih [of s'] Cons.prems by auto
  show ?case
  proof (cases "cev_Request ev")
    case (Some r)
    then show ?thesis
      using step [of "\<lparr>we_ID = fst (idGen s), we_T = cev_CapturedAt ev, we_Kind = ''req'',
          we_Req = Some (wire_of_request opts r), we_Score = None\<rparr>" "snd (idGen s)"]
      by (simp add: case_prod_beta)
  next
    case None
    then show ?thesis
      using step [of "\<lparr>we_ID = fst (idGen s), we_T = cev_CapturedAt ev, we_Kind = ''score'', we_Req = None,
          we_Score = map_option wire_of_score (cev_Score ev)\<rparr>" "snd (idGen s)"] ih [of s] wire_score_marshal Cons.prems
      by (cases "cev_Score ev") (auto simp: case_prod_beta)
  qed
qed simp

lemma batch_bytes_marshal:
  assumes "\<forall>ev \<in> set events. printable cd ev" "cd_time cd sentAt \<noteq> None"
  shows "\<exists>bytes s'. batch_bytes cd events opts batchID sentAt idGen s = (Inr bytes, s')"
proof -
  obtain es s' where "wire_events opts idGen events s = (es, s')" by fastforce
  with wire_events_marshal [OF assms(1), of opts idGen s] assms(2) show ?thesis
    by (auto simp: batch_bytes_def buildBatch_def wire_batch_json_def json_Marshal_def)
qed

text \<open>
  C30: What the agent posts is what the cloud reads: the bytes of a batch parse, by the tags of the
  wire structures, to a batch with the same identifier and time, whose envelopes give back
  every event in order with times cut to milliseconds, under identifiers that ascend as strings while
  the clock does not go back and the entropy of a millisecond has room. Marshalling succeeds
  whenever the times and numbers of the events have a JSON form.
\<close>

theorem batch_delivered:
  assumes "faithful_codec cd" "\<forall>ev \<in> set events. printable cd ev \<and> wire_range ev" "cd_time cd sentAt \<noteq> None"
    and "length events = length calls" "sorted (map fst calls)"
    and "\<forall>call \<in> set calls. id_lastMS st \<le> fst call \<and> fst call < 2 ^ 48"
    and "\<forall>call \<in> set calls. entropy_room (length calls) (snd call)" "entropy_room (length calls) (id_lastEntropy st)"
  shows "\<exists>bytes s' wb. batch_bytes cd events opts batchID sentAt clocked (st, calls) = (Inr bytes, s') \<and>
     json_Unmarshal (dec_wire_batch cd) zero_batch bytes = Inr wb \<and> wb_BatchID wb = batchID \<and> wb_SentAt wb = sentAt \<and>
     map event_of_wire (wb_Events wb) = map event_in_ms events \<and> sorted_wrt (<) (map we_ID (wb_Events wb))"
proof -
  from assms(2) have e: "\<forall>ev \<in> set events. printable cd ev" "\<forall>ev \<in> set events. wire_range ev" by auto
  obtain bytes s' where b: "batch_bytes cd events opts batchID sentAt clocked (st, calls) = (Inr bytes, s')"
    using batch_bytes_marshal [OF e(1) assms(3), of opts batchID clocked "(st, calls)"] by blast
  let ?wb = "fst (buildBatch events opts batchID sentAt clocked (st, calls))"
  have "wb_BatchID ?wb = batchID \<and> wb_SentAt ?wb = sentAt" by (simp add: buildBatch_def split: prod.splits)
  with b faithful_codec.batch_bytes_read [OF assms(1) b] batch_roundtrip [OF e(2) assms(4-8)]
  show ?thesis by blast
qed

theorem batch_delivered_witness:
  "\<exists>bytes s' wb. batch_bytes whole_codec [demo_event 1, demo_event 2] demo_options ''b'' 3 clocked
      (\<lparr>id_lastMS = 5, id_lastEntropy = [0, 0, 0, 0, 0, 0, 0, 0, 0, 255]\<rparr>,
       [(5, [7, 7, 7, 7, 7, 7, 7, 7, 7, 7]), (7, [0, 0, 0, 0, 0, 0, 0, 0, 0, 1])]) = (Inr bytes, s') \<and>
     json_Unmarshal (dec_wire_batch whole_codec) zero_batch bytes = Inr wb \<and>
     map event_of_wire (wb_Events wb) = map event_in_ms [demo_event 1, demo_event 2]"
proof -
  let ?calls = "[(5, [7, 7, 7, 7, 7, 7, 7, 7, 7, 7]), (7, [0, 0, 0, 0, 0, 0, 0, 0, 0, 1])] :: (64 word \<times> 8 word list) list"
  let ?st = "\<lparr>id_lastMS = 5, id_lastEntropy = [0, 0, 0, 0, 0, 0, 0, 0, 0, 255]\<rparr>"
  have e: "\<forall>ev \<in> set [demo_event 1, demo_event 2]. printable whole_codec ev \<and> wire_range ev"
    by (simp add: demo_event_def wire_range_def zero_score_def printable_def whole_codec_def int64_def)
  have r: "\<forall>call \<in> set ?calls. entropy_room (length ?calls) (snd call)" "entropy_room (length ?calls) (id_lastEntropy ?st)"
    "\<forall>call \<in> set ?calls. id_lastMS ?st \<le> fst call \<and> fst call < 2 ^ 48" "sorted (map fst ?calls)"
    "length [demo_event 1, demo_event 2] = length ?calls" "cd_time whole_codec 3 \<noteq> None"
    by (simp_all add: entropy_room_def whole_codec_def)
  from batch_delivered [OF whole.faithful_codec_axioms e r(6,5,4,3,1,2), of demo_options "''b''"] show ?thesis by blast
qed

end
