(* ===== verification/Engine_Queries.thy ===== *)
theory Engine_Queries
  imports Engine_Laws
begin

text \<open>
  The ranking of the providers, the query of the penalty history and the round trip of the
  scores through a store that keeps the contract \<open>score_store\<close>.
\<close>

subsection \<open>The ranking\<close>

definition enumerates_scores :: "string list \<Rightarrow> engine \<Rightarrow> bool" where
  "enumerates_scores order e \<longleftrightarrow> distinct order \<and> set order = dom (en_scores e)"

lemma map_filter_dom:
  "set order \<subseteq> dom f \<Longrightarrow> List.map_filter (\<lambda>n. map_option (g n) (f n)) order =
     map (\<lambda>n. g n (the (f n))) order"
  by (induction order) (auto simp: List.map_filter_simps)

lemma ranked_pairs:
  assumes "enumerates_scores order e"
  shows "List.map_filter (\<lambda>n. map_option (\<lambda>s. (n, EffectiveScore s)) (en_scores e n)) order =
    map (\<lambda>n. (n, GetEffectiveScore n e)) order"
proof -
  have "List.map_filter (\<lambda>n. map_option (\<lambda>s. (n, EffectiveScore s)) (en_scores e n)) order =
      map (\<lambda>n. (n, EffectiveScore (the (en_scores e n)))) order"
    by (rule map_filter_dom) (use assms in \<open>simp add: enumerates_scores_def\<close>)
  also have "\<dots> = map (\<lambda>n. (n, GetEffectiveScore n e)) order"
    using assms by (auto simp: enumerates_scores_def GetEffectiveScore_def split: option.splits)
  finally show ?thesis .
qed

lemma record_ranks_metrics:
  "en_metrics (record_ranks i t ns e) =
     en_metrics e @ map (\<lambda>k. MRecordProviderRank (ns ! k) (int (i + k) + 1) (int t)) [0..<length ns]"
proof (induction ns arbitrary: i e)
  case (Cons n ns)
  have "map (\<lambda>k. MRecordProviderRank ((n # ns) ! k) (int (i + k) + 1) (int t)) [0..<length (n # ns)] =
      MRecordProviderRank n (int i + 1) (int t) #
      map (\<lambda>k. MRecordProviderRank (ns ! k) (int (i + 1 + k) + 1) (int t)) [0..<length ns]"
    by (simp add: upt_conv_Cons map_Suc_upt [symmetric] del: upt_Suc)
  then show ?case using Cons by (simp add: record_metric_def)
qed simp

text \<open>
  C11: The ranking. \<open>GetSortedProviders\<close> returns every registered provider exactly once, ordered
  by falling effective score, whatever order the map is ranged over, and reports to the
  recorder the rank of each one and the number of providers; it changes no score.
\<close>

theorem GetSortedProviders_ranking:
  assumes "enumerates_scores order e"
  shows "let (e', names) = GetSortedProviders order e in
    distinct names \<and> set names = dom (en_scores e) \<and>
    sorted_wrt (\<lambda>a b. GetEffectiveScore a e \<ge> GetEffectiveScore b e) names \<and>
    en_scores e' = en_scores e \<and>
    en_metrics e' = en_metrics e @
      map (\<lambda>k. MRecordProviderRank (names ! k) (int k + 1) (int (length names))) [0..<length names]"
proof -
  let ?ps = "map (\<lambda>n. (n, GetEffectiveScore n e)) order"
  let ?srt = "exchange_sort (\<lambda>a b. snd a < snd b) ?ps"
  let ?names = "map fst ?srt"
  have m: "mset ?names = mset order"
    by (simp add: multiset.map_comp comp_def)
  have key: "snd x = GetEffectiveScore (fst x) e" if "x \<in> set ?srt" for x
    using that by auto
  have rel: "GetEffectiveScore (fst b) e \<le> GetEffectiveScore (fst a) e"
    if "a \<in> set ?srt" "b \<in> set ?srt" "\<not> snd a < snd b" for a b
    using that(3) unfolding key [OF that(1)] key [OF that(2)] by (rule leI)
  have "sorted_wrt (\<lambda>a b. \<not> snd a < snd b) ?srt"
    by (rule key_desc.exchange_sort_sorted [of snd])
  then have "sorted_wrt (\<lambda>a b. GetEffectiveScore (fst b) e \<le> GetEffectiveScore (fst a) e) ?srt"
    using rel by (rule sorted_wrt_mono_rel [rotated])
  then have "sorted_wrt (\<lambda>a b. GetEffectiveScore a e \<ge> GetEffectiveScore b e) ?names"
    by (simp add: sorted_wrt_map)
  moreover have "distinct ?names" "set ?names = dom (en_scores e)"
    using mset_eq_imp_distinct_iff [OF m] mset_eq_setD [OF m] assms
    by (simp_all add: enumerates_scores_def)
  ultimately show ?thesis
    by (simp add: GetSortedProviders_def ranked_pairs [OF assms] Let_def record_ranks_metrics)
qed

theorem GetSortedProviders_ranking_witness:
  "let e = RegisterProvider ''a'' 3 0 (RegisterProvider ''b'' 1 0
             (snd (NewEngine (memory_ops sorted_keys) NewMemoryStore [])));
       (e', names) = GetSortedProviders [''a'', ''b''] e
   in distinct names \<and> set names = {''a'', ''b''}"
proof -
  let ?e = "RegisterProvider ''a'' 3 0 (RegisterProvider ''b'' 1 0
             (snd (NewEngine (memory_ops sorted_keys) NewMemoryStore [])))"
  have d: "dom (en_scores ?e) = {''a'', ''b''}"
    by (simp add: RegisterProvider_def NewEngine_def Validate_def apply_options_def Let_def
        DefaultScoringConfig_def)
  then have "enumerates_scores [''a'', ''b''] ?e" by (simp add: enumerates_scores_def)
  from GetSortedProviders_ranking [OF this] d show ?thesis by (simp add: Let_def split_beta)
qed

subsection \<open>The penalty history\<close>

lemma computeDecayFactor_bounds:
  "0 \<le> computeDecayFactor now ts r d \<and> computeDecayFactor now ts r d \<le> 1"
  by (simp add: computeDecayFactor_def Let_def)

definition matches_query :: "gotime \<Rightarrow> penalty_category \<Rightarrow> penalty_record \<Rightarrow> bool" where
  "matches_query since cat r \<longleftrightarrow>
     (since = 0 \<or> since \<le> pr_Timestamp r) \<and> (cat = '''' \<or> pr_Category r = cat)"

abbreviation strip_factor :: "penalty_record \<Rightarrow> penalty_record" where
  "strip_factor r \<equiv> r\<lparr>pr_DecayFactor := 0\<rparr>"

lemma collect_history_take:
  assumes "length out \<le> n"
  shows "map strip_factor (collect_history clk c n since cat out rs) =
    map strip_factor (out @ take (n - length out) (filter (matches_query since cat) rs))"
  using assms
  by (induction clk c n since cat out rs rule: collect_history.induct)
     (auto simp: matches_query_def Suc_diff_Suc not_less take_Cons' split: if_splits)

lemma collect_history_factor:
  "\<forall>r \<in> set out. 0 \<le> pr_DecayFactor r \<and> pr_DecayFactor r \<le> 1 \<Longrightarrow>
   r \<in> set (collect_history clk c n since cat out rs) \<Longrightarrow> 0 \<le> pr_DecayFactor r \<and> pr_DecayFactor r \<le> 1"
  by (induction clk c n since cat out rs rule: collect_history.induct)
     (auto simp: computeDecayFactor_bounds split: if_splits)

text \<open>The records of a result carry the decay factor of their age at the clock reading of each.\<close>

definition aged :: "(nat \<Rightarrow> gotime) \<Rightarrow> scoring_config \<Rightarrow> penalty_record list \<Rightarrow> bool" where
  "aged clk c out \<longleftrightarrow> (\<forall>i < length out. pr_DecayFactor (out ! i) =
     computeDecayFactor (clk i) (pr_Timestamp (out ! i)) (sc_DecayRate c) (sc_DecayInterval c))"

lemma aged_Nil: "aged clk c []"
  by (simp add: aged_def)

lemma aged_snoc:
  "aged clk c out \<Longrightarrow> aged clk c (out @ [r\<lparr>pr_DecayFactor :=
     computeDecayFactor (clk (length out)) (pr_Timestamp r) (sc_DecayRate c) (sc_DecayInterval c)\<rparr>])"
  by (auto simp: aged_def nth_append less_Suc_eq)

lemma collect_history_aged: "aged clk c out \<Longrightarrow> aged clk c (collect_history clk c n since cat out rs)"
proof (induction rs arbitrary: out)
  case (Cons r rs)
  show ?case using Cons.IH [OF Cons.prems] Cons.IH [OF aged_snoc [OF Cons.prems]] Cons.prems by auto
qed simp

text \<open>
  C12: The history query. For a registered provider it returns, newest first, the newest records
  of its ring buffer that are not older than \<open>since\<close> and of the requested category, at most
  the requested number (50 when none is asked for, never more than 200), each with the decay
  factor of its age, which lies between 0 and 1; for an unknown provider it returns nothing.
\<close>

theorem GetPenaltyHistory_newest:
  "case GetPenaltyHistory clk name n since cat e of
     None \<Rightarrow> en_scores e name = None
   | Some out \<Rightarrow>
       (\<exists>ps. en_scores e name = Some ps \<and>
          map strip_factor out =
            map strip_factor
              (take (nat (if n \<le> 0 then 50 else min n 200))
                 (filter (matches_query since cat) (rev (history_snapshot (ps_history ps)))))) \<and>
       length out \<le> 200 \<and>
       aged clk (en_config e) out \<and>
       (\<forall>r \<in> set out. 0 \<le> pr_DecayFactor r \<and> pr_DecayFactor r \<le> 1)"
proof (cases "en_scores e name")
  case None
  then show ?thesis by (simp add: GetPenaltyHistory_def Let_def)
next
  case (Some ps)
  let ?n = "nat (if n \<le> 0 then 50 else min n 200)"
  let ?out = "collect_history clk (en_config e) ?n since cat [] (rev (history_snapshot (ps_history ps)))"
  have q: "GetPenaltyHistory clk name n since cat e = Some ?out"
    using Some by (auto simp: GetPenaltyHistory_def Let_def min_def)
  have t: "map strip_factor ?out = map strip_factor
      (take ?n (filter (matches_query since cat) (rev (history_snapshot (ps_history ps)))))"
    by (subst collect_history_take) simp_all
  then have "length ?out \<le> ?n"
    by (metis length_map length_take min.cobounded2)
  then have "length ?out \<le> 200" by (auto split: if_splits)
  then show ?thesis
    using q t Some collect_history_factor [of "[]"] collect_history_aged [OF aged_Nil] by auto
qed

text \<open>An engine whose provider was penalised at the times 10, 20 and 30.\<close>

definition demo_penalised :: engine where
  "demo_penalised =
     set_score ''a''
       (AddErrorPenalty 10 90 ''refused'' Map.empty 30
          (AddRateLimitPenalty 15 90 ''limited'' Map.empty 20
             (AddErrorPenalty 10 90 ''timeout'' Map.empty 10 (NewProviderScore ''a'' 1 100 50 7))))
       (snd (NewEngine (memory_ops sorted_keys) NewMemoryStore []))"

theorem GetPenaltyHistory_newest_witness:
  "map_option (map pr_Reason) (GetPenaltyHistory (\<lambda>_. 40) ''a'' 1 5 ''error'' demo_penalised) =
     Some [''refused''] \<and>
   map_option (map pr_Reason) (GetPenaltyHistory (\<lambda>_. 40) ''a'' 0 5 ''error'' demo_penalised) =
     Some [''refused'', ''timeout''] \<and>
   map_option (map pr_Reason) (GetPenaltyHistory (\<lambda>_. 40) ''a'' 7 15 '''' demo_penalised) =
     Some [''refused'', ''limited'']"
proof -
  define ps where "ps = AddErrorPenalty 10 90 ''refused'' Map.empty 30
      (AddRateLimitPenalty 15 90 ''limited'' Map.empty 20
         (AddErrorPenalty 10 90 ''timeout'' Map.empty 10 (NewProviderScore ''a'' 1 100 50 7)))"
  define r where "r cat reason t amount = \<lparr>pr_Timestamp = t, pr_Category = cat, pr_Reason = reason,
      pr_Amount = amount, pr_Metadata = Map.empty, pr_DecayFactor = 0\<rparr>"
    for cat reason :: string and t :: gotime and amount :: real
  have ps: "en_scores demo_penalised ''a'' = Some ps" by (simp add: demo_penalised_def ps_def)
  have h: "history_snapshot (ps_history ps) = [r ''error'' ''timeout'' 10 10,
      r ''rate_limit'' ''limited'' 20 15, r ''error'' ''refused'' 30 10]"
    by (simp add: ps_def r_def score_defs NewProviderScore_def Let_def history_snapshot_add ring.ok_add
          history_ok_new ring.capacity_add history_capacity_new lastn_def)
  have m: "map pr_Reason out = map pr_Reason ys" if "map strip_factor out = map strip_factor ys" for out ys
    using arg_cong [OF that, of "map pr_Reason"] by (simp add: comp_def)
  have q: "map_option (map pr_Reason) (GetPenaltyHistory (\<lambda>_. 40) ''a'' n since cat demo_penalised) =
      Some (map pr_Reason (take (nat (if n \<le> 0 then 50 else min n 200)) (filter (matches_query since cat)
        [r ''error'' ''refused'' 30 10, r ''rate_limit'' ''limited'' 20 15, r ''error'' ''timeout'' 10 10])))"
    for n since cat
  proof (cases "GetPenaltyHistory (\<lambda>_. 40) ''a'' n since cat demo_penalised")
    case None
    then show ?thesis
      using GetPenaltyHistory_newest [where clk = "\<lambda>_. 40" and name = "''a''" and n = n and since = since
        and cat = cat and e = demo_penalised] ps by simp
  next
    case (Some out)
    then have "map strip_factor out = map strip_factor (take (nat (if n \<le> 0 then 50 else min n 200))
        (filter (matches_query since cat) (rev (history_snapshot (ps_history ps)))))"
      using GetPenaltyHistory_newest [where clk = "\<lambda>_. 40" and name = "''a''" and n = n and since = since
        and cat = cat and e = demo_penalised] ps by simp
    from m [OF this] show ?thesis unfolding Some h by simp
  qed
  show ?thesis unfolding q by (simp add: matches_query_def r_def)
qed

lemma computeDecayFactor_powr:
  assumes "0 < r" "r \<le> 1" "0 < d"
  shows "computeDecayFactor now ts r d =
    (if now \<le> ts then 1 else (1 - r) powr (real_of_int (now - ts) / real_of_int d))"
proof -
  have scale: "(real_of_int x / real_of_int second) / (real_of_int d / real_of_int second) =
      real_of_int x / real_of_int d" for x
    by (simp add: field_simps)
  have one: "(1 - r) powr y \<le> 1" if "0 < y" for y
    using powr_mono' [of 0 y "1 - r"] assms that by (cases "r = 1") simp_all
  show ?thesis
  proof (cases "now \<le> ts")
    case True
    then show ?thesis using assms by (simp add: computeDecayFactor_def Let_def)
  next
    case False
    then have "(1 - r) powr (real_of_int (now - ts) / real_of_int d) \<le> 1"
      using one assms by simp
    then show ?thesis
      using False assms unfolding computeDecayFactor_def Let_def scale
      by (simp add: not_less [symmetric])
  qed
qed

text \<open>
  the decay factor of a record is the one that the decay of the scores applies: after \<open>k\<close>
  whole intervals it is the \<open>k\<close>-th power of one minus the rate, and it never grows with the
  age of the record.
\<close>

lemma computeDecayFactor_power:
  assumes "0 < r" "r < 1" "0 < d"
  shows "computeDecayFactor (ts + int k * d) ts r d = (1 - r) ^ k \<and>
    (now \<le> now' \<longrightarrow> computeDecayFactor now' ts r d \<le> computeDecayFactor now ts r d)"
proof
  note eq = computeDecayFactor_powr [OF assms(1) less_imp_le [OF assms(2)] assms(3)]
  show "computeDecayFactor (ts + int k * d) ts r d = (1 - r) ^ k"
  proof (cases "k = 0")
    case True
    then show ?thesis by (simp add: eq)
  next
    case False
    then have "0 < int k * d" using assms(3) by simp
    moreover have "(1 - r) powr real k = (1 - r) ^ k" using assms(2) by (simp add: powr_realpow)
    ultimately show ?thesis using assms(3) by (simp add: eq)
  qed
  have "computeDecayFactor now' ts r d \<le> computeDecayFactor now ts r d" if le: "now \<le> now'"
  proof (cases "now \<le> ts")
    case True
    then show ?thesis using computeDecayFactor_bounds by (simp add: eq [of now])
  next
    case False
    have "real_of_int (now - ts) / real_of_int d \<le> real_of_int (now' - ts) / real_of_int d"
      using le assms(3) by (simp add: divide_right_mono)
    then have "(1 - r) powr (real_of_int (now' - ts) / real_of_int d) \<le>
        (1 - r) powr (real_of_int (now - ts) / real_of_int d)"
      by (rule powr_mono') (use assms in auto)
    then show ?thesis using False le by (simp add: eq)
  qed
  then show "now \<le> now' \<longrightarrow> computeDecayFactor now' ts r d \<le> computeDecayFactor now ts r d" by blast
qed

subsection \<open>Saving and loading\<close>

definition restored :: "scoring_config \<Rightarrow> provider_score \<Rightarrow> provider_score" where
  "restored c ps =
     ps\<lparr>ps_Priority := 0, ps_LatencyWindowSize := sc_LatencyWindowSize c,
        ps_history := newPenaltyHistory (sc_PenaltyHistorySize c)\<rparr>"

lemma fold_put_scores:
  assumes "scores_named scores" "distinct order" "set order = dom scores"
  shows "fold score_put (AllScoresToStoreData order scores) f n =
    (case scores n of None \<Rightarrow> f n | Some ps \<Rightarrow> Some (ToStoreData ps))"
proof -
  have *: "fold score_put (AllScoresToStoreData ks scores) g n =
      (if n \<in> set ks \<and> scores n \<noteq> None then map_option ToStoreData (scores n) else g n)"
    if "distinct ks" for ks g
    using that
  proof (induction ks arbitrary: g)
    case Nil
    then show ?case by (simp add: AllScoresToStoreData_def)
  next
    case (Cons k ks)
    show ?case
    proof (cases "scores k")
      case None
      then show ?thesis using Cons by (auto simp: AllScoresToStoreData_def)
    next
      case (Some ps)
      then have "pd_Name (ToStoreData ps) = k" "k \<noteq> ''''"
        using assms(1) by (auto simp: scores_named_def ToStoreData_def)
      then show ?thesis using Some Cons by (auto simp: AllScoresToStoreData_def)
    qed
  qed
  show ?thesis using * [OF assms(2)] assms(3) by (auto split: option.splits)
qed

context score_store
begin

lemma saved_view:
  assumes "inv s" "en_store e \<noteq> None" "SaveToStore ops order now (s, e) = Returns (s', None)"
    and "scores_named (en_scores e)" "enumerates_scores order e"
  shows "inv s' \<and>
    view s' n = (case en_scores e n of None \<Rightarrow> view s n | Some ps \<Rightarrow> Some (ToStoreData ps)) \<and>
    lat s' = Some (LatencyTrackerToStoreData now (en_latencyTracker e))"
proof -
  obtain s1 where s1: "so_SetScores ops (AllScoresToStoreData order (en_scores e)) s = Returns (s1, None)"
    using assms(2,3) by (auto simp: SaveToStore_def split: outcome.splits prod.splits option.splits)
  let ?l = "Some (LatencyTrackerToStoreData now (en_latencyTracker e))"
  have i1: "inv s1" by (rule sets_inv [OF assms(1) s1])
  have s2: "fst (so_SetLatencyStats ops ?l s1) = s'" "snd (so_SetLatencyStats ops ?l s1) = None"
    using assms(2,3) s1 by (auto simp: SaveToStore_def split: prod.splits option.splits)
  show ?thesis
    using set_lat_inv [OF i1, of ?l] set_lat_keeps [OF i1, of ?l] set_lat_ok [OF i1] s2
      sets_ok [OF assms(1) s1] fold_put_scores [OF assms(4), of order "view s" n] assms(5)
    by (auto simp: enumerates_scores_def)
qed

lemma loaded_scores:
  assumes "inv s" "en_store e \<noteq> None" "loadFromStoreUnsafe ops (s, e) = ((s', e'), None)"
  shows "en_scores e' n =
    (case view s n of
       None \<Rightarrow> en_scores e n
     | Some d \<Rightarrow> Some (FromStoreData d (sc_LatencyWindowSize (en_config e))
                        (sc_PenaltyHistorySize (en_config e))))"
proof -
  let ?c = "en_config e"
  obtain ds where ds: "snd (so_GetAllScores ops s) = Inr ds"
      and e': "en_scores e' = fold (add_from_store (sc_LatencyWindowSize ?c)
                 (sc_PenaltyHistorySize ?c)) ds (en_scores e)"
    using assms(2,3)
    by (auto simp: loadFromStoreUnsafe_def Let_def split: prod.splits sum.splits option.splits)
  have names: "\<forall>d. Some d \<in> set ds \<longrightarrow> view s (pd_Name d) = Some d"
    using all_names [OF assms(1) ds] by blast
  have ex: "(\<exists>d. Some d \<in> set ds \<and> pd_Name d = n) \<longleftrightarrow> view s n \<noteq> None"
    using all_result [OF assms(1) ds] view_name [OF assms(1)] names
    by (auto simp: ran_def image_iff)
  have "n \<noteq> ''''" if "view s n \<noteq> None" using that view_name [OF assms(1)] by auto
  then show ?thesis
    unfolding e' fold_add_from_store [OF names] using ex by (auto split: option.splits)
qed

end

text \<open>
  C13: Saving and loading. With a store that keeps the contract, once \<open>SaveToStore\<close> has
  succeeded an engine that loads from that store has every provider of the saved engine, with
  the same effective score, penalties, counters and latency samples; the static priority reads
  0 and the penalty history is empty.
\<close>

theorem save_load_roundtrip:
  assumes "score_store ops ok view lat" "ok s"
    and "en_store e \<noteq> None" "en_store e2 \<noteq> None"
    and "scores_named (en_scores e)" "enumerates_scores order e"
    and "SaveToStore ops order now (s, e) = Returns (s', None)"
    and "loadFromStoreUnsafe ops (s', e2) = ((s'', e3), None)"
    and "en_scores e n = Some ps"
  shows "en_scores e3 n = Some (restored (en_config e2) ps) \<and>
    GetEffectiveScore n e3 = GetEffectiveScore n e"
proof -
  have v: "ok s'" "view s' n = Some (ToStoreData ps)"
    using score_store.saved_view [OF assms(1,2,3,7,5,6), of n] assms(9) by auto
  have "en_scores e3 n = Some (restored (en_config e2) ps)"
    using score_store.loaded_scores [OF assms(1) v(1) assms(4,8), of n] v(2)
    by (simp add: From_To restored_def)
  then show ?thesis
    using assms(9) by (simp add: GetEffectiveScore_def restored_def EffectiveScore_def)
qed

lemma mem_save_ok:
  "en_store e \<noteq> None \<Longrightarrow> \<exists>s'. SaveToStore (memory_ops o1) order now (s, e) = Returns (s', None)"
  by (auto simp: SaveToStore_def memory_ops_def mem_defs)

lemma mem_load_ok:
  "en_store e \<noteq> None \<Longrightarrow> \<exists>s' e'. loadFromStoreUnsafe (memory_ops o1) (s, e) = ((s', e'), None)"
  by (cases "mem_latency s") (auto simp: loadFromStoreUnsafe_def memory_ops_def mem_defs Let_def)

theorem save_load_roundtrip_witness:
  "let ops = memory_ops sorted_keys;
       c = WithStore (Some (MemoryRef 0));
       e = RegisterProvider ''a'' 1 7 (snd (NewEngine ops NewMemoryStore [c]));
       s' = (case SaveToStore ops [''a''] 9 (NewMemoryStore, e) of Returns (s', _) \<Rightarrow> s' | Panics \<Rightarrow> NewMemoryStore);
       e2 = snd (NewEngine ops NewMemoryStore [c]);
       e3 = snd (fst (loadFromStoreUnsafe ops (s', e2)))
   in GetEffectiveScore ''a'' e3 = GetEffectiveScore ''a'' e \<and> GetEffectiveScore ''a'' e3 = 100"
proof -
  let ?ops = "memory_ops sorted_keys"
  let ?new = "snd (NewEngine ?ops NewMemoryStore [WithStore (Some (MemoryRef 0))])"
  let ?e = "RegisterProvider ''a'' 1 7 ?new"
  have new: "en_store ?new \<noteq> None" "en_scores ?new = Map.empty" "en_latencyTracker ?new = NewLatencyTracker 100"
    "en_config ?new = WithStore (Some (MemoryRef 0)) DefaultScoringConfig"
    by (simp_all add: NewEngine_def Validate_def apply_options_def DefaultScoringConfig_def Let_def
        WithStore_def LoadFromStore_def loadFromStoreUnsafe_def memory_ops_def mem_defs
        NewMemoryStore_def sorted_keys_def)
  let ?ps = "NewProviderScore ''a'' 1 100 50 7"
  have reg: "en_scores ?e = [''a'' \<mapsto> ?ps]" "en_store ?e \<noteq> None" "en_config ?e = en_config ?new"
    using new by (simp_all add: RegisterProvider_def set_score_def WithStore_def DefaultScoringConfig_def)
  have nm: "scores_named (en_scores ?e)" "enumerates_scores [''a''] ?e"
    by (simp_all add: reg scores_named_def enumerates_scores_def NewProviderScore_def Let_def)
  obtain s' where s': "SaveToStore ?ops [''a''] 9 (NewMemoryStore, ?e) = Returns (s', None)"
    using mem_save_ok [OF reg(2)] by blast
  obtain s'' e3 where l: "loadFromStoreUnsafe ?ops (s', ?new) = ((s'', e3), None)"
    using mem_load_ok [OF new(1)] by blast
  have "GetEffectiveScore ''a'' e3 = GetEffectiveScore ''a'' ?e"
    using save_load_roundtrip [OF sorted_memory.mem.score_store_axioms mem_ops_ok(1) reg(2) new(1) nm
        s' l, of "''a''" ?ps] reg(1) by simp
  moreover have "GetEffectiveScore ''a'' ?e = 100"
    by (simp add: GetEffectiveScore_def reg(1) EffectiveScore_def NewProviderScore_def Let_def)
  ultimately show ?thesis using s' l by (simp add: Let_def)
qed

end
