(* ===== verification/Hybrid_Store.thy ===== *)
theory Hybrid_Store
  imports Score_Store Store_Registry
begin

text \<open>
  \<open>scoring/store/hybrid.go\<close>: a primary store with a cache in front of it. Both are stores of
  the interface, so their operations are arguments. A cache write that the code starts in a
  goroutine is queued in \<open>hy_pending\<close>; \<open>hy_async_step\<close> runs the oldest one. The recorder, when
  there is one, receives the cache hits and misses. An operation that reads the clock for
  freshness and again to mark an entry takes both readings.
\<close>

datatype cache_job =
    JobSet "provider_score_data option"
  | JobSetAll "provider_score_data option list"

record ('p, 'c) hybrid_store =
  hy_primary :: 'p
  hy_cache :: 'c
  hy_cacheTime :: "string \<rightharpoonup> gotime"
  hy_pending :: "cache_job list"
  hy_recorder :: bool
  hy_hits :: "bool list"

definition empty_hybrid :: "'p \<Rightarrow> 'c \<Rightarrow> ('p, 'c) hybrid_store" where
  "empty_hybrid p c =
     \<lparr>hy_primary = p, hy_cache = c, hy_cacheTime = Map.empty, hy_pending = [],
      hy_recorder = False, hy_hits = []\<rparr>"

text \<open>The store with the configuration that it keeps; a nil store is \<open>None\<close>.\<close>

definition NewHybridStore ::
  "'p option \<Rightarrow> 'c option \<Rightarrow> hybrid_flags \<Rightarrow> goerror + hybrid_flags \<times> ('p, 'c) hybrid_store" where
  "NewHybridStore primary cache config =
     (case primary of
        None \<Rightarrow> Inl (Errorf ''primary store is required'')
      | Some p \<Rightarrow>
          (case cache of
             None \<Rightarrow> Inl (Errorf ''cache store is required'')
           | Some c \<Rightarrow>
               Inr (if hf_CacheTTL config = 0 then config\<lparr>hf_CacheTTL := 5 * minute\<rparr> else config,
                    empty_hybrid p c)))"

definition isCacheFresh :: "hybrid_flags \<Rightarrow> gotime \<Rightarrow> string \<Rightarrow> ('p, 'c) hybrid_store \<Rightarrow> bool" where
  "isCacheFresh fl now name h =
     (case hy_cacheTime h name of
        Some t \<Rightarrow> now - t < hf_CacheTTL fl
      | None \<Rightarrow> False)"

definition markCacheFresh :: "gotime \<Rightarrow> string \<Rightarrow> ('p, 'c) hybrid_store \<Rightarrow> ('p, 'c) hybrid_store" where
  "markCacheFresh now name h = h\<lparr>hy_cacheTime := (hy_cacheTime h)(name \<mapsto> now)\<rparr>"

definition invalidateCache :: "string \<Rightarrow> ('p, 'c) hybrid_store \<Rightarrow> ('p, 'c) hybrid_store" where
  "invalidateCache name h = h\<lparr>hy_cacheTime := (hy_cacheTime h)(name := None)\<rparr>"

definition SetRecorder :: "('p, 'c) hybrid_store \<Rightarrow> ('p, 'c) hybrid_store" where
  "SetRecorder h = h\<lparr>hy_recorder := True\<rparr>"

definition recordCacheHit :: "bool \<Rightarrow> ('p, 'c) hybrid_store \<Rightarrow> ('p, 'c) hybrid_store" where
  "recordCacheHit hit h = (if hy_recorder h then h\<lparr>hy_hits := hy_hits h @ [hit]\<rparr> else h)"

text \<open>A write to the cache whose error is ignored, at once or in a goroutine.\<close>

definition cache_set :: "'c score_store_ops \<Rightarrow> hybrid_flags \<Rightarrow> provider_score_data option \<Rightarrow>
    ('p, 'c) hybrid_store \<Rightarrow> ('p, 'c) hybrid_store" where
  "cache_set cops fl d h =
     (if hf_AsyncWrite fl then h\<lparr>hy_pending := hy_pending h @ [JobSet d]\<rparr>
      else h\<lparr>hy_cache := fst (so_SetScore cops d (hy_cache h))\<rparr>)"

definition hy_GetScore ::
  "'p score_store_ops \<Rightarrow> 'c score_store_ops \<Rightarrow> hybrid_flags \<Rightarrow> gotime \<Rightarrow> gotime \<Rightarrow> string \<Rightarrow>
   ('p, 'c) hybrid_store \<Rightarrow> ('p, 'c) hybrid_store \<times> (goerror + provider_score_data option)" where
  "hy_GetScore pops cops fl now now' name h =
     (let fresh = isCacheFresh fl now name h;
          (c', cr) = so_GetScore cops name (hy_cache h);
          h1 = (if fresh then h\<lparr>hy_cache := c'\<rparr> else h)
      in case (fresh, cr) of
           (True, Inr (Some d)) \<Rightarrow> (recordCacheHit True h1, Inr (Some d))
         | _ \<Rightarrow>
             let h2 = recordCacheHit False h1;
                 (p', pr) = so_GetScore pops name (hy_primary h2);
                 h3 = h2\<lparr>hy_primary := p'\<rparr>
             in case pr of
                  Inl e \<Rightarrow> (h3, Inl (wrap_error ''primary store get failed: '' e))
                | Inr None \<Rightarrow> (h3, Inr None)
                | Inr (Some d) \<Rightarrow>
                    (markCacheFresh now' name (cache_set cops fl (Some d) h3), Inr (Some d)))"

definition hy_SetScore ::
  "'p score_store_ops \<Rightarrow> 'c score_store_ops \<Rightarrow> hybrid_flags \<Rightarrow> gotime \<Rightarrow>
   provider_score_data option \<Rightarrow> ('p, 'c) hybrid_store \<Rightarrow> ('p, 'c) hybrid_store \<times> goerror option" where
  "hy_SetScore pops cops fl now data h =
     (case data of
        None \<Rightarrow> (h, Some (Errorf ''data cannot be nil''))
      | Some d \<Rightarrow>
          (case so_SetScore pops (Some d) (hy_primary h) of
             (p', Some e) \<Rightarrow>
               (h\<lparr>hy_primary := p'\<rparr>, Some (wrap_error ''primary store set failed: '' e))
           | (p', None) \<Rightarrow>
               let h1 = h\<lparr>hy_primary := p'\<rparr>
               in if hf_InvalidateOnWrite fl then
                    (let h2 = invalidateCache (pd_Name d) h1
                     in (h2\<lparr>hy_cache := fst (so_DeleteScore cops (pd_Name d) (hy_cache h2))\<rparr>, None))
                  else if hf_WriteThrough fl then
                    (markCacheFresh now (pd_Name d) (cache_set cops fl (Some d) h1), None)
                  else (invalidateCache (pd_Name d) h1, None)))"

text \<open>The loops over the batch read \<open>d.Name\<close>, which panics on a nil entry.\<close>

definition drop_entry :: "'c score_store_ops \<Rightarrow> string \<Rightarrow> ('p, 'c) hybrid_store \<Rightarrow> ('p, 'c) hybrid_store" where
  "drop_entry cops n h =
     (let h1 = invalidateCache n h
      in h1\<lparr>hy_cache := fst (so_DeleteScore cops n (hy_cache h1))\<rparr>)"

definition hy_SetScores ::
  "'p score_store_ops \<Rightarrow> 'c score_store_ops \<Rightarrow> hybrid_flags \<Rightarrow> gotime \<Rightarrow>
   provider_score_data option list \<Rightarrow> ('p, 'c) hybrid_store \<Rightarrow>
   (('p, 'c) hybrid_store \<times> goerror option) outcome" where
  "hy_SetScores pops cops fl now data h =
     (if data = [] then Returns (h, None)
      else
        case so_SetScores pops data (hy_primary h) of
          Panics \<Rightarrow> Panics
        | Returns (p', Some e) \<Rightarrow>
            Returns (h\<lparr>hy_primary := p'\<rparr>, Some (wrap_error ''primary store batch set failed: '' e))
        | Returns (p', None) \<Rightarrow>
            let h1 = h\<lparr>hy_primary := p'\<rparr>;
                names = map (\<lambda>d. pd_Name (the d)) data
            in if hf_InvalidateOnWrite fl then
                 (if None \<in> set data then Panics else Returns (fold (drop_entry cops) names h1, None))
               else if hf_WriteThrough fl then
                 (let r = (if hf_AsyncWrite fl
                           then Returns (h1\<lparr>hy_pending := hy_pending h1 @ [JobSetAll data]\<rparr>)
                           else (case so_SetScores cops data (hy_cache h1) of
                                   Panics \<Rightarrow> Panics
                                 | Returns (c', e) \<Rightarrow> Returns (h1\<lparr>hy_cache := c'\<rparr>)))
                  in case r of
                       Panics \<Rightarrow> Panics
                     | Returns h2 \<Rightarrow>
                         if None \<in> set data then Panics
                         else Returns (fold (markCacheFresh now) names h2, None))
               else if None \<in> set data then Panics
               else Returns (fold invalidateCache names h1, None))"

definition hy_GetAllScores ::
  "'p score_store_ops \<Rightarrow> ('p, 'c) hybrid_store \<Rightarrow>
   ('p, 'c) hybrid_store \<times> (goerror + provider_score_data option list)" where
  "hy_GetAllScores pops h =
     (case so_GetAllScores pops (hy_primary h) of
        (p', Inl e) \<Rightarrow> (h\<lparr>hy_primary := p'\<rparr>, Inl (wrap_error ''primary store get all failed: '' e))
      | (p', Inr ds) \<Rightarrow> (h\<lparr>hy_primary := p'\<rparr>, Inr ds))"

definition hy_DeleteScore ::
  "'p score_store_ops \<Rightarrow> 'c score_store_ops \<Rightarrow> string \<Rightarrow> ('p, 'c) hybrid_store \<Rightarrow>
   ('p, 'c) hybrid_store \<times> goerror option" where
  "hy_DeleteScore pops cops name h =
     (case so_DeleteScore pops name (hy_primary h) of
        (p', Some e) \<Rightarrow> (h\<lparr>hy_primary := p'\<rparr>, Some (wrap_error ''primary store delete failed: '' e))
      | (p', None) \<Rightarrow>
          let h1 = h\<lparr>hy_primary := p'\<rparr>;
              h2 = h1\<lparr>hy_cache := fst (so_DeleteScore cops name (hy_cache h1))\<rparr>
          in (invalidateCache name h2, None))"

definition hy_GetLatencyStats ::
  "'p score_store_ops \<Rightarrow> ('p, 'c) hybrid_store \<Rightarrow>
   ('p, 'c) hybrid_store \<times> (goerror + latency_stats_data option)" where
  "hy_GetLatencyStats pops h =
     (case so_GetLatencyStats pops (hy_primary h) of
        (p', Inl e) \<Rightarrow>
          (h\<lparr>hy_primary := p'\<rparr>, Inl (wrap_error ''primary store get latency stats failed: '' e))
      | (p', Inr l) \<Rightarrow> (h\<lparr>hy_primary := p'\<rparr>, Inr l))"

definition hy_SetLatencyStats ::
  "'p score_store_ops \<Rightarrow> latency_stats_data option \<Rightarrow> ('p, 'c) hybrid_store \<Rightarrow>
   ('p, 'c) hybrid_store \<times> goerror option" where
  "hy_SetLatencyStats pops l h =
     (case so_SetLatencyStats pops l (hy_primary h) of
        (p', Some e) \<Rightarrow>
          (h\<lparr>hy_primary := p'\<rparr>, Some (wrap_error ''primary store set latency stats failed: '' e))
      | (p', None) \<Rightarrow> (h\<lparr>hy_primary := p'\<rparr>, None))"

text \<open>\<open>Close\<close> collects both errors; \<open>%v\<close> prints a slice between brackets, blank-separated.\<close>

definition hy_Close ::
  "'p score_store_ops \<Rightarrow> 'c score_store_ops \<Rightarrow> ('p, 'c) hybrid_store \<Rightarrow>
   ('p, 'c) hybrid_store \<times> goerror option" where
  "hy_Close pops cops h =
     (let (c', ce) = so_Close cops (hy_cache h);
          (p', pe) = so_Close pops (hy_primary h);
          h' = h\<lparr>hy_cache := c', hy_primary := p'\<rparr>;
          errs = (case ce of None \<Rightarrow> [] | Some e \<Rightarrow> [''cache close: '' @ err_msg e]) @
                 (case pe of None \<Rightarrow> [] | Some e \<Rightarrow> [''primary close: '' @ err_msg e])
      in case errs of
           [] \<Rightarrow> (h', None)
         | [m] \<Rightarrow> (h', Some (Errorf (''close errors: ['' @ m @ '']'')))
         | m # m' # _ \<Rightarrow> (h', Some (Errorf (''close errors: ['' @ m @ '' '' @ m' @ '']''))))"

definition hy_Ping ::
  "'p score_store_ops \<Rightarrow> 'c score_store_ops \<Rightarrow> ('p, 'c) hybrid_store \<Rightarrow>
   ('p, 'c) hybrid_store \<times> goerror option" where
  "hy_Ping pops cops h =
     (case so_Ping pops (hy_primary h) of
        (p', Some e) \<Rightarrow> (h\<lparr>hy_primary := p'\<rparr>, Some (wrap_error ''primary store ping failed: '' e))
      | (p', None) \<Rightarrow>
          (case so_Ping cops (hy_cache h) of
             (c', Some e) \<Rightarrow>
               (h\<lparr>hy_primary := p', hy_cache := c'\<rparr>, Some (wrap_error ''cache store ping failed: '' e))
           | (c', None) \<Rightarrow> (h\<lparr>hy_primary := p', hy_cache := c'\<rparr>, None)))"

definition InvalidateAll :: "('p, 'c) hybrid_store \<Rightarrow> ('p, 'c) hybrid_store" where
  "InvalidateAll h = h\<lparr>hy_cacheTime := Map.empty\<rparr>"

definition WarmCache ::
  "'p score_store_ops \<Rightarrow> 'c score_store_ops \<Rightarrow> gotime \<Rightarrow> ('p, 'c) hybrid_store \<Rightarrow>
   (('p, 'c) hybrid_store \<times> goerror option) outcome" where
  "WarmCache pops cops now h =
     (case so_GetAllScores pops (hy_primary h) of
        (p', Inl e) \<Rightarrow>
          Returns (h\<lparr>hy_primary := p'\<rparr>, Some (wrap_error ''failed to get scores from primary: '' e))
      | (p', Inr scores) \<Rightarrow>
          let h1 = h\<lparr>hy_primary := p'\<rparr>
          in if scores = [] then Returns (h1, None)
             else
               case so_SetScores cops scores (hy_cache h1) of
                 Panics \<Rightarrow> Panics
               | Returns (c', Some e) \<Rightarrow>
                   Returns (h1\<lparr>hy_cache := c'\<rparr>, Some (wrap_error ''failed to populate cache: '' e))
               | Returns (c', None) \<Rightarrow>
                   if None \<in> set scores then Panics
                   else Returns (fold (markCacheFresh now) (map (\<lambda>d. pd_Name (the d)) scores)
                                   (h1\<lparr>hy_cache := c'\<rparr>), None))"

text \<open>A queued cache write runs; a panic in its goroutine ends the program.\<close>

definition hy_async_step ::
  "'c score_store_ops \<Rightarrow> ('p, 'c) hybrid_store \<Rightarrow> ('p, 'c) hybrid_store outcome" where
  "hy_async_step cops h =
     (case hy_pending h of
        [] \<Rightarrow> Returns h
      | JobSet d # js \<Rightarrow>
          Returns (h\<lparr>hy_cache := fst (so_SetScore cops d (hy_cache h)), hy_pending := js\<rparr>)
      | JobSetAll ds # js \<Rightarrow>
          (case so_SetScores cops ds (hy_cache h) of
             Panics \<Rightarrow> Panics
           | Returns (c', e) \<Rightarrow> Returns (h\<lparr>hy_cache := c', hy_pending := js\<rparr>)))"

lemmas hy_op_defs =
  hy_GetScore_def hy_SetScore_def hy_SetScores_def hy_GetAllScores_def hy_DeleteScore_def
  hy_GetLatencyStats_def hy_SetLatencyStats_def InvalidateAll_def WarmCache_def

lemmas hy_cache_defs =
  markCacheFresh_def invalidateCache_def recordCacheHit_def cache_set_def drop_entry_def Let_def

subsection \<open>Batch writes on the abstract map\<close>

lemma fold_score_put_unnamed:
  "None \<notin> set ds \<Longrightarrow> n \<notin> set (map (\<lambda>d. pd_Name (the d)) ds) \<Longrightarrow> fold score_put ds f n = f n"
proof (induction ds arbitrary: f)
  case (Cons d ds)
  then show ?case by (cases d) auto
qed simp

lemma fold_score_put_named:
  assumes "n \<noteq> ''''" "None \<notin> set ds" "n \<in> set (map (\<lambda>d. pd_Name (the d)) ds)"
  shows "fold score_put ds f n = fold score_put ds g n"
  using assms(2,3)
proof (induction ds arbitrary: f g)
  case (Cons d ds)
  obtain x where d: "d = Some x" using Cons.prems(1) by (cases d) auto
  show ?case
  proof (cases "n \<in> set (map (\<lambda>d. pd_Name (the d)) ds)")
    case True
    then show ?thesis using Cons by simp
  next
    case False
    then have "pd_Name x = n" using Cons.prems(2) d by auto
    then show ?thesis
      using False Cons.prems(1) d assms(1)
      by (simp add: fold_score_put_unnamed)
  qed
qed simp

lemma fold_mark_time:
  "hy_cacheTime (fold (markCacheFresh now) ns h) n =
     (if n \<in> set ns then Some now else hy_cacheTime h n)"
  by (induction ns arbitrary: h) (auto simp: markCacheFresh_def)

lemma fold_mark_frame [simp]:
  "hy_primary (fold (markCacheFresh now) ns h) = hy_primary h"
  "hy_cache (fold (markCacheFresh now) ns h) = hy_cache h"
  by (induction ns arbitrary: h) (auto simp: markCacheFresh_def)

lemma fold_invalidate_time:
  "hy_cacheTime (fold invalidateCache ns h) n =
     (if n \<in> set ns then None else hy_cacheTime h n)"
  by (induction ns arbitrary: h) (auto simp: invalidateCache_def)

lemma fold_invalidate_frame [simp]:
  "hy_primary (fold invalidateCache ns h) = hy_primary h"
  "hy_cache (fold invalidateCache ns h) = hy_cache h"
  by (induction ns arbitrary: h) (auto simp: invalidateCache_def)

subsection \<open>Coherence\<close>

text \<open>
  The client: a primary that a failed write leaves alone, a cache that does not fail, and cache
  writes that are not started in a goroutine. The invariant: an entry that counts as fresh and
  is in the cache is what the primary holds.
\<close>

locale hybrid_client =
  P: atomic_store pops pinv pview plat + C: total_store cops cinv cview clat
  for pops :: "'p score_store_ops" and pinv pview plat
    and cops :: "'c score_store_ops" and cinv cview clat +
  fixes fl :: hybrid_flags
  assumes sync: "\<not> hf_AsyncWrite fl"
begin

definition coherent :: "('p, 'c) hybrid_store \<Rightarrow> bool" where
  "coherent h \<longleftrightarrow>
     pinv (hy_primary h) \<and> cinv (hy_cache h) \<and>
     (\<forall>n t d. hy_cacheTime h n = Some t \<longrightarrow> cview (hy_cache h) n = Some d \<longrightarrow>
        pview (hy_primary h) n = Some d)"

lemma coherentD:
  "coherent h \<Longrightarrow> pinv (hy_primary h)"
  "coherent h \<Longrightarrow> cinv (hy_cache h)"
  "coherent h \<Longrightarrow> hy_cacheTime h n = Some t \<Longrightarrow> cview (hy_cache h) n = Some d \<Longrightarrow>
    pview (hy_primary h) n = Some d"
  by (auto simp: coherent_def)

lemma coherent_new: "pinv p \<Longrightarrow> cinv c \<Longrightarrow> coherent (empty_hybrid p c)"
  by (simp add: coherent_def empty_hybrid_def)

lemma coherent_views:
  assumes "coherent h" "pinv (hy_primary h')" "cinv (hy_cache h')"
    "pview (hy_primary h') = pview (hy_primary h)" "cview (hy_cache h') = cview (hy_cache h)"
    "hy_cacheTime h' = hy_cacheTime h"
  shows "coherent h'"
  using assms by (simp add: coherent_def)

text \<open>Writing the primary's own value into the cache and marking it fresh keeps coherence.\<close>

lemma coherent_fill:
  assumes "coherent h" "pview (hy_primary h) n = Some d"
  shows "coherent (markCacheFresh now n (cache_set cops fl (Some d) h))"
proof -
  have n: "pd_Name d = n" "n \<noteq> ''''" using P.view_name coherentD(1) assms by blast+
  have c: "cinv (hy_cache h)" using assms(1) by (rule coherentD)
  show ?thesis
    using assms sync n C.set_inv [OF c, of "Some d"] C.set_view [OF c, of "Some d"]
    by (auto simp: coherent_def hy_cache_defs)
qed

lemma coherent_primary:
  assumes "coherent h" "pinv p'" "pview p' = pview (hy_primary h)"
  shows "coherent (h\<lparr>hy_primary := p'\<rparr>)"
  using assms by (simp add: coherent_def)

lemma coherent_cache_read:
  assumes "coherent h"
  shows "coherent (h\<lparr>hy_cache := fst (so_GetScore cops n (hy_cache h))\<rparr>)"
  using assms C.get_inv C.get_keeps by (simp add: coherent_def)

lemma coherent_record [simp]: "coherent (recordCacheHit b h) = coherent h"
  by (simp add: coherent_def recordCacheHit_def)

lemma hy_record_frame [simp]:
  "hy_primary (recordCacheHit b h) = hy_primary h" "hy_cache (recordCacheHit b h) = hy_cache h"
  by (simp_all add: recordCacheHit_def)

text \<open>The part of a read that goes to the primary.\<close>

definition read_through :: "gotime \<Rightarrow> string \<Rightarrow> ('p, 'c) hybrid_store \<Rightarrow>
    ('p, 'c) hybrid_store \<times> (goerror + provider_score_data option)" where
  "read_through now' name h =
     (let (p', pr) = so_GetScore pops name (hy_primary h);
          h3 = h\<lparr>hy_primary := p'\<rparr>
      in case pr of
           Inl e \<Rightarrow> (h3, Inl (wrap_error ''primary store get failed: '' e))
         | Inr None \<Rightarrow> (h3, Inr None)
         | Inr (Some d) \<Rightarrow> (markCacheFresh now' name (cache_set cops fl (Some d) h3), Inr (Some d)))"

lemma read_through_ok:
  assumes "coherent h"
  shows "coherent (fst (read_through now' n h))"
    and "pview (hy_primary (fst (read_through now' n h))) = pview (hy_primary h)"
    and "snd (read_through now' n h) =
      (case snd (so_GetScore pops n (hy_primary h)) of
         Inl e \<Rightarrow> Inl (wrap_error ''primary store get failed: '' e)
       | Inr r \<Rightarrow> Inr (pview (hy_primary h) n))"
proof -
  obtain p' pr where g: "so_GetScore pops n (hy_primary h) = (p', pr)" by fastforce
  have p: "pinv p'" "pview p' = pview (hy_primary h)"
    using P.get_inv [of "hy_primary h" n] P.get_keeps [of "hy_primary h" n] coherentD(1) [OF assms] g
    by auto
  have r: "r = pview (hy_primary h) n" if "pr = Inr r" for r
    using P.get_result [of "hy_primary h" n r] coherentD(1) [OF assms] g that by simp
  note c = coherent_primary [OF assms p]
  have "coherent (markCacheFresh now' n (cache_set cops fl (Some d) (h\<lparr>hy_primary := p'\<rparr>)))"
    if "pr = Inr (Some d)" for d
    by (rule coherent_fill [OF c]) (use r [OF that] p in simp)
  then show "coherent (fst (read_through now' n h))"
    using c g by (auto simp: read_through_def Let_def split: sum.splits option.splits)
  show "pview (hy_primary (fst (read_through now' n h))) = pview (hy_primary h)"
    using g p by (auto simp: read_through_def hy_cache_defs split: sum.splits option.splits)
  show "snd (read_through now' n h) =
      (case snd (so_GetScore pops n (hy_primary h)) of
         Inl e \<Rightarrow> Inl (wrap_error ''primary store get failed: '' e)
       | Inr r \<Rightarrow> Inr (pview (hy_primary h) n))"
    using g r by (auto simp: read_through_def Let_def split: sum.splits option.splits)
qed

lemma hy_GetScore_cases:
  assumes "coherent h"
  shows "hy_GetScore pops cops fl now now' n h =
    (let h1 = h\<lparr>hy_cache := fst (so_GetScore cops n (hy_cache h))\<rparr>
     in if isCacheFresh fl now n h
        then (case cview (hy_cache h) n of
                Some d \<Rightarrow> (recordCacheHit True h1, Inr (Some d))
              | None \<Rightarrow> read_through now' n (recordCacheHit False h1))
        else read_through now' n (recordCacheHit False h))"
  using C.get_view [OF coherentD(2) [OF assms], of n]
  by (cases "so_GetScore cops n (hy_cache h)")
     (auto simp: hy_GetScore_def read_through_def Let_def split: option.splits)

lemma get_coherent:
  assumes "coherent h"
  shows "coherent (fst (hy_GetScore pops cops fl now now' n h))"
    and "pview (hy_primary (fst (hy_GetScore pops cops fl now now' n h))) = pview (hy_primary h)"
  using read_through_ok(1,2) [of "recordCacheHit False h"]
    read_through_ok(1,2) [of "recordCacheHit False (h\<lparr>hy_cache := fst (so_GetScore cops n (hy_cache h))\<rparr>)"]
    coherent_cache_read [OF assms, of n] assms
  by (auto simp: hy_GetScore_cases Let_def split: option.splits)

lemma get_value:
  assumes "coherent h" "snd (hy_GetScore pops cops fl now now' n h) = Inr r"
  shows "r = pview (hy_primary h) n"
proof (cases "isCacheFresh fl now n h \<and> cview (hy_cache h) n \<noteq> None")
  case True
  then obtain t d where "hy_cacheTime h n = Some t" "cview (hy_cache h) n = Some d"
    by (auto simp: isCacheFresh_def split: option.splits)
  then show ?thesis
    using assms True coherentD(3) [OF assms(1)] by (auto simp: hy_GetScore_cases Let_def)
next
  case False
  then show ?thesis
    using assms read_through_ok(3) [of "recordCacheHit False h"]
      read_through_ok(3) [of "recordCacheHit False (h\<lparr>hy_cache := fst (so_GetScore cops n (hy_cache h))\<rparr>)"]
      coherent_cache_read [OF assms(1), of n]
    by (auto simp: hy_GetScore_cases Let_def split: option.splits sum.splits if_splits)
qed

lemma set_coherent:
  assumes "coherent h" "hy_SetScore pops cops fl now data h = (h', e)"
  shows "coherent h'"
    and "e = None \<Longrightarrow> pview (hy_primary h') = score_put data (pview (hy_primary h))"
    and "e \<noteq> None \<Longrightarrow> pview (hy_primary h') = pview (hy_primary h)"
proof -
  note p = coherentD(1) [OF assms(1)] and c = coherentD(2) [OF assms(1)]
  note C = C.set_view [OF c] C.set_inv [OF c] C.del_view [OF c] C.del_inv [OF c]
  have empty: "cview (hy_cache h) '''' = None"
    using C.view_name [OF c, of "''''"] by (cases "cview (hy_cache h) ''''") auto
  note P = P.set_inv [OF p, of data] P.set_ok [OF p, of data] P.set_fail [OF p, of data]
  show "coherent h'"
    using assms sync P C empty
    by (auto simp: hy_SetScore_def coherent_def hy_cache_defs split: option.splits prod.splits if_splits)
  show "e = None \<Longrightarrow> pview (hy_primary h') = score_put data (pview (hy_primary h))"
    using assms(2) P by (auto simp: hy_SetScore_def hy_cache_defs split: option.splits prod.splits if_splits)
  show "e \<noteq> None \<Longrightarrow> pview (hy_primary h') = pview (hy_primary h)"
    using assms(2) P by (auto simp: hy_SetScore_def hy_cache_defs split: option.splits prod.splits if_splits)
qed

lemma del_coherent:
  assumes "coherent h" "hy_DeleteScore pops cops n h = (h', e)"
  shows "coherent h'"
    and "e = None \<Longrightarrow> pview (hy_primary h') = (pview (hy_primary h))(n := None)"
    and "e \<noteq> None \<Longrightarrow> pview (hy_primary h') = pview (hy_primary h)"
proof -
  note p = coherentD(1) [OF assms(1)] and c = coherentD(2) [OF assms(1)]
  note P = P.del_inv [OF p, of n] P.del_ok [OF p, of n] P.del_fail [OF p, of n]
  show "coherent h'"
    using assms P C.del_view [OF c] C.del_inv [OF c]
    by (auto simp: hy_DeleteScore_def coherent_def hy_cache_defs split: option.splits prod.splits if_splits)
  show "e = None \<Longrightarrow> pview (hy_primary h') = (pview (hy_primary h))(n := None)"
    using assms(2) P by (auto simp: hy_DeleteScore_def hy_cache_defs split: option.splits prod.splits)
  show "e \<noteq> None \<Longrightarrow> pview (hy_primary h') = pview (hy_primary h)"
    using assms(2) P by (auto simp: hy_DeleteScore_def hy_cache_defs split: option.splits prod.splits)
qed

lemma drop_entries:
  assumes "cinv (hy_cache h)"
  shows "cinv (hy_cache (fold (drop_entry cops) ns h)) \<and>
    hy_primary (fold (drop_entry cops) ns h) = hy_primary h \<and>
    (\<forall>n. hy_cacheTime (fold (drop_entry cops) ns h) n =
       (if n \<in> set ns then None else hy_cacheTime h n)) \<and>
    (\<forall>n. n \<notin> set ns \<longrightarrow> cview (hy_cache (fold (drop_entry cops) ns h)) n = cview (hy_cache h) n)"
  using assms
proof (induction ns arbitrary: h)
  case (Cons m ns)
  have "cinv (hy_cache (drop_entry cops m h))"
    using Cons.prems by (simp add: hy_cache_defs C.del_inv)
  from Cons.IH [OF this] show ?case
    using Cons.prems by (auto simp: hy_cache_defs C.del_view)
qed simp

lemma coherent_batch:
  assumes "coherent h" "None \<notin> set ds" "pinv p'" "cinv c'"
    and "pview p' = fold score_put ds (pview (hy_primary h))"
    and "cview c' = fold score_put ds (cview (hy_cache h))"
  shows "coherent (fold (markCacheFresh now) (map (\<lambda>d. pd_Name (the d)) ds)
    (h\<lparr>hy_primary := p', hy_cache := c'\<rparr>))"
proof -
  let ?ns = "map (\<lambda>d. pd_Name (the d)) ds"
  have "pview p' n = Some d"
    if "cview c' n = Some d" "n \<in> set ?ns \<or> hy_cacheTime h n = Some t" for n d t
  proof (cases "n \<in> set ?ns")
    case True
    have "n \<noteq> ''''" using C.view_name [OF assms(4) that(1)] by simp
    then show ?thesis
      using fold_score_put_named [OF _ assms(2) True] that(1) assms(5,6) by metis
  next
    case False
    then show ?thesis
      using that assms(5,6) fold_score_put_unnamed [OF assms(2) False] coherentD(3) [OF assms(1)]
      by auto
  qed
  then show ?thesis
    using assms(3,4) by (auto simp: coherent_def fold_mark_time split: if_splits)
qed

lemma sets_coherent:
  assumes "coherent h" "hy_SetScores pops cops fl now ds h = Returns (h', e)"
  shows "coherent h' \<and>
    pview (hy_primary h') = (if e = None then fold score_put ds (pview (hy_primary h))
                             else pview (hy_primary h))"
proof (cases "ds = []")
  case True
  then show ?thesis using assms by (simp add: hy_SetScores_def)
next
  case False
  note p = coherentD(1) [OF assms(1)] and c = coherentD(2) [OF assms(1)]
  obtain p' e' where sp: "so_SetScores pops ds (hy_primary h) = Returns (p', e')"
    using assms(2) False
    by (cases "so_SetScores pops ds (hy_primary h)") (auto simp: hy_SetScores_def)
  note p' = P.sets_inv [OF p sp]
  show ?thesis
  proof (cases e')
    case (Some er)
    then show ?thesis
      using assms sp False p' P.sets_fail [OF p, of ds p' er] coherent_primary [OF assms(1) p']
      by (auto simp: hy_SetScores_def)
  next
    case None
    have pv: "pview p' = fold score_put ds (pview (hy_primary h))"
      using P.sets_ok [OF p, of ds p'] sp None by simp
    obtain c' where cs: "so_SetScores cops ds (hy_cache h) = Returns (c', None)" "cinv c'"
        "cview c' = fold score_put ds (cview (hy_cache h))"
      using C.sets_view [OF c] by blast
    have nn: "None \<notin> set ds"
      using assms(2) sp None False cs
      by (auto simp: hy_SetScores_def Let_def split: if_splits)
    let ?ns = "map (\<lambda>d. pd_Name (the d)) ds"
    have drop: "coherent (fold (drop_entry cops) ?ns (h\<lparr>hy_primary := p'\<rparr>))"
      using drop_entries [of "h\<lparr>hy_primary := p'\<rparr>" ?ns] c p' pv coherentD(3) [OF assms(1)]
        fold_score_put_unnamed [OF nn] unfolding coherent_def by (auto split: if_splits)
    have inval: "coherent (fold invalidateCache ?ns (h\<lparr>hy_primary := p'\<rparr>))"
      using c p' pv coherentD(3) [OF assms(1)] fold_score_put_unnamed [OF nn]
      by (auto simp: coherent_def fold_invalidate_time split: if_splits)
    have dp: "hy_primary (fold (drop_entry cops) ?ns (h\<lparr>hy_primary := p'\<rparr>)) = p'"
      using drop_entries [of "h\<lparr>hy_primary := p'\<rparr>" ?ns] c by simp
    show ?thesis
      using assms(2) sp None False cs nn sync drop dp inval pv
        coherent_batch [OF assms(1) nn p' cs(2) pv cs(3)]
      by (auto simp: hy_SetScores_def Let_def split: if_splits)
  qed
qed

lemma fold_score_put_self:
  "\<forall>d. Some d \<in> set ds \<longrightarrow> f (pd_Name d) = Some d \<Longrightarrow> fold score_put ds f = f"
proof (induction ds)
  case (Cons a ds)
  have "score_put a f = f"
  proof (cases a)
    case (Some d)
    then have "f (pd_Name d) = Some d" using Cons.prems by simp
    then show ?thesis using Some by (auto simp: fun_upd_idem)
  qed simp
  then show ?case using Cons by simp
qed simp

lemma warm_coherent:
  assumes "coherent h" "WarmCache pops cops now h = Returns (h', e)"
  shows "coherent h' \<and> pview (hy_primary h') = pview (hy_primary h)"
proof -
  note p = coherentD(1) [OF assms(1)] and c = coherentD(2) [OF assms(1)]
  obtain p' r where ga: "so_GetAllScores pops (hy_primary h) = (p', r)" by fastforce
  have p': "pinv p'" "pview p' = pview (hy_primary h)"
    using P.all_inv [OF p] P.all_keeps [OF p] ga by auto
  note c1 = coherent_primary [OF assms(1) p']
  show ?thesis
  proof (cases r)
    case (Inl er)
    then show ?thesis using assms(2) ga c1 p' by (auto simp: WarmCache_def)
  next
    case (Inr ds)
    have self: "\<forall>d. Some d \<in> set ds \<longrightarrow> pview p' (pd_Name d) = Some d"
      using P.all_names [OF p, of ds] ga Inr p' by auto
    have nn: "None \<notin> set ds" using P.all_result [OF p, of ds] ga Inr by auto
    obtain c' where cs: "so_SetScores cops ds (hy_cache h) = Returns (c', None)" "cinv c'"
        "cview c' = fold score_put ds (cview (hy_cache h))"
      using C.sets_view [OF c] by blast
    have "coherent (fold (markCacheFresh now) (map (\<lambda>d. pd_Name (the d)) ds)
        (h\<lparr>hy_primary := p', hy_cache := c'\<rparr>))"
      using coherent_batch [OF c1 nn p'(1) cs(2), of now] fold_score_put_self [OF self] cs(3) by simp
    then show ?thesis
      using assms(2) ga Inr cs nn c1 p' by (auto simp: WarmCache_def Let_def split: if_splits)
  qed
qed

lemma latency_coherent:
  assumes "coherent h"
  shows "coherent (fst (hy_GetAllScores pops h))" "coherent (fst (hy_GetLatencyStats pops h))"
    "coherent (fst (hy_SetLatencyStats pops l h))"
proof -
  have eq: "fst (hy_GetAllScores pops h) = h\<lparr>hy_primary := fst (so_GetAllScores pops (hy_primary h))\<rparr>"
    "fst (hy_GetLatencyStats pops h) = h\<lparr>hy_primary := fst (so_GetLatencyStats pops (hy_primary h))\<rparr>"
    "fst (hy_SetLatencyStats pops l h) = h\<lparr>hy_primary := fst (so_SetLatencyStats pops l (hy_primary h))\<rparr>"
    by (simp_all add: hy_op_defs split: prod.splits sum.splits option.splits)
  note p = coherentD(1) [OF assms]
  show "coherent (fst (hy_GetAllScores pops h))" "coherent (fst (hy_GetLatencyStats pops h))"
    "coherent (fst (hy_SetLatencyStats pops l h))"
    unfolding eq
    by (auto intro!: coherent_primary assms P.all_inv P.lat_inv P.set_lat_inv
        simp: p P.all_keeps P.lat_keeps P.set_lat_keeps)
qed

end

subsection \<open>Any sequence of operations\<close>

inductive hybrid_reach for pops :: "'p score_store_ops" and cops :: "'c score_store_ops" and fl h0 where
  start: "hybrid_reach pops cops fl h0 h0"
| get: "hybrid_reach pops cops fl h0 h \<Longrightarrow>
    hybrid_reach pops cops fl h0 (fst (hy_GetScore pops cops fl now now' n h))"
| setOne: "hybrid_reach pops cops fl h0 h \<Longrightarrow>
    hybrid_reach pops cops fl h0 (fst (hy_SetScore pops cops fl now d h))"
| setMany: "hybrid_reach pops cops fl h0 h \<Longrightarrow> hy_SetScores pops cops fl now ds h = Returns (h', e) \<Longrightarrow>
    hybrid_reach pops cops fl h0 h'"
| getAll: "hybrid_reach pops cops fl h0 h \<Longrightarrow> hybrid_reach pops cops fl h0 (fst (hy_GetAllScores pops h))"
| delete: "hybrid_reach pops cops fl h0 h \<Longrightarrow>
    hybrid_reach pops cops fl h0 (fst (hy_DeleteScore pops cops n h))"
| getLatency: "hybrid_reach pops cops fl h0 h \<Longrightarrow>
    hybrid_reach pops cops fl h0 (fst (hy_GetLatencyStats pops h))"
| setLatency: "hybrid_reach pops cops fl h0 h \<Longrightarrow>
    hybrid_reach pops cops fl h0 (fst (hy_SetLatencyStats pops l h))"
| invalidate: "hybrid_reach pops cops fl h0 h \<Longrightarrow> hybrid_reach pops cops fl h0 (InvalidateAll h)"
| warm: "hybrid_reach pops cops fl h0 h \<Longrightarrow> WarmCache pops cops now h = Returns (h', e) \<Longrightarrow>
    hybrid_reach pops cops fl h0 h'"

context hybrid_client
begin

lemma reach_coherent:
  assumes "hybrid_reach pops cops fl h0 h" "coherent h0"
  shows "coherent h"
  using assms
proof (induction rule: hybrid_reach.induct)
  case (setOne h now d)
  then show ?case
    by (cases "hy_SetScore pops cops fl now d h") (auto dest: set_coherent(1))
next
  case (delete h n)
  then show ?case
    by (cases "hy_DeleteScore pops cops n h") (auto dest: del_coherent(1))
next
  case (invalidate h)
  then show ?case by (simp add: coherent_def InvalidateAll_def)
qed (auto simp: get_coherent latency_coherent dest: sets_coherent warm_coherent)

end

definition default_hybrid_flags :: hybrid_flags where
  "default_hybrid_flags =
     \<lparr>hf_CacheTTL = 5 * minute, hf_WriteThrough = True, hf_AsyncWrite = False,
      hf_InvalidateOnWrite = False\<rparr>"

interpretation memory_hybrid:
  hybrid_client "memory_ops sorted_keys" mem_ok mem_scores mem_latency
    "memory_ops sorted_keys" mem_ok mem_scores mem_latency default_hybrid_flags
  by unfold_locales (simp add: default_hybrid_flags_def)

text \<open>
  C17: The cache is transparent. With a primary store that keeps the contract, a cache whose
  operations do not fail and synchronous cache writes, after any sequence of operations (writes,
  batches, deletions, invalidations, warm-ups, failed primary calls) a read that returns a
  value returns exactly what the primary store holds, in each of the three write modes and
  whatever the clock says about freshness.
\<close>

theorem hybrid_reads_primary:
  assumes "NewHybridStore (Some p) (Some c) config = Inr (fl, h0)"
    and "hybrid_client pops pinv pview plat cops cinv cview clat fl"
    and "pinv p" "cinv c"
    and "hybrid_reach pops cops fl h0 h"
    and "snd (hy_GetScore pops cops fl now now' n h) = Inr r"
  shows "r = pview (hy_primary h) n"
proof -
  have "h0 = empty_hybrid p c" using assms(1) by (simp add: NewHybridStore_def)
  then have "hybrid_client.coherent pinv pview cinv cview h0"
    using hybrid_client.coherent_new [OF assms(2-4)] by simp
  from hybrid_client.reach_coherent [OF assms(2,5) this]
  show ?thesis by (rule hybrid_client.get_value [OF assms(2) _ assms(6)])
qed

definition sample_data :: "string \<Rightarrow> real \<Rightarrow> provider_score_data" where
  "sample_data n b =
     \<lparr>pd_Name = n, pd_BaseScore = b, pd_HealthPenalty = 0, pd_LatencyPenalty = 0,
      pd_ErrorPenalty = 0, pd_RateLimitPenalty = 0, pd_TotalOperations = 0,
      pd_SuccessfulOps = 0, pd_FailedOps = 0, pd_LastUpdated = 0, pd_LastHealthCheck = 0,
      pd_LastOperation = 0, pd_RecentLatencies = []\<rparr>"

theorem hybrid_reads_primary_witness:
  "let ops = memory_ops sorted_keys; fl = default_hybrid_flags;
       h = fst (hy_SetScore ops ops fl 5 (Some (sample_data ''a'' 100))
              (empty_hybrid NewMemoryStore NewMemoryStore))
   in snd (hy_GetScore ops ops fl 6 6 ''a'' h) = Inr (mem_scores (hy_primary h) ''a'')"
proof -
  let ?ops = "memory_ops sorted_keys" and ?fl = default_hybrid_flags
  let ?h = "fst (hy_SetScore ?ops ?ops ?fl 5 (Some (sample_data ''a'' 100))
              (empty_hybrid NewMemoryStore NewMemoryStore))"
  have reach: "hybrid_reach ?ops ?ops ?fl (empty_hybrid NewMemoryStore NewMemoryStore) ?h"
    by (intro hybrid_reach.intros)
  have new: "NewHybridStore (Some NewMemoryStore) (Some NewMemoryStore) ?fl =
      Inr (?fl, empty_hybrid NewMemoryStore NewMemoryStore)"
    by (simp add: NewHybridStore_def default_hybrid_flags_def)
  have run: "snd (hy_GetScore ?ops ?ops ?fl 6 6 ''a'' ?h) = Inr (Some (sample_data ''a'' 100))"
    by (simp add: hy_SetScore_def hy_GetScore_def hy_cache_defs memory_ops_def mem_defs
        default_hybrid_flags_def sample_data_def empty_hybrid_def NewMemoryStore_def
        isCacheFresh_def)
  show ?thesis
    using hybrid_reads_primary [OF new memory_hybrid.hybrid_client_axioms mem_ops_ok(1) mem_ops_ok(1)
        reach run] run
    by (simp add: Let_def)
qed

subsection \<open>A failing cache\<close>

text \<open>
  Stale reads when the cache fails. The error of a cache write is ignored, but the entry is
  marked fresh all the same: if the cache still holds an older value and the write to it
  fails, \<open>SetScore\<close> reports success and a read within the TTL returns the older value while
  the primary holds the new one.
\<close>

lemma hybrid_stale_read:
  assumes "pd_Name d0 = n" "pd_Name d1 = n" "n \<noteq> ''''"
    and "m = \<lparr>mem_scores = [n \<mapsto> d0], mem_latency = None\<rparr>"
    and "cops = (memory_ops sorted_keys)\<lparr>so_SetScore := \<lambda>d s. (s, Some (Errorf ''timeout''))\<rparr>"
  shows "let pops = memory_ops sorted_keys; fl = default_hybrid_flags;
             (h, e) = hy_SetScore pops cops fl now (Some d1) (empty_hybrid m m);
             (h', r) = hy_GetScore pops cops fl (now + second) (now + second) n h
         in e = None \<and> mem_scores (hy_primary h) n = Some d1 \<and> r = Inr (Some d0)"
  using assms
  by (simp add: hy_SetScore_def hy_GetScore_def hy_cache_defs memory_ops_def mem_defs
      default_hybrid_flags_def empty_hybrid_def isCacheFresh_def)

end
