(* ===== verification/Instrumented_Store.thy ===== *)
theory Instrumented_Store
  imports Score_Store
begin

text \<open>
  \<open>scoring/store/instrumented.go\<close>: a wrapper that reports every operation to a recorder. The
  state of the wrapper is the inner state and the calls of \<open>RecordStoreOperation\<close> so far; the
  measured duration of a call is an argument. The wrapper keeps the store contract of whatever
  it wraps.
\<close>

record store_call =
  call_store :: string
  call_op :: string
  call_elapsed :: duration
  call_err :: "goerror option"

type_synonym 's instrumented = "'s \<times> store_call list"

definition RecordStoreOperation ::
  "'s score_store_ops \<Rightarrow> string \<Rightarrow> duration \<Rightarrow> goerror option \<Rightarrow> store_call list \<Rightarrow> store_call list" where
  "RecordStoreOperation ops op d err cs =
     cs @ [\<lparr>call_store = so_Name ops, call_op = op, call_elapsed = d, call_err = err\<rparr>]"

definition err_of :: "goerror + 'a \<Rightarrow> goerror option" where
  "err_of r = (case r of Inl e \<Rightarrow> Some e | Inr v \<Rightarrow> None)"

definition inst_GetScore where
  "inst_GetScore ops elapsed n si =
     (let (s', r) = so_GetScore ops n (fst si)
      in ((s', RecordStoreOperation ops ''get_score'' (elapsed (fst si)) (err_of r) (snd si)), r))"

definition inst_SetScore where
  "inst_SetScore ops elapsed d si =
     (let (s', e) = so_SetScore ops d (fst si)
      in ((s', RecordStoreOperation ops ''set_score'' (elapsed (fst si)) e (snd si)), e))"

definition inst_GetAllScores where
  "inst_GetAllScores ops elapsed si =
     (let (s', r) = so_GetAllScores ops (fst si)
      in ((s', RecordStoreOperation ops ''get_all_scores'' (elapsed (fst si)) (err_of r) (snd si)), r))"

definition inst_DeleteScore where
  "inst_DeleteScore ops elapsed n si =
     (let (s', e) = so_DeleteScore ops n (fst si)
      in ((s', RecordStoreOperation ops ''delete_score'' (elapsed (fst si)) e (snd si)), e))"

definition inst_SetScores where
  "inst_SetScores ops elapsed ds si =
     (case so_SetScores ops ds (fst si) of
        Panics \<Rightarrow> Panics
      | Returns (s', e) \<Rightarrow>
          Returns ((s', RecordStoreOperation ops ''set_scores'' (elapsed (fst si)) e (snd si)), e))"

definition inst_GetLatencyStats where
  "inst_GetLatencyStats ops elapsed si =
     (let (s', r) = so_GetLatencyStats ops (fst si)
      in ((s', RecordStoreOperation ops ''get_latency_stats'' (elapsed (fst si)) (err_of r) (snd si)), r))"

definition inst_SetLatencyStats where
  "inst_SetLatencyStats ops elapsed l si =
     (let (s', e) = so_SetLatencyStats ops l (fst si)
      in ((s', RecordStoreOperation ops ''set_latency_stats'' (elapsed (fst si)) e (snd si)), e))"

definition inst_Close where
  "inst_Close ops si = (let (s', e) = so_Close ops (fst si) in ((s', snd si), e))"

definition inst_Ping where
  "inst_Ping ops si = (let (s', e) = so_Ping ops (fst si) in ((s', snd si), e))"

definition instrumented_ops ::
  "'s score_store_ops \<Rightarrow> ('s \<Rightarrow> duration) \<Rightarrow> 's instrumented score_store_ops" where
  "instrumented_ops ops elapsed =
     \<lparr>so_GetScore = inst_GetScore ops elapsed, so_SetScore = inst_SetScore ops elapsed,
      so_GetAllScores = inst_GetAllScores ops elapsed,
      so_DeleteScore = inst_DeleteScore ops elapsed, so_SetScores = inst_SetScores ops elapsed,
      so_GetLatencyStats = inst_GetLatencyStats ops elapsed,
      so_SetLatencyStats = inst_SetLatencyStats ops elapsed,
      so_Close = inst_Close ops, so_Ping = inst_Ping ops,
      so_Name = ''instrumented/'' @ so_Name ops\<rparr>"

lemmas inst_defs =
  inst_GetScore_def inst_SetScore_def inst_GetAllScores_def inst_DeleteScore_def
  inst_SetScores_def inst_GetLatencyStats_def inst_SetLatencyStats_def inst_Close_def inst_Ping_def

subsection \<open>Transparency\<close>

lemma inst_forward:
  "fst (fst (so_GetScore (instrumented_ops ops el) n si)) = fst (so_GetScore ops n (fst si))"
  "snd (so_GetScore (instrumented_ops ops el) n si) = snd (so_GetScore ops n (fst si))"
  "fst (fst (so_SetScore (instrumented_ops ops el) d si)) = fst (so_SetScore ops d (fst si))"
  "snd (so_SetScore (instrumented_ops ops el) d si) = snd (so_SetScore ops d (fst si))"
  "fst (fst (so_GetAllScores (instrumented_ops ops el) si)) = fst (so_GetAllScores ops (fst si))"
  "snd (so_GetAllScores (instrumented_ops ops el) si) = snd (so_GetAllScores ops (fst si))"
  "fst (fst (so_DeleteScore (instrumented_ops ops el) n si)) = fst (so_DeleteScore ops n (fst si))"
  "snd (so_DeleteScore (instrumented_ops ops el) n si) = snd (so_DeleteScore ops n (fst si))"
  "fst (fst (so_GetLatencyStats (instrumented_ops ops el) si)) = fst (so_GetLatencyStats ops (fst si))"
  "snd (so_GetLatencyStats (instrumented_ops ops el) si) = snd (so_GetLatencyStats ops (fst si))"
  "fst (fst (so_SetLatencyStats (instrumented_ops ops el) l si)) =
     fst (so_SetLatencyStats ops l (fst si))"
  "snd (so_SetLatencyStats (instrumented_ops ops el) l si) = snd (so_SetLatencyStats ops l (fst si))"
  by (simp_all add: instrumented_ops_def inst_defs Let_def split: prod.splits)

lemma inst_SetScores_forward:
  "so_SetScores (instrumented_ops ops el) ds si = Returns (si', e) \<Longrightarrow>
   so_SetScores ops ds (fst si) = Returns (fst si', e)"
  by (auto simp: instrumented_ops_def inst_SetScores_def split: outcome.splits prod.splits)

context score_store
begin

lemma instrumented_contract:
  "score_store (instrumented_ops ops el) (\<lambda>si. inv (fst si)) (\<lambda>si. view (fst si)) (\<lambda>si. lat (fst si))"
proof
  fix s :: "'s instrumented" and sds s' and e :: "goerror option"
  assume i: "inv (fst s)"
  show "so_SetScores (instrumented_ops ops el) sds s = Returns (s', e) \<Longrightarrow> inv (fst s')"
    using sets_inv [OF i] inst_SetScores_forward by blast
  show "so_SetScores (instrumented_ops ops el) sds s = Returns (s', None) \<Longrightarrow>
      view (fst s') = fold score_put sds (view (fst s)) \<and> lat (fst s') = lat (fst s)"
    using sets_ok [OF i] inst_SetScores_forward by blast
qed (simp_all add: inst_forward inv_intros get_result get_keeps set_ok del_ok all_result all_keeps
    lat_result lat_keeps set_lat_ok set_lat_keeps view_name)

end

text \<open>
  C22: Instrumentation is transparent. A store that keeps the contract still keeps it when it
  is wrapped: reads after writes, deletions, batches and the latency statistics behave as
  before, whatever the recorder is told.
\<close>

theorem instrumented_keeps_contract:
  assumes "score_store ops ok view lat"
  shows "score_store (instrumented_ops ops el) (\<lambda>si. ok (fst si)) (\<lambda>si. view (fst si))
           (\<lambda>si. lat (fst si))"
  by (rule score_store.instrumented_contract [OF assms])

theorem instrumented_keeps_contract_witness:
  "score_store (instrumented_ops (memory_ops sorted_keys) (\<lambda>_. 3)) (\<lambda>si. mem_ok (fst si))
     (\<lambda>si. mem_scores (fst si)) (\<lambda>si. mem_latency (fst si))"
  by (rule instrumented_keeps_contract [OF sorted_memory.mem.score_store_axioms])

end
