(* ===== verification/Webhook.thy ===== *)
theory Webhook
  imports Sha256 Go_Strings
begin

text \<open>
  \<open>payment/webhook.go\<close>: verification of signed webhooks. Strings are byte strings; \<open>TrimSpace\<close>
  is modelled for the ASCII white space that can occur in a header. An error is its sentinel
  and the text that the code adds to it. Times are nanoseconds since the Unix epoch.
\<close>

subsection \<open>Verification\<close>

datatype webhook_sentinel =
    ErrWebhookSignatureMissing
  | ErrWebhookSignatureMalformed
  | ErrWebhookSignatureUnsupportedScheme
  | ErrWebhookSignatureMismatch
  | ErrWebhookSignatureExpired

type_synonym webhook_error = "webhook_sentinel \<times> string"

record verify_options =
  vo_Tolerance :: duration
  vo_Now :: "gotime option"

abbreviation defaultTolerance :: duration where "defaultTolerance \<equiv> 5 * minute"

fun parse_pairs :: "string list \<Rightarrow> (string \<times> string) list \<Rightarrow> webhook_error + (string \<times> string) list" where
  "parse_pairs [] out = Inr out"
| "parse_pairs (raw # rest) out =
     (case cut_at (CHR ''='') (TrimSpace raw) of
        None \<Rightarrow> Inl (ErrWebhookSignatureMalformed, '': pair '' @ go_quote raw @ '' has no ='')
      | Some (k0, v0) \<Rightarrow>
          let k = TrimSpace k0; v = TrimSpace v0
          in if k = '''' then Inl (ErrWebhookSignatureMalformed, '': empty key in '' @ go_quote raw)
             else parse_pairs rest ((k, v) # out))"

text \<open>The map is a list of pairs, latest first, so that the last occurrence of a key counts.\<close>

definition parseSignatureHeader :: "string \<Rightarrow> webhook_error + (string \<times> string) list" where
  "parseSignatureHeader header =
     (case parse_pairs (split_on (CHR '','') header) [] of
        Inl e \<Rightarrow> Inl e
      | Inr out \<Rightarrow> if out = [] then Inl (ErrWebhookSignatureMalformed, '''') else Inr out)"

definition signing_input :: "int \<Rightarrow> bytes \<Rightarrow> bytes" where
  "signing_input ts body = to_bytes (Itoa ts @ ''.'') @ body"

text \<open>The age in nanoseconds, as the code computes it in 64 bits.\<close>

definition signature_age :: "gotime \<Rightarrow> int \<Rightarrow> duration" where
  "signature_age now ts =
     (let delta = wrap64 (now div second - ts);
          delta1 = (if delta < 0 then wrap64 (- delta) else delta)
      in wrap64 (delta1 * second))"

definition check_signature ::
  "bytes \<Rightarrow> string \<Rightarrow> duration \<Rightarrow> gotime \<Rightarrow> (string \<times> string) list \<Rightarrow> webhook_error option" where
  "check_signature body secret tolerance now parts =
     (case map_of parts ''t'' of
        None \<Rightarrow> Some (ErrWebhookSignatureMalformed, '': missing t='')
      | Some tsStr \<Rightarrow>
          (case ParseInt64 tsStr of
             None \<Rightarrow> Some (ErrWebhookSignatureMalformed, '': t= is not an integer'')
           | Some tsUnix \<Rightarrow>
               (case map_of parts ''v1'' of
                  None \<Rightarrow> Some (ErrWebhookSignatureUnsupportedScheme, '''')
                | Some sigHex \<Rightarrow>
                    (case hex_DecodeString sigHex of
                       None \<Rightarrow> Some (ErrWebhookSignatureMalformed, '': v1 is not hex'')
                     | Some expectedSig \<Rightarrow>
                         if expectedSig \<noteq> hmac_sha256 (to_bytes secret) (signing_input tsUnix body)
                         then Some (ErrWebhookSignatureMismatch, '''')
                         else if signature_age now tsUnix > tolerance
                         then Some (ErrWebhookSignatureExpired, '''')
                         else None))))"

text \<open>\<open>clock\<close> is the wall clock, used when the options do not override it.\<close>

definition VerifyWebhook ::
  "bytes \<Rightarrow> string \<Rightarrow> string \<Rightarrow> verify_options list \<Rightarrow> gotime \<Rightarrow> webhook_error option" where
  "VerifyWebhook body header secret opts clock =
     (let o1 = (case opts of [] \<Rightarrow> \<lparr>vo_Tolerance = 0, vo_Now = None\<rparr> | p # _ \<Rightarrow> p);
          tolerance = (if vo_Tolerance o1 = 0 then defaultTolerance else vo_Tolerance o1);
          now = (case vo_Now o1 of None \<Rightarrow> clock | Some n \<Rightarrow> n)
      in if TrimSpace header = '''' then Some (ErrWebhookSignatureMissing, '''')
         else (case parseSignatureHeader header of
                 Inl e \<Rightarrow> Some e
               | Inr parts \<Rightarrow> check_signature body secret tolerance now parts))"

end
