(* ===== verification/Webhook_Laws.thy ===== *)
theory Webhook_Laws
  imports Webhook
begin

text \<open>
  Webhook verification: headers that a signer makes as documented are accepted while they are
  fresh, and whatever is accepted carries a correct MAC over its own timestamp and body.
\<close>

subsection \<open>Parsing a header\<close>

text \<open>The header that a signer sends, as the source documents it.\<close>

definition sign_header :: "string \<Rightarrow> int \<Rightarrow> bytes \<Rightarrow> string" where
  "sign_header secret ts body =
     ''t='' @ Itoa ts @ '',v1='' @ hex_EncodeToString (hmac_sha256 (to_bytes secret) (signing_input ts body))"

lemma header_chars:
  "CHR '','' \<notin> set ''-0123456789''" "CHR '','' \<notin> set ''0123456789abcdef''"
  "\<forall>c \<in> set ''-0123456789''. \<not> is_space c" "\<forall>c \<in> set ''0123456789abcdef''. \<not> is_space c"
  by (simp_all add: is_space_def)

lemma parse_sign_header:
  "parseSignatureHeader (sign_header secret ts body) =
     Inr [(''v1'', hex_EncodeToString (hmac_sha256 (to_bytes secret) (signing_input ts body))), (''t'', Itoa ts)]"
proof -
  let ?h = "hex_EncodeToString (hmac_sha256 (to_bytes secret) (signing_input ts body))"
  have c: "CHR '','' \<notin> set (Itoa ts)" "CHR '','' \<notin> set ?h"
    "\<forall>c \<in> set (Itoa ts). \<not> is_space c" "\<forall>c \<in> set ?h. \<not> is_space c"
    using subsetD [OF Itoa_chars] subsetD [OF set_hex] header_chars by blast+
  have "split_on (CHR '','') ((''t='' @ Itoa ts) @ CHR '','' # ''v1='' @ ?h) = [''t='' @ Itoa ts, ''v1='' @ ?h]"
    by (subst split_on_append) (use c in \<open>auto simp: split_on_none\<close>)
  then have split: "split_on (CHR '','') (sign_header secret ts body) = [''t='' @ Itoa ts, ''v1='' @ ?h]"
    by (simp add: sign_header_def)
  have "TrimSpace (''t='' @ Itoa ts) = ''t='' @ Itoa ts" "TrimSpace (''v1='' @ ?h) = ''v1='' @ ?h"
    "TrimSpace (Itoa ts) = Itoa ts" "TrimSpace ?h = ?h" "TrimSpace ''t'' = ''t''" "TrimSpace ''v1'' = ''v1''"
    using c by (intro TrimSpace_id; auto simp: is_space_def)+
  then show ?thesis by (simp add: parseSignatureHeader_def split)
qed

subsection \<open>Freshness\<close>

lemma signature_age_exact:
  assumes "\<bar>now div second - ts\<bar> * second < 2 ^ 63"
  shows "signature_age now ts = \<bar>now div second - ts\<bar> * second"
proof -
  define d where "d = now div second - ts"
  have d: "\<bar>d\<bar> * second < 2 ^ 63" using assms by (simp add: d_def)
  then have "wrap64 d = d" "wrap64 (- d) = - d" by (auto intro!: wrap64_id)
  moreover have "wrap64 (\<bar>d\<bar> * second) = \<bar>d\<bar> * second" using d by (intro wrap64_id) auto
  ultimately show ?thesis
    by (cases "d < 0") (simp_all add: signature_age_def Let_def flip: d_def)
qed

text \<open>The clock and the tolerance that a call uses.\<close>

definition verify_now :: "verify_options list \<Rightarrow> gotime \<Rightarrow> gotime" where
  "verify_now opts clock =
     (case opts of [] \<Rightarrow> clock | p # _ \<Rightarrow> (case vo_Now p of None \<Rightarrow> clock | Some n \<Rightarrow> n))"

definition verify_tolerance :: "verify_options list \<Rightarrow> duration" where
  "verify_tolerance opts =
     (case opts of [] \<Rightarrow> defaultTolerance
      | p # _ \<Rightarrow> if vo_Tolerance p = 0 then defaultTolerance else vo_Tolerance p)"

lemma VerifyWebhook_alt:
  "VerifyWebhook body header secret opts clock =
     (if TrimSpace header = '''' then Some (ErrWebhookSignatureMissing, '''')
      else (case parseSignatureHeader header of
              Inl e \<Rightarrow> Some e
            | Inr parts \<Rightarrow> check_signature body secret (verify_tolerance opts) (verify_now opts clock) parts))"
  by (cases opts) (auto simp: VerifyWebhook_def verify_tolerance_def verify_now_def Let_def split: option.split sum.split)

lemma check_signature_accepts:
  "check_signature body secret tolerance now parts = None \<longleftrightarrow>
     (\<exists>tsStr ts sigHex. map_of parts ''t'' = Some tsStr \<and> ParseInt64 tsStr = Some ts \<and>
        map_of parts ''v1'' = Some sigHex \<and>
        hex_DecodeString sigHex = Some (hmac_sha256 (to_bytes secret) (signing_input ts body)) \<and>
        signature_age now ts \<le> tolerance)"
  by (auto simp: check_signature_def split: option.splits)

lemma sign_header_not_blank: "TrimSpace (sign_header secret ts body) \<noteq> ''''"
proof -
  have "dropWhile is_space (sign_header secret ts body) = sign_header secret ts body"
    by (simp add: sign_header_def is_space_def)
  moreover have "dropWhile is_space (rev (sign_header secret ts body)) \<noteq> []"
    unfolding dropWhile_eq_Nil_conv by (auto simp: sign_header_def is_space_def)
  ultimately show ?thesis by (simp add: TrimSpace_def)
qed

text \<open>
  C32: A header made as documented, over the exact body, is accepted by a receiver with the same
  secret whenever the timestamp is within the tolerance of its clock; whatever the body and the
  secret are.
\<close>

theorem VerifyWebhook_accepts:
  assumes "- (2 ^ 63) \<le> ts" "ts < 2 ^ 63" "\<bar>verify_now opts clock div second - ts\<bar> * second < 2 ^ 63"
    and "\<bar>verify_now opts clock div second - ts\<bar> * second \<le> verify_tolerance opts"
  shows "VerifyWebhook body (sign_header secret ts body) secret opts clock = None"
  using assms
  by (simp add: VerifyWebhook_alt sign_header_not_blank parse_sign_header check_signature_accepts
      ParseInt64_Itoa hex_roundtrip signature_age_exact)

theorem VerifyWebhook_accepts_witness:
  "VerifyWebhook (to_bytes ''{}'') (sign_header ''whsec'' 1700000000 (to_bytes ''{}'')) ''whsec'' []
     (1700000299 * second) = None"
  by (rule VerifyWebhook_accepts) (simp_all add: verify_now_def verify_tolerance_def)

text \<open>
  C33: Whatever is accepted is authentic and fresh: the header names a timestamp and carries the
  MAC of exactly this timestamp and body under the secret, and the timestamp is within the
  tolerance of the clock, provided that it is less than 2^63 nanoseconds (292 years) away.
\<close>

theorem VerifyWebhook_sound:
  assumes "VerifyWebhook body header secret opts clock = None"
  shows "\<exists>parts tsStr ts sigHex. parseSignatureHeader header = Inr parts \<and>
     map_of parts ''t'' = Some tsStr \<and> ParseInt64 tsStr = Some ts \<and> map_of parts ''v1'' = Some sigHex \<and>
     hex_DecodeString sigHex = Some (hmac_sha256 (to_bytes secret) (signing_input ts body)) \<and>
     (\<bar>verify_now opts clock div second - ts\<bar> * second < 2 ^ 63 \<longrightarrow>
        \<bar>verify_now opts clock div second - ts\<bar> * second \<le> verify_tolerance opts)"
proof -
  obtain parts where p: "parseSignatureHeader header = Inr parts"
      "check_signature body secret (verify_tolerance opts) (verify_now opts clock) parts = None"
    using assms by (auto simp: VerifyWebhook_alt split: if_splits sum.splits)
  then show ?thesis
    unfolding check_signature_accepts by (metis signature_age_exact)
qed

theorem VerifyWebhook_sound_witness:
  "\<exists>parts ts sigHex. parseSignatureHeader (sign_header ''whsec'' 5 [1]) = Inr parts \<and>
     map_of parts ''v1'' = Some sigHex \<and>
     hex_DecodeString sigHex = Some (hmac_sha256 (to_bytes ''whsec'') (signing_input ts [1]))"
proof -
  have "VerifyWebhook [1] (sign_header ''whsec'' 5 [1]) ''whsec'' [] (6 * second) = None"
    by (simp add: VerifyWebhook_alt sign_header_not_blank parse_sign_header check_signature_accepts
        ParseInt64_Itoa hex_roundtrip signature_age_exact verify_now_def verify_tolerance_def)
  from VerifyWebhook_sound [OF this] show ?thesis by blast
qed

text \<open>
  Beyond that distance the product of seconds and \<open>time.Second\<close> wraps: a timestamp 2^55 seconds
  away has age 0 and passes every tolerance.
\<close>

lemma far_timestamp_passes:
  assumes "now div second - ts = 2 ^ 55"
  shows "signature_age now ts = 0"
  using assms by (simp add: signature_age_def wrap64_def Let_def)

end
