(* ===== verification/Payment_Link.thy ===== *)
theory Payment_Link
  imports Webhook_Laws
begin

text \<open>
  \<open>payment/bitcoin.go\<close>: payment links. A \<open>big.Float\<close> quotient is the pair of a mantissa and a
  binary scale, \<open>m / 2^k\<close>: \<open>SetInt\<close> gives the dividend a precision of at least 64 bits, the
  quotient inherits it, and \<open>Quo\<close> rounds to nearest, ties to even. \<open>Text('f', g)\<close> rounds the
  exact value of that quotient to \<open>g\<close> decimals in the same way.
\<close>

subsection \<open>Arbitrary-precision quotients\<close>

definition div_even :: "nat \<Rightarrow> nat \<Rightarrow> nat" where
  "div_even a b =
     (let q = a div b; r = a mod b
      in if 2 * r < b then q else if 2 * r > b then q + 1 else if even q then q else q + 1)"

fun bit_len :: "nat \<Rightarrow> nat" where
  "bit_len n = (if n = 0 then 0 else Suc (bit_len (n div 2)))"

declare bit_len.simps [simp del]

definition float_prec :: "nat \<Rightarrow> nat" where
  "float_prec n = max (bit_len n) 64"

text \<open>
  The scale that leaves a quotient of \<open>p\<close> bits. The rounded quotient \<open>n * 2^k / d\<close> is the
  mantissa; a negative scale cannot occur for the amounts and divisors of this file, since the
  precision is at least the length of the dividend.
\<close>

definition quo_scale :: "nat \<Rightarrow> nat \<Rightarrow> nat" where
  "quo_scale n d =
     (let p = float_prec n; k = p + bit_len d - bit_len n
      in if n * 2 ^ k div d \<ge> 2 ^ p then k - 1 else k)"

definition float_quo :: "nat \<Rightarrow> nat \<Rightarrow> nat \<times> nat" where
  "float_quo n d = (let k = quo_scale n d in (div_even (n * 2 ^ k) d, k))"

definition text_f :: "nat \<Rightarrow> nat \<times> nat \<Rightarrow> nat" where
  "text_f g mk = (case mk of (m, k) \<Rightarrow> div_even (m * 10 ^ g) (2 ^ k))"

text \<open>The decimal text of \<open>N / 10^g\<close>.\<close>

fun pad_digits :: "nat \<Rightarrow> nat \<Rightarrow> string" where
  "pad_digits 0 n = []"
| "pad_digits (Suc g) n = pad_digits g (n div 10) @ [digit_char (n mod 10)]"

definition decimal_text :: "nat \<Rightarrow> nat \<Rightarrow> string" where
  "decimal_text g N = itoa_nat (N div 10 ^ g) @ ''.'' @ pad_digits g (N mod 10 ^ g)"

definition amount_text :: "nat \<Rightarrow> int \<Rightarrow> string" where
  "amount_text g amount =
     (if amount < 0 then ''-'' else '''') @ decimal_text g (text_f g (float_quo (nat \<bar>amount\<bar>) (10 ^ g)))"

subsection \<open>Links\<close>

definition appendOptionalParam :: "string \<Rightarrow> string \<Rightarrow> string \<Rightarrow> string" where
  "appendOptionalParam uri key v = (if v = '''' then uri else uri @ ''&'' @ key @ ''='' @ QueryEscape v)"

record payment_link_options =
  pl_WalletAddress :: string
  pl_Coin :: string
  pl_Amount :: "int option"
  pl_Label :: string
  pl_Message :: string

definition link_uri :: "string \<Rightarrow> nat \<Rightarrow> int \<Rightarrow> payment_link_options \<Rightarrow> string" where
  "link_uri scheme g amount opts =
     appendOptionalParam
       (appendOptionalParam
          (scheme @ '':'' @ pl_WalletAddress opts @ ''?amount='' @ amount_text g amount)
          ''label'' (pl_Label opts))
       ''message'' (pl_Message opts)"

definition BuildPaymentLink :: "payment_link_options \<Rightarrow> goerror + string" where
  "BuildPaymentLink opts =
     (case pl_Amount opts of
        None \<Rightarrow> Inl (Errorf ''amount cannot be nil'')
      | Some amount \<Rightarrow>
          if pl_WalletAddress opts = '''' then Inl (Errorf ''wallet public address cannot be empty'')
          else if pl_Coin opts = ''bitcoin'' then Inr (link_uri ''bitcoin'' 8 amount opts)
          else if pl_Coin opts = ''ethereum'' then Inr (link_uri ''ethereum'' 18 amount opts)
          else if pl_Coin opts = ''tether'' then Inr (link_uri ''tether'' 6 amount opts)
          else Inl (Errorf (''unsupported coin: '' @ pl_Coin opts)))"

text \<open>The sign and the quotient of a conversion.\<close>

definition ConvertSatoshisToBitcoin :: "int option \<Rightarrow> goerror + bool \<times> nat \<times> nat" where
  "ConvertSatoshisToBitcoin sat =
     (case sat of
        None \<Rightarrow> Inl (Errorf ''amount cannot be nil'')
      | Some s \<Rightarrow> Inr (s < 0, float_quo (nat \<bar>s\<bar>) (10 ^ 8)))"

subsection \<open>Links carry the exact amount\<close>

lemma div_even_unique:
  assumes "2 * \<bar>int a - int n * int b\<bar> < int b"
  shows "div_even a b = n"
proof -
  have b: "0 < b" using assms by (cases b) auto
  define q r where "q = a div b" and "r = a mod b"
  have a: "int a = int q * int b + int r" and r: "r < b"
    using b by (simp_all add: q_def r_def flip: of_nat_mult of_nat_add)
  consider "n = q" | "n = q + 1" | "int n \<le> int q - 1" | "int n \<ge> int q + 2" by linarith
  then show ?thesis
  proof cases
    case 1
    with assms a r show ?thesis by (auto simp: div_even_def Let_def simp flip: q_def r_def)
  next
    case 2
    with assms a r have "2 * r > b" by (auto simp: algebra_simps)
    with 2 show ?thesis by (auto simp: div_even_def Let_def simp flip: q_def r_def)
  next
    case 3
    then have "int n * int b \<le> (int q - 1) * int b" by (intro mult_right_mono) auto
    with assms a r show ?thesis by (simp add: algebra_simps)
  next
    case 4
    then have "(int q + 2) * int b \<le> int n * int b" by (intro mult_right_mono) auto
    with assms a r show ?thesis by (simp add: algebra_simps)
  qed
qed

lemma div_even_close:
  assumes "0 < b"
  shows "2 * \<bar>int (div_even a b) * int b - int a\<bar> \<le> int b"
proof -
  define q r where "q = a div b" and "r = a mod b"
  have a: "int a = int q * int b + int r" and r: "r < b"
    using assms by (simp_all add: q_def r_def flip: of_nat_mult of_nat_add)
  then show ?thesis by (auto simp: div_even_def Let_def algebra_simps simp flip: q_def r_def)
qed

text \<open>If the scale resolves one unit of the divisor, the decimal text gives the dividend back.\<close>

lemma text_f_exact:
  assumes "10 ^ g < (2 :: nat) ^ quo_scale n (10 ^ g)"
  shows "text_f g (float_quo n (10 ^ g)) = n"
proof -
  define k d where "k = quo_scale n (10 ^ g)" and "d = (10 ^ g :: nat)"
  have "2 * \<bar>int (div_even (n * 2 ^ k) d) * int d - int (n * 2 ^ k)\<bar> \<le> int d"
    by (intro div_even_close) (simp add: d_def)
  also have "\<dots> < int (2 ^ k)" using assms by (simp only: of_nat_less_iff d_def k_def)
  finally have "div_even (div_even (n * 2 ^ k) d * d) (2 ^ k) = n"
    by (intro div_even_unique) simp
  then show ?thesis by (simp add: text_f_def float_quo_def Let_def d_def k_def)
qed

lemma bit_len_le: "n < 2 ^ b \<Longrightarrow> bit_len n \<le> b"
proof (induction b arbitrary: n)
  case (Suc b)
  then have "bit_len (n div 2) \<le> b" by (intro Suc.IH) auto
  then show ?case by (subst bit_len.simps) simp
qed (simp add: bit_len.simps)

lemma bit_len_less: "n < 2 ^ bit_len n"
proof (induction n rule: bit_len.induct)
  case (1 n)
  then show ?case by (cases "n = 0") (auto simp: bit_len.simps [of n])
qed

lemma bit_len_eq: "2 ^ b \<le> n \<Longrightarrow> n < 2 ^ Suc b \<Longrightarrow> bit_len n = Suc b"
  using bit_len_le [of n "Suc b"] bit_len_less [of n] power_less_imp_less_exp [of 2 b "bit_len n"]
  by (meson le_less_trans le_antisym Suc_leI one_less_numeral_iff semiring_norm(76))

lemma quo_scale_resolves:
  assumes "n < 2 ^ 63"
  shows "d < 2 ^ quo_scale n d"
proof -
  have "bit_len n \<le> 63" using assms by (rule bit_len_le)
  then have "bit_len d \<le> quo_scale n d" by (auto simp: quo_scale_def float_prec_def Let_def)
  then have "(2 :: nat) ^ bit_len d \<le> 2 ^ quo_scale n d" by (intro power_increasing) auto
  with bit_len_less [of d] show ?thesis by linarith
qed

lemma pad_digits_numeral:
  "pad_digits (numeral w) n = pad_digits (pred_numeral w) (n div 10) @ [digit_char (n mod 10)]"
  by (simp only: numeral_eq_Suc pad_digits.simps)

lemma length_pad_digits [simp]: "length (pad_digits g n) = g"
  by (induction g arbitrary: n) auto

lemma pad_digits_value: "n < 10 ^ g \<Longrightarrow> digits_value acc (pad_digits g n) = Some (acc * 10 ^ g + n)"
proof (induction g arbitrary: n)
  case (Suc g)
  then have "n div 10 < 10 ^ g" by (simp add: less_mult_imp_div_less mult.commute)
  then show ?case by (simp add: Suc.IH digits_value_append)
qed simp

lemma decimal_text_value:
  "\<exists>ip fp. decimal_text g N = ip @ ''.'' @ fp \<and> length fp = g \<and> digits_value 0 (ip @ fp) = Some N"
  by (rule exI [of _ "itoa_nat (N div 10 ^ g)"], rule exI [of _ "pad_digits g (N mod 10 ^ g)"])
     (simp add: decimal_text_def digits_value_append digits_value_itoa pad_digits_value div_mult_mod_eq)

definition coin_decimals :: "string \<Rightarrow> nat option" where
  "coin_decimals coin = map_of [(''bitcoin'', 8), (''ethereum'', 18), (''tether'', 6)] coin"

text \<open>
  C34: A payment link carries exactly the requested amount: for every amount below 2^63 smallest
  units and every supported coin the link has the decimals of the coin, and its digits without
  the point are the amount. Neither the 64-bit quotient nor the decimal rounding loses a unit.
\<close>

theorem payment_link_exact:
  assumes "pl_Amount opts = Some a" "0 \<le> a" "a < 2 ^ 63" "pl_WalletAddress opts \<noteq> ''''"
    and "coin_decimals (pl_Coin opts) = Some g"
  shows "\<exists>ip fp. BuildPaymentLink opts =
       Inr (appendOptionalParam (appendOptionalParam
              (pl_Coin opts @ '':'' @ pl_WalletAddress opts @ ''?amount='' @ ip @ ''.'' @ fp)
              ''label'' (pl_Label opts)) ''message'' (pl_Message opts)) \<and>
     length fp = g \<and> digits_value 0 (ip @ fp) = Some (nat a)"
proof -
  have "text_f g (float_quo (nat \<bar>a\<bar>) (10 ^ g)) = nat a"
    using assms(2,3) by (simp add: text_f_exact quo_scale_resolves nat_less_iff)
  then have t: "amount_text g a = decimal_text g (nat a)" using assms(2) by (simp add: amount_text_def)
  have "BuildPaymentLink opts = Inr (link_uri (pl_Coin opts) g a opts)"
    using assms(1,4,5) by (auto simp: BuildPaymentLink_def coin_decimals_def split: if_splits)
  moreover obtain ip fp where "decimal_text g (nat a) = ip @ ''.'' @ fp" "length fp = g" "digits_value 0 (ip @ fp) = Some (nat a)"
    using decimal_text_value by blast
  ultimately show ?thesis using t by (auto simp: link_uri_def)
qed

theorem payment_link_exact_witness:
  "\<exists>ip fp. BuildPaymentLink \<lparr>pl_WalletAddress = ''bc1q'', pl_Coin = ''bitcoin'', pl_Amount = Some 2100000000000001,
       pl_Label = '''', pl_Message = ''''\<rparr> = Inr (''bitcoin:bc1q?amount='' @ ip @ ''.'' @ fp) \<and>
     length fp = 8 \<and> digits_value 0 (ip @ fp) = Some 2100000000000001"
  using payment_link_exact [of "\<lparr>pl_WalletAddress = ''bc1q'', pl_Coin = ''bitcoin'',
      pl_Amount = Some 2100000000000001, pl_Label = '''', pl_Message = ''''\<rparr>" 2100000000000001 8]
  by (simp add: coin_decimals_def appendOptionalParam_def)

text \<open>
  Above that bound the precision of the quotient is too small for ether: the link for
  16000000000000000001 wei asks for one wei more.
\<close>

lemma ether_link_off_by_one:
  "BuildPaymentLink \<lparr>pl_WalletAddress = ''0xab'', pl_Coin = ''ethereum'', pl_Amount = Some 16000000000000000001,
     pl_Label = '''', pl_Message = ''''\<rparr> = Inr ''ethereum:0xab?amount=16.000000000000000002''"
proof -
  have b: "bit_len 16000000000000000001 = 64" "bit_len 1000000000000000000 = 60"
    using bit_len_eq [of 63 16000000000000000001] bit_len_eq [of 59 1000000000000000000] by simp_all
  have k: "quo_scale 16000000000000000001 1000000000000000000 = 59"
    by (simp add: quo_scale_def float_prec_def b Let_def)
  have "text_f 18 (float_quo 16000000000000000001 (10 ^ 18)) = 16000000000000000002"
    by (simp add: text_f_def float_quo_def k div_even_def Let_def)
  moreover have "decimal_text 18 16000000000000000002 = ''16.000000000000000002''"
    by (simp add: decimal_text_def itoa_nat.simps [of 16] itoa_nat.simps [of "Suc 0"] pad_digits_numeral digit_char_def)
  ultimately show ?thesis
    by (simp add: BuildPaymentLink_def link_uri_def appendOptionalParam_def amount_text_def)
qed

end
