(* ===== verification/Payment_Cloud.thy ===== *)
theory Payment_Cloud
  imports Sha256
begin

text \<open>
  \<open>payment/cloud.go\<close>: the client that reports invoice transitions. The random bytes, the clock
  and what the HTTP exchange results in are arguments; the request that is sent is part of the
  result. A zero \<open>time.Time\<close> is None.
\<close>

record cloud_client =
  cl_endpoint :: string
  cl_apiKey :: string
  cl_agent :: string

datatype cloud_client_option = WithHTTPClient | WithAgentName string

primrec apply_client_option :: "cloud_client_option \<Rightarrow> cloud_client \<Rightarrow> cloud_client" where
  "apply_client_option WithHTTPClient cc = cc"
| "apply_client_option (WithAgentName name) cc = (if name \<noteq> '''' then cc\<lparr>cl_agent := name\<rparr> else cc)"

definition NewCloudClient :: "string \<Rightarrow> string \<Rightarrow> cloud_client_option list \<Rightarrow> cloud_client" where
  "NewCloudClient apiKey endpoint opts =
     fold apply_client_option opts
       \<lparr>cl_endpoint = (if endpoint = '''' then ''https://api.chainkit.dev'' else endpoint),
        cl_apiKey = apiKey, cl_agent = ''chainkit-go-sdk/payment''\<rparr>"

datatype cloud_error = CloudError goerror | ErrCloudHTTP int string

primrec cloud_Error :: "cloud_error \<Rightarrow> string" where
  "cloud_Error (CloudError e) = err_msg e"
| "cloud_Error (ErrCloudHTTP status body) =
     (if body \<noteq> '''' then ''payment cloud: HTTP '' @ Itoa status @ '': '' @ body
      else ''payment cloud: HTTP '' @ Itoa status)"

primrec IsRetryable :: "cloud_error \<Rightarrow> bool" where
  "IsRetryable (CloudError e) = False"
| "IsRetryable (ErrCloudHTTP status body) = (status \<ge> 500 \<or> status = 429)"

record invoice_observation =
  io_PublicID :: string
  io_Status :: string
  io_Txid :: string
  io_Confirmations :: int
  io_ReceivedSats :: int
  io_ObservedAt :: "gotime option"

record cloud_wire_batch =
  cw_Schema :: string
  cw_Agent :: string
  cw_BatchID :: string
  cw_SentAt :: gotime
  cw_ID :: string
  cw_T :: gotime
  cw_Kind :: string
  cw_Invoice :: invoice_observation

definition payment_newEventID :: "goerror + bytes \<Rightarrow> goerror + string" where
  "payment_newEventID rnd = (case rnd of Inl e \<Rightarrow> Inl e | Inr bs \<Rightarrow> Inr (hex_EncodeToString bs))"

datatype submit_exchange =
    MarshalFails goerror
  | SubmitBuildFails goerror
  | SubmitRequestFails goerror
  | SubmitResponds int string

text \<open>The batch of one event that a call builds, with the two times that it reads.\<close>

definition invoice_batch :: "cloud_client \<Rightarrow> string \<Rightarrow> gotime \<Rightarrow> gotime \<Rightarrow> invoice_observation \<Rightarrow> cloud_wire_batch" where
  "invoice_batch c eventID t1 t2 obs =
     (let observed = (case io_ObservedAt obs of None \<Rightarrow> t1 | Some t \<Rightarrow> t)
      in \<lparr>cw_Schema = ''chainkit.ingest.v1'', cw_Agent = cl_agent c, cw_BatchID = ''p-'' @ eventID, cw_SentAt = t2, cw_ID = eventID,
          cw_T = observed, cw_Kind = ''invoice'', cw_Invoice = obs\<lparr>io_ObservedAt := Some observed\<rparr>\<rparr>)"

definition SubmitInvoiceTransition ::
  "goerror + bytes \<Rightarrow> gotime \<Rightarrow> gotime \<Rightarrow> submit_exchange \<Rightarrow> cloud_client \<Rightarrow> invoice_observation \<Rightarrow>
   cloud_wire_batch option \<times> cloud_error option" where
  "SubmitInvoiceTransition rnd t1 t2 out c obs =
     (if io_PublicID obs = '''' then (None, Some (CloudError (Errorf ''payment cloud: PublicID is required'')))
      else if io_Status obs = '''' then (None, Some (CloudError (Errorf ''payment cloud: Status is required'')))
      else
        (case payment_newEventID rnd of
           Inl e \<Rightarrow> (None, Some (CloudError (wrap_error ''payment cloud: event id: '' e)))
         | Inr eventID \<Rightarrow>
             let batch = invoice_batch c eventID t1 t2 obs
             in (case out of
                   MarshalFails e \<Rightarrow> (None, Some (CloudError (wrap_error ''payment cloud: marshal: '' e)))
                 | SubmitBuildFails e \<Rightarrow> (None, Some (CloudError (wrap_error ''payment cloud: build request: '' e)))
                 | SubmitRequestFails e \<Rightarrow> (Some batch, Some (CloudError (wrap_error ''payment cloud: request: '' e)))
                 | SubmitResponds status body \<Rightarrow>
                     if status = 202 then (Some batch, None)
                     else (Some batch, Some (ErrCloudHTTP status (take 1024 body))))))"

text \<open>
  A call reports success only when the cloud has answered 202 to the batch of this observation,
  and a retryable error only for the statuses 429 and 5xx.
\<close>

lemma SubmitInvoiceTransition_nil:
  assumes "SubmitInvoiceTransition rnd t1 t2 out c obs = (sent, None)"
  shows "\<exists>b bs. sent = Some b \<and> rnd = Inr bs \<and> cw_ID b = hex_EncodeToString bs \<and> cw_Agent b = cl_agent c \<and>
     (cw_Invoice b)\<lparr>io_ObservedAt := io_ObservedAt obs\<rparr> = obs \<and> (\<exists>body. out = SubmitResponds 202 body)"
  using assms
  by (auto simp: SubmitInvoiceTransition_def payment_newEventID_def invoice_batch_def Let_def
      split: if_splits sum.splits submit_exchange.splits)

lemma SubmitInvoiceTransition_retryable:
  assumes "SubmitInvoiceTransition rnd t1 t2 out c obs = (sent, Some err)" "IsRetryable err"
  shows "\<exists>status body. out = SubmitResponds status body \<and> (status = 429 \<or> status \<ge> 500)"
  using assms
  by (auto simp: SubmitInvoiceTransition_def Let_def
      split: if_splits sum.splits submit_exchange.splits)

end
