(* ===== verification/Bitcoin_Types.thy ===== *)
theory Bitcoin_Types
  imports Sha256
begin

text \<open>
  \<open>bitcoin/types/types.go\<close>, \<open>bitcoin/derive.go\<close>, \<open>bitcoin/balance.go\<close> and
  \<open>bitcoin/address.go\<close>: networks, fee tiers, coin selection, balances, transactions, tickers
  and wallet indices. Decoding of addresses and hashes, scripts and the transaction format are
  btcd's; they are arguments of the definitions that call them.
\<close>

subsection \<open>Networks\<close>

abbreviation BitcoinNetworkMainnet :: string where "BitcoinNetworkMainnet \<equiv> ''mainnet''"
abbreviation BitcoinNetworkTestnet3 :: string where "BitcoinNetworkTestnet3 \<equiv> ''testnet3''"
abbreviation BitcoinNetworkTestnet4 :: string where "BitcoinNetworkTestnet4 \<equiv> ''testnet4''"
abbreviation BitcoinNetworkRegtest :: string where "BitcoinNetworkRegtest \<equiv> ''regtest''"
abbreviation BitcoinNetworkSimnet :: string where "BitcoinNetworkSimnet \<equiv> ''simnet''"

datatype chain_params = MainNetParams | TestNet3Params | RegressionNetParams | SimNetParams

definition network_IsValid :: "string \<Rightarrow> bool" where
  "network_IsValid n \<longleftrightarrow>
     n \<in> {BitcoinNetworkMainnet, BitcoinNetworkTestnet3, BitcoinNetworkTestnet4, BitcoinNetworkRegtest,
          BitcoinNetworkSimnet}"

definition network_String :: "string \<Rightarrow> string" where
  "network_String n =
     (if n = BitcoinNetworkMainnet then ''mainnet''
      else if n = BitcoinNetworkTestnet3 then ''testnet3''
      else if n = BitcoinNetworkTestnet4 then ''testnet4''
      else if n = BitcoinNetworkRegtest then ''regtest''
      else if n = BitcoinNetworkSimnet then ''simnet''
      else '''')"

text \<open>The verbs \<open>%s\<close> and \<open>%q\<close> print a network through its \<open>String\<close> method.\<close>

definition ChaincfgNetwork :: "string \<Rightarrow> goerror + chain_params" where
  "ChaincfgNetwork b =
     (if b = BitcoinNetworkMainnet then Inr MainNetParams
      else if b = BitcoinNetworkTestnet3 then Inr TestNet3Params
      else if b = BitcoinNetworkTestnet4 then Inr TestNet3Params
      else if b = BitcoinNetworkRegtest then Inr RegressionNetParams
      else if b = BitcoinNetworkSimnet then Inr SimNetParams
      else Inl (Errorf (''unknown Bitcoin network: '' @ network_String b)))"

definition BlockcypherChain :: "string \<Rightarrow> string \<times> bool" where
  "BlockcypherChain n =
     (if n = BitcoinNetworkMainnet then (''main'', True)
      else if n = BitcoinNetworkTestnet3 \<or> n = BitcoinNetworkTestnet4 then (''test3'', True)
      else ('''', False))"

text \<open>\<open>DecodeAddress\<close> and \<open>IsForNet\<close> are btcutil's.\<close>

definition ValidatePublicAddress ::
  "(string \<Rightarrow> chain_params \<Rightarrow> goerror + 'addr) \<Rightarrow> ('addr \<Rightarrow> chain_params \<Rightarrow> bool) \<Rightarrow> string \<Rightarrow> string \<Rightarrow>
   bool \<times> goerror option" where
  "ValidatePublicAddress DecodeAddress IsForNet address network =
     (case ChaincfgNetwork network of
        Inl err \<Rightarrow> (False, Some err)
      | Inr params \<Rightarrow>
          (case DecodeAddress address params of
             Inl _ \<Rightarrow> (False, None)
           | Inr addr \<Rightarrow> (IsForNet addr params, None)))"

subsection \<open>Errors\<close>

text \<open>The error types have no \<open>Unwrap\<close> method: \<open>errors.Is\<close> finds no sentinel behind them.\<close>

definition RequestError :: "string \<Rightarrow> goerror option \<Rightarrow> goerror" where
  "RequestError message err =
     Errorf (case err of
               Some e \<Rightarrow> ''request error: '' @ message @ '': '' @ err_msg e
             | None \<Rightarrow> ''request error: '' @ message)"

definition CoinNotSupportedError :: "string \<Rightarrow> goerror" where
  "CoinNotSupportedError coin = Errorf (''coin not supported: '' @ coin)"

definition UnknownConversionError :: "string \<Rightarrow> string \<Rightarrow> goerror \<Rightarrow> goerror" where
  "UnknownConversionError src dst err =
     Errorf (''unknown conversion from '' @ src @ '' to '' @ dst @ '': '' @ err_msg err)"

definition CurrencyNotSupportedError :: "string \<Rightarrow> goerror" where
  "CurrencyNotSupportedError currency = Errorf (''currency not supported: '' @ currency)"

definition InvalidNetworkError :: "string \<Rightarrow> goerror" where
  "InvalidNetworkError network = Errorf (''invalid Bitcoin network: '' @ network_String network)"

definition InvalidNetworkForXPubError :: "string \<Rightarrow> string \<Rightarrow> string \<Rightarrow> goerror" where
  "InvalidNetworkForXPubError network xpub xpubNetwork =
     Errorf (''xpub '' @ xpub @ '' is for network '' @ go_quote (network_String xpubNetwork) @ '', not '' @
             go_quote (network_String network))"

lemma RequestError_hides [simp]: "\<not> errors_Is (RequestError message err) s"
  by (simp add: RequestError_def)

subsection \<open>Fee tiers\<close>

record fee_tier =
  ft_FeeRate :: "64 word"
  ft_TargetBlock :: int

text \<open>A \<open>FeePriority\<close> is an int; the named ones are 0 to 4.\<close>

definition TargetBlock :: "int \<Rightarrow> int" where
  "TargetBlock p =
     (if p = 0 then 1 else if p = 1 then 3 else if p = 2 then 6 else if p = 3 then 144
      else if p = 4 then 1008 else 6)"

definition abs_int :: "int \<Rightarrow> int" where
  "abs_int x = (if x < 0 then wrap64 (- x) else x)"

definition block_diff :: "int \<Rightarrow> fee_tier \<Rightarrow> int" where
  "block_diff target t = abs_int (wrap64 (ft_TargetBlock t - target))"

definition SelectClosest :: "int \<Rightarrow> fee_tier list \<Rightarrow> fee_tier" where
  "SelectClosest p tiers =
     (case tiers of
        [] \<Rightarrow> \<lparr>ft_FeeRate = 0, ft_TargetBlock = 0\<rparr>
      | t0 # ts \<Rightarrow>
          let target = TargetBlock p
          in fst (fold (\<lambda>t (best, bestDiff).
                    let d = block_diff target t in if d < bestDiff then (t, d) else (best, bestDiff))
                  ts (t0, block_diff target t0)))"

subsection \<open>Coins\<close>

record utxo =
  ux_TxHash :: string
  ux_Vout :: "32 word"
  ux_Amount :: int
  ux_ScriptPubKey :: "bytes option"
  ux_Address :: string
  ux_Confirmed :: bool
  ux_Confirmations :: int
  ux_Spendable :: bool
  ux_BlockHeight :: int

definition ValueInBTC :: "utxo \<Rightarrow> real" where
  "ValueInBTC u = real_of_int (ux_Amount u) / 100000000"

text \<open>The loop of \<open>Select\<close>: the coins taken so far and their running 64-bit sum.\<close>

fun select_loop :: "int \<Rightarrow> utxo list \<Rightarrow> utxo list \<Rightarrow> int \<Rightarrow> utxo list \<times> int" where
  "select_loop targetAmount [] selected amount = (selected, amount)"
| "select_loop targetAmount (u # us) selected amount =
     (let selected' = selected @ [u]; amount' = wrap64 (amount + ux_Amount u)
      in if amount' \<ge> targetAmount then (selected', amount')
         else select_loop targetAmount us selected' amount')"

definition utxo_Select :: "utxo list \<Rightarrow> int \<Rightarrow> goerror + utxo list \<times> int" where
  "utxo_Select us targetAmount =
     (case select_loop targetAmount us [] 0 of (selected, amount) \<Rightarrow>
        if amount < targetAmount then Inl (Errorf ''insufficient funds'')
        else Inr (selected, wrap64 (amount - targetAmount)))"

record balance =
  bal_Confirmed :: "64 word"
  bal_Unconfirmed :: "64 word"
  bal_Total :: "64 word"

definition CalculateBalanceFromUTXOs :: "utxo list \<Rightarrow> balance" where
  "CalculateBalanceFromUTXOs us =
     (case fold (\<lambda>u (confirmed, unconfirmed).
              if ux_Confirmed u then (confirmed + word_of_int (ux_Amount u), unconfirmed)
              else (confirmed, unconfirmed + word_of_int (ux_Amount u))) us (0, 0) of
        (confirmed, unconfirmed) \<Rightarrow>
          \<lparr>bal_Confirmed = confirmed, bal_Unconfirmed = unconfirmed, bal_Total = confirmed + unconfirmed\<rparr>)"

subsection \<open>Transactions\<close>

record tx_state =
  txs_Status :: string

abbreviation TxStateFailed :: tx_state where "TxStateFailed \<equiv> \<lparr>txs_Status = ''failed''\<rparr>"
abbreviation TxStatePending :: tx_state where "TxStatePending \<equiv> \<lparr>txs_Status = ''pending''\<rparr>"
abbreviation TxStateConfirmed :: tx_state where "TxStateConfirmed \<equiv> \<lparr>txs_Status = ''confirmed''\<rparr>"
abbreviation TxStateUnknown :: tx_state where "TxStateUnknown \<equiv> \<lparr>txs_Status = ''unknown''\<rparr>"

record tx_input =
  ti_PreviousTxID :: string
  ti_OutputIndex :: "32 word"

record tx_output =
  to_Address :: string
  to_Value :: int

record tx =
  tx_Version :: int
  tx_Inputs :: "tx_input list"
  tx_Outputs :: "tx_output list"
  tx_Fee :: "64 word"
  tx_Status :: tx_state
  tx_Params :: "chain_params option"

record signed_tx =
  st_ID :: string
  st_Version :: int
  st_Inputs :: "tx_input list"
  st_Outputs :: "tx_output list"
  st_RawSigned :: bytes
  st_Fee :: "64 word"
  st_Status :: tx_state

text \<open>The message that btcd serialises: its inputs, and its outputs with their scripts.\<close>

record 'h msg_tx =
  mt_Version :: int
  mt_In :: "('h \<times> 32 word) list"
  mt_Out :: "(int \<times> bytes) list"

record ('h, 'addr) btcd =
  bt_NewHashFromStr :: "string \<Rightarrow> goerror + 'h"
  bt_DecodeAddress :: "string \<Rightarrow> chain_params \<Rightarrow> goerror + 'addr"
  bt_PayToAddrScript :: "'addr \<Rightarrow> goerror + bytes"
  bt_Serialize :: "'h msg_tx \<Rightarrow> goerror + bytes"
  bt_HashH :: "bytes \<Rightarrow> string"

definition OutPoint :: "('h, 'addr) btcd \<Rightarrow> utxo \<Rightarrow> goerror + 'h \<times> 32 word" where
  "OutPoint bt u =
     (case bt_NewHashFromStr bt (ux_TxHash u) of Inl e \<Rightarrow> Inl e | Inr h \<Rightarrow> Inr (h, ux_Vout u))"

text \<open>A \<open>wire.TxIn\<close> of a coin; its scripts are nil.\<close>

definition utxo_TxInput :: "('h, 'addr) btcd \<Rightarrow> utxo \<Rightarrow> goerror + 'h \<times> 32 word" where
  "utxo_TxInput bt u = (case OutPoint bt u of Inl e \<Rightarrow> Inl e | Inr p \<Rightarrow> Inr p)"

fun serialize_inputs :: "('h, 'addr) btcd \<Rightarrow> tx_input list \<Rightarrow> goerror + ('h \<times> 32 word) list" where
  "serialize_inputs bt [] = Inr []"
| "serialize_inputs bt (i # is) =
     (case bt_NewHashFromStr bt (ti_PreviousTxID i) of
        Inl e \<Rightarrow> Inl (wrap_error ''invalid previous tx id: '' e)
      | Inr h \<Rightarrow>
          (case serialize_inputs bt is of Inl e \<Rightarrow> Inl e | Inr hs \<Rightarrow> Inr ((h, ti_OutputIndex i) # hs)))"

fun serialize_outputs :: "('h, 'addr) btcd \<Rightarrow> chain_params \<Rightarrow> tx_output list \<Rightarrow> goerror + (int \<times> bytes) list" where
  "serialize_outputs bt params [] = Inr []"
| "serialize_outputs bt params (t # ts) =
     (case bt_DecodeAddress bt (to_Address t) params of
        Inl e \<Rightarrow> Inl (wrap_error (''invalid output address '' @ go_quote (to_Address t) @ '': '') e)
      | Inr addr \<Rightarrow>
          (case bt_PayToAddrScript bt addr of
             Inl e \<Rightarrow> Inl (wrap_error (''failed to build scriptPubKey for '' @ go_quote (to_Address t) @ '': '') e)
           | Inr script \<Rightarrow>
               (case serialize_outputs bt params ts of
                  Inl e \<Rightarrow> Inl e | Inr vs \<Rightarrow> Inr ((to_Value t, script) # vs))))"

definition tx_Serialize :: "('h, 'addr) btcd \<Rightarrow> tx \<Rightarrow> goerror + bytes" where
  "tx_Serialize bt t =
     (case tx_Params t of
        None \<Rightarrow> Inl (Errorf ''Tx.Params must be set to network chaincfg.Params before serializing'')
      | Some params \<Rightarrow>
          (case serialize_inputs bt (tx_Inputs t) of
             Inl e \<Rightarrow> Inl e
           | Inr ins \<Rightarrow>
               (case serialize_outputs bt params (tx_Outputs t) of
                  Inl e \<Rightarrow> Inl e
                | Inr outs \<Rightarrow>
                    (case bt_Serialize bt \<lparr>mt_Version = tx_Version t, mt_In = ins, mt_Out = outs\<rparr> of
                       Inl e \<Rightarrow> Inl (wrap_error ''failed to serialize transaction: '' e)
                     | Inr bs \<Rightarrow> Inr bs))))"

definition tx_Hash :: "('h, 'addr) btcd \<Rightarrow> tx \<Rightarrow> goerror + string" where
  "tx_Hash bt t =
     (case tx_Serialize bt t of
        Inl e \<Rightarrow> Inl (wrap_error ''failed to serialize transaction: '' e)
      | Inr bs \<Rightarrow> Inr (bt_HashH bt bs))"

subsection \<open>Wallet indices\<close>

text \<open>The 64-bit FNV-1a hash.\<close>

definition fnv64a :: "string \<Rightarrow> 64 word" where
  "fnv64a s = fold (\<lambda>b h. (h XOR ucast b) * 0x100000001b3) (to_bytes s) 0xcbf29ce484222325"

definition DeriveHDIndices :: "string \<Rightarrow> goerror + 32 word \<times> 32 word" where
  "DeriveHDIndices data =
     (if data = '''' then Inl (Errorf ''data cannot be empty'')
      else
        let hash = fnv64a data; hi = ucast (drop_bit 32 hash) :: 32 word; lo = ucast hash :: 32 word
        in Inr (hi AND 0x7FFFFFFF, lo AND 0x7FFFFFFF))"

subsection \<open>Tickers\<close>

record coin_ticker =
  tk_blockchain :: string
  tk_coingecko :: string
  tk_mempool :: string

definition CoinTickerBTC :: coin_ticker where
  "CoinTickerBTC = \<lparr>tk_blockchain = ''BTC'', tk_coingecko = ''Bitcoin'', tk_mempool = ''BTC''\<rparr>"

definition CoinTickerUnspecified :: coin_ticker where
  "CoinTickerUnspecified = \<lparr>tk_blockchain = '''', tk_coingecko = '''', tk_mempool = ''''\<rparr>"

definition ticker_String :: "coin_ticker \<Rightarrow> string" where
  "ticker_String t =
     (if tk_blockchain t = '''' \<and> tk_coingecko t = '''' \<and> tk_mempool t = '''' then ''Unknown''
      else if tk_blockchain t \<noteq> '''' then tk_blockchain t
      else if tk_coingecko t \<noteq> '''' then tk_coingecko t
      else if tk_mempool t \<noteq> '''' then tk_mempool t
      else ''Unknown'')"

definition BlockchainString :: "coin_ticker \<Rightarrow> string" where
  "BlockchainString t = (if tk_blockchain t = '''' then tk_coingecko t else tk_blockchain t)"

definition CoingeckoString :: "coin_ticker \<Rightarrow> string" where
  "CoingeckoString t = (if tk_coingecko t = '''' then tk_blockchain t else tk_coingecko t)"

definition MempoolString :: "coin_ticker \<Rightarrow> string" where
  "MempoolString t = (if tk_mempool t = '''' then tk_blockchain t else tk_mempool t)"

definition CoinTickerFromString :: "string \<Rightarrow> coin_ticker \<times> goerror option" where
  "CoinTickerFromString s =
     (if s \<in> {''COIN_TICKER_BTC'', ''BTC'', ''Bitcoin''} then (CoinTickerBTC, None)
      else if s \<in> {''COIN_TICKER_UNSPECIFIED'', ''''} then (CoinTickerUnspecified, None)
      else (CoinTickerUnspecified, Some (Errorf (''unknown coin ticker: '' @ s))))"

subsection \<open>Rates\<close>

text \<open>A \<open>big.Float\<close> made from a \<open>float64\<close> is finite or an infinity.\<close>

datatype big_float = Finite real | Infinite bool

record coin_rate =
  cr_Rate :: big_float
  cr_Timestamp :: gotime
  cr_Network :: string
  cr_Source :: string
  cr_Currency :: string
  cr_Coin :: coin_ticker

subsection \<open>Keys\<close>

definition GenerateKeys :: "goerror + 'priv \<Rightarrow> ('priv \<Rightarrow> 'pub) \<Rightarrow> goerror + 'priv \<times> 'pub" where
  "GenerateKeys NewPrivateKey PubKey =
     (case NewPrivateKey of Inl e \<Rightarrow> Inl e | Inr k \<Rightarrow> Inr (k, PubKey k))"

end
