(* ===== verification/Bitcoin_Laws.thy ===== *)
theory Bitcoin_Laws
  imports Bitcoin_Types
begin

text \<open>
  Fee tiers are chosen by distance, coins are selected as the shortest covering prefix, balances
  add up, and wallet indices are non-hardened.
\<close>

subsection \<open>Fee tiers\<close>

lemma closest_fold:
  assumes "bestDiff = block_diff target best"
  shows "\<exists>t. fold (\<lambda>t (best, bestDiff).
        let d = block_diff target t in if d < bestDiff then (t, d) else (best, bestDiff)) ts (best, bestDiff) =
      (t, block_diff target t) \<and> t \<in> insert best (set ts) \<and>
      (\<forall>t' \<in> insert best (set ts). block_diff target t \<le> block_diff target t')"
  using assms
proof (induction ts arbitrary: best bestDiff)
  case (Cons a ts)
  show ?case
  proof (cases "block_diff target a < bestDiff")
    case True
    obtain t where "fold (\<lambda>t (best, bestDiff).
        let d = block_diff target t in if d < bestDiff then (t, d) else (best, bestDiff)) ts (a, block_diff target a) =
      (t, block_diff target t)" "t \<in> insert a (set ts)"
      "\<forall>t' \<in> insert a (set ts). block_diff target t \<le> block_diff target t'"
      using Cons.IH [OF refl] by blast
    with True Cons.prems show ?thesis by (auto simp: Let_def)
  next
    case False
    obtain t where "fold (\<lambda>t (best, bestDiff).
        let d = block_diff target t in if d < bestDiff then (t, d) else (best, bestDiff)) ts (best, bestDiff) =
      (t, block_diff target t)" "t \<in> insert best (set ts)"
      "\<forall>t' \<in> insert best (set ts). block_diff target t \<le> block_diff target t'"
      using Cons.IH [OF Cons.prems] by blast
    with False Cons.prems show ?thesis by (auto simp: Let_def)
  qed
qed simp

lemma block_diff_exact:
  assumes "0 \<le> target" "target \<le> 1008" "0 \<le> ft_TargetBlock t" "ft_TargetBlock t < 2 ^ 63"
  shows "block_diff target t = \<bar>ft_TargetBlock t - target\<bar>"
  using assms by (auto simp: block_diff_def abs_int_def wrap64_id)

lemma TargetBlock_range: "0 \<le> TargetBlock p \<and> TargetBlock p \<le> 1008"
  by (simp add: TargetBlock_def)

text \<open>
  \<open>SelectClosest\<close> returns one of the tiers, and none of them is closer to the block target
  of the priority.
\<close>

lemma SelectClosest_optimal:
  assumes "tiers \<noteq> []" "\<forall>t \<in> set tiers. 0 \<le> ft_TargetBlock t \<and> ft_TargetBlock t < 2 ^ 63"
  shows "SelectClosest p tiers \<in> set tiers \<and>
     (\<forall>t \<in> set tiers. \<bar>ft_TargetBlock (SelectClosest p tiers) - TargetBlock p\<bar> \<le> \<bar>ft_TargetBlock t - TargetBlock p\<bar>)"
proof -
  obtain t0 ts where tiers: "tiers = t0 # ts" using assms(1) by (cases tiers) auto
  obtain t where t: "SelectClosest p tiers = t" "t \<in> set tiers"
      "\<forall>t' \<in> set tiers. block_diff (TargetBlock p) t \<le> block_diff (TargetBlock p) t'"
    using closest_fold [OF refl, where target = "TargetBlock p" and best = t0 and ts = ts] by (auto simp: SelectClosest_def tiers Let_def)
  have "block_diff (TargetBlock p) t' = \<bar>ft_TargetBlock t' - TargetBlock p\<bar>" if "t' \<in> set tiers" for t'
    using assms(2) that TargetBlock_range [of p] by (intro block_diff_exact) auto
  with t show ?thesis by auto
qed

subsection \<open>Coin selection\<close>

abbreviation amounts :: "utxo list \<Rightarrow> int" where
  "amounts us \<equiv> sum_list (map ux_Amount us)"

lemma sum_list_take_le:
  assumes "\<forall>u \<in> set us. 0 \<le> ux_Amount u"
  shows "amounts (take n us) \<le> amounts us"
proof -
  have "amounts us = amounts (take n us) + amounts (drop n us)"
    by (metis append_take_drop_id map_append sum_list_append)
  moreover have "0 \<le> amounts (drop n us)" using assms by (intro sum_list_nonneg) (auto dest: in_set_dropD)
  ultimately show ?thesis by simp
qed

lemma select_loop_prefix:
  assumes "\<forall>u \<in> set us. 0 \<le> ux_Amount u" "0 \<le> a" "a + amounts us < 2 ^ 63" "a < targetAmount"
  shows "\<exists>n. select_loop targetAmount us sel a = (sel @ take n us, a + amounts (take n us)) \<and> n \<le> length us \<and>
     (\<forall>m < n. a + amounts (take m us) < targetAmount) \<and>
     (a + amounts (take n us) < targetAmount \<longrightarrow> n = length us)"
  using assms
proof (induction us arbitrary: sel a)
  case (Cons u us)
  have nn: "0 \<le> amounts us" using Cons.prems(1) by (intro sum_list_nonneg) auto
  have w: "wrap64 (a + ux_Amount u) = a + ux_Amount u"
    using Cons.prems nn by (intro wrap64_id) auto
  show ?case
  proof (cases "a + ux_Amount u \<ge> targetAmount")
    case True
    then show ?thesis using w Cons.prems(4) by (intro exI [of _ 1]) (auto simp: Let_def)
  next
    case False
    then have p: "\<forall>u \<in> set us. 0 \<le> ux_Amount u" "0 \<le> a + ux_Amount u" "(a + ux_Amount u) + amounts us < 2 ^ 63"
        "a + ux_Amount u < targetAmount"
      using Cons.prems by (simp_all add: add.assoc)
    obtain n where n: "select_loop targetAmount us (sel @ [u]) (a + ux_Amount u) =
          ((sel @ [u]) @ take n us, (a + ux_Amount u) + amounts (take n us))" "n \<le> length us"
        "\<forall>m < n. (a + ux_Amount u) + amounts (take m us) < targetAmount"
        "(a + ux_Amount u) + amounts (take n us) < targetAmount \<longrightarrow> n = length us"
      using Cons.IH [OF p, of "sel @ [u]"] by blast
    have sum: "amounts (take (Suc m) (u # us)) = ux_Amount u + amounts (take m us)" for m by simp
    show ?thesis
    proof (intro exI [of _ "Suc n"] conjI allI impI)
      show "select_loop targetAmount (u # us) sel a =
          (sel @ take (Suc n) (u # us), a + amounts (take (Suc n) (u # us)))"
        using n(1) False by (simp add: w add.assoc)
      show "Suc n \<le> length (u # us)" using n(2) by simp
      show "Suc n = length (u # us)" if "a + amounts (take (Suc n) (u # us)) < targetAmount"
        using that n(4) unfolding sum by (simp add: add.assoc)
      show "a + amounts (take m (u # us)) < targetAmount" if "m < Suc n" for m
      proof (cases m)
        case 0
        then show ?thesis using Cons.prems(4) by simp
      next
        case (Suc k)
        with that n(3) show ?thesis unfolding Suc sum by (simp add: add.assoc)
      qed
    qed
  qed
qed simp

text \<open>
  C35: Coin selection takes the shortest prefix of the coins that covers a positive target, and
  its change is what the prefix has above the target, never negative; it reports insufficient
  funds exactly when all coins together do not cover the target.
\<close>

theorem utxo_Select_prefix:
  assumes "\<forall>u \<in> set us. 0 \<le> ux_Amount u" "amounts us < 2 ^ 63" "0 < targetAmount"
  shows "case utxo_Select us targetAmount of
       Inl _ \<Rightarrow> amounts us < targetAmount
     | Inr (sel, change) \<Rightarrow>
         \<exists>n. sel = take n us \<and> amounts sel = targetAmount + change \<and> 0 \<le> change \<and>
           (\<forall>m < n. amounts (take m us) < targetAmount)"
proof -
  obtain n where n: "select_loop targetAmount us [] 0 = (take n us, amounts (take n us))" "n \<le> length us"
      "\<forall>m < n. amounts (take m us) < targetAmount" "amounts (take n us) < targetAmount \<longrightarrow> n = length us"
    using select_loop_prefix [OF assms(1) order_refl _ assms(3), of "[]"] assms(2)
    unfolding add_0 append_Nil by blast
  show ?thesis
  proof (cases "amounts (take n us) < targetAmount")
    case True
    with n(1,4) show ?thesis by (simp add: utxo_Select_def)
  next
    case False
    have "amounts (take n us) < 2 ^ 63" using sum_list_take_le [OF assms(1), of n] assms(2) by simp
    then have "wrap64 (amounts (take n us) - targetAmount) = amounts (take n us) - targetAmount"
      using False assms(3) by (intro wrap64_id) auto
    then have eq: "utxo_Select us targetAmount = Inr (take n us, amounts (take n us) - targetAmount)"
      using False by (simp add: utxo_Select_def n(1))
    show ?thesis
      unfolding eq sum.case prod.case
      by (intro exI [of _ n] conjI refl) (use n(3) False in simp_all)
  qed
qed

definition demo_utxo :: "int \<Rightarrow> utxo" where
  "demo_utxo a = \<lparr>ux_TxHash = '''', ux_Vout = 0, ux_Amount = a, ux_ScriptPubKey = None, ux_Address = '''',
     ux_Confirmed = True, ux_Confirmations = 6, ux_Spendable = True, ux_BlockHeight = 1\<rparr>"

theorem utxo_Select_prefix_witness:
  "\<exists>sel change. utxo_Select [demo_utxo 5, demo_utxo 90, demo_utxo 7] 90 = Inr (sel, change) \<and>
     amounts sel = 90 + change \<and> change = 5"
proof -
  have a: "ux_Amount (demo_utxo n) = n" for n by (simp add: demo_utxo_def)
  have "utxo_Select [demo_utxo 5, demo_utxo 90, demo_utxo 7] 90 = Inr ([demo_utxo 5, demo_utxo 90], 5)"
    by (simp add: utxo_Select_def wrap64_id a)
  with utxo_Select_prefix [of "[demo_utxo 5, demo_utxo 90, demo_utxo 7]" 90] show ?thesis
    by (simp add: a)
qed

subsection \<open>Balances\<close>

lemma balance_fold:
  "fold (\<lambda>u (confirmed, unconfirmed).
      if ux_Confirmed u then (confirmed + word_of_int (ux_Amount u), unconfirmed)
      else (confirmed, unconfirmed + word_of_int (ux_Amount u))) us (c, d) =
   (c + word_of_int (amounts (filter ux_Confirmed us)),
    d + (word_of_int (amounts (filter (\<lambda>u. \<not> ux_Confirmed u) us)) :: 64 word))"
  by (induction us arbitrary: c d) (auto simp: add.assoc)

text \<open>The three figures of a balance are the sums of the coins, in 64-bit arithmetic.\<close>

lemma balance_sums:
  "bal_Confirmed (CalculateBalanceFromUTXOs us) = word_of_int (amounts (filter ux_Confirmed us))"
  "bal_Total (CalculateBalanceFromUTXOs us) = word_of_int (amounts us)"
proof -
  have "amounts us = amounts (filter ux_Confirmed us) + amounts (filter (\<lambda>u. \<not> ux_Confirmed u) us)"
    by (induction us) auto
  then show "bal_Confirmed (CalculateBalanceFromUTXOs us) = word_of_int (amounts (filter ux_Confirmed us))"
    "bal_Total (CalculateBalanceFromUTXOs us) = word_of_int (amounts us)"
    by (simp_all add: CalculateBalanceFromUTXOs_def balance_fold)
qed

subsection \<open>Wallet indices and tickers\<close>

text \<open>Both indices are below 2^31, as non-hardened BIP32 indices have to be.\<close>

lemma DeriveHDIndices_range:
  assumes "DeriveHDIndices data = Inr (i, c)"
  shows "unat i < 2 ^ 31 \<and> unat c < 2 ^ 31"
proof -
  have "unat (w AND 0x7FFFFFFF :: 32 word) < 2 ^ 31" for w
  proof -
    have "(0x7FFFFFFF :: 32 word) = mask 31" by (simp add: mask_eq_exp_minus_1)
    then have "w AND 0x7FFFFFFF = take_bit 31 w" by (simp add: take_bit_eq_mask)
    then show ?thesis using take_bit_nat_less_exp [of 31 "unat w"] by (simp add: unsigned_take_bit_eq)
  qed
  then show ?thesis using assms by (auto simp: DeriveHDIndices_def Let_def split: if_splits)
qed

text \<open>The text of the unspecified ticker is not one that the parser accepts.\<close>

lemma ticker_text:
  "CoinTickerFromString (ticker_String CoinTickerBTC) = (CoinTickerBTC, None)"
  "snd (CoinTickerFromString (ticker_String CoinTickerUnspecified)) \<noteq> None"
  by (simp_all add: CoinTickerFromString_def ticker_String_def CoinTickerBTC_def CoinTickerUnspecified_def)

end
