(* ===== verification/Bitcoin_Json.thy ===== *)
theory Bitcoin_Json
  imports Bitcoin_Types Store_Json
begin

text \<open>
  The JSON forms in \<open>bitcoin/types/types.go\<close>: \<open>MarshalJSON\<close> of transactions, rates and tickers, and
  \<open>UnmarshalJSON\<close> of tickers. Numbers and times are printed by a codec as in the stores.
\<close>

subsection \<open>Tickers\<close>

text \<open>The text of a ticker is put between quotes as it is.\<close>

definition ticker_MarshalJSON :: "coin_ticker \<Rightarrow> string" where
  "ticker_MarshalJSON t = [CHR 0x22] @ ticker_String t @ [CHR 0x22]"

definition dec_ticker :: "coin_ticker decoder" where
  "dec_ticker v t =
     (case dec_string v '''' of
        (s, False) \<Rightarrow> (t, False)
      | (s, True) \<Rightarrow> (case CoinTickerFromString s of (_, Some e) \<Rightarrow> (t, False) | (t', None) \<Rightarrow> (t', True)))"

subsection \<open>Rates\<close>

definition rate_json :: "json_codec \<Rightarrow> coin_rate \<Rightarrow> json option" where
  "rate_json cd r =
     (case cr_Rate r of
        Infinite _ \<Rightarrow> None
      | Finite x \<Rightarrow> do {
          rate \<leftarrow> cd_float cd x;
          time \<leftarrow> cd_time cd (cr_Timestamp r);
          Some (JObj [(''rate'', JNum rate), (''timestamp'', JStr time), (''network'', JStr (cr_Network r)),
                      (''source'', JStr (cr_Source r)), (''currency'', JStr (cr_Currency r)),
                      (''coin'', JStr (ticker_String (cr_Coin r)))])
        })"

subsection \<open>Transactions\<close>

definition tx_input_json :: "tx_input \<Rightarrow> json" where
  "tx_input_json i =
     JObj [(''previous_tx_id'', JStr (ti_PreviousTxID i)), (''output_index'', JNum (itoa_nat (unat (ti_OutputIndex i))))]"

definition dec_tx_input :: "tx_input decoder" where
  "dec_tx_input =
     dec_struct [fld ''previous_tx_id'' ti_PreviousTxID ti_PreviousTxID_update dec_string,
                 fld ''output_index'' ti_OutputIndex ti_OutputIndex_update dec_uint]"

definition tx_output_json :: "tx_output \<Rightarrow> json" where
  "tx_output_json out = JObj [(''address'', JStr (to_Address out)), (''value'', JNum (Itoa (to_Value out)))]"

definition tx_MarshalJSON :: "('h, 'addr) btcd \<Rightarrow> tx \<Rightarrow> goerror + json" where
  "tx_MarshalJSON bt t =
     (case tx_Hash bt t of
        Inl e \<Rightarrow> Inl (wrap_error ''failed to compute transaction hash: '' e)
      | Inr hash \<Rightarrow>
          Inr (JObj
            ((if hash = '''' then [] else [(''id'', JStr hash)]) @
             [(''version'', JNum (Itoa (tx_Version t))),
              (''inputs'', JArr (map tx_input_json (tx_Inputs t))),
              (''outputs'', JArr (map tx_output_json (tx_Outputs t))),
              (''fee'', JNum (itoa_nat (unat (tx_Fee t)))), (''status'', JObj [(''status'', JStr (txs_Status (tx_Status t)))])])))"

text \<open>The JSON form of a transaction can be parsed, and its inputs read back.\<close>

lemma tx_json_parses:
  assumes "tx_MarshalJSON bt t = Inr v"
  shows "text_value (json_text v) = Some v"
proof (rule json_roundtrip)
  show "json_ok v"
    using assms by (auto simp: tx_MarshalJSON_def tx_input_json_def tx_output_json_def lex_number_Itoa lex_number_itoa_nat
        split: sum.splits)
qed

lemma tx_input_roundtrip: "dec_tx_input (tx_input_json i) \<lparr>ti_PreviousTxID = '''', ti_OutputIndex = 0\<rparr> = (i, True)"
  by (simp add: dec_tx_input_def tx_input_json_def dec_defs)

end
