(* ===== verification/Http.thy ===== *)
theory Http
  imports Bitcoin_Types Json_Laws "HOL-Library.State_Monad"
begin

text \<open>
  What the HTTP adapters in \<open>bitcoin/providers\<close> share. The network and the clock are a state \<open>'w\<close>
  that requests and readings change; an environment says how. An adapter operation is a
  computation in the state monad over \<open>'w\<close> (and the adapter's own state, where it has one), with
  an error or a value as its result. Whether \<open>http.NewRequest\<close> accepts a URL, what \<open>Do\<close> answers
  and what the clock shows are arbitrary, so the theorems hold for every server.
\<close>

record http_request =
  hq_Method :: string
  hq_URL :: string
  hq_Headers :: "(string \<times> string) list"
  hq_Body :: string

text \<open>The bytes of the body that can be read, and the error that ends the reading early, if any.\<close>

record http_response =
  hs_StatusCode :: int
  hs_Status :: string
  hs_Body :: string
  hs_ReadErr :: "goerror option"

record 'w http_env =
  he_NewRequest :: "string \<Rightarrow> string \<Rightarrow> goerror option"
  he_Do :: "http_request \<Rightarrow> ('w, goerror + http_response) state"
  he_Now :: "('w, gotime) state"

abbreviation return :: "'a \<Rightarrow> ('s, 'a) state" where "return \<equiv> State_Monad.return"

datatype exchange =
    RequestFails goerror
  | DoFails goerror
  | Responds http_response

definition send :: "'w http_env \<Rightarrow> http_request \<Rightarrow> ('w, exchange) state" where
  "send env req =
     (case he_NewRequest env (hq_Method req) (hq_URL req) of
        Some e \<Rightarrow> return (RequestFails e)
      | None \<Rightarrow> do {
          r \<leftarrow> he_Do env req;
          return (case r of Inl e \<Rightarrow> DoFails e | Inr resp \<Rightarrow> Responds resp)
        })"

definition http_get :: "'w http_env \<Rightarrow> string \<Rightarrow> (string \<times> string) list \<Rightarrow> ('w, exchange) state" where
  "http_get env url headers =
     send env \<lparr>hq_Method = ''GET'', hq_URL = url, hq_Headers = headers, hq_Body = ''''\<rparr>"

definition http_post ::
  "'w http_env \<Rightarrow> string \<Rightarrow> (string \<times> string) list \<Rightarrow> string \<Rightarrow> ('w, exchange) state" where
  "http_post env url headers body =
     send env \<lparr>hq_Method = ''POST'', hq_URL = url, hq_Headers = headers, hq_Body = body\<rparr>"

text \<open>\<open>io.ReadAll\<close>, and \<open>json.NewDecoder(resp.Body).Decode\<close>\<close>

definition ReadAll :: "http_response \<Rightarrow> goerror + string" where
  "ReadAll resp = (case hs_ReadErr resp of Some e \<Rightarrow> Inl e | None \<Rightarrow> Inr (hs_Body resp))"

definition body_Decode :: "'a decoder \<Rightarrow> 'a \<Rightarrow> http_response \<Rightarrow> goerror + 'a" where
  "body_Decode d zero resp =
     (case (stream_value (hs_Body resp), hs_ReadErr resp) of
        (None, Some e) \<Rightarrow> Inl e
      | (v, _) \<Rightarrow> decoded d zero v)"

text \<open>The message \<open>HTTP <status>: <body>\<close>, and its form that wraps \<open>ErrAuthFailure\<close>.\<close>

definition http_text :: "http_response \<Rightarrow> string" where
  "http_text resp = ''HTTP '' @ Itoa (hs_StatusCode resp) @ '': '' @ hs_Body resp"

definition ErrAuthFailure_error :: goerror where
  "ErrAuthFailure_error = sentinel_error ''authentication failed'' ErrAuthFailure"

definition status_error :: "http_response \<Rightarrow> goerror" where
  "status_error resp =
     (if hs_StatusCode resp = 401 \<or> hs_StatusCode resp = 403
      then wrap_error (http_text resp @ '': '') ErrAuthFailure_error
      else Errorf (http_text resp))"

subsection \<open>Health checks\<close>

datatype health_level = HealthLevelHealthy | HealthLevelDegraded | HealthLevelDown

record health_status =
  hl_Status :: health_level
  hl_ResponseTimeMs :: int
  hl_ResponseTimeUs :: int
  hl_HTTPStatus :: int
  hl_Error :: string
  hl_LastChecked :: gotime
  hl_AuthValid :: "bool option"
  hl_AuthError :: string
  hl_IsDegraded :: bool

definition health :: "health_level \<Rightarrow> duration \<Rightarrow> int \<Rightarrow> string \<Rightarrow> gotime \<Rightarrow> health_status" where
  "health level d status err checked =
     \<lparr>hl_Status = level, hl_ResponseTimeMs = Milliseconds d, hl_ResponseTimeUs = Microseconds d,
      hl_HTTPStatus = status, hl_Error = err, hl_LastChecked = checked, hl_AuthValid = None,
      hl_AuthError = '''', hl_IsDegraded = False\<rparr>"

definition health_verdict :: "int \<Rightarrow> int \<Rightarrow> health_level \<times> string" where
  "health_verdict status ms =
     (if status \<ge> 500 then (HealthLevelDown, ''HTTP '' @ Itoa status)
      else if status \<ge> 400 then (HealthLevelDegraded, ''HTTP '' @ Itoa status)
      else if ms > 2000 then (HealthLevelDegraded, ''slow response'')
      else (HealthLevelHealthy, ''''))"

text \<open>
  The health check that the adapters have in common: one GET, timed. The clock is read before
  and after it. The result is \<open>Inl\<close> where the code returns early because there is no response.
\<close>

definition timed_get ::
  "'w http_env \<Rightarrow> string \<Rightarrow> (string \<times> string) list \<Rightarrow> ('w, health_status + health_status) state" where
  "timed_get env url headers = do {
     start \<leftarrow> he_Now env;
     case he_NewRequest env ''GET'' url of
       Some e \<Rightarrow> do {
         t \<leftarrow> he_Now env;
         return (Inl (health HealthLevelDown 0 0 (err_msg e) t))
       }
     | None \<Rightarrow> do {
         r \<leftarrow> he_Do env \<lparr>hq_Method = ''GET'', hq_URL = url, hq_Headers = headers, hq_Body = ''''\<rparr>;
         finish \<leftarrow> he_Now env;
         t \<leftarrow> he_Now env;
         return (case r of
             Inl e \<Rightarrow> Inl (health HealthLevelDown (finish - start) 0 (err_msg e) t)
           | Inr resp \<Rightarrow>
               let (level, msg) = health_verdict (hs_StatusCode resp) (Milliseconds (finish - start))
               in Inr (health level (finish - start) (hs_StatusCode resp) msg t))
       }
   }"

definition http_health :: "'w http_env \<Rightarrow> string \<Rightarrow> (string \<times> string) list \<Rightarrow> ('w, health_status) state" where
  "http_health env url headers = do {
     r \<leftarrow> timed_get env url headers;
     return (case r of Inl h \<Rightarrow> h | Inr h \<Rightarrow> h)
   }"

subsection \<open>Adapters with a state of their own\<close>

definition on_world :: "('w, 'a) state \<Rightarrow> ('p \<times> 'w, 'a) state" where
  "on_world m = State (\<lambda>(p, w). case run_state m w of (a, w') \<Rightarrow> (a, (p, w')))"

definition get_self :: "('p \<times> 'w, 'p) state" where
  "get_self = State (\<lambda>(p, w). (p, (p, w)))"

definition put_self :: "'p \<Rightarrow> ('p \<times> 'w, unit) state" where
  "put_self p' = State (\<lambda>(p, w). ((), (p', w)))"

lemma run_on_world [simp]: "run_state (on_world m) (p, w) = (case run_state m w of (a, w') \<Rightarrow> (a, (p, w')))"
  by (simp add: on_world_def)

lemma run_get_self [simp]: "run_state get_self (p, w) = (p, (p, w))"
  by (simp add: get_self_def)

lemma run_put_self [simp]: "run_state (put_self p') (p, w) = ((), (p', w))"
  by (simp add: put_self_def)

text \<open>A health status with the state of the credentials.\<close>

definition authErrString :: "goerror option \<Rightarrow> string" where
  "authErrString e = (case e of None \<Rightarrow> '''' | Some err \<Rightarrow> err_msg err)"

definition with_auth :: "bool option \<Rightarrow> goerror option \<Rightarrow> bool \<Rightarrow> health_status \<Rightarrow> health_status" where
  "with_auth valid err degraded h =
     h\<lparr>hl_AuthValid := valid, hl_AuthError := authErrString err, hl_IsDegraded := degraded\<rparr>"

text \<open>An adapter with a public tier is at most degraded by invalid credentials.\<close>

definition degrade :: "bool \<Rightarrow> health_status \<Rightarrow> health_status" where
  "degrade d h =
     (if d \<and> hl_Status h = HealthLevelHealthy then h\<lparr>hl_Status := HealthLevelDegraded\<rparr> else h)"

subsection \<open>Times\<close>

text \<open>Seconds since the Unix epoch, and the time of a number of milliseconds since then.\<close>

definition Unix :: "gotime \<Rightarrow> int" where
  "Unix t = t div second - 62135596800"

definition UnixMilli :: "int \<Rightarrow> gotime" where
  "UnixMilli ms = (62135596800000 + ms) * millisecond"

text \<open>Conversion of a floating point number to an integer: towards zero.\<close>

definition trunc :: "real \<Rightarrow> int" where
  "trunc x = (if x \<ge> 0 then \<lfloor>x\<rfloor> else \<lceil>x\<rceil>)"

text \<open>\<open>math.Round\<close>: half away from zero.\<close>

definition math_Round :: "real \<Rightarrow> int" where
  "math_Round x = (if x \<ge> 0 then \<lfloor>x + 1 / 2\<rfloor> else - \<lfloor>- x + 1 / 2\<rfloor>)"

end
