(* ===== verification/Rate_Providers.thy ===== *)
theory Rate_Providers
  imports Http
begin

text \<open>
  \<open>bitcoin/providers/binance.go\<close> and \<open>bitcoin/providers/coingecko.go\<close>: exchange rates. A Go map
  that is decoded from a reply is ranged over in an order that is an argument.
\<close>

abbreviation CurrencyUSD :: string where "CurrencyUSD \<equiv> ''USD''"
abbreviation CurrencyEUR :: string where "CurrencyEUR \<equiv> ''EUR''"

subsection \<open>Numbers in texts\<close>

text \<open>
  \<open>strconv.ParseFloat\<close> for decimal numbers, infinities and NaN; hexadecimal literals and the
  overflow of the exponent range are not modelled.
\<close>

datatype parsed_float = FNum real | FInf bool | FNaN

definition unsigned_float :: "string \<Rightarrow> bool" where
  "unsigned_float s =
     (let ip = takeWhile is_digit s; r = dropWhile is_digit s;
          fp = (if r \<noteq> [] \<and> hd r = CHR ''.'' then takeWhile is_digit (tl r) else []);
          r2 = (if r \<noteq> [] \<and> hd r = CHR ''.'' then dropWhile is_digit (tl r) else r)
      in (ip \<noteq> [] \<or> fp \<noteq> []) \<and> (r2 = [] \<or>
           (case lex_exp r2 of Some (e, []) \<Rightarrow> e \<noteq> [] | _ \<Rightarrow> False)))"

definition ParseFloat :: "string \<Rightarrow> goerror + parsed_float" where
  "ParseFloat s =
     (let signed = (s \<noteq> [] \<and> (hd s = CHR ''+'' \<or> hd s = CHR ''-''));
          neg = (s \<noteq> [] \<and> hd s = CHR ''-'');
          u = (if signed then tl s else s)
      in if ToLower u = ''inf'' \<or> ToLower u = ''infinity'' then Inr (FInf neg)
         else if ToLower s = ''nan'' then Inr FNaN
         else if unsigned_float u then Inr (FNum (if neg then - lit_real u else lit_real u))
         else Inl (Errorf (''strconv.ParseFloat: parsing '' @ go_quote s @ '': invalid syntax'')))"

text \<open>\<open>big.NewFloat\<close> panics on NaN.\<close>

definition NewFloat :: "parsed_float \<Rightarrow> big_float outcome" where
  "NewFloat x = (case x of FNum r \<Rightarrow> Returns (Finite r) | FInf neg \<Rightarrow> Returns (Infinite neg) | FNaN \<Rightarrow> Panics)"

subsection \<open>Binance\<close>

abbreviation binanceBaseURL :: string where "binanceBaseURL \<equiv> ''https://api.binance.com''"

definition currencyToSymbol :: "string \<Rightarrow> string option" where
  "currencyToSymbol currency =
     (if currency = CurrencyUSD then Some ''BTCUSDT''
      else if currency = CurrencyEUR then Some ''BTCEUR'' else None)"

record binance_ticker =
  bk_Symbol :: string
  bk_Price :: string

definition dec_binance_ticker :: "binance_ticker decoder" where
  "dec_binance_ticker =
     dec_struct [fld ''symbol'' bk_Symbol bk_Symbol_update dec_string,
                 fld ''price'' bk_Price bk_Price_update dec_string]"

definition binance_fetchPrice :: "'w http_env \<Rightarrow> string \<Rightarrow> ('w, goerror + parsed_float) state" where
  "binance_fetchPrice env symbol = do {
     x \<leftarrow> http_get env (binanceBaseURL @ ''/api/v3/ticker/price?symbol='' @ symbol) [];
     return (case x of
         RequestFails e \<Rightarrow> Inl e
       | DoFails e \<Rightarrow> Inl e
       | Responds resp \<Rightarrow>
           if hs_StatusCode resp \<noteq> 200 then Inl (Errorf (http_text resp))
           else
             (case body_Decode dec_binance_ticker \<lparr>bk_Symbol = '''', bk_Price = ''''\<rparr> resp of
                Inl e \<Rightarrow> Inl e
              | Inr ticker \<Rightarrow>
                  (case ParseFloat (bk_Price ticker) of
                     Inl e \<Rightarrow> Inl (wrap_error (''failed to parse price '' @ go_quote (bk_Price ticker) @ '': '') e)
                   | Inr price \<Rightarrow> Inr price)))
   }"

text \<open>A rate with the fields that an adapter leaves unset.\<close>

definition plain_rate :: "coin_ticker \<Rightarrow> string \<Rightarrow> big_float \<Rightarrow> gotime \<Rightarrow> coin_rate" where
  "plain_rate coin currency rate t =
     \<lparr>cr_Rate = rate, cr_Timestamp = t, cr_Network = '''', cr_Source = '''', cr_Currency = currency,
      cr_Coin = coin\<rparr>"

definition binance_GetExchangeRate ::
  "'w http_env \<Rightarrow> coin_ticker \<Rightarrow> string \<Rightarrow> ('w, (goerror + coin_rate) outcome) state" where
  "binance_GetExchangeRate env coin currency =
     (if coin \<noteq> CoinTickerBTC then return (Returns (Inl (CoinNotSupportedError (BlockchainString coin))))
      else
        (case currencyToSymbol currency of
           None \<Rightarrow> return (Returns (Inl (CurrencyNotSupportedError currency)))
         | Some symbol \<Rightarrow> do {
             p \<leftarrow> binance_fetchPrice env symbol;
             (case p of
                Inl e \<Rightarrow> return (Returns (Inl e))
              | Inr price \<Rightarrow>
                  (case NewFloat price of
                     Panics \<Rightarrow> return Panics
                   | Returns rate \<Rightarrow> do {
                       t \<leftarrow> he_Now env;
                       return (Returns (Inr (plain_rate coin currency rate t)))
                     }))
           }))"

fun binance_rates ::
  "'w http_env \<Rightarrow> coin_ticker \<Rightarrow> (string \<times> string) list \<Rightarrow> ('w, (goerror + coin_rate list) outcome) state" where
  "binance_rates env coin [] = return (Returns (Inr []))"
| "binance_rates env coin ((currency, symbol) # rest) = do {
     p \<leftarrow> binance_fetchPrice env symbol;
     (case p of
        Inl e \<Rightarrow> return (Returns (Inl e))
      | Inr price \<Rightarrow>
          (case NewFloat price of
             Panics \<Rightarrow> return Panics
           | Returns rate \<Rightarrow> do {
               t \<leftarrow> he_Now env;
               more \<leftarrow> binance_rates env coin rest;
               return (map_outcome (map_sum id (\<lambda>rs. plain_rate coin currency rate t # rs)) more)
             }))
   }"

definition binance_GetExchangeRates ::
  "'w http_env \<Rightarrow> coin_ticker \<Rightarrow> ('w, (goerror + coin_rate list) outcome) state" where
  "binance_GetExchangeRates env coin =
     (if coin \<noteq> CoinTickerBTC then return (Returns (Inl (CoinNotSupportedError (BlockchainString coin))))
      else binance_rates env coin [(CurrencyUSD, ''BTCUSDT''), (CurrencyEUR, ''BTCEUR'')])"

definition binance_CheckHealth :: "'w http_env \<Rightarrow> ('w, health_status) state" where
  "binance_CheckHealth env = http_health env (binanceBaseURL @ ''/api/v3/ping'') []"

definition binance_GetCapabilities :: "string list" where
  "binance_GetCapabilities = [''rate_fetching'']"

subsection \<open>CoinGecko\<close>

record coingecko =
  cg_coinGeckoBaseURL :: string
  cg_apiKey :: string
  cg_authValid :: "bool option"
  cg_authErr :: "goerror option"

definition NewCoingecko :: "string \<Rightarrow> string \<Rightarrow> coingecko" where
  "NewCoingecko baseURL apiKey =
     \<lparr>cg_coinGeckoBaseURL = (if baseURL = '''' then ''https://api.coingecko.com/api/v3'' else baseURL),
      cg_apiKey = apiKey, cg_authValid = None, cg_authErr = None\<rparr>"

definition cg_key_header :: "coingecko \<Rightarrow> (string \<times> string) list" where
  "cg_key_header s = (if cg_apiKey s \<noteq> '''' then [(''x-cg-pro-api-key'', cg_apiKey s)] else [])"

abbreviation dec_prices :: "(string \<times> (string \<times> real) list) list decoder" where
  "dec_prices \<equiv> dec_map [] (dec_map 0 dec_float)"

text \<open>The two loops over the decoded map, over its pairs in the order that they are visited.\<close>

fun cg_collect :: "'w http_env \<Rightarrow> (string \<times> (string \<times> real)) list \<Rightarrow> ('w, goerror + coin_rate list) state" where
  "cg_collect env [] = return (Inr [])"
| "cg_collect env ((coin, (currencyName, price)) # rest) =
     (if coin \<noteq> ''bitcoin'' then return (Inl (CoinNotSupportedError coin))
      else do {
        t \<leftarrow> he_Now env;
        more \<leftarrow> cg_collect env rest;
        return (map_sum id (\<lambda>rs. plain_rate CoinTickerBTC currencyName (Finite price) t # rs) more)
      })"

definition coingecko_GetExchangeRates ::
  "((string \<times> (string \<times> real) list) list \<Rightarrow> (string \<times> (string \<times> real)) list) \<Rightarrow>
   'w http_env \<Rightarrow> coingecko \<Rightarrow> coin_ticker \<Rightarrow> ('w, goerror + coin_rate list) state" where
  "coingecko_GetExchangeRates order env s coin = do {
     x \<leftarrow> http_get env
           (cg_coinGeckoBaseURL s @ ''/simple/price?ids='' @ CoingeckoString coin @
            ''&vs_currencies=usd,eur,gbp,jpy,aud,cad,chf,cny,krw,brl,sgd,sek,nzd,hkd,nok,pln,zar,rub,try'')
           (cg_key_header s);
     (case x of
        RequestFails e \<Rightarrow> return (Inl e)
      | DoFails e \<Rightarrow> return (Inl e)
      | Responds resp \<Rightarrow>
          if hs_StatusCode resp \<noteq> 200 then return (Inl (status_error resp))
          else
            (case body_Decode dec_prices [] resp of
               Inl e \<Rightarrow> return (Inl e)
             | Inr currencyMap \<Rightarrow> cg_collect env (order currencyMap)))
   }"

definition coingecko_GetExchangeRate ::
  "'w http_env \<Rightarrow> coingecko \<Rightarrow> coin_ticker \<Rightarrow> string \<Rightarrow> ('w, goerror + coin_rate) state" where
  "coingecko_GetExchangeRate env s coin currency = do {
     x \<leftarrow> http_get env
           (cg_coinGeckoBaseURL s @ ''/simple/price?ids='' @ CoingeckoString coin @ ''&vs_currencies='' @ currency)
           (cg_key_header s);
     (case x of
        RequestFails e \<Rightarrow> return (Inl e)
      | DoFails e \<Rightarrow> return (Inl e)
      | Responds resp \<Rightarrow>
          if hs_StatusCode resp \<noteq> 200 then return (Inl (status_error resp))
          else
            (case body_Decode dec_prices [] resp of
               Inl e \<Rightarrow> return (Inl e)
             | Inr priceMap \<Rightarrow>
                 (case map_of priceMap (CoingeckoString coin) of
                    None \<Rightarrow> return (Inl (CoinNotSupportedError (CoingeckoString coin)))
                  | Some coinPrices \<Rightarrow>
                      (case map_of coinPrices (ToLower currency) of
                         None \<Rightarrow> return (Inl (CurrencyNotSupportedError currency))
                       | Some price \<Rightarrow> do {
                           t \<leftarrow> he_Now env;
                           return (Inr (plain_rate coin currency (Finite price) t))
                         }))))
   }"

record market_chart =
  mc_Prices :: "real list list"

definition dec_market_chart :: "market_chart decoder" where
  "dec_market_chart =
     dec_struct [fld ''prices'' mc_Prices mc_Prices_update (dec_slice [] (dec_slice 0 dec_float))]"

definition chart_point :: "coin_ticker \<Rightarrow> string \<Rightarrow> real list \<Rightarrow> coin_rate option" where
  "chart_point coin currency p =
     (case p of
        ts # price # _ \<Rightarrow>
          Some \<lparr>cr_Rate = Finite price, cr_Timestamp = UnixMilli (trunc ts), cr_Network = '''',
                cr_Source = ''Coingecko'', cr_Currency = currency, cr_Coin = coin\<rparr>
      | _ \<Rightarrow> None)"

text \<open>How a time is printed in an error message is the argument \<open>show_time\<close>.\<close>

definition coingecko_GetHistoricalRates ::
  "(gotime \<Rightarrow> string) \<Rightarrow> 'w http_env \<Rightarrow> coingecko \<Rightarrow> coin_ticker \<Rightarrow> string \<Rightarrow> gotime \<Rightarrow> gotime \<Rightarrow>
   ('w, goerror + coin_rate list) state" where
  "coingecko_GetHistoricalRates show_time env s coin currency since until =
     (if since = 0 \<or> until = 0 \<or> \<not> since < until
      then return (Inl (Errorf (''coingecko: invalid window since='' @ show_time since @ '' until='' @ show_time until)))
      else do {
        x \<leftarrow> http_get env
              (cg_coinGeckoBaseURL s @ ''/coins/'' @ ToLower (CoingeckoString coin) @
               ''/market_chart/range?vs_currency='' @ ToLower currency @ ''&from='' @ Itoa (Unix since) @
               ''&to='' @ Itoa (Unix until))
              ((''User-Agent'', ''chainkit-sdk/1 (+https://github.com/exapsy/chainkit)'') # cg_key_header s);
        return (case x of
            RequestFails e \<Rightarrow> Inl e
          | DoFails e \<Rightarrow> Inl e
          | Responds resp \<Rightarrow>
              if hs_StatusCode resp \<noteq> 200 then Inl (status_error resp)
              else
                (case body_Decode dec_market_chart \<lparr>mc_Prices = []\<rparr> resp of
                   Inl e \<Rightarrow> Inl (wrap_error ''decode coingecko market_chart: '' e)
                 | Inr payload \<Rightarrow> Inr (List.map_filter (chart_point coin currency) (mc_Prices payload))))
      })"

text \<open>The credentials are checked by a call of their own, and reported by the health check.\<close>

definition cg_set_auth :: "bool option \<Rightarrow> goerror option \<Rightarrow> (coingecko \<times> 'w, goerror option) state" where
  "cg_set_auth valid err = do {
     s \<leftarrow> get_self;
     put_self (s\<lparr>cg_authValid := valid, cg_authErr := err\<rparr>);
     return err
   }"

definition coingecko_ValidateAPIKey :: "'w http_env \<Rightarrow> (coingecko \<times> 'w, goerror option) state" where
  "coingecko_ValidateAPIKey env = do {
     s \<leftarrow> get_self;
     if cg_apiKey s = '''' then cg_set_auth None None
     else do {
       x \<leftarrow> on_world (http_get env (cg_coinGeckoBaseURL s @ ''/ping'') [(''x-cg-pro-api-key'', cg_apiKey s)]);
       (case x of
          RequestFails e \<Rightarrow> cg_set_auth (Some False) (Some (wrap_error ''create request: '' e))
        | DoFails e \<Rightarrow> cg_set_auth (Some False) (Some (wrap_error ''validate API key: '' e))
        | Responds resp \<Rightarrow>
            if hs_StatusCode resp = 401 \<or> hs_StatusCode resp = 403 then
              cg_set_auth (Some False)
                (Some (wrap_error (''invalid API key (HTTP '' @ Itoa (hs_StatusCode resp) @ ''): '') ErrAuthFailure_error))
            else if hs_StatusCode resp = 429 then
              cg_set_auth (Some False) (Some (Errorf ''rate limit exceeded''))
            else cg_set_auth (Some True) None)
     }
   }"

definition coingecko_CheckHealth :: "'w http_env \<Rightarrow> (coingecko \<times> 'w, health_status) state" where
  "coingecko_CheckHealth env = do {
     s \<leftarrow> get_self;
     r \<leftarrow> on_world (timed_get env (cg_coinGeckoBaseURL s @ ''/ping'') (cg_key_header s));
     return (case r of
         Inl h \<Rightarrow> h
       | Inr h \<Rightarrow>
           let isDegraded = (cg_authValid s = Some False)
           in with_auth (cg_authValid s) (cg_authErr s) isDegraded (degrade isDegraded h))
   }"

definition coingecko_GetCapabilities :: "string list" where
  "coingecko_GetCapabilities = [''api_key_validation'', ''rate_fetching'']"

end
