(* ===== verification/Mempool.thy ===== *)
theory Mempool
  imports Http Rate_Providers
begin

text \<open>
  \<open>bitcoin/providers/mempool.go\<close>: the adapter of the mempool.space API. Decoding addresses and
  building scripts are btcd's and come as the argument \<open>bt\<close>.
\<close>

record mempool_provider =
  me_network :: string
  me_baseURL :: string

definition NewMempool :: "string \<Rightarrow> string \<Rightarrow> mempool_provider" where
  "NewMempool network baseURL = \<lparr>me_network = network, me_baseURL = baseURL\<rparr>"

definition mempool_Name :: string where
  "mempool_Name = ''Mempool''"

subsection \<open>Rates\<close>

record mempool_prices =
  mpr_Time :: int
  mpr_USD :: int
  mpr_EUR :: int
  mpr_GBP :: int
  mpr_CAD :: int
  mpr_CHF :: int
  mpr_AUD :: int
  mpr_JPY :: int

definition dec_mempool_prices :: "mempool_prices decoder" where
  "dec_mempool_prices =
     dec_struct
       [fld ''time'' mpr_Time mpr_Time_update dec_int64, fld ''USD'' mpr_USD mpr_USD_update dec_int64,
        fld ''EUR'' mpr_EUR mpr_EUR_update dec_int64, fld ''GBP'' mpr_GBP mpr_GBP_update dec_int64,
        fld ''CAD'' mpr_CAD mpr_CAD_update dec_int64, fld ''CHF'' mpr_CHF mpr_CHF_update dec_int64,
        fld ''AUD'' mpr_AUD mpr_AUD_update dec_int64, fld ''JPY'' mpr_JPY mpr_JPY_update dec_int64]"

definition price_in :: "mempool_prices \<Rightarrow> string \<Rightarrow> goerror + real" where
  "price_in prices currency =
     (if currency = ''USD'' then Inr (of_int (mpr_USD prices))
      else if currency = ''EUR'' then Inr (of_int (mpr_EUR prices))
      else if currency = ''GBP'' then Inr (of_int (mpr_GBP prices))
      else if currency = ''CAD'' then Inr (of_int (mpr_CAD prices))
      else if currency = ''CHF'' then Inr (of_int (mpr_CHF prices))
      else if currency = ''AUD'' then Inr (of_int (mpr_AUD prices))
      else if currency = ''JPY'' then Inr (of_int (mpr_JPY prices))
      else Inl (Errorf (''unsupported currency: '' @ currency)))"

definition mempool_fetchPrice :: "'w http_env \<Rightarrow> mempool_provider \<Rightarrow> string \<Rightarrow> ('w, goerror + real) state" where
  "mempool_fetchPrice env m currency = do {
     x \<leftarrow> http_get env (me_baseURL m @ ''/v1/prices'') [];
     return (case x of
         RequestFails e \<Rightarrow> Inl (wrap_error ''failed to create prices request: '' e)
       | DoFails e \<Rightarrow> Inl (wrap_error ''failed to fetch prices: '' e)
       | Responds resp \<Rightarrow>
           if hs_StatusCode resp \<noteq> 200 then Inl (Errorf (''failed to fetch prices: '' @ hs_Status resp))
           else
             (case body_Decode dec_mempool_prices
                     \<lparr>mpr_Time = 0, mpr_USD = 0, mpr_EUR = 0, mpr_GBP = 0, mpr_CAD = 0, mpr_CHF = 0,
                      mpr_AUD = 0, mpr_JPY = 0\<rparr> resp of
                Inl e \<Rightarrow> Inl (wrap_error ''failed to decode prices: '' e)
              | Inr prices \<Rightarrow> price_in prices currency))
   }"

definition mempool_rate :: "mempool_provider \<Rightarrow> coin_ticker \<Rightarrow> string \<Rightarrow> real \<Rightarrow> gotime \<Rightarrow> coin_rate" where
  "mempool_rate m coin currency price t =
     \<lparr>cr_Rate = Finite price, cr_Timestamp = t, cr_Network = me_network m, cr_Source = mempool_Name,
      cr_Currency = currency, cr_Coin = coin\<rparr>"

definition mempool_GetExchangeRates ::
  "'w http_env \<Rightarrow> mempool_provider \<Rightarrow> coin_ticker \<Rightarrow> ('w, goerror + coin_rate list) state" where
  "mempool_GetExchangeRates env m coin =
     (if coin = CoinTickerBTC then do {
        p \<leftarrow> mempool_fetchPrice env m ''USD'';
        (case p of
           Inl e \<Rightarrow> return (Inl (RequestError ''failed to fetch exchange rates'' (Some e)))
         | Inr price \<Rightarrow> do {
             t \<leftarrow> he_Now env;
             return (Inr [mempool_rate m CoinTickerBTC CurrencyUSD price t])
           })
      }
      else return (Inl (CoinNotSupportedError (BlockchainString coin))))"

definition mempool_GetExchangeRate ::
  "'w http_env \<Rightarrow> mempool_provider \<Rightarrow> coin_ticker \<Rightarrow> string \<Rightarrow> ('w, goerror + coin_rate) state" where
  "mempool_GetExchangeRate env m coin currency =
     (if coin = CoinTickerBTC then do {
        p \<leftarrow> mempool_fetchPrice env m currency;
        (case p of
           Inl e \<Rightarrow> return (Inl (RequestError ''failed to fetch exchange rate'' (Some e)))
         | Inr price \<Rightarrow> do {
             t \<leftarrow> he_Now env;
             return (Inr (mempool_rate m coin currency price t))
           })
      }
      else return (Inl (CoinNotSupportedError (BlockchainString coin))))"

subsection \<open>Balances and fees\<close>

text \<open>
  A GET whose failures are reported as a \<open>RequestError\<close>, as \<open>GetBalance\<close>, \<open>GetTxFees\<close> and \<open>GetUTXOs\<close>
  do: creating the request, the exchange (with the message \<open>what\<close>), and any status but 200.
\<close>

definition mempool_get ::
  "'w http_env \<Rightarrow> string \<Rightarrow> string \<Rightarrow> ('w, goerror + http_response) state" where
  "mempool_get env url what = do {
     x \<leftarrow> http_get env url [];
     return (case x of
         RequestFails e \<Rightarrow> Inl (RequestError ''failed to create request'' (Some e))
       | DoFails e \<Rightarrow> Inl (RequestError what (Some e))
       | Responds resp \<Rightarrow>
           if hs_StatusCode resp \<noteq> 200 then Inl (RequestError (http_text resp) None) else Inr resp)
   }"

record txo_stats =
  ts_FundedTxoSum :: int
  ts_SpentTxoSum :: int

record address_stats =
  as_ChainStats :: txo_stats
  as_MempoolStats :: txo_stats

definition dec_txo_stats :: "txo_stats decoder" where
  "dec_txo_stats =
     dec_struct [fld ''funded_txo_sum'' ts_FundedTxoSum ts_FundedTxoSum_update dec_int64,
                 fld ''spent_txo_sum'' ts_SpentTxoSum ts_SpentTxoSum_update dec_int64]"

definition dec_address_stats :: "address_stats decoder" where
  "dec_address_stats =
     dec_struct [fld ''chain_stats'' as_ChainStats as_ChainStats_update dec_txo_stats,
                 fld ''mempool_stats'' as_MempoolStats as_MempoolStats_update dec_txo_stats]"

definition zero_stats :: txo_stats where
  "zero_stats = \<lparr>ts_FundedTxoSum = 0, ts_SpentTxoSum = 0\<rparr>"

definition unspent_sum :: "txo_stats \<Rightarrow> int" where
  "unspent_sum s = wrap64 (ts_FundedTxoSum s - ts_SpentTxoSum s)"

text \<open>A balance from two signed amounts, negative ones cut to 0.\<close>

definition clamped_balance :: "int \<Rightarrow> int \<Rightarrow> balance" where
  "clamped_balance confirmed unconfirmed =
     (let c = (if confirmed < 0 then 0 else confirmed); u = (if unconfirmed < 0 then 0 else unconfirmed)
      in \<lparr>bal_Confirmed = word_of_int c, bal_Unconfirmed = word_of_int u,
          bal_Total = word_of_int (wrap64 (c + u))\<rparr>)"

definition mempool_GetBalance ::
  "'w http_env \<Rightarrow> mempool_provider \<Rightarrow> string \<Rightarrow> ('w, goerror + balance) state" where
  "mempool_GetBalance env m address = do {
     x \<leftarrow> mempool_get env (me_baseURL m @ ''/address/'' @ address) ''failed to fetch balance'';
     return (case x of
         Inl e \<Rightarrow> Inl e
       | Inr resp \<Rightarrow>
           (case body_Decode dec_address_stats \<lparr>as_ChainStats = zero_stats, as_MempoolStats = zero_stats\<rparr> resp of
              Inl e \<Rightarrow> Inl (RequestError ''failed to decode response'' (Some e))
            | Inr r \<Rightarrow> Inr (clamped_balance (unspent_sum (as_ChainStats r)) (unspent_sum (as_MempoolStats r)))))
   }"

record recommended_fees =
  rf_FastestFee :: int
  rf_HalfHourFee :: int
  rf_HourFee :: int
  rf_EconomyFee :: int
  rf_MinimumFee :: int

definition dec_recommended_fees :: "recommended_fees decoder" where
  "dec_recommended_fees =
     dec_struct
       [fld ''fastestFee'' rf_FastestFee rf_FastestFee_update dec_int64,
        fld ''halfHourFee'' rf_HalfHourFee rf_HalfHourFee_update dec_int64,
        fld ''hourFee'' rf_HourFee rf_HourFee_update dec_int64,
        fld ''economyFee'' rf_EconomyFee rf_EconomyFee_update dec_int64,
        fld ''minimumFee'' rf_MinimumFee rf_MinimumFee_update dec_int64]"

definition tier :: "64 word \<Rightarrow> int \<Rightarrow> fee_tier" where
  "tier rate block = \<lparr>ft_FeeRate = rate, ft_TargetBlock = block\<rparr>"

definition mempool_GetTxFees ::
  "'w http_env \<Rightarrow> mempool_provider \<Rightarrow> ('w, goerror + fee_tier list) state" where
  "mempool_GetTxFees env m = do {
     x \<leftarrow> mempool_get env (me_baseURL m @ ''/v1/fees/recommended'') ''failed to fetch fees'';
     return (case x of
         Inl e \<Rightarrow> Inl e
       | Inr resp \<Rightarrow>
           (case body_Decode dec_recommended_fees
                   \<lparr>rf_FastestFee = 0, rf_HalfHourFee = 0, rf_HourFee = 0, rf_EconomyFee = 0, rf_MinimumFee = 0\<rparr>
                   resp of
              Inl e \<Rightarrow> Inl (RequestError ''failed to decode response'' (Some e))
            | Inr r \<Rightarrow>
                Inr [tier (word_of_int (rf_FastestFee r)) 1, tier (word_of_int (rf_HalfHourFee r)) 3,
                     tier (word_of_int (rf_HourFee r)) 6, tier (word_of_int (rf_EconomyFee r)) 144,
                     tier (word_of_int (rf_MinimumFee r)) 1008]))
   }"

text \<open>\<open>GetTxFee\<close> of the adapters that fetch all tiers and choose one.\<close>

definition choose_tier :: "int \<Rightarrow> goerror + fee_tier list \<Rightarrow> goerror + fee_tier" where
  "choose_tier priority fees = (case fees of Inl e \<Rightarrow> Inl e | Inr ts \<Rightarrow> Inr (SelectClosest priority ts))"

definition mempool_GetTxFee ::
  "'w http_env \<Rightarrow> mempool_provider \<Rightarrow> int \<Rightarrow> ('w, goerror + fee_tier) state" where
  "mempool_GetTxFee env m priority = do {
     fees \<leftarrow> mempool_GetTxFees env m;
     return (choose_tier priority fees)
   }"

subsection \<open>Transactions\<close>

definition mempool_PushTx :: "'w http_env \<Rightarrow> mempool_provider \<Rightarrow> bytes \<Rightarrow> ('w, goerror + string) state" where
  "mempool_PushTx env m rawTx = do {
     x \<leftarrow> http_post env (me_baseURL m @ ''/tx'') [(''Content-Type'', ''text/plain'')] (hex_EncodeToString rawTx);
     return (case x of
         RequestFails e \<Rightarrow> Inl (RequestError ''failed to create request'' (Some e))
       | DoFails e \<Rightarrow> Inl (RequestError ''failed to broadcast transaction'' (Some e))
       | Responds resp \<Rightarrow>
           if hs_StatusCode resp \<noteq> 200 then Inl (RequestError (http_text resp) None)
           else Inr (TrimSpace (hs_Body resp)))
   }"

definition mempool_CheckHealth :: "'w http_env \<Rightarrow> mempool_provider \<Rightarrow> ('w, health_status) state" where
  "mempool_CheckHealth env m = http_health env (me_baseURL m @ ''/blocks/tip/height'') []"

definition mempool_GetCapabilities :: "string list" where
  "mempool_GetCapabilities =
     [''balance_fetching'', ''fee_recommending'', ''rate_fetching'', ''tx_broadcast'', ''tx_status_fetching'',
      ''utxo_fetching'']"

definition mempool_getCurrentBlockHeight :: "'w http_env \<Rightarrow> mempool_provider \<Rightarrow> ('w, goerror + int) state" where
  "mempool_getCurrentBlockHeight env m = do {
     x \<leftarrow> http_get env (me_baseURL m @ ''/blocks/tip/height'') [];
     return (case x of
         RequestFails e \<Rightarrow> Inl e
       | DoFails e \<Rightarrow> Inl e
       | Responds resp \<Rightarrow>
           if hs_StatusCode resp \<noteq> 200
           then Inl (Errorf (''unexpected status code: '' @ Itoa (hs_StatusCode resp)))
           else
             (case ReadAll resp of
                Inl e \<Rightarrow> Inl e
              | Inr body \<Rightarrow> json_Unmarshal dec_int64 0 body))
   }"

text \<open>The confirmations of a block: its depth under the tip, or 1 when the tip is not known.\<close>

definition confirmations_at :: "goerror + int \<Rightarrow> bool \<Rightarrow> int \<Rightarrow> int" where
  "confirmations_at tip confirmed height =
     (if confirmed \<and> height > 0
      then (case tip of
              Inr tipHeight \<Rightarrow> if tipHeight > 0 then wrap64 (tipHeight - height + 1) else 1
            | Inl _ \<Rightarrow> 1)
      else 0)"

definition addressToScriptPubKey :: "('h, 'addr) btcd \<Rightarrow> mempool_provider \<Rightarrow> string \<Rightarrow> goerror + bytes" where
  "addressToScriptPubKey bt m address =
     (case ChaincfgNetwork (me_network m) of
        Inl e \<Rightarrow> Inl (wrap_error ''failed to get network params: '' e)
      | Inr params \<Rightarrow>
          (case bt_DecodeAddress bt address params of
             Inl e \<Rightarrow> Inl (wrap_error ''failed to decode address: '' e)
           | Inr addr \<Rightarrow>
               (case bt_PayToAddrScript bt addr of
                  Inl e \<Rightarrow> Inl (wrap_error ''failed to generate script: '' e)
                | Inr script \<Rightarrow> Inr script)))"

record block_status =
  bs_Confirmed :: bool
  bs_BlockHeight :: int
  bs_BlockHash :: string
  bs_BlockTime :: int

record api_utxo =
  au_TxID :: string
  au_Vout :: "32 word"
  au_Status :: block_status
  au_Value :: int

definition zero_status :: block_status where
  "zero_status = \<lparr>bs_Confirmed = False, bs_BlockHeight = 0, bs_BlockHash = '''', bs_BlockTime = 0\<rparr>"

text \<open>The status of a coin has no block hash and a height of 32 bits.\<close>

definition dec_api_utxo :: "api_utxo decoder" where
  "dec_api_utxo =
     dec_struct
       [fld ''txid'' au_TxID au_TxID_update dec_string, fld ''vout'' au_Vout au_Vout_update dec_uint,
        fld ''status'' au_Status au_Status_update
          (dec_struct [fld ''confirmed'' bs_Confirmed bs_Confirmed_update dec_bool,
                       fld ''block_height'' bs_BlockHeight bs_BlockHeight_update dec_int32,
                       fld ''block_time'' bs_BlockTime bs_BlockTime_update dec_int64]),
        fld ''value'' au_Value au_Value_update dec_int64]"

definition mempool_utxo :: "string \<Rightarrow> bytes \<Rightarrow> goerror + int \<Rightarrow> api_utxo \<Rightarrow> utxo" where
  "mempool_utxo address script tip a =
     \<lparr>ux_TxHash = au_TxID a, ux_Vout = au_Vout a, ux_Amount = au_Value a, ux_ScriptPubKey = Some script,
      ux_Address = address, ux_Confirmed = bs_Confirmed (au_Status a),
      ux_Confirmations = confirmations_at tip (bs_Confirmed (au_Status a)) (bs_BlockHeight (au_Status a)),
      ux_Spendable = True, ux_BlockHeight = bs_BlockHeight (au_Status a)\<rparr>"

definition mempool_GetUTXOs ::
  "('h, 'addr) btcd \<Rightarrow> 'w http_env \<Rightarrow> mempool_provider \<Rightarrow> string \<Rightarrow> ('w, goerror + utxo list) state" where
  "mempool_GetUTXOs bt env m address = do {
     x \<leftarrow> mempool_get env (me_baseURL m @ ''/address/'' @ address @ ''/utxo'') ''failed to fetch UTXOs'';
     (case x of
        Inl e \<Rightarrow> return (Inl e)
      | Inr resp \<Rightarrow>
          (case addressToScriptPubKey bt m address of
             Inl e \<Rightarrow> return (Inl (RequestError ''failed to decode address'' (Some e)))
           | Inr script \<Rightarrow>
               (case body_Decode (dec_slice \<lparr>au_TxID = '''', au_Vout = 0, au_Status = zero_status, au_Value = 0\<rparr> dec_api_utxo)
                       [] resp of
                  Inl e \<Rightarrow> return (Inl (RequestError ''failed to decode response'' (Some e)))
                | Inr apiUTXOs \<Rightarrow> do {
                    tip \<leftarrow> mempool_getCurrentBlockHeight env m;
                    return (Inr (map (mempool_utxo address script tip) apiUTXOs))
                  })))
   }"

record tx_confirmation_status =
  tc_Confirmed :: bool
  tc_Confirmations :: int
  tc_BlockHeight :: int
  tc_BlockHash :: string

record tx_response =
  tr_TxID :: string
  tr_Status :: block_status

definition dec_block_status :: "block_status decoder" where
  "dec_block_status =
     dec_struct [fld ''confirmed'' bs_Confirmed bs_Confirmed_update dec_bool,
                 fld ''block_height'' bs_BlockHeight bs_BlockHeight_update dec_int64,
                 fld ''block_hash'' bs_BlockHash bs_BlockHash_update dec_string,
                 fld ''block_time'' bs_BlockTime bs_BlockTime_update dec_int64]"

definition dec_tx_response :: "tx_response decoder" where
  "dec_tx_response =
     dec_struct [fld ''txid'' tr_TxID tr_TxID_update dec_string,
                 fld ''status'' tr_Status tr_Status_update dec_block_status]"

definition confirmation_of :: "block_status \<Rightarrow> int \<Rightarrow> tx_confirmation_status" where
  "confirmation_of s n =
     \<lparr>tc_Confirmed = bs_Confirmed s, tc_Confirmations = n, tc_BlockHeight = bs_BlockHeight s,
      tc_BlockHash = bs_BlockHash s\<rparr>"

definition mempool_GetTxStatus ::
  "'w http_env \<Rightarrow> mempool_provider \<Rightarrow> string \<Rightarrow> ('w, goerror + tx_confirmation_status) state" where
  "mempool_GetTxStatus env m txID = do {
     x \<leftarrow> http_get env (me_baseURL m @ ''/tx/'' @ txID) [];
     (case x of
        RequestFails e \<Rightarrow> return (Inl (RequestError ''failed to create request'' (Some e)))
      | DoFails e \<Rightarrow> return (Inl (RequestError ''failed to fetch transaction'' (Some e)))
      | Responds resp \<Rightarrow>
          if hs_StatusCode resp = 404 then return (Inl (RequestError ''transaction not found'' None))
          else if hs_StatusCode resp \<noteq> 200
          then return (Inl (RequestError (''unexpected status code: '' @ Itoa (hs_StatusCode resp)) None))
          else
            (case ReadAll resp of
               Inl e \<Rightarrow> return (Inl (RequestError ''failed to read response body'' (Some e)))
             | Inr body \<Rightarrow>
                 (case json_Unmarshal dec_tx_response \<lparr>tr_TxID = '''', tr_Status = zero_status\<rparr> body of
                    Inl e \<Rightarrow> return (Inl (RequestError ''failed to decode response'' (Some e)))
                  | Inr r \<Rightarrow>
                      if bs_Confirmed (tr_Status r) \<and> bs_BlockHeight (tr_Status r) > 0 then do {
                        tip \<leftarrow> mempool_getCurrentBlockHeight env m;
                        return (Inr (confirmation_of (tr_Status r)
                                  (confirmations_at tip True (bs_BlockHeight (tr_Status r)))))
                      }
                      else return (Inr (confirmation_of (tr_Status r) 0)))))
   }"

end
