(* ===== verification/Blockstream.thy ===== *)
theory Blockstream
  imports Mempool "HOL-Library.List_Lexorder" "HOL-Library.Char_ord"
begin

text \<open>
  \<open>bitcoin/providers/blockstream.go\<close>: the Esplora adapter with its cached OAuth token. The token
  is the adapter's own state; a critical section of its mutex is one step. The two functions
  that call the API differ in the request they build and in two messages, so they share the
  body of their loop.
\<close>

record blockstream =
  bl_clientID :: string
  bl_clientSecret :: string
  bl_accessToken :: string
  bl_accessTokenExpirationTime :: gotime
  bl_baseURL :: string
  bl_loginURL :: string

record blockstream_options =
  bo_ClientID :: string
  bo_ClientSecret :: string
  bo_ConfirmationMonitorInterval :: duration
  bo_ConfirmationMonitorFailedTimesThreshold :: int
  bo_BaseURL :: string
  bo_LoginURL :: string

text \<open>The two monitor options get defaults in a local copy and are not used.\<close>

definition NewBlockstream :: "blockstream_options \<Rightarrow> goerror + blockstream" where
  "NewBlockstream opts =
     (if bo_ClientID opts = '''' \<or> bo_ClientSecret opts = ''''
      then Inl (Errorf ''blockstream: API client ID and secret are required'')
      else if bo_BaseURL opts = ''''
      then Inl (Errorf ''blockstream: BaseURL is required; ensure config/providers/blockstream.yaml has an entry for the active network'')
      else if bo_LoginURL opts = ''''
      then Inl (Errorf ''blockstream: LoginURL is required; ensure config/providers/blockstream.yaml has an entry for the active network'')
      else Inr \<lparr>bl_clientID = bo_ClientID opts, bl_clientSecret = bo_ClientSecret opts, bl_accessToken = '''',
                bl_accessTokenExpirationTime = 0, bl_baseURL = bo_BaseURL opts, bl_loginURL = bo_LoginURL opts\<rparr>)"

subsection \<open>The token\<close>

text \<open>The test of both the fast and the slow path; the clock is read only when there is a token.\<close>

definition token_fresh :: "'w http_env \<Rightarrow> (blockstream \<times> 'w, bool) state" where
  "token_fresh env = do {
     p \<leftarrow> get_self;
     if bl_accessToken p = '''' then return False
     else do {
       now \<leftarrow> on_world (he_Now env);
       return (now < bl_accessTokenExpirationTime p)
     }
   }"

record token_response =
  tk_AccessToken :: string
  tk_ExpiresIn :: int

definition dec_token_response :: "token_response decoder" where
  "dec_token_response =
     dec_struct [fld ''access_token'' tk_AccessToken tk_AccessToken_update dec_string,
                 fld ''expires_in'' tk_ExpiresIn tk_ExpiresIn_update dec_int64]"

definition token_request :: "blockstream \<Rightarrow> http_request" where
  "token_request p =
     \<lparr>hq_Method = ''POST'',
      hq_URL = bl_loginURL p @ ''/realms/blockstream-public/protocol/openid-connect/token'',
      hq_Headers = [(''Content-Type'', ''application/x-www-form-urlencoded'')],
      hq_Body = ''client_id='' @ QueryEscape (bl_clientID p) @ ''&client_secret='' @
        QueryEscape (bl_clientSecret p) @ ''&grant_type=client_credentials''\<rparr>"

definition fetch_token :: "'w http_env \<Rightarrow> (blockstream \<times> 'w, goerror + string) state" where
  "fetch_token env = do {
     p \<leftarrow> get_self;
     if bl_clientID p = '''' \<or> bl_clientSecret p = ''''
     then return (Inl (Errorf ''missing API client ID or secret''))
     else do {
       x \<leftarrow> on_world (send env (token_request p));
       (case x of
          RequestFails e \<Rightarrow> return (Inl (wrap_error ''error creating token request: '' e))
        | DoFails e \<Rightarrow> return (Inl (wrap_error ''error fetching access token: '' e))
        | Responds resp \<Rightarrow>
            if hs_StatusCode resp \<noteq> 200 then
              return (Inl
                (if hs_StatusCode resp = 401 \<or> hs_StatusCode resp = 400
                 then wrap_error (''token endpoint returned '' @ Itoa (hs_StatusCode resp) @ '' ('' @
                        TrimSpace (hs_Body resp) @ ''): '') ErrAuthFailure_error
                 else Errorf (''token endpoint returned '' @ Itoa (hs_StatusCode resp) @ '': '' @ hs_Body resp)))
            else
              (case body_Decode dec_token_response \<lparr>tk_AccessToken = '''', tk_ExpiresIn = 0\<rparr> resp of
                 Inl e \<Rightarrow> return (Inl (wrap_error ''error decoding token response: '' e))
               | Inr r \<Rightarrow> do {
                   now \<leftarrow> on_world (he_Now env);
                   put_self (p\<lparr>bl_accessToken := tk_AccessToken r,
                               bl_accessTokenExpirationTime := now + wrap64 (tk_ExpiresIn r * second)\<rparr>);
                   return (Inr (tk_AccessToken r))
                 }))
     }
   }"

definition GetAccessToken :: "'w http_env \<Rightarrow> (blockstream \<times> 'w, goerror + string) state" where
  "GetAccessToken env = do {
     fast \<leftarrow> token_fresh env;
     if fast then do { p \<leftarrow> get_self; return (Inr (bl_accessToken p)) }
     else do {
       slow \<leftarrow> token_fresh env;
       if slow then do { p \<leftarrow> get_self; return (Inr (bl_accessToken p)) } else fetch_token env
     }
   }"

subsection \<open>Calling the API\<close>

datatype attempt = Finished "goerror + string" | Retry

text \<open>One round of the loop; \<open>retried\<close> says whether a 401 has been seen before.\<close>

definition call_attempt ::
  "'w http_env \<Rightarrow> (string \<Rightarrow> http_request) \<Rightarrow> string \<Rightarrow> string \<Rightarrow> bool \<Rightarrow> (blockstream \<times> 'w, attempt) state" where
  "call_attempt env req notFound limited retried = do {
     tok \<leftarrow> GetAccessToken env;
     (case tok of
        Inl e \<Rightarrow> return (Finished (Inl (wrap_error ''get access token: '' e)))
      | Inr token \<Rightarrow> do {
          x \<leftarrow> on_world (send env (req token));
          (case x of
             RequestFails e \<Rightarrow> return (Finished (Inl (wrap_error ''create request: '' e)))
           | DoFails e \<Rightarrow> return (Finished (Inl (wrap_error ''request failed: '' e)))
           | Responds resp \<Rightarrow>
               if hs_StatusCode resp = 200 then
                 return (Finished
                   (case ReadAll resp of
                      Inl e \<Rightarrow> Inl (wrap_error ''read response body: '' e)
                    | Inr body \<Rightarrow> Inr body))
               else if hs_StatusCode resp = 401 then
                 (if retried then
                    return (Finished (Inl (wrap_error ''HTTP 401: unauthorized after token refresh: ''
                      ErrAuthFailure_error)))
                  else do {
                    p \<leftarrow> get_self;
                    put_self (p\<lparr>bl_accessToken := ''''\<rparr>);
                    return Retry
                  })
               else if hs_StatusCode resp = 404 then return (Finished (Inl (Errorf notFound)))
               else if hs_StatusCode resp = 429 then return (Finished (Inl (Errorf limited)))
               else return (Finished (Inl (Errorf (http_text resp)))))
        })
   }"

lemma retried_finishes: "fst (run_state (call_attempt env req nf rl True) st) \<noteq> Retry"
  by (cases st) (auto simp: call_attempt_def split: prod.splits sum.splits exchange.splits)

text \<open>The loop: it comes to a second round at most.\<close>

function call_loop ::
  "'w http_env \<Rightarrow> (string \<Rightarrow> http_request) \<Rightarrow> string \<Rightarrow> string \<Rightarrow> bool \<Rightarrow> blockstream \<times> 'w \<Rightarrow>
   (goerror + string) \<times> (blockstream \<times> 'w)" where
  "call_loop env req notFound limited retried st =
     (case run_state (call_attempt env req notFound limited retried) st of
        (Finished r, st') \<Rightarrow> (r, st')
      | (Retry, st') \<Rightarrow> call_loop env req notFound limited True st')"
  by auto
termination
proof (relation "measure (\<lambda>(env, req, nf, rl, retried, st). if retried then 0 else 1)")
  fix env :: "'w http_env" and req nf rl retried st x y
  assume "(x, y) = run_state (call_attempt env req nf rl retried) st" "x = Retry"
  then have "\<not> retried" using retried_finishes [of env req nf rl st] by (metis (full_types) fst_conv)
  then show "((env, req, nf, rl, True, y), env, req, nf, rl, retried, st)
      \<in> measure (\<lambda>(env, req, nf, rl, retried, st). if retried then 0 else 1)" by simp
qed simp

declare call_loop.simps [simp del]

text \<open>The query of a call, as \<open>url.Values.Encode\<close> prints it; the endpoints have no query of their own.\<close>

definition encode_query :: "(string \<times> string) list \<Rightarrow> string" where
  "encode_query ps =
     strings_Join ''&'' (map (\<lambda>(k, v). QueryEscape k @ ''='' @ QueryEscape v) (sort_key fst ps))"

definition api_request ::
  "string \<Rightarrow> string \<Rightarrow> (string \<times> string) list option \<Rightarrow> string \<Rightarrow> http_request" where
  "api_request verb url params token =
     \<lparr>hq_Method = verb,
      hq_URL = (case params of
                  None \<Rightarrow> url
                | Some ps \<Rightarrow> if ps = [] then url else url @ ''?'' @ encode_query ps),
      hq_Headers = [(''Authorization'', ''Bearer '' @ token)], hq_Body = ''''\<rparr>"

definition callAPI ::
  "'w http_env \<Rightarrow> string \<Rightarrow> string \<Rightarrow> (string \<times> string) list option \<Rightarrow> (blockstream \<times> 'w, goerror + string) state" where
  "callAPI env verb endpoint params = do {
     p \<leftarrow> get_self;
     State (call_loop env (api_request verb (bl_baseURL p @ endpoint) params)
              ''HTTP 404: not found'' ''HTTP 429: rate limit exceeded'' False)
   }"

definition callAPIWithStringBody ::
  "'w http_env \<Rightarrow> string \<Rightarrow> string \<Rightarrow> string \<Rightarrow> string \<Rightarrow> (blockstream \<times> 'w, goerror + string) state" where
  "callAPIWithStringBody env verb endpoint body contentType = do {
     p \<leftarrow> get_self;
     State (call_loop env
              (\<lambda>token. \<lparr>hq_Method = verb, hq_URL = bl_baseURL p @ endpoint,
                 hq_Headers = [(''Authorization'', ''Bearer '' @ token), (''Content-Type'', contentType)],
                 hq_Body = body\<rparr>)
              ''transaction not found'' ''rate limit exceeded'' False)
   }"

subsection \<open>Operations\<close>

record esplora_utxo =
  eu_TxID :: string
  eu_Vout :: "32 word"
  eu_Value :: "64 word"
  eu_Confirmed :: bool

definition dec_esplora_utxo :: "esplora_utxo decoder" where
  "dec_esplora_utxo =
     dec_struct
       [fld ''txid'' eu_TxID eu_TxID_update dec_string, fld ''vout'' eu_Vout eu_Vout_update dec_uint,
        fld ''value'' eu_Value eu_Value_update dec_uint,
        (''status'', dec_struct [fld ''confirmed'' eu_Confirmed eu_Confirmed_update dec_bool])]"

definition blockstream_utxo :: "string \<Rightarrow> esplora_utxo \<Rightarrow> utxo" where
  "blockstream_utxo address u =
     \<lparr>ux_TxHash = eu_TxID u, ux_Vout = eu_Vout u, ux_Amount = sint (eu_Value u), ux_ScriptPubKey = None,
      ux_Address = address, ux_Confirmed = eu_Confirmed u, ux_Confirmations = 0, ux_Spendable = False,
      ux_BlockHeight = 0\<rparr>"

definition blockstream_GetUTXOs ::
  "'w http_env \<Rightarrow> string \<Rightarrow> (blockstream \<times> 'w, goerror + utxo list) state" where
  "blockstream_GetUTXOs env address = do {
     r \<leftarrow> callAPI env ''GET'' (''/address/'' @ address @ ''/utxo'') None;
     return (case r of
         Inl e \<Rightarrow> Inl (wrap_error (''fetch UTXOs for '' @ address @ '': '') e)
       | Inr body \<Rightarrow>
           (case json_Unmarshal
                   (dec_slice \<lparr>eu_TxID = '''', eu_Vout = 0, eu_Value = 0, eu_Confirmed = False\<rparr> dec_esplora_utxo)
                   [] body of
              Inl e \<Rightarrow> Inl (wrap_error ''parse UTXO response: '' e)
            | Inr us \<Rightarrow> Inr (map (blockstream_utxo address) us)))
   }"

text \<open>The loop that adds up the coins is that of \<open>bitcoin/balance.go\<close>.\<close>

definition blockstream_GetBalance :: "'w http_env \<Rightarrow> string \<Rightarrow> (blockstream \<times> 'w, goerror + balance) state" where
  "blockstream_GetBalance env address = do {
     r \<leftarrow> blockstream_GetUTXOs env address;
     return (case r of
         Inl e \<Rightarrow> Inl (wrap_error ''failed to fetch UTXOs: '' e)
       | Inr utxos \<Rightarrow> Inr (CalculateBalanceFromUTXOs utxos))
   }"

definition blockstream_ValidateAddress ::
  "'w http_env \<Rightarrow> string \<Rightarrow> (blockstream \<times> 'w, bool \<times> goerror option) state" where
  "blockstream_ValidateAddress env address = do {
     r \<leftarrow> callAPI env ''GET'' (''/address/'' @ address) None;
     return (case r of
         Inl e \<Rightarrow> if strings_Contains (err_msg e) ''status code: 400'' then (False, None) else (False, Some e)
       | Inr _ \<Rightarrow> (True, None))
   }"

definition blockstream_PushTx :: "'w http_env \<Rightarrow> bytes \<Rightarrow> (blockstream \<times> 'w, goerror + string) state" where
  "blockstream_PushTx env rawTx = do {
     r \<leftarrow> callAPIWithStringBody env ''POST'' ''/tx'' (hex_EncodeToString rawTx) ''text/plain'';
     return (case r of
         Inl e \<Rightarrow> Inl (wrap_error ''failed to broadcast transaction via Blockstream: '' e)
       | Inr body \<Rightarrow> Inr (TrimSpace body))
   }"

text \<open>The confirmations that \<open>GetTxStatus\<close> computes from the reply for the tip; 0 becomes 1.\<close>

definition depth_of :: "goerror + string \<Rightarrow> int \<Rightarrow> int" where
  "depth_of tip height =
     (let n = (case tip of
                 Inl _ \<Rightarrow> 0
               | Inr body \<Rightarrow>
                   (case json_Unmarshal dec_int64 0 body of
                      Inl _ \<Rightarrow> 0
                    | Inr tipHeight \<Rightarrow> if tipHeight > 0 then wrap64 (tipHeight - height + 1) else 0))
      in if n = 0 then 1 else n)"

definition blockstream_GetTxStatus ::
  "'w http_env \<Rightarrow> string \<Rightarrow> (blockstream \<times> 'w, goerror + tx_confirmation_status) state" where
  "blockstream_GetTxStatus env txID = do {
     r \<leftarrow> callAPI env ''GET'' (''/tx/'' @ txID @ ''/status'') None;
     (case r of
        Inl e \<Rightarrow> return (Inl (wrap_error (''fetch tx status '' @ txID @ '': '') e))
      | Inr body \<Rightarrow>
          (case json_Unmarshal dec_block_status zero_status body of
             Inl e \<Rightarrow> return (Inl (wrap_error ''parse tx status response: '' e))
           | Inr s \<Rightarrow>
               if bs_Confirmed s \<and> bs_BlockHeight s > 0 then do {
                 tip \<leftarrow> callAPI env ''GET'' ''/blocks/tip/height'' None;
                 return (Inr (confirmation_of s (depth_of tip (bs_BlockHeight s))))
               }
               else return (Inr (confirmation_of s 0))))
   }"

definition blockstream_CheckHealth :: "'w http_env \<Rightarrow> (blockstream \<times> 'w, health_status) state" where
  "blockstream_CheckHealth env = do {
     p \<leftarrow> get_self;
     on_world (http_health env (bl_baseURL p @ ''/blocks/tip/height'')
       (if bl_clientID p \<noteq> '''' then [(''X-Client-Id'', bl_clientID p)] else []))
   }"

definition getFeeEstimates :: "'w http_env \<Rightarrow> (blockstream \<times> 'w, goerror + (string \<times> real) list) state" where
  "getFeeEstimates env = do {
     r \<leftarrow> callAPI env ''GET'' ''/fee-estimates'' None;
     return (case r of
         Inl e \<Rightarrow> Inl (wrap_error ''failed to fetch fee estimates from Blockstream: '' e)
       | Inr body \<Rightarrow>
           (case json_Unmarshal (dec_map 0 dec_float) [] body of
              Inl e \<Rightarrow> Inl (wrap_error ''failed to parse fee estimates response: '' e)
            | Inr m \<Rightarrow> Inr m))
   }"

definition roundFeeRate :: "real \<Rightarrow> 64 word" where
  "roundFeeRate f = (let r = word_of_int (math_Round f) :: 64 word in if r < 1 then 1 else r)"

definition estimate_tier :: "(string \<times> real) list \<Rightarrow> string \<Rightarrow> int \<Rightarrow> fee_tier list" where
  "estimate_tier estimates key block =
     (case map_of estimates key of None \<Rightarrow> [] | Some f \<Rightarrow> [tier (roundFeeRate f) block])"

definition blockstream_GetTxFees :: "'w http_env \<Rightarrow> (blockstream \<times> 'w, goerror + fee_tier list) state" where
  "blockstream_GetTxFees env = do {
     r \<leftarrow> getFeeEstimates env;
     return (case r of
         Inl e \<Rightarrow> Inl e
       | Inr m \<Rightarrow>
           let feeTiers = estimate_tier m ''1'' 1 @ estimate_tier m ''6'' 6 @ estimate_tier m ''144'' 144
           in if feeTiers = [] then Inl (Errorf ''no fee estimates available from Blockstream'') else Inr feeTiers)
   }"

definition blockstream_GetTxFee :: "'w http_env \<Rightarrow> int \<Rightarrow> (blockstream \<times> 'w, goerror + fee_tier) state" where
  "blockstream_GetTxFee env priority = do {
     fees \<leftarrow> blockstream_GetTxFees env;
     return (choose_tier priority fees)
   }"

definition blockstream_GetCapabilities :: "string list" where
  "blockstream_GetCapabilities =
     [''address_validation'', ''balance_fetching'', ''fee_recommending'', ''tx_broadcast'', ''tx_status_fetching'',
      ''utxo_fetching'']"

end
