(* ===== verification/Tatum.thy ===== *)
theory Tatum
  imports Blockstream
begin

text \<open>
  \<open>bitcoin/providers/tatum.go\<close>: a Bitcoin node behind JSON-RPC. The result of a call is the raw
  JSON of the reply, None when the reply has no result. The state of the credentials is the
  adapter's own state.
\<close>

record tatum =
  ta_network :: string
  ta_baseURL :: string
  ta_apiKey :: string
  ta_authValid :: "bool option"
  ta_authErr :: "goerror option"

definition NewTatum :: "string \<Rightarrow> string \<Rightarrow> string \<Rightarrow> tatum" where
  "NewTatum network baseURL apiKey =
     \<lparr>ta_network = network, ta_baseURL = baseURL, ta_apiKey = apiKey, ta_authValid = None, ta_authErr = None\<rparr>"

subsection \<open>Remote procedure calls\<close>

definition rpc_json :: "string \<Rightarrow> json list \<Rightarrow> json" where
  "rpc_json verb params = JObj [(''method'', JStr verb), (''params'', JArr params), (''id'', JNum ''1'')]"

definition rpc_request :: "tatum \<Rightarrow> string \<Rightarrow> json list \<Rightarrow> http_request" where
  "rpc_request t verb params =
     \<lparr>hq_Method = ''POST'', hq_URL = ta_baseURL t,
      hq_Headers = (''Content-Type'', ''application/json'') #
        (if ta_apiKey t \<noteq> '''' then [(''x-api-key'', ta_apiKey t)] else []),
      hq_Body = json_text (rpc_json verb params)\<rparr>"

record rpc_error =
  re_Code :: int
  re_Message :: string

record rpc_response =
  rr_Result :: "json option"
  rr_Error :: "rpc_error option"
  rr_ID :: int

definition dec_rpc_response :: "rpc_response decoder" where
  "dec_rpc_response =
     dec_struct
       [fld ''result'' rr_Result rr_Result_update dec_raw,
        fld ''error'' rr_Error rr_Error_update
          (dec_ptr \<lparr>re_Code = 0, re_Message = ''''\<rparr>
             (dec_struct [fld ''code'' re_Code re_Code_update dec_int64,
                          fld ''message'' re_Message re_Message_update dec_string])),
        fld ''id'' rr_ID rr_ID_update dec_int64]"

definition rpc_result :: "http_response \<Rightarrow> goerror + json option" where
  "rpc_result resp =
     (case ReadAll resp of
        Inl e \<Rightarrow> Inl (wrap_error ''read response: '' e)
      | Inr body \<Rightarrow>
          if hs_StatusCode resp \<noteq> 200 then Inl (status_error resp)
          else
            (case json_Unmarshal dec_rpc_response \<lparr>rr_Result = None, rr_Error = None, rr_ID = 0\<rparr> body of
               Inl e \<Rightarrow> Inl (wrap_error ''parse RPC response: '' e)
             | Inr r \<Rightarrow>
                 (case rr_Error r of
                    Some err \<Rightarrow> Inl (Errorf (''RPC error '' @ Itoa (re_Code err) @ '': '' @ re_Message err))
                  | None \<Rightarrow> Inr (rr_Result r))))"

definition tatum_call :: "'w http_env \<Rightarrow> tatum \<Rightarrow> string \<Rightarrow> json list \<Rightarrow> ('w, goerror + json option) state" where
  "tatum_call env t verb params = do {
     x \<leftarrow> send env (rpc_request t verb params);
     return (case x of
         RequestFails e \<Rightarrow> Inl (wrap_error ''create request: '' e)
       | DoFails e \<Rightarrow> Inl (wrap_error ''request failed: '' e)
       | Responds resp \<Rightarrow> rpc_result resp)
   }"

subsection \<open>Transactions\<close>

definition tatum_PushTx :: "'w http_env \<Rightarrow> tatum \<Rightarrow> bytes \<Rightarrow> ('w, goerror + string) state" where
  "tatum_PushTx env t rawTx = do {
     r \<leftarrow> tatum_call env t ''sendrawtransaction'' [JStr (hex_EncodeToString rawTx)];
     return (case r of
         Inl e \<Rightarrow> Inl (wrap_error ''broadcast transaction: '' e)
       | Inr result \<Rightarrow>
           (case decoded dec_string '''' result of
              Inl e \<Rightarrow> Inl (wrap_error ''parse txid: '' e)
            | Inr txID \<Rightarrow> Inr txID))
   }"

record raw_tx =
  rt_Confirmations :: "int option"
  rt_BlockHash :: "string option"
  rt_BlockHeight :: "int option"

definition dec_raw_tx :: "raw_tx decoder" where
  "dec_raw_tx =
     dec_struct [fld ''confirmations'' rt_Confirmations rt_Confirmations_update (dec_ptr 0 dec_int64),
                 fld ''blockhash'' rt_BlockHash rt_BlockHash_update (dec_ptr '''' dec_string),
                 fld ''blockheight'' rt_BlockHeight rt_BlockHeight_update (dec_ptr 0 dec_int64)]"

definition raw_tx_status :: "raw_tx \<Rightarrow> tx_confirmation_status" where
  "raw_tx_status x =
     (if rt_Confirmations x = None \<or> rt_Confirmations x = Some 0
      then \<lparr>tc_Confirmed = False, tc_Confirmations = 0, tc_BlockHeight = 0, tc_BlockHash = ''''\<rparr>
      else \<lparr>tc_Confirmed = True, tc_Confirmations = the_default 0 (rt_Confirmations x),
            tc_BlockHeight = the_default 0 (rt_BlockHeight x), tc_BlockHash = the_default '''' (rt_BlockHash x)\<rparr>)"

definition tatum_GetTxStatus ::
  "'w http_env \<Rightarrow> tatum \<Rightarrow> string \<Rightarrow> ('w, goerror + tx_confirmation_status) state" where
  "tatum_GetTxStatus env t txID = do {
     r \<leftarrow> tatum_call env t ''getrawtransaction'' [JStr txID, JBool True];
     return (case r of
         Inl e \<Rightarrow> Inl (wrap_error (''fetch tx status '' @ txID @ '': '') e)
       | Inr result \<Rightarrow>
           (case decoded dec_raw_tx \<lparr>rt_Confirmations = None, rt_BlockHash = None, rt_BlockHeight = None\<rparr> result of
              Inl e \<Rightarrow> Inl (wrap_error ''parse tx status response: '' e)
            | Inr x \<Rightarrow> Inr (raw_tx_status x)))
   }"

subsection \<open>Credentials and health\<close>

definition setAuthState :: "bool \<Rightarrow> goerror option \<Rightarrow> (tatum \<times> 'w, unit) state" where
  "setAuthState valid err = do {
     t \<leftarrow> get_self;
     put_self (t\<lparr>ta_authValid := Some valid, ta_authErr := err\<rparr>)
   }"

definition tatum_ValidateAPIKey :: "'w http_env \<Rightarrow> (tatum \<times> 'w, goerror option) state" where
  "tatum_ValidateAPIKey env = do {
     t \<leftarrow> get_self;
     x \<leftarrow> on_world (send env (rpc_request t ''getblockcount'' []));
     (case x of
        RequestFails e \<Rightarrow> return (Some (wrap_error ''create request: '' e))
      | DoFails e \<Rightarrow> return (Some (wrap_error ''validate API key: '' e))
      | Responds resp \<Rightarrow>
          if hs_StatusCode resp = 401 \<or> hs_StatusCode resp = 403 then
            (let authErr = wrap_error (''invalid API key or credentials (HTTP '' @ Itoa (hs_StatusCode resp) @ ''): '')
                             ErrAuthFailure_error
             in do { setAuthState False (Some authErr); return (Some authErr) })
          else if hs_StatusCode resp \<noteq> 200
          then return (Some (Errorf (''unexpected HTTP status '' @ Itoa (hs_StatusCode resp))))
          else do { setAuthState True None; return None })
   }"

definition dec_blocks :: "int decoder" where
  "dec_blocks = dec_struct [(''blocks'', dec_int64)]"

definition tatum_CheckHealth :: "'w http_env \<Rightarrow> (tatum \<times> 'w, health_status) state" where
  "tatum_CheckHealth env = do {
     start \<leftarrow> on_world (he_Now env);
     t \<leftarrow> get_self;
     r \<leftarrow> on_world (tatum_call env t ''getblockchaininfo'' []);
     finish \<leftarrow> on_world (he_Now env);
     now \<leftarrow> on_world (he_Now env);
     (let d = finish - start;
          auth = with_auth (ta_authValid t) (ta_authErr t)
      in return
           (if ta_authValid t = Some False then auth True (health HealthLevelDown d 0 ''authentication failed'' now)
            else
              (case r of
                 Inl e \<Rightarrow> auth False (health HealthLevelDown d 0 (err_msg e) now)
               | Inr result \<Rightarrow>
                   (case decoded dec_blocks 0 result of
                      Inl e \<Rightarrow> auth False (health HealthLevelDegraded d 0 ''unexpected getblockchaininfo response'' now)
                    | Inr blocks \<Rightarrow>
                        if blocks = 0
                        then auth False (health HealthLevelDegraded d 0 ''unexpected getblockchaininfo response'' now)
                        else if Milliseconds d > 2000
                        then auth False (health HealthLevelDegraded d 200 ''slow response'' now)
                        else auth False (health HealthLevelHealthy d 200 '''' now)))))
   }"

definition tatum_GetCapabilities :: "string list" where
  "tatum_GetCapabilities = [''api_key_validation'', ''tx_broadcast'', ''tx_status_fetching'', ''fee_recommending'']"

subsection \<open>Fees\<close>

record fee_estimate =
  fe_FeeRate :: real
  fe_Blocks :: int
  fe_Errors :: "string list"

definition dec_fee_estimate :: "fee_estimate decoder" where
  "dec_fee_estimate =
     dec_struct [fld ''feerate'' fe_FeeRate fe_FeeRate_update dec_float,
                 fld ''blocks'' fe_Blocks fe_Blocks_update dec_int64,
                 fld ''errors'' fe_Errors fe_Errors_update (dec_slice '''' dec_string)]"

text \<open>From BTC per kilobyte to satoshi per byte.\<close>

definition fee_of_estimate :: "int \<Rightarrow> fee_estimate \<Rightarrow> goerror + fee_tier" where
  "fee_of_estimate targetBlocks est =
     (if fe_Errors est \<noteq> [] then Inl (Errorf (''estimatesmartfee: '' @ strings_Join ''; '' (fe_Errors est)))
      else if fe_FeeRate est \<le> 0
      then Inl (Errorf (''no fee data for target '' @ Itoa targetBlocks @ '' blocks''))
      else
        let satPerVByte = roundFeeRate (fe_FeeRate est * 100000000 / 1000)
        in Inr (tier satPerVByte (if fe_Blocks est = 0 then targetBlocks else fe_Blocks est)))"

definition estimateFeeForTarget :: "'w http_env \<Rightarrow> tatum \<Rightarrow> int \<Rightarrow> ('w, goerror + fee_tier) state" where
  "estimateFeeForTarget env t targetBlocks = do {
     r \<leftarrow> tatum_call env t ''estimatesmartfee'' [JNum (Itoa targetBlocks)];
     return (case r of
         Inl e \<Rightarrow> Inl (wrap_error (''estimate fee for '' @ Itoa targetBlocks @ '' blocks: '') e)
       | Inr result \<Rightarrow>
           (case decoded dec_fee_estimate \<lparr>fe_FeeRate = 0, fe_Blocks = 0, fe_Errors = []\<rparr> result of
              Inl e \<Rightarrow> Inl (wrap_error ''parse fee estimate response: '' e)
            | Inr est \<Rightarrow> fee_of_estimate targetBlocks est))
   }"

fun estimate_all :: "'w http_env \<Rightarrow> tatum \<Rightarrow> int list \<Rightarrow> ('w, fee_tier list) state" where
  "estimate_all env t [] = return []"
| "estimate_all env t (p # ps) = do {
     r \<leftarrow> estimateFeeForTarget env t (TargetBlock p);
     tiers \<leftarrow> estimate_all env t ps;
     return (case r of Inl _ \<Rightarrow> tiers | Inr ft \<Rightarrow> ft # tiers)
   }"

definition tatum_GetTxFees :: "'w http_env \<Rightarrow> tatum \<Rightarrow> ('w, goerror + fee_tier list) state" where
  "tatum_GetTxFees env t = do {
     tiers \<leftarrow> estimate_all env t [0, 1, 2, 3, 4];
     return (if tiers = [] then Inl (Errorf ''no fee estimates available: node may lack sufficient data'')
             else Inr tiers)
   }"

definition tatum_GetTxFee :: "'w http_env \<Rightarrow> tatum \<Rightarrow> int \<Rightarrow> ('w, goerror + fee_tier) state" where
  "tatum_GetTxFee env t priority = estimateFeeForTarget env t (TargetBlock priority)"

end
