(* ===== verification/Api_Providers.thy ===== *)
theory Api_Providers
  imports Tatum
begin

text \<open>
  \<open>bitcoin/providers/bitrefcom.go\<close>, \<open>bitcoin/providers/blockchaincom.go\<close> and
  \<open>bitcoin/providers/blockcypher.go\<close>. Blockcypher's client library is an argument.
\<close>

subsection \<open>Bitref\<close>

record bitrefcom =
  br_apiKey :: string
  br_baseURL :: string

definition NewBitrefcom :: "string \<Rightarrow> string \<Rightarrow> bitrefcom" where
  "NewBitrefcom apiKey baseURL =
     \<lparr>br_apiKey = apiKey, br_baseURL = (if baseURL = '''' then ''https://api.bitref.com'' else baseURL)\<rparr>"

text \<open>A nil body is None.\<close>

definition bitref_callAPI ::
  "'w http_env \<Rightarrow> bitrefcom \<Rightarrow> string \<Rightarrow> string \<Rightarrow> string option \<Rightarrow> ('w, goerror + string) state" where
  "bitref_callAPI env b verb endpoint body =
     (if br_baseURL b = '''' then return (Inl (Errorf ''base URL not set''))
      else if br_apiKey b = '''' then return (Inl (Errorf ''API key not set''))
      else if endpoint = '''' then return (Inl (Errorf ''endpoint not set''))
      else do {
        x \<leftarrow> send env
              \<lparr>hq_Method = verb, hq_URL = br_baseURL b @ endpoint,
               hq_Headers = (''X-Api-Key'', br_apiKey b) #
                 (if body \<noteq> None \<and> (verb = ''POST'' \<or> verb = ''PUT'')
                  then [(''Content-Type'', ''application/json'')] else []),
               hq_Body = the_default '''' body\<rparr>;
        return (case x of
            RequestFails e \<Rightarrow> Inl e
          | DoFails e \<Rightarrow> Inl e
          | Responds resp \<Rightarrow> if hs_StatusCode resp \<noteq> 200 then Inl (status_error resp) else ReadAll resp)
      })"

record bitref_fee =
  bf_FeeRate :: real
  bf_Blocks :: int

definition dec_bitref_fee :: "bitref_fee decoder" where
  "dec_bitref_fee =
     dec_struct [fld ''feerate'' bf_FeeRate bf_FeeRate_update dec_float,
                 fld ''blocks'' bf_Blocks bf_Blocks_update dec_int64]"

definition bitref_GetTxFee :: "'w http_env \<Rightarrow> bitrefcom \<Rightarrow> int \<Rightarrow> ('w, goerror + fee_tier) state" where
  "bitref_GetTxFee env b priority = do {
     r \<leftarrow> bitref_callAPI env b ''GET'' (''/v1/fees/estimate/'' @ Itoa (TargetBlock priority)) None;
     return (case r of
         Inl e \<Rightarrow> Inl e
       | Inr body \<Rightarrow>
           (case json_Unmarshal dec_bitref_fee \<lparr>bf_FeeRate = 0, bf_Blocks = 0\<rparr> body of
              Inl e \<Rightarrow> Inl e
            | Inr f \<Rightarrow> Inr (tier (roundFeeRate (bf_FeeRate f)) (bf_Blocks f))))
   }"

text \<open>
  \<open>fmt.Sscanf(s, "%d", &n)\<close>: leading blanks, an optional sign and the digits that follow; the
  rest is ignored.
\<close>

definition Sscanf_d :: "string \<Rightarrow> int option" where
  "Sscanf_d s =
     (let t = dropWhile (\<lambda>c. is_space c \<and> c \<noteq> CHR 0x0A) s;
          signed = (t \<noteq> [] \<and> (hd t = CHR ''-'' \<or> hd t = CHR ''+''));
          ds = takeWhile is_digit (if signed then tl t else t)
      in if ds = [] then None
         else ParseInt64 ((if signed then [hd t] else []) @ ds))"

definition bitref_tier :: "string \<times> real \<Rightarrow> fee_tier option" where
  "bitref_tier br =
     (case Sscanf_d (fst br) of None \<Rightarrow> None | Some n \<Rightarrow> Some (tier (roundFeeRate (snd br)) n))"

definition bitref_GetTxFees ::
  "((string \<times> real) list \<Rightarrow> (string \<times> real) list) \<Rightarrow> 'w http_env \<Rightarrow> bitrefcom \<Rightarrow> ('w, goerror + fee_tier list) state" where
  "bitref_GetTxFees order env b = do {
     r \<leftarrow> bitref_callAPI env b ''GET'' ''/v1/fees/estimates'' None;
     return (case r of
         Inl e \<Rightarrow> Inl e
       | Inr body \<Rightarrow>
           (case json_Unmarshal (dec_map 0 dec_float) [] body of
              Inl e \<Rightarrow> Inl e
            | Inr m \<Rightarrow> Inr (List.map_filter bitref_tier (order m))))
   }"

definition dec_txId :: "string decoder" where
  "dec_txId = dec_struct [(''txId'', dec_string)]"

definition bitref_PushTx :: "'w http_env \<Rightarrow> bitrefcom \<Rightarrow> bytes \<Rightarrow> ('w, goerror + string) state" where
  "bitref_PushTx env b rawTx = do {
     r \<leftarrow> bitref_callAPI env b ''POST'' ''/v1/tx/broadcast''
           (Some (json_text (JObj [(''rawTx'', JStr (hex_EncodeToString rawTx))])));
     return (case r of
         Inl e \<Rightarrow> Inl (wrap_error ''broadcast transaction: '' e)
       | Inr body \<Rightarrow>
           (case json_Unmarshal dec_txId '''' body of
              Inl e \<Rightarrow> Inl (wrap_error ''parse response: '' e)
            | Inr txID \<Rightarrow> Inr txID))
   }"

record balance_response =
  brs_ConfirmedBalance :: "64 word"
  brs_UnconfirmedBalance :: "64 word"

definition dec_balance_response :: "balance_response decoder" where
  "dec_balance_response =
     dec_struct [fld ''confirmed_balance'' brs_ConfirmedBalance brs_ConfirmedBalance_update dec_uint,
                 fld ''unconfirmed_balance'' brs_UnconfirmedBalance brs_UnconfirmedBalance_update dec_uint]"

definition fetchBalanceData :: "'w http_env \<Rightarrow> bitrefcom \<Rightarrow> string \<Rightarrow> ('w, goerror + balance_response) state" where
  "fetchBalanceData env b address = do {
     r \<leftarrow> bitref_callAPI env b ''GET'' (''/v1/address/'' @ address @ ''/balance'') None;
     return (case r of
         Inl e \<Rightarrow> Inl (wrap_error ''fetch address details: '' e)
       | Inr body \<Rightarrow>
           (case json_Unmarshal dec_balance_response \<lparr>brs_ConfirmedBalance = 0, brs_UnconfirmedBalance = 0\<rparr> body of
              Inl e \<Rightarrow> Inl (wrap_error ''parse response: '' e)
            | Inr resp \<Rightarrow> Inr resp))
   }"

definition bitref_GetBalance :: "'w http_env \<Rightarrow> bitrefcom \<Rightarrow> string \<Rightarrow> ('w, goerror + balance) state" where
  "bitref_GetBalance env b address = do {
     r \<leftarrow> fetchBalanceData env b address;
     return (case r of
         Inl e \<Rightarrow> Inl e
       | Inr resp \<Rightarrow>
           Inr \<lparr>bal_Confirmed = brs_ConfirmedBalance resp, bal_Unconfirmed = brs_UnconfirmedBalance resp,
                bal_Total = brs_ConfirmedBalance resp + brs_UnconfirmedBalance resp\<rparr>)
   }"

definition bitref_CheckHealth :: "'w http_env \<Rightarrow> bitrefcom \<Rightarrow> ('w, health_status) state" where
  "bitref_CheckHealth env b =
     (if br_baseURL b = '''' then do {
        start \<leftarrow> he_Now env;
        t \<leftarrow> he_Now env;
        return (health HealthLevelDown 0 0 ''Bitref.com only supports Bitcoin mainnet'' t)
      }
      else http_health env (br_baseURL b @ ''/v1/fees/estimates'')
             (if br_apiKey b \<noteq> '''' then [(''X-API-Key'', br_apiKey b)] else []))"

definition bitref_GetCapabilities :: "string list" where
  "bitref_GetCapabilities = [''balance_fetching'', ''fee_recommending'', ''fee_estimation'', ''tx_broadcast'']"

subsection \<open>Blockchain.com\<close>

abbreviation blockchainComBaseURL :: string where "blockchainComBaseURL \<equiv> ''https://blockchain.info''"

text \<open>\<open>strconv.ParseUint(s, 10, 64)\<close>\<close>

definition ParseUint64 :: "string \<Rightarrow> goerror + 64 word" where
  "ParseUint64 s =
     (case (s, digits_value 0 s) of
        (_ # _, Some n) \<Rightarrow>
          if n < 2 ^ 64 then Inr (word_of_nat n)
          else Inl (Errorf (''strconv.ParseUint: parsing '' @ go_quote s @ '': value out of range''))
      | _ \<Rightarrow> Inl (Errorf (''strconv.ParseUint: parsing '' @ go_quote s @ '': invalid syntax'')))"

definition zero_balance :: balance where
  "zero_balance = \<lparr>bal_Confirmed = 0, bal_Unconfirmed = 0, bal_Total = 0\<rparr>"

definition blockchaincom_GetBalance :: "'w http_env \<Rightarrow> string \<Rightarrow> ('w, goerror + balance) state" where
  "blockchaincom_GetBalance env address = do {
     x \<leftarrow> http_get env (blockchainComBaseURL @ ''/q/addressbalance/'' @ address) [];
     return (case x of
         RequestFails e \<Rightarrow> Inl (wrap_error ''create request: '' e)
       | DoFails e \<Rightarrow> Inl (wrap_error (''fetch balance for '' @ address @ '': '') e)
       | Responds resp \<Rightarrow>
           if hs_StatusCode resp = 404 then Inr zero_balance
           else if hs_StatusCode resp \<noteq> 200 then Inl (Errorf (http_text resp))
           else
             (case ReadAll resp of
                Inl e \<Rightarrow> Inl (wrap_error ''read response body: '' e)
              | Inr body \<Rightarrow>
                  (case ParseUint64 (TrimSpace body) of
                     Inl e \<Rightarrow> Inl (wrap_error ''parse balance: '' e)
                   | Inr sats \<Rightarrow> Inr \<lparr>bal_Confirmed = sats, bal_Unconfirmed = 0, bal_Total = sats\<rparr>)))
   }"

text \<open>The identifier of a transaction is its double hash with the bytes reversed in place.\<close>

definition computeTxID :: "bytes \<Rightarrow> string" where
  "computeTxID rawTx =
     (let second = sha256 (sha256 rawTx)
      in hex_EncodeToString (swap_ends 0 (length second - 1) second))"

definition blockchaincom_PushTx :: "'w http_env \<Rightarrow> bytes \<Rightarrow> ('w, goerror + string) state" where
  "blockchaincom_PushTx env rawTx = do {
     x \<leftarrow> http_post env (blockchainComBaseURL @ ''/pushtx'')
           [(''Content-Type'', ''application/x-www-form-urlencoded'')]
           (''tx='' @ QueryEscape (hex_EncodeToString rawTx));
     return (case x of
         RequestFails e \<Rightarrow> Inl (wrap_error ''create request: '' e)
       | DoFails e \<Rightarrow> Inl (wrap_error ''broadcast transaction: '' e)
       | Responds resp \<Rightarrow>
           (case ReadAll resp of
              Inl e \<Rightarrow> Inl (wrap_error ''read response body: '' e)
            | Inr body \<Rightarrow>
                if hs_StatusCode resp \<noteq> 200 then Inl (Errorf (http_text resp))
                else if strip_prefix ''Failed'' (TrimSpace body) \<noteq> None
                then Inl (Errorf (''transaction rejected by BlockchainCom: '' @ TrimSpace body))
                else Inr (computeTxID rawTx)))
   }"

definition blockchaincom_CheckHealth :: "'w http_env \<Rightarrow> ('w, health_status) state" where
  "blockchaincom_CheckHealth env = http_health env (blockchainComBaseURL @ ''/q/getblockcount'') []"

definition blockchaincom_GetCapabilities :: "string list" where
  "blockchaincom_GetCapabilities = [''balance_fetching'', ''tx_broadcast'']"

end
