(* ===== verification/Blockcypher.thy ===== *)
theory Blockcypher
  imports Api_Providers
begin

text \<open>
  \<open>bitcoin/providers/blockcypher.go\<close>. The client library \<open>gobcy\<close> is an argument: what its calls
  return is arbitrary. The adapter's own state is what is known of the credentials.
\<close>

record tx_ref =
  xr_TXHash :: string
  xr_TXOutputN :: int
  xr_Spent :: bool
  xr_Value :: int
  xr_Confirmations :: int
  xr_Script :: string

record gobcy_addr =
  ga_TXRefs :: "tx_ref list"
  ga_Balance :: int
  ga_UnconfirmedBalance :: int

record gobcy_tx =
  gt_Confirmed :: gotime
  gt_BlockHeight :: int
  gt_Confirmations :: int
  gt_BlockHash :: string

record 'w gobcy =
  gb_GetAddr :: "string \<Rightarrow> (string \<times> string) list \<Rightarrow> ('w, goerror + gobcy_addr) state"
  gb_PushTX :: "string \<Rightarrow> ('w, goerror + string) state"
  gb_GetTX :: "string \<Rightarrow> ('w, goerror + gobcy_tx) state"

record blockcypher =
  bc_Token :: string
  bc_Chain :: string
  bc_Coin :: string
  bc_authValid :: "bool option"
  bc_authErr :: "goerror option"

definition NewBlockcypher :: "string \<Rightarrow> string \<Rightarrow> blockcypher option" where
  "NewBlockcypher apiKey network =
     (case BlockcypherChain network of
        (chain, ok) \<Rightarrow>
          if \<not> ok then None
          else Some \<lparr>bc_Token = apiKey, bc_Chain = chain, bc_Coin = ''btc'', bc_authValid = None, bc_authErr = None\<rparr>)"

subsection \<open>Addresses\<close>

text \<open>The bytes that \<open>hex.DecodeString\<close> returns, also when it fails.\<close>

fun hex_prefix :: "string \<Rightarrow> bytes" where
  "hex_prefix (c # d # s) =
     (case (from_hex_char c, from_hex_char d) of
        (Some h, Some l) \<Rightarrow> word_of_nat (16 * h + l) # hex_prefix s
      | _ \<Rightarrow> [])"
| "hex_prefix s = []"

text \<open>A reference that is an unspent output becomes a coin; the slice of its script is never nil.\<close>

definition ref_utxo :: "string \<Rightarrow> tx_ref \<Rightarrow> utxo option" where
  "ref_utxo address r =
     (if xr_Spent r \<or> xr_TXOutputN r < 0 then None
      else Some
        \<lparr>ux_TxHash = xr_TXHash r, ux_Vout = word_of_int (xr_TXOutputN r), ux_Amount = wrap64 (xr_Value r),
         ux_ScriptPubKey = Some (hex_prefix (xr_Script r)), ux_Address = address,
         ux_Confirmed = (xr_Confirmations r > 0), ux_Confirmations = xr_Confirmations r, ux_Spendable = False,
         ux_BlockHeight = 0\<rparr>)"

definition blockcypher_GetUTXOs :: "'w gobcy \<Rightarrow> string \<Rightarrow> ('w, goerror + utxo list) state" where
  "blockcypher_GetUTXOs gb address = do {
     r \<leftarrow> gb_GetAddr gb address [(''unspent'', ''true'')];
     return (case r of
         Inl e \<Rightarrow> Inl (wrap_error (''fetch address '' @ address @ '': '') e)
       | Inr addr \<Rightarrow> Inr (List.map_filter (ref_utxo address) (ga_TXRefs addr)))
   }"

definition blockcypher_ValidateAddress :: "'w gobcy \<Rightarrow> string \<Rightarrow> ('w, bool \<times> goerror option) state" where
  "blockcypher_ValidateAddress gb address = do {
     r \<leftarrow> gb_GetAddr gb address [];
     return (case r of
         Inl e \<Rightarrow>
           if strings_Contains (ToLower (err_msg e)) ''address'' \<or> strings_Contains (ToLower (err_msg e)) ''invalid'' \<or>
              strings_Contains (ToLower (err_msg e)) ''not found''
           then (False, None)
           else (False, Some (wrap_error (''validate address '' @ address @ '': '') e))
       | Inr _ \<Rightarrow> (True, None))
   }"

definition blockcypher_GetBalance :: "'w gobcy \<Rightarrow> string \<Rightarrow> ('w, goerror + balance) state" where
  "blockcypher_GetBalance gb address = do {
     r \<leftarrow> gb_GetAddr gb address [];
     return (case r of
         Inl e \<Rightarrow> Inl (wrap_error (''fetch balance for '' @ address @ '': '') e)
       | Inr addr \<Rightarrow> Inr (clamped_balance (wrap64 (ga_Balance addr)) (wrap64 (ga_UnconfirmedBalance addr))))
   }"

subsection \<open>Transactions\<close>

definition blockcypher_PushTx :: "'w gobcy \<Rightarrow> bytes \<Rightarrow> ('w, goerror + string) state" where
  "blockcypher_PushTx gb rawTx = do {
     r \<leftarrow> gb_PushTX gb (hex_EncodeToString rawTx);
     return (case r of
         Inl e \<Rightarrow> Inl (wrap_error ''broadcast transaction: '' e)
       | Inr hash \<Rightarrow> Inr hash)
   }"

definition blockcypher_GetTxStatus :: "'w gobcy \<Rightarrow> string \<Rightarrow> ('w, goerror + tx_confirmation_status) state" where
  "blockcypher_GetTxStatus gb txID = do {
     r \<leftarrow> gb_GetTX gb txID;
     return (case r of
         Inl e \<Rightarrow> Inl (wrap_error (''fetch tx status '' @ txID @ '': '') e)
       | Inr t \<Rightarrow>
           Inr \<lparr>tc_Confirmed = (gt_Confirmed t \<noteq> 0), tc_Confirmations = gt_Confirmations t,
                tc_BlockHeight = (if gt_BlockHeight t < 0 then 0 else gt_BlockHeight t),
                tc_BlockHash = gt_BlockHash t\<rparr>)
   }"

subsection \<open>Credentials and health\<close>

definition blockcypher_CheckHealth :: "'w http_env \<Rightarrow> (blockcypher \<times> 'w, health_status) state" where
  "blockcypher_CheckHealth env = do {
     p \<leftarrow> get_self;
     (let isDegraded = (bc_authValid p = Some False);
          auth = with_auth (bc_authValid p) (bc_authErr p) isDegraded;
          url = ''https://api.blockcypher.com/v1/'' @ bc_Coin p @ ''/'' @ bc_Chain p
      in if bc_Chain p = '''' \<or> bc_Coin p = '''' then do {
           start \<leftarrow> on_world (he_Now env);
           t \<leftarrow> on_world (he_Now env);
           return (auth (health HealthLevelDown 0 0 ''Blockcypher.com only supports Bitcoin mainnet and testnet3'' t))
         }
         else do {
           r \<leftarrow> on_world (timed_get env (if bc_Token p \<noteq> '''' then url @ ''?token='' @ bc_Token p else url) []);
           return (case r of Inl h \<Rightarrow> auth h | Inr h \<Rightarrow> auth (degrade isDegraded h))
         })
   }"

definition blockcypher_GetCapabilities :: "string list" where
  "blockcypher_GetCapabilities =
     [''address_validation'', ''api_key_validation'', ''balance_fetching'', ''tx_broadcast'', ''tx_status_fetching'',
      ''utxo_fetching'']"

definition bc_set_auth :: "bool \<Rightarrow> goerror option \<Rightarrow> (blockcypher \<times> 'w, goerror option) state" where
  "bc_set_auth valid err = do {
     p \<leftarrow> get_self;
     put_self (p\<lparr>bc_authValid := Some valid, bc_authErr := err\<rparr>);
     return err
   }"

definition dec_error_text :: "string decoder" where
  "dec_error_text = dec_struct [(''error'', dec_string)]"

definition dec_token_text :: "string decoder" where
  "dec_token_text = dec_struct [(''token'', dec_string)]"

definition key_error :: "http_response \<Rightarrow> goerror" where
  "key_error resp =
     (let msg = ''invalid API key (HTTP '' @ Itoa (hs_StatusCode resp) @ '')''
      in case body_Decode dec_error_text '''' resp of
           Inr err \<Rightarrow> if err \<noteq> '''' then Errorf (msg @ '': '' @ err) else Errorf msg
         | Inl _ \<Rightarrow> Errorf msg)"

definition blockcypher_ValidateAPIKey :: "'w http_env \<Rightarrow> (blockcypher \<times> 'w, goerror option) state" where
  "blockcypher_ValidateAPIKey env = do {
     p \<leftarrow> get_self;
     if bc_Token p = '''' then bc_set_auth False (Some (Errorf ''no API token configured''))
     else do {
       x \<leftarrow> on_world (http_get env (''https://api.blockcypher.com/v1/tokens/'' @ bc_Token p) []);
       (case x of
          RequestFails e \<Rightarrow> bc_set_auth False (Some (wrap_error ''create request: '' e))
        | DoFails e \<Rightarrow> bc_set_auth False (Some (wrap_error ''validate API key: '' e))
        | Responds resp \<Rightarrow>
            if hs_StatusCode resp \<ge> 400 then bc_set_auth False (Some (key_error resp))
            else
              (case body_Decode dec_token_text '''' resp of
                 Inl e \<Rightarrow> bc_set_auth False (Some (wrap_error ''decode response: '' e))
               | Inr token \<Rightarrow>
                   if token = ''''
                   then bc_set_auth False (Some (Errorf ''invalid API key: no token in response''))
                   else bc_set_auth True None))
     }
   }"

end
