(* ===== verification/Blockstream_Laws.thy ===== *)
theory Blockstream_Laws
  imports Blockstream
begin

text \<open>
  The token protocol of the Esplora adapter: how many requests one call makes, recovery from a
  token that the server no longer accepts, and when a failure counts as one of authentication.
\<close>

subsection \<open>Running the pieces\<close>

text \<open>
  A server that answers a request always in the same way, and URLs that can be parsed. The world
  may change in any way.
\<close>

definition serves :: "'w http_env \<Rightarrow> (http_request \<Rightarrow> goerror + http_response) \<Rightarrow> bool" where
  "serves env server \<longleftrightarrow>
     (\<forall>m u. he_NewRequest env m u = None) \<and> (\<forall>req w. fst (run_state (he_Do env req) w) = server req)"

lemma serves_send:
  "serves env server \<Longrightarrow>
   fst (run_state (send env req) w) = (case server req of Inl e \<Rightarrow> DoFails e | Inr resp \<Rightarrow> Responds resp)"
  by (simp add: serves_def send_def split_beta)

lemma run_self_simps [simp]:
  "run_state get_self st = (fst st, st)"
  "run_state (put_self p) st = ((), (p, snd st))"
  "run_state (on_world m) st = (fst (run_state m (snd st)), (fst st, snd (run_state m (snd st))))"
  by (cases st; simp add: split_beta)+

lemma token_fresh_keeps [simp]: "fst (snd (run_state (token_fresh env) st)) = fst st"
  by (simp add: token_fresh_def split_beta)

lemma token_fresh_value:
  "fst (run_state (token_fresh env) st) \<longleftrightarrow>
   bl_accessToken (fst st) \<noteq> '''' \<and>
   fst (run_state (he_Now env) (snd st)) < bl_accessTokenExpirationTime (fst st)"
  by (simp add: token_fresh_def split_beta)

text \<open>Everything but the token and its expiration stays as it was made.\<close>

definition same_account :: "blockstream \<Rightarrow> blockstream \<Rightarrow> bool" where
  "same_account p q \<longleftrightarrow>
     bl_clientID q = bl_clientID p \<and> bl_clientSecret q = bl_clientSecret p \<and>
     bl_baseURL q = bl_baseURL p \<and> bl_loginURL q = bl_loginURL p"

lemma token_request_same: "same_account p q \<Longrightarrow> token_request q = token_request p"
  by (simp add: same_account_def token_request_def)

lemma fetch_token_account: "same_account (fst st) (fst (snd (run_state (fetch_token env) st)))"
  by (auto simp: fetch_token_def same_account_def split_beta split: exchange.splits sum.splits)

lemma GetAccessToken_account: "same_account (fst st) (fst (snd (run_state (GetAccessToken env) st)))"
  using fetch_token_account [of "snd (run_state (token_fresh env) (snd (run_state (token_fresh env) st)))" env]
  by (auto simp: GetAccessToken_def split_beta same_account_def)

lemma call_attempt_account:
  "same_account (fst st) (fst (snd (run_state (call_attempt env req nf rl retried) st)))"
  using GetAccessToken_account [of st env]
  by (auto simp: call_attempt_def split_beta same_account_def split: sum.splits exchange.splits)

lemma GetAccessToken_cached:
  assumes "bl_accessToken (fst st) \<noteq> ''''"
    and "\<And>w. fst (run_state (he_Now env) w) < bl_accessTokenExpirationTime (fst st)"
  shows "fst (run_state (GetAccessToken env) st) = Inr (bl_accessToken (fst st)) \<and>
         fst (snd (run_state (GetAccessToken env) st)) = fst st"
  using assms by (simp add: GetAccessToken_def split_beta token_fresh_value)

lemma GetAccessToken_fetched:
  assumes "serves env server" "bl_accessToken (fst st) = ''''"
    and "bl_clientID (fst st) \<noteq> ''''" "bl_clientSecret (fst st) \<noteq> ''''"
    and "server (token_request (fst st)) = Inr rt" "hs_StatusCode rt = 200"
    and "body_Decode dec_token_response \<lparr>tk_AccessToken = '''', tk_ExpiresIn = 0\<rparr> rt = Inr tok"
  shows "fst (run_state (GetAccessToken env) st) = Inr (tk_AccessToken tok) \<and>
         bl_accessToken (fst (snd (run_state (GetAccessToken env) st))) = tk_AccessToken tok"
proof -
  have "\<not> fst (run_state (token_fresh env) s)" if "bl_accessToken (fst s) = ''''" for s
    using that by (simp add: token_fresh_value)
  with assms show ?thesis
    by (simp add: GetAccessToken_def fetch_token_def split_beta serves_send)
qed

subsection \<open>The requests of one call\<close>

text \<open>An environment that also keeps the requests that were sent.\<close>

definition logging :: "'w http_env \<Rightarrow> ('w \<times> http_request list) http_env" where
  "logging env =
     \<lparr>he_NewRequest = he_NewRequest env,
      he_Do = (\<lambda>req. State (\<lambda>(w, log). case run_state (he_Do env req) w of (r, w') \<Rightarrow> (r, (w', log @ [req])))),
      he_Now = State (\<lambda>(w, log). case run_state (he_Now env) w of (t, w') \<Rightarrow> (t, (w', log)))\<rparr>"

lemma logging_Do [simp]: "snd (snd (run_state (he_Do (logging env) req) w)) = snd w @ [req]"
  by (cases w) (simp add: logging_def split_beta)

lemma logging_Now [simp]: "snd (snd (run_state (he_Now (logging env)) w)) = snd w"
  by (cases w) (simp add: logging_def split_beta)

abbreviation log_of :: "blockstream \<times> 'w \<times> http_request list \<Rightarrow> http_request list" where
  "log_of st \<equiv> snd (snd st)"

lemma send_log: "\<exists>l. (l = [] \<or> l = [req]) \<and> snd (snd (run_state (send (logging env) req) w)) = snd w @ l"
  by (simp add: send_def split_beta split: option.split)

lemma token_fresh_log: "log_of (snd (run_state (token_fresh (logging env)) st)) = log_of st"
  by (simp add: token_fresh_def split_beta)

lemma fetch_token_log:
  "\<exists>l. (l = [] \<or> l = [token_request (fst st)]) \<and>
       log_of (snd (run_state (fetch_token (logging env)) st)) = log_of st @ l"
  using send_log [of "token_request (fst st)" env "snd st"]
  by (auto simp: fetch_token_def split_beta split: exchange.split sum.split)

lemma GetAccessToken_log:
  "\<exists>l. (l = [] \<or> l = [token_request (fst st)]) \<and>
       log_of (snd (run_state (GetAccessToken (logging env)) st)) = log_of st @ l"
proof -
  let ?s1 = "snd (run_state (token_fresh (logging env)) st)"
  let ?s2 = "snd (run_state (token_fresh (logging env)) ?s1)"
  show ?thesis
    using fetch_token_log [of ?s2 env]
    by (auto simp: GetAccessToken_def split_beta token_fresh_log)
qed

text \<open>Without a token, a request of the API follows a successful request for one.\<close>

lemma GetAccessToken_empty_log:
  assumes "bl_accessToken (fst st) = ''''" "fst (run_state (GetAccessToken (logging env)) st) = Inr token"
  shows "log_of (snd (run_state (GetAccessToken (logging env)) st)) = log_of st @ [token_request (fst st)]"
proof -
  let ?s1 = "snd (run_state (token_fresh (logging env)) st)"
  let ?s2 = "snd (run_state (token_fresh (logging env)) ?s1)"
  have n: "\<not> fst (run_state (token_fresh (logging env)) s)" if "bl_accessToken (fst s) = ''''" for s
    using that by (simp add: token_fresh_value)
  then have "run_state (GetAccessToken (logging env)) st = run_state (fetch_token (logging env)) ?s2"
    using assms(1) by (simp add: GetAccessToken_def split_beta)
  moreover have "log_of (snd (run_state (fetch_token (logging env)) s)) = log_of s @ [token_request (fst s)]"
    if "fst (run_state (fetch_token (logging env)) s) = Inr token" for s
    using that
    by (auto simp: fetch_token_def split_beta send_def split: exchange.splits sum.splits option.splits if_splits)
  ultimately show ?thesis using assms(2) by (simp add: token_fresh_log)
qed

definition round_of :: "http_request \<Rightarrow> (string \<Rightarrow> http_request) \<Rightarrow> http_request list \<Rightarrow> bool" where
  "round_of tokenReq req l \<longleftrightarrow>
     l = [] \<or> l = [tokenReq] \<or> (\<exists>t. l = [req t]) \<or> (\<exists>t. l = [tokenReq, req t])"

definition fresh_round :: "http_request \<Rightarrow> (string \<Rightarrow> http_request) \<Rightarrow> http_request list \<Rightarrow> bool" where
  "fresh_round tokenReq req l \<longleftrightarrow> l = [] \<or> l = [tokenReq] \<or> (\<exists>t. l = [tokenReq, req t])"

lemma attempt_log:
  "\<exists>l. round_of (token_request (fst st)) req l \<and>
       (bl_accessToken (fst st) = '''' \<longrightarrow> fresh_round (token_request (fst st)) req l) \<and>
       log_of (snd (run_state (call_attempt (logging env) req nf rl retried) st)) = log_of st @ l"
proof -
  let ?g = "run_state (GetAccessToken (logging env)) st"
  obtain l1 where l1: "l1 = [] \<or> l1 = [token_request (fst st)]" "log_of (snd ?g) = log_of st @ l1"
    using GetAccessToken_log by blast
  show ?thesis
  proof (cases "fst ?g")
    case (Inl e)
    with l1 show ?thesis
      by (auto simp: call_attempt_def split_beta round_of_def fresh_round_def)
  next
    case (Inr token)
    obtain l2 where l2: "l2 = [] \<or> l2 = [req token]"
      "snd (snd (run_state (send (logging env) (req token)) (snd (snd ?g)))) = log_of (snd ?g) @ l2"
      using send_log by blast
    have e: "bl_accessToken (fst st) = '''' \<longrightarrow> l1 = [token_request (fst st)]"
      using GetAccessToken_empty_log [of st env token] Inr l1(2) by auto
    have "log_of (snd (run_state (call_attempt (logging env) req nf rl retried) st)) = log_of st @ l1 @ l2"
      using Inr l1(2) l2(2)
      by (auto simp: call_attempt_def split_beta split: exchange.split)
    with l1(1) l2(1) e show ?thesis
      by (intro exI [of _ "l1 @ l2"]) (auto simp: round_of_def fresh_round_def)
  qed
qed

text \<open>A round that asks for another one leaves the adapter without a token.\<close>

lemma retry_drops_token:
  "fst (run_state (call_attempt env req nf rl retried) st) = Retry \<Longrightarrow>
   bl_accessToken (fst (snd (run_state (call_attempt env req nf rl retried) st))) = ''''"
  by (auto simp: call_attempt_def split_beta split: sum.splits exchange.splits if_splits)

lemma call_loop_Finished:
  "run_state (call_attempt env req nf rl retried) st = (Finished r, st') \<Longrightarrow>
   call_loop env req nf rl retried st = (r, st')"
  by (subst call_loop.simps) simp

lemma call_loop_Retry:
  "run_state (call_attempt env req nf rl retried) st = (Retry, st') \<Longrightarrow>
   call_loop env req nf rl retried st = call_loop env req nf rl True st'"
  by (subst call_loop.simps) simp

text \<open>A second round is the last one.\<close>

lemma call_loop_second:
  obtains r where "fst (run_state (call_attempt env req nf rl True) st) = Finished r"
    "call_loop env req nf rl True st = (r, snd (run_state (call_attempt env req nf rl True) st))"
proof -
  obtain a st' where a: "run_state (call_attempt env req nf rl True) st = (a, st')" by (rule prod.exhaust)
  then obtain r where "a = Finished r" using retried_finishes [of env req nf rl st] by (cases a) auto
  with a show ?thesis using that [of r] by (simp add: call_loop_Finished)
qed

lemma call_loop_log:
  "\<exists>l1 l2. log_of (snd (call_loop (logging env) req nf rl False st)) = log_of st @ l1 @ l2 \<and>
     round_of (token_request (fst st)) req l1 \<and> fresh_round (token_request (fst st)) req l2"
proof -
  let ?a = "run_state (call_attempt (logging env) req nf rl False) st"
  obtain l1 where l1: "round_of (token_request (fst st)) req l1" "log_of (snd ?a) = log_of st @ l1"
    using attempt_log by blast
  show ?thesis
  proof (cases "fst ?a")
    case (Finished r)
    then have "call_loop (logging env) req nf rl False st = (r, snd ?a)"
      by (intro call_loop_Finished) (metis prod.collapse)
    with l1 show ?thesis by (intro exI [of _ l1] exI [of _ "[]"]) (simp add: fresh_round_def)
  next
    case Retry
    then have c: "call_loop (logging env) req nf rl False st = call_loop (logging env) req nf rl True (snd ?a)"
      by (intro call_loop_Retry) (metis prod.collapse)
    have "token_request (fst (snd ?a)) = token_request (fst st)"
      by (rule token_request_same [OF call_attempt_account])
    then obtain l2 where "fresh_round (token_request (fst st)) req l2"
      "log_of (snd (run_state (call_attempt (logging env) req nf rl True) (snd ?a))) = log_of (snd ?a) @ l2"
      using attempt_log [of "snd ?a" req env nf rl True] retry_drops_token [OF Retry] by auto
    moreover obtain r where "call_loop (logging env) req nf rl True (snd ?a) =
        (r, snd (run_state (call_attempt (logging env) req nf rl True) (snd ?a)))"
      by (rule call_loop_second)
    ultimately show ?thesis using l1 c by (intro exI [of _ l1] exI [of _ l2]) simp
  qed
qed

text \<open>
  One call of the API terminates after at most two rounds. A round sends at most one request
  for a token and then at most one request of the API; in a second round the API is only asked
  with a token that was fetched in that round. So whatever the server answers, a call sends at
  most four requests, and at most two of them reach the API.
\<close>

lemma callAPI_requests:
  assumes "run_state (callAPI (logging env) verb endpoint params) (p, w, []) = (r, p', w', sent)"
  shows "\<exists>l1 l2. sent = l1 @ l2 \<and>
    round_of (token_request p) (api_request verb (bl_baseURL p @ endpoint) params) l1 \<and>
    fresh_round (token_request p) (api_request verb (bl_baseURL p @ endpoint) params) l2 \<and>
    length sent \<le> 4"
proof -
  obtain l1 l2 where l: "sent = l1 @ l2"
    "round_of (token_request p) (api_request verb (bl_baseURL p @ endpoint) params) l1"
    "fresh_round (token_request p) (api_request verb (bl_baseURL p @ endpoint) params) l2"
    using call_loop_log [of env "api_request verb (bl_baseURL p @ endpoint) params" "''HTTP 404: not found''"
        "''HTTP 429: rate limit exceeded''" "(p, w, [])"] assms
    by (auto simp: callAPI_def)
  then have "length l1 \<le> 2" "length l2 \<le> 2" by (auto simp: round_of_def fresh_round_def)
  with l show ?thesis by auto
qed

subsection \<open>Recovery\<close>

text \<open>One round against a server, by what it answers to the token of that round.\<close>

lemma attempt_200:
  assumes "serves env server" "fst (run_state (GetAccessToken env) st) = Inr token"
    and "server (req token) = Inr resp" "hs_StatusCode resp = 200" "hs_ReadErr resp = None"
  shows "fst (run_state (call_attempt env req nf rl retried) st) = Finished (Inr (hs_Body resp))"
    and "fst (snd (run_state (call_attempt env req nf rl retried) st)) =
           fst (snd (run_state (GetAccessToken env) st))"
  using assms by (simp_all add: call_attempt_def split_beta serves_send ReadAll_def)

lemma attempt_401:
  assumes "serves env server" "fst (run_state (GetAccessToken env) st) = Inr token"
    and "server (req token) = Inr resp" "hs_StatusCode resp = 401"
  shows "fst (run_state (call_attempt env req nf rl False) st) = Retry"
    and "fst (snd (run_state (call_attempt env req nf rl False) st)) =
           (fst (snd (run_state (GetAccessToken env) st)))\<lparr>bl_accessToken := ''''\<rparr>"
  using assms by (simp_all add: call_attempt_def split_beta serves_send)

text \<open>
  C39: A call recovers from a token that has been revoked. When the cached token has not expired
  but the API answers 401 to it, the login endpoint issues a new token and the API accepts
  that one, the call returns the body of the accepted reply, and the new token is cached.
\<close>

theorem revoked_token_recovers:
  assumes "serves env server"
    and "bl_accessToken p \<noteq> ''''" "\<And>w. fst (run_state (he_Now env) w) < bl_accessTokenExpirationTime p"
    and "bl_clientID p \<noteq> ''''" "bl_clientSecret p \<noteq> ''''"
    and "server (api_request verb (bl_baseURL p @ endpoint) params (bl_accessToken p)) = Inr r1"
      "hs_StatusCode r1 = 401"
    and "server (token_request p) = Inr rt" "hs_StatusCode rt = 200"
      "body_Decode dec_token_response \<lparr>tk_AccessToken = '''', tk_ExpiresIn = 0\<rparr> rt = Inr tok"
    and "server (api_request verb (bl_baseURL p @ endpoint) params (tk_AccessToken tok)) = Inr r2"
      "hs_StatusCode r2 = 200" "hs_ReadErr r2 = None"
  shows "fst (run_state (callAPI env verb endpoint params) (p, w)) = Inr (hs_Body r2) \<and>
    bl_accessToken (fst (snd (run_state (callAPI env verb endpoint params) (p, w)))) = tk_AccessToken tok"
proof -
  let ?req = "api_request verb (bl_baseURL p @ endpoint) params"
  let ?nf = "''HTTP 404: not found''" and ?rl = "''HTTP 429: rate limit exceeded''"
  have g1: "fst (run_state (GetAccessToken env) (p, w)) = Inr (bl_accessToken p)"
    "fst (snd (run_state (GetAccessToken env) (p, w))) = p"
    using GetAccessToken_cached [of "(p, w)" env] assms(2,3) by simp_all
  obtain st where a: "run_state (call_attempt env ?req ?nf ?rl False) (p, w) = (Retry, st)"
    and st: "fst st = p\<lparr>bl_accessToken := ''''\<rparr>"
    using attempt_401 [where req = ?req, OF assms(1) g1(1) assms(6,7)] g1(2) by (metis prod.collapse)
  have c: "run_state (callAPI env verb endpoint params) (p, w) = call_loop env ?req ?nf ?rl True st"
    using call_loop_Retry [OF a] by (simp add: callAPI_def)
  have "token_request (fst st) = token_request p" by (simp add: st token_request_def)
  then have g2: "fst (run_state (GetAccessToken env) st) = Inr (tk_AccessToken tok)"
    "bl_accessToken (fst (snd (run_state (GetAccessToken env) st))) = tk_AccessToken tok"
    using GetAccessToken_fetched [of env server st rt tok] assms(1,4,5,8-10) st by simp_all
  note a2 = attempt_200 [where req = ?req, OF assms(1) g2(1) assms(11-13), where nf = ?nf and rl = ?rl and retried = True]
  obtain r where "fst (run_state (call_attempt env ?req ?nf ?rl True) st) = Finished r"
    "call_loop env ?req ?nf ?rl True st = (r, snd (run_state (call_attempt env ?req ?nf ?rl True) st))"
    by (rule call_loop_second)
  with a2 g2(2) c show ?thesis by simp
qed

subsection \<open>A server for the examples\<close>

text \<open>It issues the token \<open>new\<close> and accepts only that one.\<close>

definition demo_reply :: "int \<Rightarrow> json \<Rightarrow> http_response" where
  "demo_reply status v = \<lparr>hs_StatusCode = status, hs_Status = '''', hs_Body = json_text v, hs_ReadErr = None\<rparr>"

definition demo_server :: "http_request \<Rightarrow> goerror + http_response" where
  "demo_server req =
     Inr (if hq_Method req = ''POST''
          then demo_reply 200 (JObj [(''access_token'', JStr ''new''), (''expires_in'', JNum ''60'')])
          else if (''Authorization'', ''Bearer new'') \<in> set (hq_Headers req) then demo_reply 200 (JNum ''7'')
          else demo_reply 401 JNull)"

definition demo_env :: "unit http_env" where
  "demo_env =
     \<lparr>he_NewRequest = (\<lambda>_ _. None), he_Do = (\<lambda>req. return (demo_server req)), he_Now = return 5\<rparr>"

definition demo_blockstream :: "string \<Rightarrow> blockstream" where
  "demo_blockstream token =
     \<lparr>bl_clientID = ''id'', bl_clientSecret = ''key'', bl_accessToken = token,
      bl_accessTokenExpirationTime = 100, bl_baseURL = ''http://b'', bl_loginURL = ''http://l''\<rparr>"

lemma demo_serves: "serves demo_env demo_server"
  by (simp add: serves_def demo_env_def)

lemma demo_token:
  "body_Decode dec_token_response \<lparr>tk_AccessToken = '''', tk_ExpiresIn = 0\<rparr>
     (demo_reply 200 (JObj [(''access_token'', JStr ''new''), (''expires_in'', JNum ''60'')])) =
   Inr \<lparr>tk_AccessToken = ''new'', tk_ExpiresIn = 60\<rparr>"
  by code_simp

theorem revoked_token_recovers_witness:
  "fst (run_state (callAPI demo_env ''GET'' ''/x'' None) (demo_blockstream ''old'', ())) = Inr ''7''"
  using revoked_token_recovers [OF demo_serves, of "demo_blockstream ''old''" "''GET''" "''/x''" None
      "demo_reply 401 JNull" _ _ "demo_reply 200 (JNum ''7'')", OF _ _ _ _ _ _ _ _ demo_token]
  by (simp add: demo_blockstream_def demo_env_def demo_server_def api_request_def token_request_def
      demo_reply_def)

end
