(* ===== verification/Provider_Laws.thy ===== *)
theory Provider_Laws
  imports Blockcypher Blockstream_Laws
begin

text \<open>
  Properties of the HTTP adapters: the coins that mempool.space and Esplora list for an address come
  back from the adapters as they are listed.
\<close>

subsection \<open>Coins come back as they are listed\<close>

text \<open>
  A coin as the Esplora and mempool.space APIs list it, and its JSON form: the status of an
  unconfirmed coin has only the member \<open>confirmed\<close>; that of a confirmed one has the height of
  its block and, as the services send them, the hash and the time of the block.
\<close>

record listed_coin =
  lc_TxID :: string
  lc_Vout :: "32 word"
  lc_Block :: "(int \<times> (string \<times> int) option) option"
  lc_Value :: int

definition coin_status_json :: "(int \<times> (string \<times> int) option) option \<Rightarrow> json" where
  "coin_status_json block =
     JObj (case block of
        None \<Rightarrow> [(''confirmed'', JBool False)]
      | Some (height, info) \<Rightarrow>
          [(''confirmed'', JBool True), (''block_height'', JNum (Itoa height))] @
          (case info of
             None \<Rightarrow> []
           | Some (hash, time) \<Rightarrow> [(''block_hash'', JStr hash), (''block_time'', JNum (Itoa time))]))"

definition coin_json :: "listed_coin \<Rightarrow> json" where
  "coin_json c =
     JObj [(''txid'', JStr (lc_TxID c)), (''vout'', JNum (itoa_nat (unat (lc_Vout c)))),
           (''status'', coin_status_json (lc_Block c)), (''value'', JNum (Itoa (lc_Value c)))]"

definition coin_height :: "listed_coin \<Rightarrow> int" where
  "coin_height c = (case lc_Block c of None \<Rightarrow> 0 | Some (h, _) \<Rightarrow> h)"

text \<open>The numbers of a listed coin: satoshis, and heights and times of blocks.\<close>

definition listable :: "listed_coin \<Rightarrow> bool" where
  "listable c \<longleftrightarrow>
     0 \<le> lc_Value c \<and> lc_Value c < 2 ^ 63 \<and>
     (case lc_Block c of None \<Rightarrow> True
      | Some (h, info) \<Rightarrow> int32 h \<and> (case info of None \<Rightarrow> True | Some (_, t) \<Rightarrow> int64 t))"

lemma dec_coin_json:
  assumes "listable c"
  shows "\<exists>s. dec_api_utxo (coin_json c) \<lparr>au_TxID = '''', au_Vout = 0, au_Status = zero_status, au_Value = 0\<rparr> =
      (\<lparr>au_TxID = lc_TxID c, au_Vout = lc_Vout c, au_Status = s, au_Value = lc_Value c\<rparr>, True) \<and>
    bs_Confirmed s = (lc_Block c \<noteq> None) \<and> bs_BlockHeight s = coin_height c"
  using assms
  by (cases "lc_Block c")
     (auto simp: dec_api_utxo_def coin_json_def coin_status_json_def dec_struct_def dec_member_def field_for_def
       fld_def dec_string_def dec_bool_def listable_def int64_def int32_def zero_status_def coin_height_def
       ToLower_def lower_char_def split: option.splits prod.splits)

lemma json_ok_coin: "json_ok (coin_json c)"
  by (auto simp: coin_json_def coin_status_json_def lex_number_Itoa lex_number_itoa_nat split: option.splits)

definition ok_reply :: "json \<Rightarrow> http_response" where
  "ok_reply v = \<lparr>hs_StatusCode = 200, hs_Status = ''200 OK'', hs_Body = json_text v, hs_ReadErr = None\<rparr>"

lemma body_Decode_ok: "json_ok v \<Longrightarrow> body_Decode d zero (ok_reply v) = decoded d zero (Some v)"
  by (simp add: body_Decode_def ok_reply_def json_stream_roundtrip)

abbreviation zero_api_utxo :: api_utxo where
  "zero_api_utxo \<equiv> \<lparr>au_TxID = '''', au_Vout = 0, au_Status = zero_status, au_Value = 0\<rparr>"

lemma decoded_coins:
  assumes "\<forall>c \<in> set cs. listable c"
  shows "body_Decode (dec_slice zero_api_utxo dec_api_utxo) [] (ok_reply (JArr (map coin_json cs))) =
    Inr (map (\<lambda>c. fst (dec_api_utxo (coin_json c) zero_api_utxo)) cs)"
proof -
  have "\<forall>c \<in> set cs. snd (dec_api_utxo (coin_json c) zero_api_utxo)"
    using assms dec_coin_json by fastforce
  then show ?thesis
    by (simp add: body_Decode_ok json_ok_coin decoded_def dec_slice_def Let_def list_all_iff comp_def)
qed

lemma serves_http_get:
  "serves env server \<Longrightarrow>
   fst (run_state (http_get env url hs) w) =
     (case server \<lparr>hq_Method = ''GET'', hq_URL = url, hq_Headers = hs, hq_Body = ''''\<rparr> of
        Inl e \<Rightarrow> DoFails e | Inr resp \<Rightarrow> Responds resp)"
  by (simp add: http_get_def serves_send)

abbreviation get_of :: "string \<Rightarrow> http_request" where
  "get_of url \<equiv> \<lparr>hq_Method = ''GET'', hq_URL = url, hq_Headers = [], hq_Body = ''''\<rparr>"

lemma tip_height:
  assumes "serves env server" "server (get_of (me_baseURL m @ ''/blocks/tip/height'')) = Inr (ok_reply (JNum (Itoa tip)))"
    and "int64 tip"
  shows "fst (run_state (mempool_getCurrentBlockHeight env m) w) = Inr tip"
  using assms json_roundtrip [of "JNum (Itoa tip)"]
  by (simp add: mempool_getCurrentBlockHeight_def split_beta serves_http_get ok_reply_def ReadAll_def
      decoded_def int64_def lex_number_Itoa)

text \<open>The tip as the server tells it, or the failure of the request, and the confirmations it gives.\<close>

lemma tip_reply:
  assumes "serves env server" "server (get_of (me_baseURL m @ ''/blocks/tip/height'')) =
      (case tip of Some t \<Rightarrow> Inr (ok_reply (JNum (Itoa t))) | None \<Rightarrow> Inl err)"
    and "pred_option (\<lambda>t. 0 < t \<and> t < 2 ^ 62) tip"
  obtains r where "\<And>w. fst (run_state (mempool_getCurrentBlockHeight env m) w) = r"
    "\<And>b h. int32 h \<Longrightarrow> confirmations_at r b h =
       (if b \<and> 0 < h then case tip of Some t \<Rightarrow> t - h + 1 | None \<Rightarrow> 1 else 0)"
proof (cases tip)
  case None
  have "fst (run_state (mempool_getCurrentBlockHeight env m) w) = Inl err" for w
    using assms(1,2) None by (simp add: mempool_getCurrentBlockHeight_def split_beta serves_http_get)
  then show thesis by (rule that) (simp add: confirmations_at_def None)
next
  case (Some t)
  then have t: "0 < t" "t < 2 ^ 62" using assms(3) by simp_all
  have r: "fst (run_state (mempool_getCurrentBlockHeight env m) w) = Inr t" for w
    using tip_height [OF assms(1), of m t w] assms(2) Some t by (simp add: int64_def)
  have c: "confirmations_at (Inr t) b h = (if b \<and> 0 < h then t - h + 1 else 0)" if "int32 h" for b h
  proof -
    have "- (2 ^ 63) \<le> t - h + 1" "t - h + 1 < 2 ^ 63"
      using that t by (simp_all add: int32_def)
    then show ?thesis using t(1) by (simp add: confirmations_at_def wrap64_id)
  qed
  from r show thesis by (rule that) (simp add: c Some)
qed

lemma mempool_coin:
  assumes "listable c" "\<And>b h. int32 h \<Longrightarrow> confirmations_at r b h = (if b \<and> 0 < h then f h else 0)"
  shows "mempool_utxo address script r (fst (dec_api_utxo (coin_json c) zero_api_utxo)) =
    \<lparr>ux_TxHash = lc_TxID c, ux_Vout = lc_Vout c, ux_Amount = lc_Value c, ux_ScriptPubKey = Some script,
     ux_Address = address, ux_Confirmed = (lc_Block c \<noteq> None),
     ux_Confirmations = (if 0 < coin_height c then f (coin_height c) else 0),
     ux_Spendable = True, ux_BlockHeight = coin_height c\<rparr>"
proof -
  obtain s where s: "fst (dec_api_utxo (coin_json c) zero_api_utxo) =
      \<lparr>au_TxID = lc_TxID c, au_Vout = lc_Vout c, au_Status = s, au_Value = lc_Value c\<rparr>"
      "bs_Confirmed s = (lc_Block c \<noteq> None)" "bs_BlockHeight s = coin_height c"
    using dec_coin_json [OF assms(1)] by fastforce
  have "int32 (coin_height c)" "lc_Block c = None \<Longrightarrow> coin_height c = 0"
    using assms(1) by (auto simp: listable_def coin_height_def int32_def split: option.splits)
  then show ?thesis using assms(2) by (cases "lc_Block c = None") (auto simp: mempool_utxo_def s)
qed

text \<open>
  C37: What mempool.space lists for an address comes back coin by coin. When the server answers with
  the JSON array of the coins, in the form that the service documents, \<open>GetUTXOs\<close> returns exactly
  these coins in that order, with the script of the address. A coin is confirmed when it is in a
  block, and its number of confirmations is then its real depth \<open>tip - height + 1\<close> when the server
  tells the height of the tip, and 1 when the request for the tip fails; an unconfirmed coin has
  none.
\<close>

theorem mempool_coins_roundtrip:
  assumes "serves env server"
    and "server (get_of (me_baseURL m @ ''/address/'' @ address @ ''/utxo'')) = Inr (ok_reply (JArr (map coin_json cs)))"
    and "server (get_of (me_baseURL m @ ''/blocks/tip/height'')) =
      (case tip of Some t \<Rightarrow> Inr (ok_reply (JNum (Itoa t))) | None \<Rightarrow> Inl err)"
    and "addressToScriptPubKey bt m address = Inr script"
    and "\<forall>c \<in> set cs. listable c" "pred_option (\<lambda>t. 0 < t \<and> t < 2 ^ 62) tip"
  shows "fst (run_state (mempool_GetUTXOs bt env m address) w) =
    Inr (map (\<lambda>c. \<lparr>ux_TxHash = lc_TxID c, ux_Vout = lc_Vout c, ux_Amount = lc_Value c,
                    ux_ScriptPubKey = Some script, ux_Address = address,
                    ux_Confirmed = (lc_Block c \<noteq> None),
                    ux_Confirmations =
                      (if 0 < coin_height c
                       then case tip of Some t \<Rightarrow> t - coin_height c + 1 | None \<Rightarrow> 1 else 0),
                    ux_Spendable = True, ux_BlockHeight = coin_height c\<rparr>) cs)"
proof -
  obtain r where r: "\<And>w. fst (run_state (mempool_getCurrentBlockHeight env m) w) = r"
    "\<And>b h. int32 h \<Longrightarrow> confirmations_at r b h =
       (if b \<and> 0 < h then case tip of Some t \<Rightarrow> t - h + 1 | None \<Rightarrow> 1 else 0)"
    using tip_reply [OF assms(1,3,6)] by blast
  have "fst (run_state (mempool_get env (me_baseURL m @ ''/address/'' @ address @ ''/utxo'') what) w) =
      Inr (ok_reply (JArr (map coin_json cs)))" for what
    using assms(2) by (simp add: mempool_get_def split_beta serves_http_get [OF assms(1)])
       (simp add: ok_reply_def)
  then have "fst (run_state (mempool_GetUTXOs bt env m address) w) = Inr (map (mempool_utxo address script r)
      (map (\<lambda>c. fst (dec_api_utxo (coin_json c) zero_api_utxo)) cs))"
    using assms(4) decoded_coins [OF assms(5)] r(1) by (simp add: mempool_GetUTXOs_def split_beta)
  moreover have "map (mempool_utxo address script r) (map (\<lambda>c. fst (dec_api_utxo (coin_json c) zero_api_utxo)) cs) =
    map (\<lambda>c. \<lparr>ux_TxHash = lc_TxID c, ux_Vout = lc_Vout c, ux_Amount = lc_Value c,
                    ux_ScriptPubKey = Some script, ux_Address = address,
                    ux_Confirmed = (lc_Block c \<noteq> None),
                    ux_Confirmations =
                      (if 0 < coin_height c
                       then case tip of Some t \<Rightarrow> t - coin_height c + 1 | None \<Rightarrow> 1 else 0),
                    ux_Spendable = True, ux_BlockHeight = coin_height c\<rparr>) cs"
    unfolding map_map comp_def
    using assms(5) by (intro map_cong refl mempool_coin r(2)) simp_all
  ultimately show ?thesis by simp
qed

text \<open>A server with two coins of an address, one of them in a block, and the tip at height 100.\<close>

definition demo_coins :: "listed_coin list" where
  "demo_coins =
     [\<lparr>lc_TxID = ''aa'', lc_Vout = 1, lc_Block = Some (98, Some (''00ff'', 7)), lc_Value = 500\<rparr>,
      \<lparr>lc_TxID = ''bb'', lc_Vout = 0, lc_Block = None, lc_Value = 20\<rparr>]"

definition coin_server :: "http_request \<Rightarrow> goerror + http_response" where
  "coin_server req =
     Inr (ok_reply (if hq_URL req = ''m/blocks/tip/height'' then JNum (Itoa 100) else JArr (map coin_json demo_coins)))"

definition coin_env :: "unit http_env" where
  "coin_env = \<lparr>he_NewRequest = (\<lambda>_ _. None), he_Do = (\<lambda>req. return (coin_server req)), he_Now = return 5\<rparr>"

definition coin_btcd :: "(string, unit) btcd" where
  "coin_btcd =
     \<lparr>bt_NewHashFromStr = Inr, bt_DecodeAddress = (\<lambda>_ _. Inr ()), bt_PayToAddrScript = (\<lambda>_. Inr [81]),
      bt_Serialize = (\<lambda>_. Inr []), bt_HashH = (\<lambda>_. '''')\<rparr>"

lemma coin_serves: "serves coin_env coin_server"
  by (simp add: serves_def coin_env_def)

lemma demo_coins_listable: "\<forall>a \<in> set demo_coins. listable a"
  by (simp add: demo_coins_def listable_def int64_def int32_def)

definition demo_utxo :: "string \<Rightarrow> 32 word \<Rightarrow> int \<Rightarrow> bool \<Rightarrow> int \<Rightarrow> int \<Rightarrow> utxo" where
  "demo_utxo hash vout amount confirmed confirmations height =
     \<lparr>ux_TxHash = hash, ux_Vout = vout, ux_Amount = amount, ux_ScriptPubKey = Some [81], ux_Address = ''1x'',
      ux_Confirmed = confirmed, ux_Confirmations = confirmations, ux_Spendable = True, ux_BlockHeight = height\<rparr>"

theorem mempool_coins_roundtrip_witness:
  "fst (run_state (mempool_GetUTXOs coin_btcd coin_env (NewMempool BitcoinNetworkMainnet ''m'') ''1x'') ()) =
   Inr [demo_utxo ''aa'' 1 500 True 3 98, demo_utxo ''bb'' 0 20 False 0 0]"
  using mempool_coins_roundtrip [OF coin_serves, where m = "NewMempool BitcoinNetworkMainnet ''m''" and
      address = "''1x''" and cs = demo_coins and tip = "Some 100" and bt = coin_btcd and script = "[81]" and w = "()",
      OF _ _ _ demo_coins_listable]
  by (simp add: NewMempool_def coin_server_def addressToScriptPubKey_def ChaincfgNetwork_def coin_btcd_def
      demo_coins_def demo_utxo_def coin_height_def)

subsection \<open>The Esplora adapter\<close>

lemma callAPI_cached:
  assumes "serves env server" "bl_accessToken p \<noteq> ''''"
    and "\<And>w. fst (run_state (he_Now env) w) < bl_accessTokenExpirationTime p"
    and "server (api_request verb (bl_baseURL p @ endpoint) params (bl_accessToken p)) = Inr resp"
    and "hs_StatusCode resp = 200" "hs_ReadErr resp = None"
  shows "fst (run_state (callAPI env verb endpoint params) (p, w)) = Inr (hs_Body resp)"
proof -
  let ?req = "api_request verb (bl_baseURL p @ endpoint) params"
  have g: "fst (run_state (GetAccessToken env) (p, w)) = Inr (bl_accessToken p)"
    using GetAccessToken_cached [of "(p, w)" env] assms(2,3) by simp
  have "fst (run_state (call_attempt env ?req ''HTTP 404: not found'' ''HTTP 429: rate limit exceeded'' False) (p, w)) =
      Finished (Inr (hs_Body resp))"
    by (rule attempt_200(1) [where req = ?req, OF assms(1) g assms(4-6)])
  then obtain st where "run_state (call_attempt env ?req ''HTTP 404: not found'' ''HTTP 429: rate limit exceeded'' False) (p, w) =
      (Finished (Inr (hs_Body resp)), st)"
    by (metis prod.collapse)
  then show ?thesis by (simp add: callAPI_def call_loop_Finished)
qed

lemma dec_esplora_coin:
  assumes "listable c"
  shows "dec_esplora_utxo (coin_json c) \<lparr>eu_TxID = '''', eu_Vout = 0, eu_Value = 0, eu_Confirmed = False\<rparr> =
    (\<lparr>eu_TxID = lc_TxID c, eu_Vout = lc_Vout c, eu_Value = of_int (lc_Value c),
      eu_Confirmed = (lc_Block c \<noteq> None)\<rparr>, True)"
proof -
  have v: "0 \<le> lc_Value c" "lc_Value c < 2 ^ 63" using assms by (simp_all add: listable_def)
  then have "unat (of_int (lc_Value c) :: 64 word) = nat (lc_Value c)"
    by (simp add: unat_eq_nat_uint take_bit_int_eq_self uint_word_of_int)
  then have "Itoa (lc_Value c) = itoa_nat (unat (of_int (lc_Value c) :: 64 word))"
    using v by (simp add: Itoa_def)
  then show ?thesis
    by (auto simp: dec_esplora_utxo_def coin_json_def coin_status_json_def dec_struct_def dec_member_def
        field_for_def fld_def dec_string_def dec_bool_def ToLower_def lower_char_def split: option.splits)
qed

lemma sint_satoshis: "0 \<le> v \<Longrightarrow> v < 2 ^ 63 \<Longrightarrow> sint (of_int v :: 64 word) = v"
  by (simp add: sint_uint uint_word_of_int take_bit_int_eq_self signed_take_bit_int_eq_self)

text \<open>
  C38: What Esplora lists for an address comes back from the Blockstream adapter. While the adapter
  holds a token that has not expired, and the server answers the request with that token with the
  JSON array of the coins, \<open>GetUTXOs\<close> returns exactly these coins in that order: identifier,
  output index, amount and whether the coin is in a block. It fills in neither script, block height
  nor confirmations, and marks no coin as spendable, whatever the depth of its block is.
\<close>

theorem esplora_coins_roundtrip:
  assumes "serves env server" "bl_accessToken p \<noteq> ''''"
    and "\<And>w. fst (run_state (he_Now env) w) < bl_accessTokenExpirationTime p"
    and "server (api_request ''GET'' (bl_baseURL p @ ''/address/'' @ address @ ''/utxo'') None (bl_accessToken p)) =
      Inr (ok_reply (JArr (map coin_json cs)))"
    and "\<forall>c \<in> set cs. listable c"
  shows "fst (run_state (blockstream_GetUTXOs env address) (p, w)) =
    Inr (map (\<lambda>c. \<lparr>ux_TxHash = lc_TxID c, ux_Vout = lc_Vout c, ux_Amount = lc_Value c, ux_ScriptPubKey = None,
                    ux_Address = address, ux_Confirmed = (lc_Block c \<noteq> None), ux_Confirmations = 0,
                    ux_Spendable = False, ux_BlockHeight = 0\<rparr>) cs)"
proof -
  let ?zero = "\<lparr>eu_TxID = '''', eu_Vout = 0, eu_Value = 0, eu_Confirmed = False\<rparr> :: esplora_utxo"
  let ?v = "JArr (map coin_json cs)"
  have c: "fst (run_state (callAPI env ''GET'' (''/address/'' @ address @ ''/utxo'') None) (p, w)) =
      Inr (hs_Body (ok_reply ?v))"
    by (rule callAPI_cached [OF assms(1-3)]) (use assms(4) in \<open>simp_all add: ok_reply_def\<close>)
  have "json_Unmarshal (dec_slice ?zero dec_esplora_utxo) [] (json_text ?v) =
      Inr (map (\<lambda>c. fst (dec_esplora_utxo (coin_json c) ?zero)) cs)"
    using json_roundtrip [of ?v] assms(5)
    by (simp del: json_text.simps add: json_ok_coin decoded_def dec_slice_def Let_def list_all_iff
        dec_esplora_coin comp_def)
  moreover have "blockstream_utxo address (fst (dec_esplora_utxo (coin_json c) ?zero)) =
      \<lparr>ux_TxHash = lc_TxID c, ux_Vout = lc_Vout c, ux_Amount = lc_Value c, ux_ScriptPubKey = None,
       ux_Address = address, ux_Confirmed = (lc_Block c \<noteq> None), ux_Confirmations = 0,
       ux_Spendable = False, ux_BlockHeight = 0\<rparr>" if "c \<in> set cs" for c
    using assms(5) that by (simp add: dec_esplora_coin blockstream_utxo_def listable_def sint_satoshis)
  ultimately show ?thesis
    using c by (simp add: blockstream_GetUTXOs_def split_beta ok_reply_def)
qed

theorem esplora_coins_roundtrip_witness:
  "fst (run_state (blockstream_GetUTXOs coin_env ''1x'') (demo_blockstream ''t'', ())) =
   Inr [\<lparr>ux_TxHash = ''aa'', ux_Vout = 1, ux_Amount = 500, ux_ScriptPubKey = None, ux_Address = ''1x'',
         ux_Confirmed = True, ux_Confirmations = 0, ux_Spendable = False, ux_BlockHeight = 0\<rparr>,
        \<lparr>ux_TxHash = ''bb'', ux_Vout = 0, ux_Amount = 20, ux_ScriptPubKey = None, ux_Address = ''1x'',
         ux_Confirmed = False, ux_Confirmations = 0, ux_Spendable = False, ux_BlockHeight = 0\<rparr>]"
  using esplora_coins_roundtrip [OF coin_serves, of "demo_blockstream ''t''" "''1x''" demo_coins "()",
      OF _ _ _ demo_coins_listable]
  by (simp add: demo_blockstream_def coin_env_def coin_server_def api_request_def demo_coins_def)

end
