(* ===== verification/Metal.thy ===== *)
theory Metal
  imports Blockcypher
begin

text \<open>
  \<open>bitcoin/providers/metal.go\<close>: the local adapter that derives addresses and assembles and signs
  transactions. Keys, addresses, scripts and signatures are btcd's; the record \<open>keychain\<close> has its
  operations. \<open>SignTransaction\<close> writes the scripts that it derives into the caller's slice of
  coins, so the slice is part of its result.
\<close>

datatype 'k priv_result = PrivKey 'k | NotPrivate | PrivError goerror

datatype script_class = PubKeyHashTy | WitnessV0PubKeyHashTy | ScriptHashTy | OtherTy string

record 'h wire_in =
  wi_PreviousOutPoint :: "'h \<times> 32 word"
  wi_SignatureScript :: "bytes option"
  wi_Witness :: "bytes list option"

record 'h wire_tx =
  wt_Version :: int
  wt_TxIn :: "'h wire_in list"
  wt_TxOut :: "(int \<times> bytes) list"

type_synonym 'h prev_out_map = "'h \<times> 32 word \<rightharpoonup> int \<times> bytes"

record ('h, 'addr, 'x, 'k, 'wif) keychain =
  kc_btcd :: "('h, 'addr) btcd"
  kc_NewKeyFromString :: "string \<Rightarrow> goerror + 'x"
  kc_SetNet :: "'x \<Rightarrow> chain_params \<Rightarrow> 'x"
  kc_Derive :: "'x \<Rightarrow> 32 word \<Rightarrow> goerror + 'x"
  kc_Address :: "'x \<Rightarrow> chain_params \<Rightarrow> goerror + 'addr"
  kc_EncodeAddress :: "'addr \<Rightarrow> string"
  kc_ECPrivKey :: "'x \<Rightarrow> 'k priv_result"
  kc_NewWIF :: "'k \<Rightarrow> chain_params \<Rightarrow> goerror + 'wif"
  kc_WIF_String :: "'wif \<Rightarrow> string"
  kc_DecodeWIF :: "string \<Rightarrow> goerror + 'wif"
  kc_IsForNet :: "'wif \<Rightarrow> chain_params \<Rightarrow> bool"
  kc_GetScriptClass :: "bytes \<Rightarrow> script_class"
  kc_SignatureScript :: "'h wire_tx \<Rightarrow> nat \<Rightarrow> bytes \<Rightarrow> 'wif \<Rightarrow> goerror + bytes"
  kc_WitnessSignature :: "'h wire_tx \<Rightarrow> 'h prev_out_map \<Rightarrow> nat \<Rightarrow> int \<Rightarrow> bytes \<Rightarrow> 'wif \<Rightarrow> goerror + bytes list"
  kc_PubKeyHash :: "'wif \<Rightarrow> bytes"
  kc_WitnessScript :: "bytes \<Rightarrow> goerror + bytes"
  kc_PushScript :: "bytes \<Rightarrow> goerror + bytes"
  kc_Serialize :: "'h wire_tx \<Rightarrow> goerror + bytes"
  kc_TxHash :: "'h wire_tx \<Rightarrow> string"

subsection \<open>Addresses\<close>

record derived_address =
  da_PublicKey :: string
  da_PrivateKey :: string

definition metal_DeriveAddress ::
  "('h, 'addr, 'x, 'k, 'wif) keychain \<Rightarrow> string \<Rightarrow> string \<Rightarrow> 32 word \<Rightarrow> 32 word \<Rightarrow> goerror + derived_address" where
  "metal_DeriveAddress kc network xpub index childIndex =
     (case kc_NewKeyFromString kc xpub of
        Inl e \<Rightarrow> Inl (wrap_error ''key parsing failed: '' e)
      | Inr key0 \<Rightarrow>
          (case ChaincfgNetwork network of
             Inl e \<Rightarrow> Inl e
           | Inr net \<Rightarrow>
               (case kc_Derive kc (kc_SetNet kc key0 net) index of
                  Inl e \<Rightarrow> Inl e
                | Inr childKey \<Rightarrow>
                    (case kc_Derive kc childKey childIndex of
                       Inl e \<Rightarrow> Inl e
                     | Inr address \<Rightarrow>
                         (case kc_Address kc address net of
                            Inl e \<Rightarrow> Inl e
                          | Inr addr \<Rightarrow>
                              (case kc_ECPrivKey kc address of
                                 NotPrivate \<Rightarrow>
                                   Inr \<lparr>da_PublicKey = kc_EncodeAddress kc addr, da_PrivateKey = ''''\<rparr>
                               | PrivError e \<Rightarrow> Inl e
                               | PrivKey privKey \<Rightarrow>
                                   (case kc_NewWIF kc privKey net of
                                      Inl e \<Rightarrow> Inl e
                                    | Inr wif \<Rightarrow>
                                        Inr \<lparr>da_PublicKey = kc_EncodeAddress kc addr,
                                             da_PrivateKey = kc_WIF_String kc wif\<rparr>)))))))"

definition metal_ValidateAddress :: "('h, 'addr) btcd \<Rightarrow> string \<Rightarrow> string \<Rightarrow> bool \<times> goerror option" where
  "metal_ValidateAddress bt network address =
     (case ChaincfgNetwork network of
        Inl e \<Rightarrow> (False, Some e)
      | Inr params \<Rightarrow> (case bt_DecodeAddress bt address params of Inl _ \<Rightarrow> (False, None) | Inr _ \<Rightarrow> (True, None)))"

subsection \<open>Assembly and fees\<close>

definition metal_CalculateFee :: "64 word \<Rightarrow> 64 word \<Rightarrow> 64 word" where
  "metal_CalculateFee signedTxSize feePerByte = signedTxSize * feePerByte"

definition metal_CalculateTransactionSize :: "signed_tx option \<Rightarrow> (64 word) outcome" where
  "metal_CalculateTransactionSize t =
     (case t of None \<Rightarrow> Panics | Some s \<Rightarrow> Returns (word_of_nat (length (st_RawSigned s))))"

definition metal_CreateTransaction :: "string \<Rightarrow> utxo list \<Rightarrow> tx_output list \<Rightarrow> goerror + tx" where
  "metal_CreateTransaction network utxos outputs =
     (if utxos = [] then Inl (Errorf ''no inputs provided'')
      else if outputs = [] then Inl (Errorf ''no outputs provided'')
      else
        (case ChaincfgNetwork network of
           Inl e \<Rightarrow> Inl e
         | Inr netParams \<Rightarrow>
             Inr \<lparr>tx_Version = 2,
                  tx_Inputs = map (\<lambda>u. \<lparr>ti_PreviousTxID = ux_TxHash u, ti_OutputIndex = ux_Vout u\<rparr>) utxos,
                  tx_Outputs = outputs, tx_Fee = 0, tx_Status = TxStatePending, tx_Params = Some netParams\<rparr>))"

subsection \<open>Signing\<close>

fun wire_inputs :: "('h, 'addr) btcd \<Rightarrow> tx_input list \<Rightarrow> goerror + 'h wire_in list" where
  "wire_inputs bt [] = Inr []"
| "wire_inputs bt (i # is) =
     (case bt_NewHashFromStr bt (ti_PreviousTxID i) of
        Inl e \<Rightarrow> Inl (wrap_error ''invalid previous transaction ID: '' e)
      | Inr h \<Rightarrow>
          map_sum id (\<lambda>ws. \<lparr>wi_PreviousOutPoint = (h, ti_OutputIndex i), wi_SignatureScript = None, wi_Witness = None\<rparr> # ws)
            (wire_inputs bt is))"

fun wire_outputs :: "('h, 'addr) btcd \<Rightarrow> chain_params \<Rightarrow> tx_output list \<Rightarrow> goerror + (int \<times> bytes) list" where
  "wire_outputs bt params [] = Inr []"
| "wire_outputs bt params (out # outs) =
     (case bt_DecodeAddress bt (to_Address out) params of
        Inl e \<Rightarrow> Inl (wrap_error ''invalid address: '' e)
      | Inr addr \<Rightarrow>
          (case bt_PayToAddrScript bt addr of
             Inl e \<Rightarrow> Inl e
           | Inr pkScript \<Rightarrow> map_sum id (\<lambda>vs. (to_Value out, pkScript) # vs) (wire_outputs bt params outs)))"

text \<open>The scripts that the source of the coins left out; coins before a failure keep theirs.\<close>

fun derive_scripts ::
  "('h, 'addr) btcd \<Rightarrow> chain_params \<Rightarrow> nat \<Rightarrow> utxo list \<Rightarrow> goerror option \<times> utxo list" where
  "derive_scripts bt params i [] = (None, [])"
| "derive_scripts bt params i (u # us) =
     (if ux_ScriptPubKey u = None \<and> ux_Address u \<noteq> '''' then
        (case bt_DecodeAddress bt (ux_Address u) params of
           Inl e \<Rightarrow>
             (Some (wrap_error (''UTXO '' @ Itoa (int i) @ '': cannot derive ScriptPubKey from address '' @
                go_quote (ux_Address u) @ '': '') e), u # us)
         | Inr addr \<Rightarrow>
             (case bt_PayToAddrScript bt addr of
                Inl e \<Rightarrow>
                  (Some (wrap_error (''UTXO '' @ Itoa (int i) @ '': failed to build ScriptPubKey for '' @
                     go_quote (ux_Address u) @ '': '') e), u # us)
              | Inr script \<Rightarrow>
                  apsnd (\<lambda>vs. u\<lparr>ux_ScriptPubKey := Some script\<rparr> # vs) (derive_scripts bt params (i + 1) us)))
      else apsnd (\<lambda>vs. u # vs) (derive_scripts bt params (i + 1) us))"

abbreviation script_of :: "utxo \<Rightarrow> bytes" where
  "script_of u \<equiv> the_default [] (ux_ScriptPubKey u)"

definition prev_outs :: "'h wire_in list \<Rightarrow> utxo list \<Rightarrow> 'h prev_out_map" where
  "prev_outs ins utxos =
     fold (\<lambda>(w, u) m. m(wi_PreviousOutPoint w \<mapsto> (ux_Amount u, script_of u))) (zip ins utxos) Map.empty"

definition set_input :: "nat \<Rightarrow> ('h wire_in \<Rightarrow> 'h wire_in) \<Rightarrow> 'h wire_tx \<Rightarrow> 'h wire_tx" where
  "set_input i f t = t\<lparr>wt_TxIn := (wt_TxIn t)[i := f (wt_TxIn t ! i)]\<rparr>"

definition sign_input ::
  "('h, 'addr, 'x, 'k, 'wif) keychain \<Rightarrow> 'wif \<Rightarrow> 'h prev_out_map \<Rightarrow> nat \<Rightarrow> utxo \<Rightarrow> 'h wire_tx \<Rightarrow> goerror + 'h wire_tx" where
  "sign_input kc w prev i u t =
     (case kc_GetScriptClass kc (script_of u) of
        PubKeyHashTy \<Rightarrow>
          (case kc_SignatureScript kc t i (script_of u) w of
             Inl e \<Rightarrow> Inl (wrap_error (''failed to sign input '' @ Itoa (int i) @ '': '') e)
           | Inr sig \<Rightarrow> Inr (set_input i (wi_SignatureScript_update (\<lambda>_. Some sig)) t))
      | WitnessV0PubKeyHashTy \<Rightarrow>
          (case kc_WitnessSignature kc t prev i (ux_Amount u) (script_of u) w of
             Inl e \<Rightarrow> Inl (wrap_error (''failed to create witness signature for input '' @ Itoa (int i) @ '': '') e)
           | Inr wit \<Rightarrow> Inr (set_input i (wi_Witness_update (\<lambda>_. Some wit)) t))
      | ScriptHashTy \<Rightarrow>
          (case kc_WitnessScript kc (kc_PubKeyHash kc w) of
             Inl e \<Rightarrow> Inl (wrap_error (''failed to create redeem script for input '' @ Itoa (int i) @ '': '') e)
           | Inr redeem \<Rightarrow>
               (case kc_WitnessSignature kc t prev i (ux_Amount u) redeem w of
                  Inl e \<Rightarrow> Inl (wrap_error (''failed to create witness signature for input '' @ Itoa (int i) @ '': '') e)
                | Inr wit \<Rightarrow>
                    (case kc_PushScript kc redeem of
                       Inl e \<Rightarrow> Inl (wrap_error (''failed to build signature script for input '' @ Itoa (int i) @ '': '') e)
                     | Inr sig \<Rightarrow>
                         Inr (set_input i (\<lambda>x. x\<lparr>wi_SignatureScript := Some sig, wi_Witness := Some wit\<rparr>) t))))
      | OtherTy name \<Rightarrow> Inl (Errorf (''unsupported script type for input '' @ Itoa (int i) @ '': '' @ name)))"

fun sign_inputs ::
  "('h, 'addr, 'x, 'k, 'wif) keychain \<Rightarrow> 'wif \<Rightarrow> 'h prev_out_map \<Rightarrow> nat \<Rightarrow> utxo list \<Rightarrow> 'h wire_tx \<Rightarrow> goerror + 'h wire_tx" where
  "sign_inputs kc w prev i [] t = Inr t"
| "sign_inputs kc w prev i (u # us) t =
     (case sign_input kc w prev i u t of Inl e \<Rightarrow> Inl e | Inr t' \<Rightarrow> sign_inputs kc w prev (i + 1) us t')"

text \<open>The part of \<open>SignTransaction\<close> after the inputs and outputs are there: signatures and serialisation.\<close>

definition sign_wire ::
  "('h, 'addr, 'x, 'k, 'wif) keychain \<Rightarrow> 'wif \<Rightarrow> tx \<Rightarrow> utxo list \<Rightarrow> 'h wire_tx \<Rightarrow> goerror + signed_tx" where
  "sign_wire kc w t utxos wtx =
     (case sign_inputs kc w (prev_outs (wt_TxIn wtx) utxos) 0 utxos wtx of
        Inl e \<Rightarrow> Inl e
      | Inr swt \<Rightarrow>
          (case kc_Serialize kc swt of
             Inl e \<Rightarrow> Inl (wrap_error ''failed to serialize transaction: '' e)
           | Inr raw \<Rightarrow>
               Inr \<lparr>st_ID = kc_TxHash kc swt, st_Version = tx_Version t, st_Inputs = tx_Inputs t,
                    st_Outputs = tx_Outputs t, st_RawSigned = raw, st_Fee = tx_Fee t, st_Status = tx_Status t\<rparr>))"

definition metal_SignTransaction ::
  "('h, 'addr, 'x, 'k, 'wif) keychain \<Rightarrow> string \<Rightarrow> tx option \<Rightarrow> utxo list \<Rightarrow> string \<Rightarrow>
   (goerror + signed_tx) \<times> utxo list" where
  "metal_SignTransaction kc network txp utxos privWIF =
     (case txp of
        None \<Rightarrow> (Inl (Errorf ''nil pointer: transaction cannot be nil''), utxos)
      | Some t \<Rightarrow>
          if length utxos \<noteq> length (tx_Inputs t) then
            (Inl (Errorf (''mismatched inputs and UTXOs: expected '' @ Itoa (int (length (tx_Inputs t))) @
               '' inputs, got '' @ Itoa (int (length utxos)) @ '' UTXOs'')), utxos)
          else
            (case kc_DecodeWIF kc privWIF of
               Inl e \<Rightarrow> (Inl (wrap_error ''malformed private key: '' e), utxos)
             | Inr w \<Rightarrow>
                 (case ChaincfgNetwork network of
                    Inl e \<Rightarrow> (Inl e, utxos)
                  | Inr netParams \<Rightarrow>
                      if \<not> kc_IsForNet kc w netParams
                      then (Inl (Errorf ''private key is not for the specified network''), utxos)
                      else
                        (case wire_inputs (kc_btcd kc) (tx_Inputs t) of
                           Inl e \<Rightarrow> (Inl e, utxos)
                         | Inr ins \<Rightarrow>
                             (case wire_outputs (kc_btcd kc) netParams (tx_Outputs t) of
                                Inl e \<Rightarrow> (Inl e, utxos)
                              | Inr outs \<Rightarrow>
                                  (case derive_scripts (kc_btcd kc) netParams 0 utxos of
                                     (Some e, utxos') \<Rightarrow> (Inl e, utxos')
                                   | (None, utxos') \<Rightarrow>
                                       (sign_wire kc w t utxos'
                                          \<lparr>wt_Version = tx_Version t, wt_TxIn = ins, wt_TxOut = outs\<rparr>, utxos')))))))"

subsection \<open>Health and capabilities\<close>

definition metal_CheckHealth :: "'w http_env \<Rightarrow> ('w, health_status) state" where
  "metal_CheckHealth env = do {
     start \<leftarrow> he_Now env;
     finish \<leftarrow> he_Now env;
     t \<leftarrow> he_Now env;
     return (health HealthLevelHealthy (finish - start) 0 '''' t)
   }"

definition metal_GetCapabilities :: "string list" where
  "metal_GetCapabilities =
     [''address_generation'', ''address_validation'', ''fee_estimation'', ''tx_assembly'', ''tx_signing'', ''tx_sizing'']"

end
