(* ===== verification/Adapter_Laws.thy ===== *)
theory Adapter_Laws
  imports Provider_Laws Metal Mixed_Providers
begin

text \<open>
  Properties of the adapters together with their callers: how their failures are classified, the
  rate that CoinGecko never finds, the identifier of a broadcast transaction, and what the local
  signer signs.
\<close>

subsection \<open>Signing\<close>

definition spends :: "('h, 'addr) btcd \<Rightarrow> tx_input \<Rightarrow> 'h \<times> 32 word \<Rightarrow> bool" where
  "spends bt i p \<longleftrightarrow> bt_NewHashFromStr bt (ti_PreviousTxID i) = Inr (fst p) \<and> snd p = ti_OutputIndex i"

definition pays :: "('h, 'addr) btcd \<Rightarrow> chain_params \<Rightarrow> tx_output \<Rightarrow> int \<times> bytes \<Rightarrow> bool" where
  "pays bt params out v \<longleftrightarrow>
     fst v = to_Value out \<and>
     (\<exists>addr. bt_DecodeAddress bt (to_Address out) params = Inr addr \<and> bt_PayToAddrScript bt addr = Inr (snd v))"

definition signed_in :: "'h wire_in \<Rightarrow> bool" where
  "signed_in w \<longleftrightarrow> wi_SignatureScript w \<noteq> None \<or> wi_Witness w \<noteq> None"

lemma map_sum_Inr: "map_sum f g x = Inr y \<longleftrightarrow> (\<exists>z. x = Inr z \<and> y = g z)"
  by (cases x) auto

lemma wire_inputs_spend:
  "wire_inputs bt is = Inr ws \<Longrightarrow> list_all2 (\<lambda>i w. spends bt i (wi_PreviousOutPoint w)) is ws"
  by (induction "is" arbitrary: ws) (auto simp: map_sum_Inr spends_def split: sum.splits)

lemma wire_outputs_pay:
  "wire_outputs bt params outs = Inr vs \<Longrightarrow> list_all2 (pays bt params) outs vs"
  by (induction outs arbitrary: vs) (auto simp: map_sum_Inr pays_def split: sum.splits)

lemma length_derive_scripts: "length (snd (derive_scripts bt params i us)) = length us"
  by (induction us arbitrary: i) (simp_all split: sum.splits)

text \<open>Signing an input changes that input only, and neither what it spends nor the outputs.\<close>

definition extends :: "'h wire_tx \<Rightarrow> 'h wire_tx \<Rightarrow> bool" where
  "extends t t' \<longleftrightarrow>
     wt_TxOut t' = wt_TxOut t \<and> wt_Version t' = wt_Version t \<and>
     map wi_PreviousOutPoint (wt_TxIn t') = map wi_PreviousOutPoint (wt_TxIn t) \<and>
     (\<forall>k < length (wt_TxIn t). signed_in (wt_TxIn t ! k) \<longrightarrow> signed_in (wt_TxIn t' ! k))"

lemma extends_length: "extends t t' \<Longrightarrow> length (wt_TxIn t') = length (wt_TxIn t)"
  by (metis extends_def length_map)

lemma extends_trans: "extends t u \<Longrightarrow> extends u v \<Longrightarrow> extends t v"
  by (auto simp: extends_def dest: map_eq_imp_length_eq)

lemma extends_set_input:
  assumes "i < length (wt_TxIn t)" "\<And>x. wi_PreviousOutPoint (f x) = wi_PreviousOutPoint x" "\<And>x. signed_in (f x)"
  shows "extends t (set_input i f t) \<and> signed_in (wt_TxIn (set_input i f t) ! i)"
  using assms by (auto simp: extends_def set_input_def map_update nth_list_update list_update_same_conv)

lemma sign_input_extends:
  assumes "sign_input kc w prev i u t = Inr t'" "i < length (wt_TxIn t)"
  shows "extends t t' \<and> signed_in (wt_TxIn t' ! i)"
proof -
  have "\<exists>f. t' = set_input i f t \<and> (\<forall>x. wi_PreviousOutPoint (f x) = wi_PreviousOutPoint x \<and> signed_in (f x))"
    using assms(1)
    by (simp add: sign_input_def split: script_class.split_asm sum.split_asm)
       (rule exI, rule conjI, erule sym, simp add: signed_in_def)+
  with extends_set_input [OF assms(2)] show ?thesis by blast
qed

lemma sign_inputs_extends:
  assumes "sign_inputs kc w prev i us t = Inr t'" "i + length us \<le> length (wt_TxIn t)"
  shows "extends t t' \<and> (\<forall>k. i \<le> k \<and> k < i + length us \<longrightarrow> signed_in (wt_TxIn t' ! k))"
  using assms
proof (induction us arbitrary: i t)
  case Nil
  then show ?case by (auto simp: extends_def)
next
  case (Cons u us)
  then obtain s where s: "sign_input kc w prev i u t = Inr s" "sign_inputs kc w prev (i + 1) us s = Inr t'"
    by (auto split: sum.splits)
  then have a: "extends t s" "signed_in (wt_TxIn s ! i)"
    using sign_input_extends [OF s(1)] Cons.prems by auto
  then have b: "extends s t'" "\<And>k. i + 1 \<le> k \<Longrightarrow> k < i + 1 + length us \<Longrightarrow> signed_in (wt_TxIn t' ! k)"
    using Cons.IH [OF s(2)] Cons.prems extends_length [OF a(1)] by auto
  have "signed_in (wt_TxIn t' ! i)"
    using a b(1) Cons.prems extends_length [OF a(1)] by (auto simp: extends_def)
  then have "signed_in (wt_TxIn t' ! k)" if "i \<le> k" "k < i + length (u # us)" for k
    using that b(2) [of k] by (cases "k = i") auto
  then show ?case using extends_trans [OF a(1) b(1)] by blast
qed

lemma SignTransaction_cases:
  assumes "metal_SignTransaction kc network (Some t) utxos wif = (Inr st, utxos')"
  obtains w params ins outs swt where
    "length utxos = length (tx_Inputs t)" "ChaincfgNetwork network = Inr params"
    "wire_inputs (kc_btcd kc) (tx_Inputs t) = Inr ins" "wire_outputs (kc_btcd kc) params (tx_Outputs t) = Inr outs"
    "length utxos' = length utxos"
    "sign_inputs kc w (prev_outs ins utxos') 0 utxos' \<lparr>wt_Version = tx_Version t, wt_TxIn = ins, wt_TxOut = outs\<rparr> = Inr swt"
    "kc_Serialize kc swt = Inr (st_RawSigned st)" "st_ID st = kc_TxHash kc swt"
proof -
  obtain w params ins outs where
    a: "length utxos = length (tx_Inputs t)" "ChaincfgNetwork network = Inr params"
      "wire_inputs (kc_btcd kc) (tx_Inputs t) = Inr ins" "wire_outputs (kc_btcd kc) params (tx_Outputs t) = Inr outs"
      "derive_scripts (kc_btcd kc) params 0 utxos = (None, utxos')"
      "sign_wire kc w t utxos' \<lparr>wt_Version = tx_Version t, wt_TxIn = ins, wt_TxOut = outs\<rparr> = Inr st"
    using assms by (auto simp: metal_SignTransaction_def split: if_split_asm sum.splits prod.splits option.splits)
  moreover obtain swt where
    "sign_inputs kc w (prev_outs ins utxos') 0 utxos' \<lparr>wt_Version = tx_Version t, wt_TxIn = ins, wt_TxOut = outs\<rparr> = Inr swt"
    "kc_Serialize kc swt = Inr (st_RawSigned st)" "st_ID st = kc_TxHash kc swt"
    using a(6) by (auto simp: sign_wire_def split: sum.splits)
  moreover have "length utxos' = length utxos"
    using length_derive_scripts [of "kc_btcd kc" params 0 utxos] a(5) by simp
  ultimately show ?thesis using that by blast
qed

text \<open>
  C36: What the local signer signs is the transaction that was assembled. When a transaction made
  by \<open>CreateTransaction\<close> from a list of coins and outputs is signed, the bytes and the identifier
  that are returned are those of a wire transaction of version 2 whose inputs spend exactly
  these coins in their order, each with a signature script or a witness, and whose outputs pay
  exactly the given values to the scripts of the given addresses, in their order.
\<close>

theorem signed_as_assembled:
  assumes "metal_CreateTransaction network utxos outputs = Inr t"
    and "metal_SignTransaction kc network (Some t) utxos wif = (Inr st, utxos')"
  shows "\<exists>swt params. kc_Serialize kc swt = Inr (st_RawSigned st) \<and> st_ID st = kc_TxHash kc swt \<and>
    wt_Version swt = 2 \<and> ChaincfgNetwork network = Inr params \<and>
    list_all2 (\<lambda>u w. bt_NewHashFromStr (kc_btcd kc) (ux_TxHash u) = Inr (fst (wi_PreviousOutPoint w)) \<and>
                     snd (wi_PreviousOutPoint w) = ux_Vout u \<and> signed_in w) utxos (wt_TxIn swt) \<and>
    list_all2 (pays (kc_btcd kc) params) outputs (wt_TxOut swt)"
proof -
  have t: "tx_Inputs t = map (\<lambda>u. \<lparr>ti_PreviousTxID = ux_TxHash u, ti_OutputIndex = ux_Vout u\<rparr>) utxos"
    "tx_Outputs t = outputs" "tx_Version t = 2"
    using assms(1) by (auto simp: metal_CreateTransaction_def split: if_split_asm sum.splits)
  from assms(2) obtain w params ins outs swt where
    s: "ChaincfgNetwork network = Inr params" "wire_inputs (kc_btcd kc) (tx_Inputs t) = Inr ins"
      "wire_outputs (kc_btcd kc) params (tx_Outputs t) = Inr outs" "length utxos' = length utxos"
      "sign_inputs kc w (prev_outs ins utxos') 0 utxos' \<lparr>wt_Version = tx_Version t, wt_TxIn = ins, wt_TxOut = outs\<rparr> = Inr swt"
      "kc_Serialize kc swt = Inr (st_RawSigned st)" "st_ID st = kc_TxHash kc swt"
    by (rule SignTransaction_cases)
  have i: "list_all2 (\<lambda>u w. spends (kc_btcd kc) \<lparr>ti_PreviousTxID = ux_TxHash u, ti_OutputIndex = ux_Vout u\<rparr>
      (wi_PreviousOutPoint w)) utxos ins"
    using wire_inputs_spend [OF s(2)] by (simp add: t(1) list_all2_map1)
  then have l: "length ins = length utxos" by (simp add: list_all2_lengthD)
  have e: "extends \<lparr>wt_Version = tx_Version t, wt_TxIn = ins, wt_TxOut = outs\<rparr> swt"
    "\<forall>k < length utxos. signed_in (wt_TxIn swt ! k)"
    using sign_inputs_extends [OF s(5)] l s(4) by auto
  have m: "map wi_PreviousOutPoint (wt_TxIn swt) = map wi_PreviousOutPoint ins"
    using e(1) by (simp add: extends_def)
  have "list_all2 (\<lambda>u w. bt_NewHashFromStr (kc_btcd kc) (ux_TxHash u) = Inr (fst (wi_PreviousOutPoint w)) \<and>
                     snd (wi_PreviousOutPoint w) = ux_Vout u \<and> signed_in w) utxos (wt_TxIn swt)"
    using i e(2) l map_eq_imp_length_eq [OF m] arg_cong [OF m, of "\<lambda>xs. xs ! k" for k]
    by (auto simp: list_all2_conv_all_nth spends_def) (metis m nth_map)+
  moreover have "list_all2 (pays (kc_btcd kc) params) outputs (wt_TxOut swt)" "wt_Version swt = 2"
    using wire_outputs_pay [OF s(3)] e(1) t(2,3) by (simp_all add: extends_def)
  ultimately show ?thesis using s(1,6,7) by blast
qed

text \<open>A keychain whose scripts are all pay-to-witness-public-key-hash.\<close>

definition demo_keychain :: "(string, string, unit, unit, unit) keychain" where
  "demo_keychain =
     \<lparr>kc_btcd = \<lparr>bt_NewHashFromStr = Inr, bt_DecodeAddress = (\<lambda>a _. Inr a), bt_PayToAddrScript = (\<lambda>a. Inr [0, 20]),
        bt_Serialize = (\<lambda>_. Inr []), bt_HashH = (\<lambda>_. '''')\<rparr>,
      kc_NewKeyFromString = (\<lambda>_. Inr ()), kc_SetNet = (\<lambda>x _. x), kc_Derive = (\<lambda>x _. Inr x),
      kc_Address = (\<lambda>_ _. Inr ''''), kc_EncodeAddress = id, kc_ECPrivKey = PrivKey, kc_NewWIF = (\<lambda>_ _. Inr ()),
      kc_WIF_String = (\<lambda>_. ''''), kc_DecodeWIF = (\<lambda>_. Inr ()), kc_IsForNet = (\<lambda>_ _. True),
      kc_GetScriptClass = (\<lambda>s. if s = [0, 20] then WitnessV0PubKeyHashTy else OtherTy ''nonstandard''),
      kc_SignatureScript = (\<lambda>_ _ _ _. Inr []), kc_WitnessSignature = (\<lambda>_ _ _ _ _ _. Inr [[1], [2]]),
      kc_PubKeyHash = (\<lambda>_. []), kc_WitnessScript = Inr, kc_PushScript = Inr,
      kc_Serialize = (\<lambda>t. Inr [of_nat (length (wt_TxIn t)), of_nat (length (wt_TxOut t))]),
      kc_TxHash = (\<lambda>_. ''id'')\<rparr>"

definition unsigned_coin :: utxo where
  "unsigned_coin =
     \<lparr>ux_TxHash = ''aa'', ux_Vout = 1, ux_Amount = 500, ux_ScriptPubKey = None, ux_Address = ''1x'',
      ux_Confirmed = True, ux_Confirmations = 3, ux_Spendable = True, ux_BlockHeight = 98\<rparr>"

definition demo_outputs :: "tx_output list" where
  "demo_outputs = [\<lparr>to_Address = ''1y'', to_Value = 400\<rparr>]"

definition demo_tx :: tx where
  "demo_tx =
     \<lparr>tx_Version = 2, tx_Inputs = [\<lparr>ti_PreviousTxID = ''aa'', ti_OutputIndex = 1\<rparr>], tx_Outputs = demo_outputs,
      tx_Fee = 0, tx_Status = TxStatePending, tx_Params = Some MainNetParams\<rparr>"

definition demo_signed :: signed_tx where
  "demo_signed =
     \<lparr>st_ID = ''id'', st_Version = 2, st_Inputs = tx_Inputs demo_tx, st_Outputs = demo_outputs,
      st_RawSigned = [1, 1], st_Fee = 0, st_Status = TxStatePending\<rparr>"

lemma demo_assembled: "metal_CreateTransaction BitcoinNetworkMainnet [unsigned_coin] demo_outputs = Inr demo_tx"
  by (simp add: metal_CreateTransaction_def ChaincfgNetwork_def unsigned_coin_def demo_outputs_def demo_tx_def)

lemma demo_signs:
  "metal_SignTransaction demo_keychain BitcoinNetworkMainnet (Some demo_tx) [unsigned_coin] ''wif'' =
   (Inr demo_signed, [unsigned_coin\<lparr>ux_ScriptPubKey := Some [0, 20]\<rparr>])"
  by (simp add: metal_SignTransaction_def ChaincfgNetwork_def sign_wire_def sign_input_def
      demo_keychain_def unsigned_coin_def set_input_def demo_tx_def demo_outputs_def demo_signed_def
      the_default_def)

theorem signed_as_assembled_witness:
  "\<exists>swt params. kc_Serialize demo_keychain swt = Inr (st_RawSigned demo_signed) \<and>
    st_ID demo_signed = kc_TxHash demo_keychain swt \<and>
    wt_Version swt = 2 \<and> ChaincfgNetwork BitcoinNetworkMainnet = Inr params \<and>
    list_all2 (\<lambda>u w. bt_NewHashFromStr (kc_btcd demo_keychain) (ux_TxHash u) = Inr (fst (wi_PreviousOutPoint w)) \<and>
                     snd (wi_PreviousOutPoint w) = ux_Vout u \<and> signed_in w) [unsigned_coin] (wt_TxIn swt) \<and>
    list_all2 (pays (kc_btcd demo_keychain) params) demo_outputs (wt_TxOut swt)"
  by (rule signed_as_assembled [OF demo_assembled demo_signs])

subsection \<open>The identifier of a broadcast transaction\<close>

text \<open>The identifier is the double hash of the bytes that were sent, in reverse, in hexadecimal.\<close>

lemma computeTxID_hash: "computeTxID rawTx = hex_EncodeToString (rev (sha256 (sha256 rawTx)))"
  by (simp only: computeTxID_def Let_def swap_ends_rev)

subsection \<open>Classification of failures\<close>

text \<open>The pairs of a nested map, in the order of its association list.\<close>

definition concat_prices :: "(string \<times> (string \<times> real) list) list \<Rightarrow> (string \<times> (string \<times> real)) list" where
  "concat_prices m = concat (map (\<lambda>(c, kvs). map (\<lambda>kv. (c, kv)) kvs) m)"

lemma classify_auth: "classifyError (Some e) = ''auth'' \<longleftrightarrow> errors_Is e ErrAuthFailure"
  by (simp add: classifyError_def Let_def)

lemma status_error_auth:
  "errors_Is (status_error resp) ErrAuthFailure \<longleftrightarrow> hs_StatusCode resp \<in> {401, 403}"
  by (simp add: status_error_def ErrAuthFailure_error_def)

text \<open>
  Which failures the adapters report as authentication failures. When the server answers with
  a status other than 200, the CoinGecko, Bitref and Tatum adapters return an error that the
  client classifies as \<open>auth\<close> exactly if the status is 401 or 403. The mempool.space adapter
  wraps every failure in an error type without \<open>Unwrap\<close>, so none of its failures is
  classified as \<open>auth\<close>, \<open>config\<close> or \<open>timeout\<close>, whatever the server answers.
\<close>

lemma auth_failures_classified:
  assumes "serves env server" "\<And>req. \<exists>resp. server req = Inr resp \<and> hs_StatusCode resp = status \<and> hs_ReadErr resp = None"
    and "status \<noteq> 200" "br_baseURL b \<noteq> ''''" "br_apiKey b \<noteq> ''''" "endpoint \<noteq> ''''"
  shows "\<exists>e1 e2 e3 e4.
    fst (run_state (coingecko_GetExchangeRates order env s coin) w) = Inl e1 \<and>
    fst (run_state (bitref_callAPI env b verb endpoint body) w) = Inl e2 \<and>
    fst (run_state (tatum_PushTx env t rawTx) w) = Inl e3 \<and>
    fst (run_state (mempool_GetUTXOs bt env m address) w) = Inl e4 \<and>
    (\<forall>e \<in> {e1, e2, e3}. classifyError (Some e) = ''auth'' \<longleftrightarrow> status \<in> {401, 403}) \<and>
    classifyError (Some e4) \<in> {''rate_limit'', ''other''}"
proof -
  obtain f where f: "\<And>req. server req = Inr (f req)" "\<And>req. hs_StatusCode (f req) = status" "\<And>req. hs_ReadErr (f req) = None"
    using assms(2) by metis
  have a: "classifyError (Some (status_error (f req))) = ''auth'' \<longleftrightarrow> status \<in> {401, 403}" for req
    by (simp add: classify_auth status_error_auth f(2))
  have w: "classifyError (Some (wrap_error p (status_error (f req)))) = ''auth'' \<longleftrightarrow> status \<in> {401, 403}" for p req
    by (simp add: classify_auth status_error_auth f(2))
  obtain r1 r2 r3 r4 where
    "fst (run_state (coingecko_GetExchangeRates order env s coin) w) = Inl (status_error (f r1))"
    "fst (run_state (bitref_callAPI env b verb endpoint body) w) = Inl (status_error (f r2))"
    "fst (run_state (tatum_PushTx env t rawTx) w) = Inl (wrap_error ''broadcast transaction: '' (status_error (f r3)))"
    "fst (run_state (mempool_GetUTXOs bt env m address) w) = Inl (RequestError (http_text (f r4)) None)"
    using assms(3-6) f
    by (simp add: coingecko_GetExchangeRates_def bitref_callAPI_def tatum_PushTx_def tatum_call_def rpc_result_def
        ReadAll_def mempool_GetUTXOs_def mempool_get_def split_beta serves_http_get [OF assms(1)] serves_send [OF assms(1)])
  moreover have "classifyError (Some (RequestError x None)) \<in> {''rate_limit'', ''other''}" for x
    by (simp add: classifyError_def Let_def)
  ultimately show ?thesis using a w by simp
qed

subsection \<open>The rate of one currency\<close>

text \<open>
  The CoinGecko adapter never finds the rate of one currency. CoinGecko answers a request for
  bitcoin with an object whose key is \<open>bitcoin\<close>, as the comment in the code says, and the
  adapter looks for the key \<open>Bitcoin\<close>: the price is there, and the result is the error that the
  coin is not supported. The same reply gives \<open>GetExchangeRates\<close> its rate.
\<close>

lemma coingecko_rate_not_found:
  assumes "serves env server"
    and "\<And>req. server req = Inr (ok_reply (JObj [(''bitcoin'', JObj [(ToLower currency, JNum price)])]))"
    and "json_ok (JNum price)"
  shows "fst (run_state (coingecko_GetExchangeRate env s CoinTickerBTC currency) w) =
           Inl (CoinNotSupportedError ''Bitcoin'') \<and>
    (\<exists>t. fst (run_state (coingecko_GetExchangeRates concat_prices env s CoinTickerBTC) w) =
           Inr [plain_rate CoinTickerBTC (ToLower currency) (Finite (lit_real price)) t])"
proof -
  have d: "body_Decode dec_prices [] (ok_reply (JObj [(''bitcoin'', JObj [(ToLower currency, JNum price)])])) =
      Inr [(''bitcoin'', [(ToLower currency, lit_real price)])]"
    using assms(3) by (simp add: body_Decode_ok decoded_def dec_map_def dec_float_def)
  have c: "hs_StatusCode (ok_reply v) = 200" for v by (simp add: ok_reply_def)
  show ?thesis
    using d
    by (simp add: coingecko_GetExchangeRate_def coingecko_GetExchangeRates_def split_beta
        serves_http_get [OF assms(1)] assms(2) c CoingeckoString_def CoinTickerBTC_def concat_prices_def)
       blast
qed

end
