(* ===== verification/Redis_Store.thy ===== *)
theory Redis_Store
  imports Store_Json Store_Registry "HOL-Library.Sublist"
begin

text \<open>
  \<open>scoring/store/redis.go\<close>: the store on a Redis server. The go-redis client with the server
  behind it is a record of commands on a state \<open>'s\<close>, and \<open>redis.Nil\<close> is the reply \<open>RNil\<close>. The
  updates that \<open>SetScore\<close> publishes from a goroutine are queued in \<open>rds_publishing\<close> and leave it
  in a step of their own. The commands that a pipeline sends are a list.
\<close>

datatype 'v redis_reply = RNil | RErr goerror | RVal 'v

datatype redis_cmd =
    SetCmd string string duration
  | RPushCmd string string
  | LTrimCmd string int int
  | ExpireCmd string duration

text \<open>\<open>rd_Eval\<close> runs a script atomically; \<open>rd_call_get\<close> and \<open>rd_call_del\<close> are \<open>redis.call\<close> in it.\<close>

record 's redis_client =
  rd_Ping :: "'s \<Rightarrow> 's \<times> goerror option"
  rd_Close :: "'s \<Rightarrow> 's \<times> goerror option"
  rd_Get :: "string \<Rightarrow> 's \<Rightarrow> 's \<times> string redis_reply"
  rd_Set :: "string \<Rightarrow> string \<Rightarrow> duration \<Rightarrow> 's \<Rightarrow> 's \<times> goerror option"
  rd_SetNX :: "string \<Rightarrow> string \<Rightarrow> duration \<Rightarrow> 's \<Rightarrow> 's \<times> string redis_reply"
  rd_Del :: "string \<Rightarrow> 's \<Rightarrow> 's \<times> goerror option"
  rd_Scan :: "64 word \<Rightarrow> string \<Rightarrow> int \<Rightarrow> 's \<Rightarrow> 's \<times> (goerror + string list \<times> 64 word)"
  rd_MGet :: "string list \<Rightarrow> 's \<Rightarrow> 's \<times> (goerror + string option list)"
  rd_Pipeline :: "redis_cmd list \<Rightarrow> 's \<Rightarrow> 's \<times> goerror option"
  rd_LRange :: "string \<Rightarrow> int \<Rightarrow> int \<Rightarrow> 's \<Rightarrow> 's \<times> string list redis_reply"
  rd_Publish :: "string \<Rightarrow> string \<Rightarrow> 's \<Rightarrow> 's"
  rd_Eval :: "('s \<Rightarrow> 's \<times> int) \<Rightarrow> 's \<Rightarrow> 's \<times> (goerror + int)"
  rd_call_get :: "string \<Rightarrow> 's \<Rightarrow> string option"
  rd_call_del :: "string \<Rightarrow> 's \<Rightarrow> 's \<times> int"

record 's redis_store =
  rds_client :: 's
  rds_config :: redis_config
  rds_keyPrefix :: string
  rds_publishing :: "string list"

subsection \<open>Opening\<close>

abbreviation defaultRedisKeyPrefix :: string where "defaultRedisKeyPrefix \<equiv> ''chainkit:scoring:''"

definition redis_defaults :: "redis_config \<Rightarrow> redis_config" where
  "redis_defaults c =
     c\<lparr>rc_PoolSize := (if rc_PoolSize c = 0 then 10 else rc_PoolSize c),
       rc_MinIdleConns := (if rc_MinIdleConns c = 0 then 2 else rc_MinIdleConns c)\<rparr>"

definition redis_key_prefix :: "string \<Rightarrow> string" where
  "redis_key_prefix pre =
     (if pre \<noteq> '''' then (if last pre \<noteq> CHR '':'' then pre @ '':'' else pre) else defaultRedisKeyPrefix)"

text \<open>\<open>NewClient\<close> makes a client from the configuration; nothing is sent before the ping.\<close>

definition NewRedisStore ::
  "(redis_config \<Rightarrow> 's) \<Rightarrow> 's redis_client \<Rightarrow> redis_config \<Rightarrow> goerror + 's redis_store" where
  "NewRedisStore NewClient rd config =
     (let c = redis_defaults config
      in case rd_Ping rd (NewClient c) of
           (_, Some e) \<Rightarrow> Inl (wrap_error ''redis connection failed: '' e)
         | (s, None) \<Rightarrow>
             Inr \<lparr>rds_client = s, rds_config = c, rds_keyPrefix = redis_key_prefix (rc_KeyPrefix c),
                  rds_publishing = []\<rparr>)"

definition redis_Name :: string where
  "redis_Name = ''redis''"

definition scoreKey :: "'s redis_store \<Rightarrow> string \<Rightarrow> string" where
  "scoreKey r providerName = rds_keyPrefix r @ ''score:'' @ providerName"

definition latencyKey :: "'s redis_store \<Rightarrow> string" where
  "latencyKey r = rds_keyPrefix r @ ''latency''"

definition lockKey :: "'s redis_store \<Rightarrow> string \<Rightarrow> string" where
  "lockKey r providerName = rds_keyPrefix r @ ''lock:'' @ providerName"

definition eventChannel :: "'s redis_store \<Rightarrow> string" where
  "eventChannel r = rds_keyPrefix r @ ''events''"

subsection \<open>Scores\<close>

definition redis_GetScore ::
  "json_codec \<Rightarrow> 's redis_client \<Rightarrow> string \<Rightarrow> 's redis_store \<Rightarrow>
   's redis_store \<times> (goerror + provider_score_data option)" where
  "redis_GetScore cd rd providerName r =
     (case rd_Get rd (scoreKey r providerName) (rds_client r) of
        (s, RNil) \<Rightarrow> (r\<lparr>rds_client := s\<rparr>, Inr None)
      | (s, RErr e) \<Rightarrow> (r\<lparr>rds_client := s\<rparr>, Inl (wrap_error ''redis get: '' e))
      | (s, RVal bytes) \<Rightarrow>
          (r\<lparr>rds_client := s\<rparr>,
           case parse_score cd bytes of
             Inl e \<Rightarrow> Inl (wrap_error ''unmarshal score: '' e)
           | Inr score \<Rightarrow> Inr (Some score)))"

text \<open>\<open>SetScore\<close> and \<open>SetScoreWithTTL\<close> differ in the expiration and in a message.\<close>

definition redis_write ::
  "json_codec \<Rightarrow> 's redis_client \<Rightarrow> string \<Rightarrow> duration \<Rightarrow> provider_score_data option \<Rightarrow> 's redis_store \<Rightarrow>
   's redis_store \<times> goerror option" where
  "redis_write cd rd what ttl sd r =
     (case sd of
        None \<Rightarrow> (r, None)
      | Some d \<Rightarrow>
          if pd_Name d = '''' then (r, None)
          else
            (case json_Marshal (score_json cd d) of
               Inl e \<Rightarrow> (r, Some (wrap_error ''marshal score: '' e))
             | Inr bytes \<Rightarrow>
                 (case rd_Set rd (scoreKey r (pd_Name d)) bytes ttl (rds_client r) of
                    (s, Some e) \<Rightarrow> (r\<lparr>rds_client := s\<rparr>, Some (wrap_error what e))
                  | (s, None) \<Rightarrow>
                      (r\<lparr>rds_client := s, rds_publishing := rds_publishing r @ [bytes]\<rparr>, None))))"

definition redis_SetScore ::
  "json_codec \<Rightarrow> 's redis_client \<Rightarrow> provider_score_data option \<Rightarrow> 's redis_store \<Rightarrow>
   's redis_store \<times> goerror option" where
  "redis_SetScore cd rd sd r = redis_write cd rd ''redis set: '' (rc_ScoreTTL (rds_config r)) sd r"

definition redis_SetScoreWithTTL ::
  "json_codec \<Rightarrow> 's redis_client \<Rightarrow> provider_score_data option \<Rightarrow> duration \<Rightarrow> 's redis_store \<Rightarrow>
   's redis_store \<times> goerror option" where
  "redis_SetScoreWithTTL cd rd sd ttl r = redis_write cd rd ''redis set with ttl: '' ttl sd r"

text \<open>A goroutine that \<open>SetScore\<close> started runs; they may run in any order.\<close>

definition publishScoreUpdate :: "'s redis_client \<Rightarrow> nat \<Rightarrow> 's redis_store \<Rightarrow> 's redis_store" where
  "publishScoreUpdate rd i r =
     (if i < length (rds_publishing r)
      then r\<lparr>rds_client := rd_Publish rd (eventChannel r) (rds_publishing r ! i) (rds_client r),
             rds_publishing := take i (rds_publishing r) @ drop (i + 1) (rds_publishing r)\<rparr>
      else r)"

text \<open>One page of a scan: missing values and values that do not parse are skipped.\<close>

definition page_scores :: "json_codec \<Rightarrow> string option list \<Rightarrow> provider_score_data option list" where
  "page_scores cd vals =
     List.map_filter (\<lambda>v. case v of
         None \<Rightarrow> None
       | Some text \<Rightarrow> (case parse_score cd text of Inl _ \<Rightarrow> None | Inr score \<Rightarrow> Some (Some score))) vals"

definition redis_page ::
  "json_codec \<Rightarrow> 's redis_client \<Rightarrow> string list \<Rightarrow> 's \<Rightarrow> 's \<times> (goerror + provider_score_data option list)" where
  "redis_page cd rd keys s =
     (if keys = [] then (s, Inr [])
      else
        (case rd_MGet rd keys s of
           (s', Inl e) \<Rightarrow> (s', Inl (wrap_error ''redis mget: '' e))
         | (s', Inr vals) \<Rightarrow> (s', Inr (page_scores cd vals))))"

partial_function (option) scan_loop ::
  "json_codec \<Rightarrow> 's redis_client \<Rightarrow> string \<Rightarrow> 64 word \<Rightarrow> provider_score_data option list \<Rightarrow> 's \<Rightarrow>
   ('s \<times> (goerror + provider_score_data option list)) option" where
  "scan_loop cd rd pat cursor scores s =
     (case rd_Scan rd cursor pat 100 s of
        (s1, Inl e) \<Rightarrow> Some (s1, Inl (wrap_error ''redis scan: '' e))
      | (s1, Inr (keys, nextCursor)) \<Rightarrow>
          (case redis_page cd rd keys s1 of
             (s2, Inl e) \<Rightarrow> Some (s2, Inl e)
           | (s2, Inr page) \<Rightarrow>
               if nextCursor = 0 then Some (s2, Inr (scores @ page))
               else scan_loop cd rd pat nextCursor (scores @ page) s2))"

definition redis_GetAllScores ::
  "json_codec \<Rightarrow> 's redis_client \<Rightarrow> 's redis_store \<Rightarrow>
   ('s redis_store \<times> (goerror + provider_score_data option list)) option" where
  "redis_GetAllScores cd rd r =
     map_option (\<lambda>(s, res). (r\<lparr>rds_client := s\<rparr>, res))
       (scan_loop cd rd (rds_keyPrefix r @ ''score:*'') 0 [] (rds_client r))"

definition redis_DeleteScore ::
  "'s redis_client \<Rightarrow> string \<Rightarrow> 's redis_store \<Rightarrow> 's redis_store \<times> goerror option" where
  "redis_DeleteScore rd providerName r =
     (case rd_Del rd (scoreKey r providerName) (rds_client r) of
        (s, e) \<Rightarrow> (r\<lparr>rds_client := s\<rparr>, map_option (wrap_error ''redis del: '') e))"

fun redis_cmds ::
  "json_codec \<Rightarrow> 's redis_store \<Rightarrow> provider_score_data option list \<Rightarrow> goerror + redis_cmd list" where
  "redis_cmds cd r [] = Inr []"
| "redis_cmds cd r (None # sds) = redis_cmds cd r sds"
| "redis_cmds cd r (Some d # sds) =
     (if pd_Name d = '''' then redis_cmds cd r sds
      else
        (case json_Marshal (score_json cd d) of
           Inl e \<Rightarrow> Inl (wrap_error (''marshal score '' @ pd_Name d @ '': '') e)
         | Inr bytes \<Rightarrow>
             map_sum id (\<lambda>cs. SetCmd (scoreKey r (pd_Name d)) bytes (rc_ScoreTTL (rds_config r)) # cs)
               (redis_cmds cd r sds)))"

definition redis_SetScores ::
  "json_codec \<Rightarrow> 's redis_client \<Rightarrow> provider_score_data option list \<Rightarrow> 's redis_store \<Rightarrow>
   's redis_store \<times> goerror option" where
  "redis_SetScores cd rd sds r =
     (if sds = [] then (r, None)
      else
        (case redis_cmds cd r sds of
           Inl e \<Rightarrow> (r, Some e)
         | Inr cmds \<Rightarrow>
             (case rd_Pipeline rd cmds (rds_client r) of
                (s, e) \<Rightarrow> (r\<lparr>rds_client := s\<rparr>, map_option (wrap_error ''redis pipeline exec: '') e))))"

subsection \<open>Latency statistics\<close>

definition redis_GetLatencyStats ::
  "json_codec \<Rightarrow> 's redis_client \<Rightarrow> 's redis_store \<Rightarrow> 's redis_store \<times> (goerror + latency_stats_data option)" where
  "redis_GetLatencyStats cd rd r =
     (case rd_Get rd (latencyKey r) (rds_client r) of
        (s, RNil) \<Rightarrow> (r\<lparr>rds_client := s\<rparr>, Inr None)
      | (s, RErr e) \<Rightarrow> (r\<lparr>rds_client := s\<rparr>, Inl (wrap_error ''redis get latency: '' e))
      | (s, RVal bytes) \<Rightarrow>
          (r\<lparr>rds_client := s\<rparr>,
           case parse_latency cd bytes of
             Inl e \<Rightarrow> Inl (wrap_error ''unmarshal latency stats: '' e)
           | Inr stats \<Rightarrow> Inr (Some stats)))"

definition redis_SetLatencyStats ::
  "json_codec \<Rightarrow> 's redis_client \<Rightarrow> latency_stats_data option \<Rightarrow> 's redis_store \<Rightarrow>
   's redis_store \<times> goerror option" where
  "redis_SetLatencyStats cd rd ld r =
     (case ld of
        None \<Rightarrow> (r, None)
      | Some l \<Rightarrow>
          (case json_Marshal (latency_json cd l) of
             Inl e \<Rightarrow> (r, Some (wrap_error ''marshal latency stats: '' e))
           | Inr bytes \<Rightarrow>
               (case rd_Set rd (latencyKey r) bytes (rc_ScoreTTL (rds_config r)) (rds_client r) of
                  (s, e) \<Rightarrow> (r\<lparr>rds_client := s\<rparr>, map_option (wrap_error ''redis set latency: '') e))))"

definition redis_Close :: "'s redis_client \<Rightarrow> 's redis_store \<Rightarrow> 's redis_store \<times> goerror option" where
  "redis_Close rd r = (case rd_Close rd (rds_client r) of (s, e) \<Rightarrow> (r\<lparr>rds_client := s\<rparr>, e))"

definition redis_Ping :: "'s redis_client \<Rightarrow> 's redis_store \<Rightarrow> 's redis_store \<times> goerror option" where
  "redis_Ping rd r = (case rd_Ping rd (rds_client r) of (s, e) \<Rightarrow> (r\<lparr>rds_client := s\<rparr>, e))"

text \<open>The store as a \<open>ScoreStore\<close>; that the scan ends is proved where it is used.\<close>

definition redis_ops :: "json_codec \<Rightarrow> 's redis_client \<Rightarrow> 's redis_store score_store_ops" where
  "redis_ops cd rd =
     \<lparr>so_GetScore = redis_GetScore cd rd, so_SetScore = redis_SetScore cd rd,
      so_GetAllScores = (\<lambda>r. the (redis_GetAllScores cd rd r)), so_DeleteScore = redis_DeleteScore rd,
      so_SetScores = (\<lambda>sds r. Returns (redis_SetScores cd rd sds r)),
      so_GetLatencyStats = redis_GetLatencyStats cd rd, so_SetLatencyStats = redis_SetLatencyStats cd rd,
      so_Close = redis_Close rd, so_Ping = redis_Ping rd, so_Name = redis_Name\<rparr>"

subsection \<open>Watching\<close>

datatype watch_event = CtxDone goerror | Message string | ChannelClosed

text \<open>The calls of the callback, and the error that ends the loop; None while it is waiting.\<close>

fun watch_loop ::
  "json_codec \<Rightarrow> watch_event list \<Rightarrow> (string \<times> provider_score_data) list \<times> goerror option" where
  "watch_loop cd [] = ([], None)"
| "watch_loop cd (CtxDone e # _) = ([], Some e)"
| "watch_loop cd (ChannelClosed # _) = ([], Some (Errorf ''pubsub channel closed''))"
| "watch_loop cd (Message payload # evs) =
     (case parse_score cd payload of
        Inl _ \<Rightarrow> watch_loop cd evs
      | Inr d \<Rightarrow> apfst (\<lambda>calls. (pd_Name d, d) # calls) (watch_loop cd evs))"

definition redis_Watch ::
  "json_codec \<Rightarrow> goerror option \<Rightarrow> watch_event list \<Rightarrow> (string \<times> provider_score_data) list \<times> goerror option" where
  "redis_Watch cd received evs =
     (case received of
        Some e \<Rightarrow> ([], Some (wrap_error ''subscribe failed: '' e))
      | None \<Rightarrow> watch_loop cd evs)"

subsection \<open>Locks\<close>

text \<open>
  \<open>Lock\<close> returns the value that it wrote under the key; the closure \<open>unlock\<close> captures both. A
  reply with an error carries the empty string, which the first test takes for a held lock.
\<close>

definition redis_Lock ::
  "'s redis_client \<Rightarrow> int \<Rightarrow> string \<Rightarrow> duration \<Rightarrow> 's redis_store \<Rightarrow> 's redis_store \<times> (goerror + string)" where
  "redis_Lock rd unixNano providerName ttl r =
     (let lockValue = Itoa unixNano
      in case rd_SetNX rd (lockKey r providerName) lockValue ttl (rds_client r) of
           (s, reply) \<Rightarrow>
             (r\<lparr>rds_client := s\<rparr>,
              let res = (case reply of RVal v \<Rightarrow> v | _ \<Rightarrow> '''')
              in if reply = RNil \<or> res = ''''
                 then Inl (Errorf (''lock already held for provider '' @ providerName))
                 else (case reply of RErr e \<Rightarrow> Inl (wrap_error ''redis set: '' e) | _ \<Rightarrow> Inr lockValue)))"

definition unlock_script :: "'s redis_client \<Rightarrow> string \<Rightarrow> string \<Rightarrow> 's \<Rightarrow> 's \<times> int" where
  "unlock_script rd key val s = (if rd_call_get rd key s = Some val then rd_call_del rd key s else (s, 0))"

definition redis_unlock :: "'s redis_client \<Rightarrow> string \<Rightarrow> string \<Rightarrow> 's redis_store \<Rightarrow> 's redis_store" where
  "redis_unlock rd providerName lockValue r =
     r\<lparr>rds_client := fst (rd_Eval rd (unlock_script rd (lockKey r providerName) lockValue) (rds_client r))\<rparr>"

end
