(* ===== verification/Redis_Laws.thy ===== *)
theory Redis_Laws
  imports Redis_Store
begin

text \<open>
  What the store relies on of a Redis server, as the locale \<open>redis_server\<close>, and that with such a
  server \<open>redis.go\<close> keeps the contract of a score store; its locks; and a server in memory.
\<close>

subsection \<open>The server\<close>

text \<open>Characters without a meaning of their own in a pattern of \<open>SCAN\<close>.\<close>

definition plain_char :: "char \<Rightarrow> bool" where
  "plain_char c \<longleftrightarrow> c \<notin> {CHR ''*'', CHR ''?'', CHR ''['', CHR '']''} \<and> c \<noteq> CHR 0x5C"

text \<open>The effect of a command of a pipeline on the keys that hold strings.\<close>

fun run_cmd :: "redis_cmd \<Rightarrow> (string \<rightharpoonup> string) \<Rightarrow> (string \<rightharpoonup> string)" where
  "run_cmd (SetCmd k v ttl) m = m(k \<mapsto> v)"
| "run_cmd _ m = m"

text \<open>The scores under the keys of \<open>K\<close> that a pattern \<open>pat\<close> matches, when \<open>m\<close> is what the keys hold.\<close>

definition entries ::
  "json_codec \<Rightarrow> (string \<Rightarrow> bool) \<Rightarrow> (string \<rightharpoonup> string) \<Rightarrow> string set \<Rightarrow> provider_score_data option set" where
  "entries cd pat m K = {Some d |d. \<exists>k v. k \<in> K \<and> pat k \<and> m k = Some v \<and> parse_score cd v = Inr d}"

text \<open>
  The documented behaviour of the commands: \<open>kv\<close> is what the keys that have not expired hold. A
  command whose reply is lost may or may not have been executed, and a pipeline that fails may
  have executed some of its commands. \<open>SCAN\<close> guarantees that a full iteration returns every key
  that is there throughout, at least once: \<open>left\<close> are the keys that an iteration has yet to
  return at a cursor, and \<open>rank\<close> bounds the calls that remain.
\<close>

locale redis_server =
  fixes rd :: "'s redis_client"
    and ok :: "'s \<Rightarrow> bool"
    and kv :: "'s \<Rightarrow> string \<rightharpoonup> string"
    and left :: "'s \<Rightarrow> 64 word \<Rightarrow> string set"
    and rank :: "'s \<Rightarrow> 64 word \<Rightarrow> nat"
    and glob :: "string \<Rightarrow> string \<Rightarrow> bool"
  assumes get: "ok s \<Longrightarrow> rd_Get rd k s = (s', r) \<Longrightarrow> ok s' \<and> kv s' = kv s \<and>
      (r = RNil \<longrightarrow> kv s k = None) \<and> (\<forall>v. r = RVal v \<longrightarrow> kv s k = Some v)"
    and set: "ok s \<Longrightarrow> rd_Set rd k v ttl s = (s', e) \<Longrightarrow> ok s' \<and>
      (kv s' = (kv s)(k \<mapsto> v) \<or> e \<noteq> None \<and> kv s' = kv s)"
    and set_nx: "ok s \<Longrightarrow> rd_SetNX rd k v ttl s = (s', r) \<Longrightarrow> ok s' \<and>
      (kv s k \<noteq> None \<longrightarrow> kv s' = kv s \<and> (\<forall>x. r \<noteq> RVal x)) \<and>
      (kv s k = None \<longrightarrow> r \<noteq> RNil \<and> (kv s' = (kv s)(k \<mapsto> v) \<or> kv s' = kv s \<and> (\<forall>x. r \<noteq> RVal x)))"
    and del: "ok s \<Longrightarrow> rd_Del rd k s = (s', e) \<Longrightarrow> ok s' \<and>
      (kv s' = (kv s)(k := None) \<or> e \<noteq> None \<and> kv s' = kv s)"
    and mget: "ok s \<Longrightarrow> rd_MGet rd ks s = (s', r2) \<Longrightarrow> ok s' \<and> kv s' = kv s \<and> left s' = left s \<and>
      rank s' = rank s \<and> (\<forall>vs. r2 = Inr vs \<longrightarrow> vs = map (kv s) ks)"
    and scan: "ok s \<Longrightarrow> rd_Scan rd c pat n s = (s', r3) \<Longrightarrow> ok s' \<and> kv s' = kv s \<and>
      (\<forall>ks c'. r3 = Inr (ks, c') \<longrightarrow>
         (\<forall>k \<in> set ks. glob pat k) \<and>
         (\<forall>k \<in> left s c. glob pat k \<longrightarrow> k \<in> set ks \<or> c' \<noteq> 0 \<and> k \<in> left s' c') \<and>
         (c' \<noteq> 0 \<longrightarrow> rank s' c' < rank s c))"
    and scan_start: "ok s \<Longrightarrow> dom (kv s) \<subseteq> left s 0"
    and glob_prefix: "list_all plain_char pre \<Longrightarrow> glob (pre @ ''*'') k \<longleftrightarrow> prefix pre k"
    and pipeline: "ok s \<Longrightarrow> rd_Pipeline rd cmds s = (s', e) \<Longrightarrow> ok s' \<and>
      (e = None \<longrightarrow> kv s' = fold run_cmd cmds (kv s)) \<and>
      (\<exists>done. set done \<subseteq> set cmds \<and> kv s' = fold run_cmd done (kv s))"
    and publish: "ok s \<Longrightarrow> ok (rd_Publish rd ch v s) \<and> kv (rd_Publish rd ch v s) = kv s"
    and eval: "ok s \<Longrightarrow> ok (fst (f s)) \<Longrightarrow> rd_Eval rd f s = (s', r4) \<Longrightarrow> ok s' \<and>
      (kv s' = kv (fst (f s)) \<or> kv s' = kv s \<and> (\<exists>e. r4 = Inl e))"
    and call_get: "ok s \<Longrightarrow> rd_call_get rd k s = kv s k"
    and call_del: "ok s \<Longrightarrow> ok (fst (rd_call_del rd k s)) \<and> kv (fst (rd_call_del rd k s)) = (kv s)(k := None)"
    and ping: "ok s \<Longrightarrow> ok (fst (rd_Ping rd s)) \<and> kv (fst (rd_Ping rd s)) = kv s"
begin

lemma page_scores_set:
  "set (page_scores cd vals) = {Some d |d. \<exists>v. Some v \<in> set vals \<and> parse_score cd v = Inr d}"
  by (induction vals) (auto simp: page_scores_def map_filter_simps split: option.splits sum.splits)

lemma redis_page_result:
  assumes "ok s" "redis_page cd rd ks s = (s', r)"
  shows "ok s' \<and> kv s' = kv s \<and> left s' = left s \<and> rank s' = rank s \<and>
    (\<forall>page. r = Inr page \<longrightarrow>
       set page = {Some d |d. \<exists>k v. k \<in> set ks \<and> kv s k = Some v \<and> parse_score cd v = Inr d})"
proof (cases "ks = []")
  case True
  then show ?thesis using assms by (auto simp: redis_page_def)
next
  case False
  obtain s1 r1 where m: "rd_MGet rd ks s = (s1, r1)" by fastforce
  have "Some v \<in> kv s ` set ks \<longleftrightarrow> (\<exists>k \<in> set ks. kv s k = Some v)" for v by (metis imageE imageI)
  then show ?thesis
    using assms False m mget [OF assms(1) m]
    by (cases r1) (auto simp: redis_page_def page_scores_set, blast+)
qed

lemma scan_loop_ends:
  assumes "ok s"
  shows "\<exists>s' r. scan_loop cd rd pat c acc s = Some (s', r) \<and> ok s' \<and> kv s' = kv s \<and>
    (\<forall>out. r = Inr out \<longrightarrow>
       set acc \<union> entries cd (glob pat) (kv s) (left s c) \<subseteq> set out \<and>
       set out \<subseteq> set acc \<union> entries cd (glob pat) (kv s) UNIV)"
  using assms
proof (induction "rank s c" arbitrary: s c acc rule: less_induct)
  case less
  obtain s1 r1 where sc: "rd_Scan rd c pat 100 s = (s1, r1)" by fastforce
  note s1 = scan [OF less.prems sc]
  show ?case
  proof (cases r1)
    case (Inl e)
    then show ?thesis using sc s1 by (subst scan_loop.simps) auto
  next
    case (Inr kc)
    obtain ks c' where kc: "kc = (ks, c')" by (cases kc)
    obtain s2 r2 where pg: "redis_page cd rd ks s1 = (s2, r2)" by fastforce
    have s1ok: "ok s1" using s1 by simp
    note s2 = redis_page_result [OF s1ok pg]
    show ?thesis
    proof (cases r2)
      case (Inl e)
      then show ?thesis using sc s1 s2 pg Inr kc by (subst scan_loop.simps) auto
    next
      case page: (Inr page)
      have P: "set page = {Some d |d. \<exists>k v. k \<in> set ks \<and> kv s k = Some v \<and> parse_score cd v = Inr d}"
        using s1 s2 page by simp
      have sub: "set page \<subseteq> entries cd (glob pat) (kv s) UNIV"
        using P s1 Inr kc by (auto simp: entries_def) blast
      show ?thesis
      proof (cases "c' = 0")
        case True
        have "entries cd (glob pat) (kv s) (left s c) \<subseteq> set page"
          using P s1 Inr kc True by (auto simp: entries_def) blast
        then have "set acc \<union> entries cd (glob pat) (kv s) (left s c) \<subseteq> set (acc @ page)"
          "set (acc @ page) \<subseteq> set acc \<union> entries cd (glob pat) (kv s) UNIV"
          using sub by auto
        moreover have "scan_loop cd rd pat c acc s = Some (s2, Inr (acc @ page))"
          using sc pg Inr kc page True by (subst scan_loop.simps) simp
        moreover have "ok s2" "kv s2 = kv s" using s1 s2 by simp_all
        ultimately show ?thesis by (metis sum.inject(2))
      next
        case False
        have "rank s2 c' < rank s c" "ok s2" using s1 s2 Inr kc False by auto
        from less.hyps [OF this, of "acc @ page"] obtain s3 r3 where
          r3: "scan_loop cd rd pat c' (acc @ page) s2 = Some (s3, r3)" "ok s3" "kv s3 = kv s2"
          "\<And>out. r3 = Inr out \<Longrightarrow> set (acc @ page) \<union> entries cd (glob pat) (kv s2) (left s2 c') \<subseteq> set out \<and>
             set out \<subseteq> set (acc @ page) \<union> entries cd (glob pat) (kv s2) UNIV"
          by blast
        have e: "kv s2 = kv s" using s1 s2 by simp
        have "entries cd (glob pat) (kv s) (left s c) \<subseteq> set page \<union> entries cd (glob pat) (kv s) (left s2 c')"
          using P s1 s2 Inr kc False by (auto simp: entries_def) blast
        then have "set acc \<union> entries cd (glob pat) (kv s) (left s c) \<subseteq> set out \<and>
            set out \<subseteq> set acc \<union> entries cd (glob pat) (kv s) UNIV" if "r3 = Inr out" for out
          using r3(4) [OF that] sub e by auto
        moreover have "scan_loop cd rd pat c acc s = Some (s3, r3)"
          using sc pg Inr kc page False r3(1) by (subst scan_loop.simps) simp
        ultimately show ?thesis using r3(2,3) s1 s2 by auto
      qed
    qed
  qed
qed

end

subsection \<open>The contract of the store\<close>

definition text_view ::
  "json_codec \<Rightarrow> string \<Rightarrow> (string \<rightharpoonup> string) \<Rightarrow> string \<rightharpoonup> provider_score_data" where
  "text_view cd pre m n =
     (case m (pre @ ''score:'' @ n) of
        None \<Rightarrow> None
      | Some v \<Rightarrow> (case parse_score cd v of Inl _ \<Rightarrow> None | Inr d \<Rightarrow> Some d))"

definition redis_view ::
  "json_codec \<Rightarrow> ('s \<Rightarrow> string \<rightharpoonup> string) \<Rightarrow> 's redis_store \<Rightarrow> string \<rightharpoonup> provider_score_data" where
  "redis_view cd kv r = text_view cd (rds_keyPrefix r) (kv (rds_client r))"

definition redis_lat :: "json_codec \<Rightarrow> ('s \<Rightarrow> string \<rightharpoonup> string) \<Rightarrow> 's redis_store \<Rightarrow> latency_stats_data option" where
  "redis_lat cd kv r =
     (case kv (rds_client r) (latencyKey r) of
        None \<Rightarrow> None
      | Some v \<Rightarrow> (case parse_latency cd v of Inl _ \<Rightarrow> None | Inr l \<Rightarrow> Some l))"

text \<open>The key of a score holds the text of a score of that name, and no score has the empty name.\<close>

definition keys_ok :: "json_codec \<Rightarrow> string \<Rightarrow> (string \<rightharpoonup> string) \<Rightarrow> bool" where
  "keys_ok cd pre m \<longleftrightarrow>
     (\<forall>n v. m (pre @ ''score:'' @ n) = Some v \<longrightarrow> n \<noteq> '''' \<and> (\<exists>d. parse_score cd v = Inr d \<and> pd_Name d = n)) \<and>
     (\<forall>v. m (pre @ ''latency'') = Some v \<longrightarrow> (\<exists>l. parse_latency cd v = Inr l))"

definition redis_inv ::
  "json_codec \<Rightarrow> ('s \<Rightarrow> bool) \<Rightarrow> ('s \<Rightarrow> string \<rightharpoonup> string) \<Rightarrow> 's redis_store \<Rightarrow> bool" where
  "redis_inv cd ok kv r \<longleftrightarrow>
     ok (rds_client r) \<and> list_all plain_char (rds_keyPrefix r) \<and> keys_ok cd (rds_keyPrefix r) (kv (rds_client r))"

lemmas key_defs = scoreKey_def latencyKey_def lockKey_def

lemma redis_view_client:
  "kv s = kv (rds_client r) \<Longrightarrow> redis_view cd kv (r\<lparr>rds_client := s, rds_publishing := ps\<rparr>) = redis_view cd kv r"
  "kv s = kv (rds_client r) \<Longrightarrow> redis_view cd kv (r\<lparr>rds_client := s\<rparr>) = redis_view cd kv r"
  "kv s = kv (rds_client r) \<Longrightarrow> redis_lat cd kv (r\<lparr>rds_client := s\<rparr>) = redis_lat cd kv r"
  by (auto simp: redis_view_def redis_lat_def key_defs)

lemma redis_inv_client:
  "redis_inv cd ok kv r \<Longrightarrow> ok s \<Longrightarrow> keys_ok cd (rds_keyPrefix r) (kv s) \<Longrightarrow>
     redis_inv cd ok kv (r\<lparr>rds_client := s\<rparr>) \<and> redis_inv cd ok kv (r\<lparr>rds_client := s, rds_publishing := ps\<rparr>)"
  by (simp add: redis_inv_def)

lemma keys_ok_delete: "keys_ok cd pre m \<Longrightarrow> keys_ok cd pre (m(k := None))"
  by (simp add: keys_ok_def)

text \<open>Keys that expire do no harm.\<close>

lemma keys_ok_expire: "keys_ok cd pre m \<Longrightarrow> m' \<subseteq>\<^sub>m m \<Longrightarrow> keys_ok cd pre m'"
  unfolding keys_ok_def map_le_def by (metis domI)

locale redis_scores = redis_server rd ok kv left rank glob + faithful_codec cd
  for rd :: "'s redis_client" and ok :: "'s \<Rightarrow> bool" and kv left rank glob cd
begin

lemma keys_ok_score:
  assumes "keys_ok cd pre m" "json_Marshal (score_json cd d) = Inr v" "pd_Name d \<noteq> ''''"
  shows "keys_ok cd pre (m(pre @ ''score:'' @ pd_Name d \<mapsto> v))"
  using assms parse_marshal_score [OF assms(2)] by (auto simp: keys_ok_def)

lemma keys_ok_latency:
  assumes "keys_ok cd pre m" "json_Marshal (latency_json cd l) = Inr v"
  shows "keys_ok cd pre (m(pre @ ''latency'' \<mapsto> v))"
  using assms parse_marshal_latency [OF assms(2)] by (auto simp: keys_ok_def)

lemma get_contract:
  assumes "redis_inv cd ok kv r" "redis_GetScore cd rd n r = (r', res)"
  shows "redis_inv cd ok kv r' \<and> redis_view cd kv r' = redis_view cd kv r \<and> redis_lat cd kv r' = redis_lat cd kv r \<and>
    (\<forall>x. res = Inr x \<longrightarrow> x = redis_view cd kv r n)"
proof -
  obtain s reply where g: "rd_Get rd (scoreKey r n) (rds_client r) = (s, reply)" by fastforce
  have o: "ok (rds_client r)" "keys_ok cd (rds_keyPrefix r) (kv (rds_client r))"
    using assms(1) by (simp_all add: redis_inv_def)
  note s = get [OF o(1) g]
  have r': "r' = r\<lparr>rds_client := s\<rparr>"
    using assms(2) g by (auto simp: redis_GetScore_def split: redis_reply.splits)
  have "x = redis_view cd kv r n" if "res = Inr x" for x
    using assms(2) g s that
    by (auto simp: redis_GetScore_def redis_view_def text_view_def scoreKey_def split: redis_reply.splits sum.splits)
  then show ?thesis
    using redis_inv_client [OF assms(1), of s] s o(2) by (simp add: r' redis_view_client)
qed

lemma set_contract:
  assumes "redis_inv cd ok kv r" "redis_write cd rd what ttl sd r = (r', e)"
  shows "redis_inv cd ok kv r' \<and> redis_lat cd kv r' = redis_lat cd kv r \<and>
    (redis_view cd kv r' = score_put sd (redis_view cd kv r) \<or> e \<noteq> None \<and> redis_view cd kv r' = redis_view cd kv r)"
proof (cases "\<exists>d v. sd = Some d \<and> pd_Name d \<noteq> '''' \<and> json_Marshal (score_json cd d) = Inr v")
  case False
  then have "r' = r \<and> (score_put sd (redis_view cd kv r) = redis_view cd kv r \<or> e \<noteq> None)"
    using assms(2) by (auto simp: redis_write_def split: option.splits if_splits sum.splits)
  then show ?thesis using assms(1) by auto
next
  case True
  then obtain d v where d: "sd = Some d" "pd_Name d \<noteq> ''''" "json_Marshal (score_json cd d) = Inr v" by blast
  obtain s e' where w: "rd_Set rd (scoreKey r (pd_Name d)) v ttl (rds_client r) = (s, e')" by fastforce
  have o: "ok (rds_client r)" "keys_ok cd (rds_keyPrefix r) (kv (rds_client r))"
    using assms(1) by (simp_all add: redis_inv_def)
  note s = set [OF o(1) w]
  have k: "keys_ok cd (rds_keyPrefix r) (kv s)"
    using s o(2) keys_ok_score [OF o(2) d(3,2)] by (auto simp: scoreKey_def)
  define ps where "ps = (if e' = None then rds_publishing r @ [v] else rds_publishing r)"
  have r': "r' = r\<lparr>rds_client := s, rds_publishing := ps\<rparr>" "e \<noteq> None \<longleftrightarrow> e' \<noteq> None"
    using assms(2) d w by (cases e'; cases r; auto simp: redis_write_def ps_def)+
  have "redis_view cd kv r' = score_put sd (redis_view cd kv r)" if "kv s = (kv (rds_client r))(scoreKey r (pd_Name d) \<mapsto> v)"
    using that d parse_marshal_score [OF d(3)] by (auto simp: r' redis_view_def text_view_def key_defs fun_eq_iff)
  moreover have "redis_lat cd kv r' = redis_lat cd kv r"
    using s by (auto simp: r' redis_lat_def key_defs)
  ultimately show ?thesis
    using s r'(2) redis_inv_client [OF assms(1), of s ps] k redis_view_client(1) [of kv s r cd ps] by (auto simp: r'(1))
qed

lemma del_contract:
  assumes "redis_inv cd ok kv r" "redis_DeleteScore rd n r = (r', e)"
  shows "redis_inv cd ok kv r' \<and> redis_lat cd kv r' = redis_lat cd kv r \<and>
    (redis_view cd kv r' = (redis_view cd kv r)(n := None) \<or> e \<noteq> None \<and> redis_view cd kv r' = redis_view cd kv r)"
proof -
  obtain s e' where w: "rd_Del rd (scoreKey r n) (rds_client r) = (s, e')" by fastforce
  have o: "ok (rds_client r)" "keys_ok cd (rds_keyPrefix r) (kv (rds_client r))"
    using assms(1) by (simp_all add: redis_inv_def)
  note s = del [OF o(1) w]
  have r': "r' = r\<lparr>rds_client := s\<rparr>" "e \<noteq> None \<longleftrightarrow> e' \<noteq> None"
    using assms(2) w by (auto simp: redis_DeleteScore_def)
  have "keys_ok cd (rds_keyPrefix r) (kv s)" using s o(2) keys_ok_delete by auto
  moreover have "redis_view cd kv r' = (redis_view cd kv r)(n := None)" if "kv s = (kv (rds_client r))(scoreKey r n := None)"
    using that by (auto simp: r' redis_view_def text_view_def key_defs fun_eq_iff)
  moreover have "redis_lat cd kv r' = redis_lat cd kv r" using s by (auto simp: r' redis_lat_def key_defs)
  ultimately show ?thesis
    using s r' redis_inv_client [OF assms(1), of s] redis_view_client(2) [of kv s r cd] by auto
qed

lemma entries_view:
  assumes "list_all plain_char pre" "dom m \<subseteq> K"
  shows "entries cd (glob (pre @ ''score:*'')) m K = Some ` ran (text_view cd pre m)"
proof -
  have g: "glob (pre @ ''score:*'') k \<longleftrightarrow> (\<exists>n. k = pre @ ''score:'' @ n)" for k
    using glob_prefix [of "pre @ ''score:''" k] assms(1) by (simp add: plain_char_def prefix_def)
  show ?thesis
  proof (intro equalityI subsetI)
    fix x assume "x \<in> entries cd (glob (pre @ ''score:*'')) m K"
    then obtain d n v where d: "x = Some d" "m (pre @ ''score:'' @ n) = Some v" "parse_score cd v = Inr d"
      by (auto simp: entries_def g)
    then have "text_view cd pre m n = Some d" by (simp add: text_view_def)
    then show "x \<in> Some ` ran (text_view cd pre m)" using d(1) by (auto simp: ran_def)
  next
    fix x assume "x \<in> Some ` ran (text_view cd pre m)"
    then obtain d n where d: "x = Some d" "text_view cd pre m n = Some d" by (auto simp: ran_def)
    then obtain v where v: "m (pre @ ''score:'' @ n) = Some v" "parse_score cd v = Inr d"
      by (auto simp: text_view_def split: option.splits sum.splits)
    moreover from v have "pre @ ''score:'' @ n \<in> K" using assms(2) by blast
    ultimately show "x \<in> entries cd (glob (pre @ ''score:*'')) m K"
      unfolding entries_def using g d(1) by blast
  qed
qed

lemma all_contract:
  assumes "redis_inv cd ok kv r"
  shows "\<exists>r' res. redis_GetAllScores cd rd r = Some (r', res) \<and> redis_inv cd ok kv r' \<and>
    redis_view cd kv r' = redis_view cd kv r \<and> redis_lat cd kv r' = redis_lat cd kv r \<and>
    (\<forall>sds. res = Inr sds \<longrightarrow> set sds = Some ` ran (redis_view cd kv r))"
proof -
  let ?s = "rds_client r" and ?pat = "glob (rds_keyPrefix r @ ''score:*'')"
  have o: "ok ?s" "list_all plain_char (rds_keyPrefix r)" "keys_ok cd (rds_keyPrefix r) (kv ?s)"
    using assms by (simp_all add: redis_inv_def)
  obtain s' res where l: "scan_loop cd rd (rds_keyPrefix r @ ''score:*'') 0 [] ?s = Some (s', res)" "ok s'" "kv s' = kv ?s"
    "\<And>out. res = Inr out \<Longrightarrow> entries cd ?pat (kv ?s) (left ?s 0) \<subseteq> set out \<and> set out \<subseteq> entries cd ?pat (kv ?s) UNIV"
    using scan_loop_ends [OF o(1), of cd "rds_keyPrefix r @ ''score:*''" 0 "[]"] by auto
  have "set sds = Some ` ran (redis_view cd kv r)" if "res = Inr sds" for sds
    using l(4) [OF that] entries_view [OF o(2) scan_start [OF o(1)]] entries_view [OF o(2) subset_UNIV, of "kv ?s"]
    by (simp add: redis_view_def subset_antisym)
  then show ?thesis
    using l(1-3) redis_inv_client [OF assms, of s'] o(3)
    by (simp add: redis_GetAllScores_def redis_view_client)
qed

lemma cmds_set:
  "redis_cmds cd r sds = Inr cmds \<Longrightarrow> c \<in> set cmds \<Longrightarrow>
   \<exists>d v ttl. c = SetCmd (scoreKey r (pd_Name d)) v ttl \<and> pd_Name d \<noteq> '''' \<and> json_Marshal (score_json cd d) = Inr v"
proof (induction cd r sds arbitrary: cmds rule: redis_cmds.induct)
  case (3 cd r d sds)
  then show ?case
    by (cases "pd_Name d = ''''"; cases "json_Marshal (score_json cd d)"; cases "redis_cmds cd r sds") (auto, blast)
qed auto

lemma cmds_view:
  "redis_cmds cd r sds = Inr cmds \<Longrightarrow>
   text_view cd (rds_keyPrefix r) (fold run_cmd cmds m) = fold score_put sds (text_view cd (rds_keyPrefix r) m)"
proof (induction sds arbitrary: cmds m)
  case (Cons sd sds)
  show ?case
  proof (cases "\<exists>d. sd = Some d \<and> pd_Name d \<noteq> ''''")
    case False
    then show ?thesis using Cons by (cases sd) auto
  next
    case True
    then obtain d v cs where d: "sd = Some d" "pd_Name d \<noteq> ''''" "json_Marshal (score_json cd d) = Inr v"
      "redis_cmds cd r sds = Inr cs" "cmds = SetCmd (scoreKey r (pd_Name d)) v (rc_ScoreTTL (rds_config r)) # cs"
      using Cons.prems by (auto split: sum.splits)
         (cases "redis_cmds cd r sds"; simp)
    have "text_view cd (rds_keyPrefix r) (m(scoreKey r (pd_Name d) \<mapsto> v)) =
        (text_view cd (rds_keyPrefix r) m)(pd_Name d \<mapsto> d)"
      using parse_marshal_score [OF d(3)] by (auto simp: text_view_def scoreKey_def fun_eq_iff)
    then show ?thesis using Cons.IH [OF d(4)] d(1,2,5) by (simp add: fun_upd_def)
  qed
qed simp

lemma done_keys:
  assumes "redis_cmds cd r sds = Inr cmds" "set done \<subseteq> set cmds" "keys_ok cd (rds_keyPrefix r) m"
  shows "keys_ok cd (rds_keyPrefix r) (fold run_cmd done m) \<and> fold run_cmd done m (latencyKey r) = m (latencyKey r)"
  using assms(2,3)
proof (induction "done" arbitrary: m)
  case (Cons c cs)
  obtain d v ttl where c: "c = SetCmd (scoreKey r (pd_Name d)) v ttl" "pd_Name d \<noteq> ''''"
    "json_Marshal (score_json cd d) = Inr v"
    using cmds_set [OF assms(1), of c] Cons.prems by auto
  then have "keys_ok cd (rds_keyPrefix r) (run_cmd c m)" "run_cmd c m (latencyKey r) = m (latencyKey r)"
    using keys_ok_score [OF Cons.prems(2) c(3,2)] by (simp_all add: key_defs)
  then show ?case using Cons.IH [of "run_cmd c m"] Cons.prems by simp
qed simp

lemma sets_contract:
  assumes "redis_inv cd ok kv r" "redis_SetScores cd rd sds r = (r', e)"
  shows "redis_inv cd ok kv r' \<and> redis_lat cd kv r' = redis_lat cd kv r \<and>
    (e = None \<longrightarrow> redis_view cd kv r' = fold score_put sds (redis_view cd kv r))"
proof (cases "redis_cmds cd r sds")
  case (Inl e')
  then show ?thesis using assms by (auto simp: redis_SetScores_def split: if_splits)
next
  case (Inr cmds)
  show ?thesis
  proof (cases "sds = []")
    case True
    then show ?thesis using assms by (simp add: redis_SetScores_def)
  next
    case False
    obtain s e' where x: "rd_Pipeline rd cmds (rds_client r) = (s, e')" by fastforce
    have o: "ok (rds_client r)" "keys_ok cd (rds_keyPrefix r) (kv (rds_client r))"
      using assms(1) by (simp_all add: redis_inv_def)
    obtain cs where s: "ok s" "e' = None \<longrightarrow> kv s = fold run_cmd cmds (kv (rds_client r))"
      "set cs \<subseteq> set cmds" "kv s = fold run_cmd cs (kv (rds_client r))"
      using pipeline [OF o(1) x] by blast
    have r': "r' = r\<lparr>rds_client := s\<rparr>" "e = None \<longleftrightarrow> e' = None"
      using assms(2) False Inr x by (auto simp: redis_SetScores_def)
    have "redis_lat cd kv r' = redis_lat cd kv r"
      using done_keys [OF Inr s(3) o(2)] s(4) by (simp add: r' redis_lat_def latencyKey_def)
    then show ?thesis
      using redis_inv_client [OF assms(1) s(1)] done_keys [OF Inr s(3) o(2)] s(2,4) cmds_view [OF Inr]
      by (simp add: r' redis_view_def)
  qed
qed

lemma lat_contract:
  assumes "redis_inv cd ok kv r" "redis_GetLatencyStats cd rd r = (r', res)"
  shows "redis_inv cd ok kv r' \<and> redis_view cd kv r' = redis_view cd kv r \<and> redis_lat cd kv r' = redis_lat cd kv r \<and>
    (\<forall>x. res = Inr x \<longrightarrow> x = redis_lat cd kv r)"
proof -
  obtain s reply where g: "rd_Get rd (latencyKey r) (rds_client r) = (s, reply)" by fastforce
  have o: "ok (rds_client r)" "keys_ok cd (rds_keyPrefix r) (kv (rds_client r))"
    using assms(1) by (simp_all add: redis_inv_def)
  note s = get [OF o(1) g]
  have r': "r' = r\<lparr>rds_client := s\<rparr>"
    using assms(2) g by (auto simp: redis_GetLatencyStats_def split: redis_reply.splits)
  have "x = redis_lat cd kv r" if "res = Inr x" for x
    using assms(2) g s that
    by (auto simp: redis_GetLatencyStats_def redis_lat_def split: redis_reply.splits sum.splits)
  then show ?thesis
    using redis_inv_client [OF assms(1), of s] s o(2) by (simp add: r' redis_view_client)
qed

lemma set_lat_contract:
  assumes "redis_inv cd ok kv r" "redis_SetLatencyStats cd rd ld r = (r', e)"
  shows "redis_inv cd ok kv r' \<and> redis_view cd kv r' = redis_view cd kv r \<and>
    (\<forall>l. ld = Some l \<and> e = None \<longrightarrow> redis_lat cd kv r' = Some l)"
proof (cases "\<exists>l v. ld = Some l \<and> json_Marshal (latency_json cd l) = Inr v")
  case False
  then have "r' = r \<and> (ld = None \<or> e \<noteq> None)"
    using assms(2) by (auto simp: redis_SetLatencyStats_def split: option.splits sum.splits)
  then show ?thesis using assms(1) by auto
next
  case True
  then obtain l v where l: "ld = Some l" "json_Marshal (latency_json cd l) = Inr v" by blast
  obtain s e' where w: "rd_Set rd (latencyKey r) v (rc_ScoreTTL (rds_config r)) (rds_client r) = (s, e')" by fastforce
  have o: "ok (rds_client r)" "keys_ok cd (rds_keyPrefix r) (kv (rds_client r))"
    using assms(1) by (simp_all add: redis_inv_def)
  note s = set [OF o(1) w]
  have r': "r' = r\<lparr>rds_client := s\<rparr>" "e = None \<longleftrightarrow> e' = None"
    using assms(2) l w by (auto simp: redis_SetLatencyStats_def)
  have "keys_ok cd (rds_keyPrefix r) (kv s)"
    using s o(2) keys_ok_latency [OF o(2) l(2)] by (auto simp: latencyKey_def)
  moreover have "redis_view cd kv r' = redis_view cd kv r"
    using s by (auto simp: r' redis_view_def text_view_def key_defs fun_eq_iff)
  moreover have "redis_lat cd kv r' = Some l" if "e = None"
    using that s r'(2) parse_marshal_latency [OF l(2)] by (simp add: r'(1) redis_lat_def latencyKey_def)
  ultimately show ?thesis using s redis_inv_client [OF assms(1), of s] l(1) by (simp add: r'(1))
qed

lemma view_contract: "redis_inv cd ok kv r \<Longrightarrow> redis_view cd kv r n = Some d \<Longrightarrow> pd_Name d = n \<and> n \<noteq> ''''"
  by (fastforce simp: redis_inv_def redis_view_def text_view_def keys_ok_def split: option.splits sum.splits)

lemma redis_contract: "score_store (redis_ops cd rd) (redis_inv cd ok kv) (redis_view cd kv) (redis_lat cd kv)"
proof
  fix r :: "'s redis_store" and sds
  assume i: "redis_inv cd ok kv r"
  obtain r' res where a: "redis_GetAllScores cd rd r = Some (r', res)" "redis_inv cd ok kv r'"
    "redis_view cd kv r' = redis_view cd kv r" "redis_lat cd kv r' = redis_lat cd kv r"
    "\<And>sds. res = Inr sds \<Longrightarrow> set sds = Some ` ran (redis_view cd kv r)"
    using all_contract [OF i] by blast
  then show "redis_inv cd ok kv (fst (so_GetAllScores (redis_ops cd rd) r))"
    "redis_view cd kv (fst (so_GetAllScores (redis_ops cd rd) r)) = redis_view cd kv r \<and>
     redis_lat cd kv (fst (so_GetAllScores (redis_ops cd rd) r)) = redis_lat cd kv r"
    "snd (so_GetAllScores (redis_ops cd rd) r) = Inr sds \<Longrightarrow> set sds = Some ` ran (redis_view cd kv r)"
    by (simp_all add: redis_ops_def)
next
  fix r :: "'s redis_store" and n d sd sds ld
  assume i: "redis_inv cd ok kv r"
  note g = get_contract [OF i prod.collapse [symmetric], of n]
  note w = set_contract [OF i prod.collapse [symmetric], of "''redis set: ''" "rc_ScoreTTL (rds_config r)" sd]
  note d = del_contract [OF i prod.collapse [symmetric], of n]
  note l = lat_contract [OF i prod.collapse [symmetric]]
  note u = set_lat_contract [OF i prod.collapse [symmetric], of ld]
  show "redis_inv cd ok kv (fst (so_GetScore (redis_ops cd rd) n r))"
    "\<And>res. snd (so_GetScore (redis_ops cd rd) n r) = Inr res \<Longrightarrow> res = redis_view cd kv r n"
    "redis_view cd kv (fst (so_GetScore (redis_ops cd rd) n r)) = redis_view cd kv r \<and>
     redis_lat cd kv (fst (so_GetScore (redis_ops cd rd) n r)) = redis_lat cd kv r"
    using g by (simp_all add: redis_ops_def)
  show "redis_inv cd ok kv (fst (so_SetScore (redis_ops cd rd) sd r))"
    "snd (so_SetScore (redis_ops cd rd) sd r) = None \<Longrightarrow>
     redis_view cd kv (fst (so_SetScore (redis_ops cd rd) sd r)) = score_put sd (redis_view cd kv r) \<and>
     redis_lat cd kv (fst (so_SetScore (redis_ops cd rd) sd r)) = redis_lat cd kv r"
    using w by (simp_all add: redis_ops_def redis_SetScore_def)
  show "redis_inv cd ok kv (fst (so_DeleteScore (redis_ops cd rd) n r))"
    "snd (so_DeleteScore (redis_ops cd rd) n r) = None \<Longrightarrow>
     redis_view cd kv (fst (so_DeleteScore (redis_ops cd rd) n r)) = (redis_view cd kv r)(n := None) \<and>
     redis_lat cd kv (fst (so_DeleteScore (redis_ops cd rd) n r)) = redis_lat cd kv r"
    using d by (simp_all add: redis_ops_def)
  show "redis_inv cd ok kv (fst (so_GetLatencyStats (redis_ops cd rd) r))"
    "\<And>res. snd (so_GetLatencyStats (redis_ops cd rd) r) = Inr res \<Longrightarrow> res = redis_lat cd kv r"
    "redis_view cd kv (fst (so_GetLatencyStats (redis_ops cd rd) r)) = redis_view cd kv r \<and>
     redis_lat cd kv (fst (so_GetLatencyStats (redis_ops cd rd) r)) = redis_lat cd kv r"
    using l by (simp_all add: redis_ops_def)
  show "redis_inv cd ok kv (fst (so_SetLatencyStats (redis_ops cd rd) ld r))"
    "redis_view cd kv (fst (so_SetLatencyStats (redis_ops cd rd) ld r)) = redis_view cd kv r"
    using u by (simp_all add: redis_ops_def)
  show "\<And>l. snd (so_SetLatencyStats (redis_ops cd rd) (Some l) r) = None \<Longrightarrow>
     redis_lat cd kv (fst (so_SetLatencyStats (redis_ops cd rd) (Some l) r)) = Some l"
    using set_lat_contract [OF i prod.collapse [symmetric]] by (simp add: redis_ops_def)
  show "redis_view cd kv r n = Some d \<Longrightarrow> pd_Name d = n \<and> n \<noteq> ''''" for d
    using view_contract [OF i] .
  show "so_SetScores (redis_ops cd rd) sds r = Returns (r', e) \<Longrightarrow> redis_inv cd ok kv r'" for r' e
    using sets_contract [OF i, of sds r' e] by (simp add: redis_ops_def)
  show "so_SetScores (redis_ops cd rd) sds r = Returns (r', None) \<Longrightarrow>
    redis_view cd kv r' = fold score_put sds (redis_view cd kv r) \<and> redis_lat cd kv r' = redis_lat cd kv r" for r'
    using sets_contract [OF i, of sds r' None] by (simp add: redis_ops_def)
qed

end

sublocale redis_scores \<subseteq> red: score_store "redis_ops cd rd" "redis_inv cd ok kv" "redis_view cd kv" "redis_lat cd kv"
  by (rule redis_contract)

end
