(* ===== verification/Redis_Penalty.thy ===== *)
theory Redis_Penalty
  imports Redis_Laws
begin

text \<open>
  \<open>scoring/store/redis_penalty.go\<close>: the penalty history in Redis lists, newest at the tail.
\<close>

record 's redis_penalty_store =
  rps_client :: 's
  rps_config :: redis_penalty_config
  rps_keyPrefix :: string

definition redis_penalty_defaults :: "redis_penalty_config \<Rightarrow> redis_penalty_config" where
  "redis_penalty_defaults c =
     c\<lparr>rp_PoolSize := (if rp_PoolSize c = 0 then 10 else rp_PoolSize c),
       rp_MinIdleConns := (if rp_MinIdleConns c = 0 then 2 else rp_MinIdleConns c),
       rp_TTL := (if rp_TTL c = 0 then 7 * 24 * hour else rp_TTL c),
       rp_MaxEntriesPerProvider := (if rp_MaxEntriesPerProvider c = 0 then 500 else rp_MaxEntriesPerProvider c)\<rparr>"

definition NewRedisPenaltyStore ::
  "(redis_penalty_config \<Rightarrow> 's) \<Rightarrow> 's redis_client \<Rightarrow> redis_penalty_config \<Rightarrow> goerror + 's redis_penalty_store" where
  "NewRedisPenaltyStore NewClient rd config =
     (let c = redis_penalty_defaults config
      in case rd_Ping rd (NewClient c) of
           (_, Some e) \<Rightarrow> Inl (wrap_error ''redis penalty store: connection failed: '' e)
         | (s, None) \<Rightarrow>
             Inr \<lparr>rps_client = s, rps_config = c, rps_keyPrefix = redis_key_prefix (rp_KeyPrefix c)\<rparr>)"

definition penaltyKey :: "'s redis_penalty_store \<Rightarrow> string \<Rightarrow> string" where
  "penaltyKey r providerName = rps_keyPrefix r @ ''penalty:'' @ providerName"

definition redis_Append ::
  "json_codec \<Rightarrow> 's redis_client \<Rightarrow> penalty_record_data option \<Rightarrow> 's redis_penalty_store \<Rightarrow>
   's redis_penalty_store \<times> goerror option" where
  "redis_Append cd rd record r =
     (case record of
        None \<Rightarrow> (r, None)
      | Some p \<Rightarrow>
          if prd_ProviderName p = '''' then (r, None)
          else
            (case json_Marshal (penalty_json cd p) of
               Inl e \<Rightarrow> (r, Some (wrap_error ''redis penalty store: marshal: '' e))
             | Inr b \<Rightarrow>
                 let key = penaltyKey r (prd_ProviderName p)
                 in case rd_Pipeline rd
                           [RPushCmd key b, LTrimCmd key (- rp_MaxEntriesPerProvider (rps_config r)) (- 1),
                            ExpireCmd key (rp_TTL (rps_config r))] (rps_client r) of
                      (s, e) \<Rightarrow>
                        (r\<lparr>rps_client := s\<rparr>, map_option (wrap_error ''redis penalty store: append pipeline: '') e)))"

text \<open>A reply with an error carries no values, so the first test answers before the error is seen.\<close>

definition redis_GetRecent ::
  "json_codec \<Rightarrow> 's redis_client \<Rightarrow> string \<Rightarrow> int \<Rightarrow> 's redis_penalty_store \<Rightarrow>
   's redis_penalty_store \<times> (goerror + penalty_record_data list)" where
  "redis_GetRecent cd rd providerName n r =
     (if n \<le> 0 then (r, Inr [])
      else
        (case rd_LRange rd (penaltyKey r providerName) (- n) (- 1) (rps_client r) of
           (s, reply) \<Rightarrow>
             (r\<lparr>rps_client := s\<rparr>,
              let vals = (case reply of RVal vs \<Rightarrow> vs | _ \<Rightarrow> [])
              in if reply = RNil \<or> vals = [] then Inr []
                 else
                   (case reply of
                      RErr e \<Rightarrow> Inl (wrap_error ''redis penalty store: lrange: '' e)
                    | _ \<Rightarrow>
                        Inr (List.map_filter
                               (\<lambda>v. case parse_penalty cd v of Inl _ \<Rightarrow> None | Inr rec \<Rightarrow> Some rec) vals)))))"

definition redis_penalty_ops :: "json_codec \<Rightarrow> 's redis_client \<Rightarrow> 's redis_penalty_store penalty_store_ops" where
  "redis_penalty_ops cd rd =
     \<lparr>po_Append = redis_Append cd rd, po_GetRecent = redis_GetRecent cd rd,
      po_PurgeOld = (\<lambda>_ r. (r, None)),
      po_Close = (\<lambda>r. case rd_Close rd (rps_client r) of (s, e) \<Rightarrow> (r\<lparr>rps_client := s\<rparr>, e)),
      po_Ping = (\<lambda>r. case rd_Ping rd (rps_client r) of (s, e) \<Rightarrow> (r\<lparr>rps_client := s\<rparr>, e)),
      po_Name = ''redis_penalty''\<rparr>"

subsection \<open>Lists on the server\<close>

text \<open>\<open>LRANGE\<close>, and what \<open>LTRIM\<close> keeps: a negative index counts from the end.\<close>

definition redis_range :: "'a list \<Rightarrow> int \<Rightarrow> int \<Rightarrow> 'a list" where
  "redis_range xs a b =
     (let n = int (length xs);
          i = max 0 (if a < 0 then n + a else a);
          j = min (n - 1) (if b < 0 then n + b else b)
      in if i > j then [] else take (nat (j - i + 1)) (drop (nat i) xs))"

lemma redis_range_lastn: "0 < n \<Longrightarrow> redis_range xs (- n) (- 1) = lastn (nat n) xs"
  by (cases "int (length xs) \<le> n") (auto simp: redis_range_def lastn_def Let_def nat_diff_distrib' split: if_splits)

fun run_list :: "redis_cmd \<Rightarrow> (string \<Rightarrow> string list) \<Rightarrow> (string \<Rightarrow> string list)" where
  "run_list (RPushCmd k v) f = f(k := f k @ [v])"
| "run_list (LTrimCmd k a b) f = f(k := redis_range (f k) a b)"
| "run_list _ f = f"

locale redis_lists =
  fixes rd :: "'s redis_client"
    and ok :: "'s \<Rightarrow> bool"
    and lval :: "'s \<Rightarrow> string \<Rightarrow> string list"
  assumes pipeline_lists: "ok s \<Longrightarrow> rd_Pipeline rd cmds s = (s', e) \<Longrightarrow> ok s' \<and>
      (e = None \<longrightarrow> lval s' = fold run_list cmds (lval s))"
    and lrange: "ok s \<Longrightarrow> rd_LRange rd k a b s = (s', r) \<Longrightarrow> ok s' \<and> lval s' = lval s \<and>
      (r = RNil \<longrightarrow> lval s k = []) \<and> (\<forall>vs. r = RVal vs \<longrightarrow> vs = redis_range (lval s k) a b)"

text \<open>Appending records one after the other, up to the first error.\<close>

fun append_all ::
  "json_codec \<Rightarrow> 's redis_client \<Rightarrow> penalty_record_data list \<Rightarrow> 's redis_penalty_store \<Rightarrow>
   's redis_penalty_store \<times> goerror option" where
  "append_all cd rd [] r = (r, None)"
| "append_all cd rd (p # ps) r =
     (case redis_Append cd rd (Some p) r of
        (r', None) \<Rightarrow> append_all cd rd ps r'
      | (r', Some e) \<Rightarrow> (r', Some e))"

text \<open>The entries of a list are the texts of the given records.\<close>

definition texts_of :: "json_codec \<Rightarrow> string list \<Rightarrow> penalty_record_data list \<Rightarrow> bool" where
  "texts_of cd = list_all2 (\<lambda>b p. parse_penalty cd b = Inr p)"

lemma texts_of_lastn: "texts_of cd bs ps \<Longrightarrow> texts_of cd (lastn n bs) (lastn n ps)"
  by (auto simp: texts_of_def lastn_def list_all2_lengthD intro: list_all2_dropI)

lemma texts_of_parse:
  "texts_of cd bs ps \<Longrightarrow>
   List.map_filter (\<lambda>v. case parse_penalty cd v of Inl _ \<Rightarrow> None | Inr rec \<Rightarrow> Some rec) bs = ps"
  unfolding texts_of_def by (induction rule: list_all2_induct) (simp_all add: map_filter_simps)

lemma lastn_lastn: "lastn a (lastn b xs) = lastn (min a b) xs"
proof -
  have "length xs - (length xs - b + min a b) + (length xs - b) = length xs - min a b" by linarith
  then show ?thesis by (auto simp: lastn_def min_def split: if_splits)
qed

locale redis_penalties = redis_lists rd ok lval + faithful_codec cd
  for rd :: "'s redis_client" and ok lval cd
begin

text \<open>The list of a provider holds the texts of records.\<close>

lemma append_list:
  assumes "ok (rps_client r)" "0 < rp_MaxEntriesPerProvider (rps_config r)"
    and "redis_Append cd rd (Some p) r = (r', None)" "prd_ProviderName p \<noteq> ''''"
  shows "\<exists>b. json_Marshal (penalty_json cd p) = Inr b \<and> ok (rps_client r') \<and> rps_config r' = rps_config r \<and>
    rps_keyPrefix r' = rps_keyPrefix r \<and>
    lval (rps_client r') = (lval (rps_client r))(penaltyKey r (prd_ProviderName p) :=
      lastn (nat (rp_MaxEntriesPerProvider (rps_config r))) (lval (rps_client r) (penaltyKey r (prd_ProviderName p)) @ [b]))"
proof -
  obtain b where b: "json_Marshal (penalty_json cd p) = Inr b"
    using assms(3,4) by (auto simp: redis_Append_def split: sum.splits)
  let ?k = "penaltyKey r (prd_ProviderName p)"
  let ?cmds = "[RPushCmd ?k b, LTrimCmd ?k (- rp_MaxEntriesPerProvider (rps_config r)) (- 1),
     ExpireCmd ?k (rp_TTL (rps_config r))]"
  obtain s where x: "rd_Pipeline rd ?cmds (rps_client r) = (s, None)" "r' = r\<lparr>rps_client := s\<rparr>"
    using assms(3,4) b by (auto simp: redis_Append_def Let_def split: prod.splits)
  show ?thesis
    using pipeline_lists [OF assms(1) x(1)] b by (simp add: x(2) redis_range_lastn [OF assms(2)])
qed

lemma append_all_list:
  assumes "append_all cd rd ps r = (r', None)" "ok (rps_client r)"
    and "0 < rp_MaxEntriesPerProvider (rps_config r)" "n \<noteq> ''''"
    and "texts_of cd (lval (rps_client r) (penaltyKey r n)) qs"
    and "length qs \<le> nat (rp_MaxEntriesPerProvider (rps_config r))"
  shows "ok (rps_client r') \<and> rps_config r' = rps_config r \<and> penaltyKey r' = penaltyKey r \<and>
    texts_of cd (lval (rps_client r') (penaltyKey r n))
      (lastn (nat (rp_MaxEntriesPerProvider (rps_config r))) (qs @ filter (\<lambda>p. prd_ProviderName p = n) ps))"
  using assms
proof (induction ps arbitrary: r qs)
  case Nil
  then show ?case by (simp add: lastn_short)
next
  case (Cons p ps)
  let ?M = "nat (rp_MaxEntriesPerProvider (rps_config r))"
  obtain r1 where a: "redis_Append cd rd (Some p) r = (r1, None)" "append_all cd rd ps r1 = (r', None)"
    using Cons.prems(1) by (auto split: prod.splits option.splits)
  show ?case
  proof (cases "prd_ProviderName p = ''''")
    case True
    then show ?thesis using a Cons by (auto simp: redis_Append_def)
  next
    case False
    obtain b where b: "json_Marshal (penalty_json cd p) = Inr b" "ok (rps_client r1)" "rps_config r1 = rps_config r"
      "rps_keyPrefix r1 = rps_keyPrefix r"
      "lval (rps_client r1) = (lval (rps_client r))(penaltyKey r (prd_ProviderName p) :=
        lastn ?M (lval (rps_client r) (penaltyKey r (prd_ProviderName p)) @ [b]))"
      using append_list [OF Cons.prems(2,3) a(1) False] by blast
    have k: "penaltyKey r1 = penaltyKey r" using b(4) by (auto simp: penaltyKey_def fun_eq_iff)
    have k2: "penaltyKey r n = penaltyKey r (prd_ProviderName p) \<longleftrightarrow> n = prd_ProviderName p"
      by (simp add: penaltyKey_def)
    let ?qs = "if prd_ProviderName p = n then lastn ?M (qs @ [p]) else qs"
    have "texts_of cd (lval (rps_client r) (penaltyKey r n) @ [b]) (qs @ [p])"
      using Cons.prems(5) parse_marshal_penalty [OF b(1)] by (simp add: texts_of_def list_all2_appendI)
    then have "texts_of cd (lval (rps_client r1) (penaltyKey r1 n)) ?qs"
      using texts_of_lastn Cons.prems(5) k k2 b(5) by auto
    moreover have "length ?qs \<le> nat (rp_MaxEntriesPerProvider (rps_config r1))"
      using Cons.prems(6) b(3) by simp
    ultimately have "ok (rps_client r') \<and> rps_config r' = rps_config r1 \<and> penaltyKey r' = penaltyKey r1 \<and>
      texts_of cd (lval (rps_client r') (penaltyKey r1 n))
        (lastn (nat (rp_MaxEntriesPerProvider (rps_config r1))) (?qs @ filter (\<lambda>p. prd_ProviderName p = n) ps))"
      using Cons.IH [OF a(2) b(2) _ Cons.prems(4)] Cons.prems(3) b(3) by simp
    then show ?thesis using b(3) k by (auto simp: lastn_append_lastn)
  qed
qed

end

end
