(* ===== verification/Redis_Memory.thy ===== *)
theory Redis_Memory
  imports Redis_Penalty
begin

text \<open>
  A Redis server in memory, on which the laws of \<open>redis_server\<close> and \<open>redis_lists\<close> hold, and the
  properties of the Redis stores.
\<close>

subsection \<open>A server in memory\<close>

record mini_redis =
  mr_strings :: "(string \<times> string) list"
  mr_lists :: "(string \<times> string list) list"

abbreviation mini_kv :: "mini_redis \<Rightarrow> string \<rightharpoonup> string" where
  "mini_kv s \<equiv> map_of (mr_strings s)"

definition mini_list :: "mini_redis \<Rightarrow> string \<Rightarrow> string list" where
  "mini_list s k = the_default [] (map_of (mr_lists s) k)"

fun glob_match :: "string \<Rightarrow> string \<Rightarrow> bool" where
  "glob_match [] s \<longleftrightarrow> s = []"
| "glob_match (p # ps) [] \<longleftrightarrow> p = CHR ''*'' \<and> glob_match ps []"
| "glob_match (p # ps) (c # cs) \<longleftrightarrow>
     (if p = CHR ''*'' then glob_match ps (c # cs) \<or> glob_match (p # ps) cs
      else (p = CHR ''?'' \<or> p = c) \<and> glob_match ps cs)"

fun mini_cmd :: "redis_cmd \<Rightarrow> mini_redis \<Rightarrow> mini_redis" where
  "mini_cmd (SetCmd k v _) s = s\<lparr>mr_strings := AList.update k v (mr_strings s)\<rparr>"
| "mini_cmd (RPushCmd k v) s = s\<lparr>mr_lists := AList.update k (mini_list s k @ [v]) (mr_lists s)\<rparr>"
| "mini_cmd (LTrimCmd k a b) s = s\<lparr>mr_lists := AList.update k (redis_range (mini_list s k) a b) (mr_lists s)\<rparr>"
| "mini_cmd (ExpireCmd k _) s = s"

definition mini_client :: "mini_redis redis_client" where
  "mini_client =
     \<lparr>rd_Ping = (\<lambda>s. (s, None)), rd_Close = (\<lambda>s. (s, None)),
      rd_Get = (\<lambda>k s. (s, case mini_kv s k of None \<Rightarrow> RNil | Some v \<Rightarrow> RVal v)),
      rd_Set = (\<lambda>k v _ s. (s\<lparr>mr_strings := AList.update k v (mr_strings s)\<rparr>, None)),
      rd_SetNX = (\<lambda>k v _ s.
        if mini_kv s k = None then (s\<lparr>mr_strings := AList.update k v (mr_strings s)\<rparr>, RVal ''OK'') else (s, RNil)),
      rd_Del = (\<lambda>k s. (s\<lparr>mr_strings := AList.delete k (mr_strings s)\<rparr>, None)),
      rd_Scan = (\<lambda>_ pat _ s. (s, Inr (filter (glob_match pat) (map fst (mr_strings s)), 0))),
      rd_MGet = (\<lambda>ks s. (s, Inr (map (mini_kv s) ks))),
      rd_Pipeline = (\<lambda>cmds s. (fold mini_cmd cmds s, None)),
      rd_LRange = (\<lambda>k a b s. (s, RVal (redis_range (mini_list s k) a b))),
      rd_Publish = (\<lambda>_ _ s. s),
      rd_Eval = (\<lambda>f s. case f s of (s', n) \<Rightarrow> (s', Inr n)),
      rd_call_get = (\<lambda>k s. mini_kv s k),
      rd_call_del = (\<lambda>k s. (s\<lparr>mr_strings := AList.delete k (mr_strings s)\<rparr>, 1))\<rparr>"

lemma glob_star: "glob_match ''*'' s"
  by (induction s) simp_all

lemma glob_match_prefix: "list_all plain_char pre \<Longrightarrow> glob_match (pre @ ''*'') k \<longleftrightarrow> prefix pre k"
proof (induction pre arbitrary: k)
  case (Cons c pre)
  then show ?case by (cases k) (auto simp: plain_char_def)
qed (simp add: glob_star)

lemma mini_fold_kv: "mini_kv (fold mini_cmd cmds s) = fold run_cmd cmds (mini_kv s)"
proof (induction cmds arbitrary: s)
  case (Cons c cmds)
  have "mini_kv (mini_cmd c s) = run_cmd c (mini_kv s)" by (cases c) (simp_all add: update_conv')
  then show ?case using Cons by simp
qed simp

lemma mini_fold_list: "mini_list (fold mini_cmd cmds s) = fold run_list cmds (mini_list s)"
proof (induction cmds arbitrary: s)
  case (Cons c cmds)
  have "mini_list (mini_cmd c s) = run_list c (mini_list s)"
    by (cases c) (auto simp: mini_list_def update_conv' the_default_def fun_eq_iff)
  then show ?case using Cons by simp
qed simp

interpretation mini: redis_server mini_client "\<lambda>_. True" mini_kv "\<lambda>s _. dom (mini_kv s)" "\<lambda>_ _. 0" glob_match
  by unfold_locales
     (auto simp: mini_client_def update_conv' delete_conv' mini_fold_kv glob_match_prefix dom_map_of_conv_image_fst
       split: option.splits if_splits prod.splits)

interpretation mini_lists: redis_lists mini_client "\<lambda>_. True" mini_list
  by unfold_locales (auto simp: mini_client_def mini_fold_list)

interpretation mini_scores: redis_scores mini_client "\<lambda>_. True" mini_kv "\<lambda>s _. dom (mini_kv s)" "\<lambda>_ _. 0" glob_match whole_codec
  by unfold_locales

interpretation mini_penalties: redis_penalties mini_client "\<lambda>_. True" mini_list whole_codec
  by unfold_locales

subsection \<open>The contract of a score store\<close>

text \<open>
  C18: The Redis store keeps the contract of a score store. With a server that behaves as
  documented and a faithful JSON codec, a read returns what the last successful write left,
  deletions and batches act on exactly their keys, and listing all scores terminates and gives
  exactly the stored ones, possibly with repetitions, however the server pages its scan.
\<close>

theorem redis_keeps_contract:
  assumes "redis_server rd ok kv left rank glob" "faithful_codec cd"
  shows "score_store (redis_ops cd rd) (redis_inv cd ok kv) (redis_view cd kv) (redis_lat cd kv) \<and>
    (\<forall>r. redis_inv cd ok kv r \<longrightarrow> redis_GetAllScores cd rd r \<noteq> None)"
proof -
  have r: "redis_scores rd ok kv left rank glob cd" by (intro redis_scores.intro assms)
  then show ?thesis
    using redis_scores.redis_contract [OF r] redis_scores.all_contract [OF r] by blast
qed

definition mini_store :: "mini_redis \<Rightarrow> mini_redis redis_store" where
  "mini_store s =
     \<lparr>rds_client = s, rds_config = \<lparr>rc_Addr = '''', rc_Password = '''', rc_DB = 0, rc_PoolSize = 10, rc_MinIdleConns = 2,
        rc_ScoreTTL = 0, rc_KeyPrefix = ''''\<rparr>,
      rds_keyPrefix = defaultRedisKeyPrefix, rds_publishing = []\<rparr>"

abbreviation empty_redis :: mini_redis where
  "empty_redis \<equiv> \<lparr>mr_strings = [], mr_lists = []\<rparr>"

theorem redis_keeps_contract_witness:
  "score_store (redis_ops whole_codec mini_client) (redis_inv whole_codec (\<lambda>_. True) mini_kv)
     (redis_view whole_codec mini_kv) (redis_lat whole_codec mini_kv) \<and>
   redis_inv whole_codec (\<lambda>_. True) mini_kv (mini_store empty_redis) \<and>
   redis_GetAllScores whole_codec mini_client (mini_store empty_redis) \<noteq> None"
proof -
  have i: "redis_inv whole_codec (\<lambda>_. True) mini_kv (mini_store empty_redis)"
    by (simp add: redis_inv_def keys_ok_def mini_store_def plain_char_def)
  then show ?thesis
    using redis_keeps_contract [OF mini.redis_server_axioms whole.faithful_codec_axioms] by blast
qed

subsection \<open>Locks\<close>

text \<open>
  C19: A lock excludes the others. Once \<open>Lock\<close> has returned with a value, and until the key
  expires, every other \<open>Lock\<close> for the same provider fails and changes nothing; an \<open>unlock\<close> of a
  holder with another value, whose lock has expired in the meantime, leaves the lock alone; and
  the \<open>unlock\<close> of the holder releases it, if the server executes the script.
\<close>

theorem redis_lock_exclusive:
  assumes "redis_server rd ok kv left rank glob" "ok (rds_client r)"
    and "redis_Lock rd t p ttl r = (r1, Inr v)"
  shows "kv (rds_client r1) (lockKey r p) = Some v \<and>
    (\<exists>r2 e. redis_Lock rd t2 p ttl2 r1 = (r2, Inl e) \<and> kv (rds_client r2) = kv (rds_client r1)) \<and>
    (v2 \<noteq> v \<longrightarrow> kv (rds_client (redis_unlock rd p v2 r1)) = kv (rds_client r1)) \<and>
    (\<forall>x. snd (rd_Eval rd (unlock_script rd (lockKey r p) v) (rds_client r1)) = Inr x \<longrightarrow>
       kv (rds_client (redis_unlock rd p v r1)) = (kv (rds_client r1))(lockKey r p := None))"
proof -
  let ?k = "lockKey r p"
  obtain s reply where n: "rd_SetNX rd ?k (Itoa t) ttl (rds_client r) = (s, RVal reply)"
    and r1: "r1 = r\<lparr>rds_client := s\<rparr>" "v = Itoa t"
    using assms(3) by (auto simp: redis_Lock_def Let_def split: prod.splits redis_reply.splits if_splits)
  have s: "ok s" "kv s ?k = Some v"
    using redis_server.set_nx [OF assms(1,2) n] r1(2) by (auto split: if_splits)
  have k: "lockKey r1 p = ?k" by (simp add: r1 lockKey_def)
  obtain s2 reply2 where n2: "rd_SetNX rd ?k (Itoa t2) ttl2 s = (s2, reply2)" by fastforce
  have "kv s2 = kv s" "\<forall>x. reply2 \<noteq> RVal x"
    using redis_server.set_nx [OF assms(1) s(1) n2] s(2) by auto
  then have "\<exists>r2 e. redis_Lock rd t2 p ttl2 r1 = (r2, Inl e) \<and> kv (rds_client r2) = kv (rds_client r1)"
    using n2 by (cases reply2) (simp_all add: redis_Lock_def Let_def r1(1) k [unfolded r1(1)])
  moreover have script: "ok (fst (unlock_script rd ?k w s))"
    "kv (fst (unlock_script rd ?k w s)) = (if w = v then (kv s)(?k := None) else kv s)" for w
    using redis_server.call_get [OF assms(1) s(1)] redis_server.call_del [OF assms(1) s(1)] s
    by (auto simp: unlock_script_def)
  have e: "kv (fst (rd_Eval rd (unlock_script rd ?k w) s)) = kv (fst (unlock_script rd ?k w s)) \<or>
      kv (fst (rd_Eval rd (unlock_script rd ?k w) s)) = kv s \<and> (\<exists>x. snd (rd_Eval rd (unlock_script rd ?k w) s) = Inl x)" for w
    using redis_server.eval [where f = "unlock_script rd ?k w", OF assms(1) s(1) script(1) prod.collapse [symmetric]] by blast
  have "kv (rds_client (redis_unlock rd p v2 r1)) = kv (rds_client r1)" if "v2 \<noteq> v"
    using e [of v2] script(2) [of v2] that by (auto simp: redis_unlock_def k r1(1) k [unfolded r1(1)])
  moreover have "kv (rds_client (redis_unlock rd p v r1)) = (kv (rds_client r1))(?k := None)"
    if "snd (rd_Eval rd (unlock_script rd ?k v) (rds_client r1)) = Inr x" for x
    using e [of v] script(2) [of v] that by (auto simp: redis_unlock_def r1(1) k [unfolded r1(1)])
  ultimately show ?thesis using s(2) r1(1) by simp
qed

definition locked_redis :: mini_redis where
  "locked_redis = \<lparr>mr_strings = [(defaultRedisKeyPrefix @ ''lock:a'', ''7'')], mr_lists = []\<rparr>"

lemma mini_locks: "redis_Lock mini_client 7 ''a'' 100 (mini_store empty_redis) = (mini_store locked_redis, Inr ''7'')"
  by (simp add: redis_Lock_def mini_client_def mini_store_def lockKey_def Itoa_def itoa_nat.simps digit_char_def
      locked_redis_def Let_def)

theorem redis_lock_exclusive_witness:
  "\<exists>r e. redis_Lock mini_client 8 ''a'' 100 (mini_store locked_redis) = (r, Inl e) \<and>
     mini_kv (rds_client r) = mini_kv (rds_client (mini_store locked_redis))"
  using redis_lock_exclusive [OF mini.redis_server_axioms TrueI mini_locks, where ?t2.0 = 8 and ?ttl2.0 = 100] by blast

subsection \<open>The penalty history\<close>

text \<open>
  C23: The penalty history in Redis is the last records that were appended. After any sequence of
  successful appends to a history that starts empty, \<open>GetRecent\<close> for a provider gives the last
  records appended for that provider, oldest first: as many as were asked for, and at most
  \<open>MaxEntriesPerProvider\<close>. The hypothesis that the server answers the read is needed, because
  an error of \<open>LRANGE\<close> is reported as an empty history.
\<close>

theorem redis_recent_penalties:
  assumes "redis_lists rd ok lval" "faithful_codec cd" "ok (rps_client r)"
    and "0 < rp_MaxEntriesPerProvider (rps_config r)" "n \<noteq> ''''" "lval (rps_client r) (penaltyKey r n) = []"
    and "append_all cd rd ps r = (r', None)" "0 < want"
    and "\<And>e. snd (rd_LRange rd (penaltyKey r' n) (- want) (- 1) (rps_client r')) \<noteq> RErr e"
  shows "snd (redis_GetRecent cd rd n want r') =
    Inr (lastn (nat (min want (rp_MaxEntriesPerProvider (rps_config r)))) (filter (\<lambda>p. prd_ProviderName p = n) ps))"
proof -
  have pen: "redis_penalties rd ok lval cd" by (intro redis_penalties.intro assms(1,2))
  let ?M = "nat (rp_MaxEntriesPerProvider (rps_config r))" and ?ps = "filter (\<lambda>p. prd_ProviderName p = n) ps"
  have a: "ok (rps_client r')" "penaltyKey r' = penaltyKey r"
    "texts_of cd (lval (rps_client r') (penaltyKey r n)) (lastn ?M ?ps)"
    using redis_penalties.append_all_list [OF pen assms(7,3,4,5), of "[]"] assms(6) by (auto simp: texts_of_def)
  obtain s reply where l: "rd_LRange rd (penaltyKey r' n) (- want) (- 1) (rps_client r') = (s, reply)" by fastforce
  have "min (nat want) ?M = nat (min want (rp_MaxEntriesPerProvider (rps_config r)))" by (simp add: min_def)
  then have "texts_of cd (lastn (nat want) (lval (rps_client r') (penaltyKey r n))) (lastn (nat (min want (rp_MaxEntriesPerProvider (rps_config r)))) ?ps)"
    using texts_of_lastn [OF a(3), of "nat want"] assms(4,8) by (simp add: lastn_lastn)
  note t = this texts_of_parse [OF this]
  show ?thesis
    using redis_lists.lrange [OF assms(1) a(1) l] t assms(8,9) l a(2)
    by (cases reply) (auto simp: redis_GetRecent_def redis_range_lastn map_filter_simps texts_of_def Let_def)
qed

definition demo_penalty :: "real \<Rightarrow> penalty_record_data" where
  "demo_penalty amount =
     \<lparr>prd_ProviderName = ''a'', prd_Category = ''error'', prd_Reason = '''', prd_Amount = amount, prd_CreatedAt = 5,
      prd_Metadata = Map.empty\<rparr>"

definition mini_penalty_store :: "mini_redis redis_penalty_store" where
  "mini_penalty_store =
     \<lparr>rps_client = empty_redis,
      rps_config = redis_penalty_defaults \<lparr>rp_Addr = '''', rp_Password = '''', rp_DB = 0, rp_KeyPrefix = '''', rp_TTL = 0,
        rp_MaxEntriesPerProvider = 0, rp_PoolSize = 0, rp_MinIdleConns = 0\<rparr>,
      rps_keyPrefix = defaultRedisKeyPrefix\<rparr>"

lemma mini_append: "a = of_int \<lfloor>a\<rfloor> \<Longrightarrow> \<exists>r'. redis_Append whole_codec mini_client (Some (demo_penalty a)) r = (r', None)"
  by (simp add: redis_Append_def demo_penalty_def penalty_json_def whole_codec_def json_Marshal_def
      metadata_json_def mini_client_def Let_def del: json_text.simps)

lemma mini_appends: "\<exists>r. append_all whole_codec mini_client [demo_penalty 1, demo_penalty 2] mini_penalty_store = (r, None)"
proof -
  obtain r1 where r1: "redis_Append whole_codec mini_client (Some (demo_penalty 1)) mini_penalty_store = (r1, None)"
    using mini_append [of 1] by auto
  obtain r2 where "redis_Append whole_codec mini_client (Some (demo_penalty 2)) r1 = (r2, None)"
    using mini_append [of 2] by auto
  with r1 show ?thesis by simp
qed

theorem redis_recent_penalties_witness:
  "snd (redis_GetRecent whole_codec mini_client ''a'' 1
     (fst (append_all whole_codec mini_client [demo_penalty 1, demo_penalty 2] mini_penalty_store))) = Inr [demo_penalty 2]"
proof -
  obtain r where r: "append_all whole_codec mini_client [demo_penalty 1, demo_penalty 2] mini_penalty_store = (r, None)"
    using mini_appends by blast
  have "snd (redis_GetRecent whole_codec mini_client ''a'' 1 r) =
      Inr (lastn (nat (min 1 (rp_MaxEntriesPerProvider (rps_config mini_penalty_store))))
        (filter (\<lambda>p. prd_ProviderName p = ''a'') [demo_penalty 1, demo_penalty 2]))"
    by (rule redis_recent_penalties [OF mini_lists.redis_lists_axioms whole.faithful_codec_axioms _ _ _ _ r])
       (simp_all add: mini_penalty_store_def redis_penalty_defaults_def mini_list_def the_default_def mini_client_def)
  then show ?thesis
    unfolding r by (simp add: mini_penalty_store_def redis_penalty_defaults_def demo_penalty_def lastn_def)
qed

end
