(* ===== verification/Postgres_Store.thy ===== *)
theory Postgres_Store
  imports Store_Json Store_Registry
begin

text \<open>
  \<open>scoring/store/postgres.go\<close> and \<open>scoring/store/postgres_penalty.go\<close>: the stores on a PostgreSQL
  database. The pgx pool with the database behind it is a record of operations on a state \<open>'s\<close>,
  among them one for each statement of the code, and \<open>pgx.ErrNoRows\<close> is None. A row has the
  columns of its \<open>SELECT\<close>; a column that may be NULL is an option.
\<close>

record score_row =
  sr_provider_name :: string
  sr_base_score :: real
  sr_health_penalty :: real
  sr_latency_penalty :: real
  sr_error_penalty :: real
  sr_rate_limit_penalty :: real
  sr_total_operations :: int
  sr_successful_ops :: int
  sr_failed_ops :: int
  sr_last_health_check :: "gotime option"
  sr_last_operation :: "gotime option"
  sr_recent_latencies :: "string option"
  sr_updated_at :: gotime

record penalty_row =
  pr_provider_name :: string
  pr_category :: string
  pr_reason :: string
  pr_amount :: real
  pr_created_at :: gotime
  pr_metadata :: "string option"

text \<open>The statements, with the name of the table: schema, upserts, deletions and inserts.\<close>

datatype pg_stmt =
    CreateScoreTables string string
  | UpsertScore string score_row
  | DeleteScoreRow string string
  | UpsertLatency string string gotime
  | CreatePenaltyTable string
  | InsertPenalty string penalty_row
  | DeletePenaltiesBefore string gotime

text \<open>A query gives an error, or its rows, each scanned or with an error, and the error of \<open>rows.Err\<close>.\<close>

type_synonym 'r pg_rows = "goerror + (goerror + 'r) list \<times> goerror option"

record 's pg_pool =
  pg_ParseConfig :: "string \<Rightarrow> goerror option"
  pg_NewWithConfig :: "postgres_config \<Rightarrow> goerror + 's"
  pg_Ping :: "'s \<Rightarrow> 's \<times> goerror option"
  pg_Close :: "'s \<Rightarrow> 's"
  pg_Now :: "'s \<Rightarrow> gotime"
  pg_Exec :: "pg_stmt \<Rightarrow> 's \<Rightarrow> 's \<times> goerror option"
  pg_Begin :: "'s \<Rightarrow> 's \<times> goerror option"
  pg_TxExec :: "pg_stmt \<Rightarrow> 's \<Rightarrow> 's \<times> goerror option"
  pg_Commit :: "'s \<Rightarrow> 's \<times> goerror option"
  pg_Rollback :: "'s \<Rightarrow> 's"
  pg_QueryScore :: "string \<Rightarrow> string \<Rightarrow> 's \<Rightarrow> 's \<times> (goerror + score_row option)"
  pg_QueryScores :: "string \<Rightarrow> 's \<Rightarrow> 's \<times> score_row pg_rows"
  pg_QueryLatency :: "string \<Rightarrow> 's \<Rightarrow> 's \<times> (goerror + (string \<times> gotime) option)"
  pg_QueryPenalties :: "string \<Rightarrow> string \<Rightarrow> int \<Rightarrow> 's \<Rightarrow> 's \<times> penalty_row pg_rows"

record 's postgres_store =
  ps_pool :: 's
  ps_config :: postgres_config
  ps_tablePrefix :: string

subsection \<open>Opening\<close>

definition postgres_defaults :: "postgres_config \<Rightarrow> postgres_config" where
  "postgres_defaults c =
     c\<lparr>pc_MaxOpenConns := (if pc_MaxOpenConns c = 0 then 25 else pc_MaxOpenConns c),
       pc_MaxIdleConns := (if pc_MaxIdleConns c = 0 then 5 else pc_MaxIdleConns c),
       pc_ConnMaxLifetime := (if pc_ConnMaxLifetime c = 0 then 5 * minute else pc_ConnMaxLifetime c),
       pc_TablePrefix := (if pc_TablePrefix c = '''' then ''chainkit_'' else pc_TablePrefix c)\<rparr>"

definition scoresTable :: "'s postgres_store \<Rightarrow> string" where
  "scoresTable p = ps_tablePrefix p @ ''provider_scores''"

definition latencyTable :: "'s postgres_store \<Rightarrow> string" where
  "latencyTable p = ps_tablePrefix p @ ''latency_stats''"

definition pg_migrate :: "'s pg_pool \<Rightarrow> 's postgres_store \<Rightarrow> 's postgres_store \<times> goerror option" where
  "pg_migrate pg p =
     (case pg_Exec pg (CreateScoreTables (scoresTable p) (latencyTable p)) (ps_pool p) of
        (s, e) \<Rightarrow> (p\<lparr>ps_pool := s\<rparr>, map_option (wrap_error ''execute schema: '') e))"

definition NewPostgresStore :: "'s pg_pool \<Rightarrow> postgres_config \<Rightarrow> goerror + 's postgres_store" where
  "NewPostgresStore pg config =
     (let c = postgres_defaults config
      in case pg_ParseConfig pg (pc_ConnectionString c) of
           Some e \<Rightarrow> Inl (wrap_error ''parse connection string: '' e)
         | None \<Rightarrow>
             (case pg_NewWithConfig pg c of
                Inl e \<Rightarrow> Inl (wrap_error ''create connection pool: '' e)
              | Inr s0 \<Rightarrow>
                  (case pg_Ping pg s0 of
                     (_, Some e) \<Rightarrow> Inl (wrap_error ''ping postgres: '' e)
                   | (s1, None) \<Rightarrow>
                       (case pg_migrate pg \<lparr>ps_pool = s1, ps_config = c, ps_tablePrefix = pc_TablePrefix c\<rparr> of
                          (_, Some e) \<Rightarrow> Inl (wrap_error ''migration failed: '' e)
                        | (p, None) \<Rightarrow> Inr p))))"

definition postgres_Name :: string where
  "postgres_Name = ''postgres''"

subsection \<open>Rows\<close>

text \<open>A nil slice of latencies is written as \<open>null\<close>.\<close>

definition latencies_text :: "int list \<Rightarrow> string" where
  "latencies_text xs = json_text (if xs = [] then JNull else ints_json xs)"

definition nullable_time :: "gotime \<Rightarrow> gotime option" where
  "nullable_time t = (if t = 0 then None else Some t)"

definition score_to_row :: "gotime \<Rightarrow> provider_score_data \<Rightarrow> score_row" where
  "score_to_row now d =
     \<lparr>sr_provider_name = pd_Name d, sr_base_score = pd_BaseScore d, sr_health_penalty = pd_HealthPenalty d,
      sr_latency_penalty = pd_LatencyPenalty d, sr_error_penalty = pd_ErrorPenalty d,
      sr_rate_limit_penalty = pd_RateLimitPenalty d, sr_total_operations = pd_TotalOperations d,
      sr_successful_ops = pd_SuccessfulOps d, sr_failed_ops = pd_FailedOps d,
      sr_last_health_check = nullable_time (pd_LastHealthCheck d),
      sr_last_operation = nullable_time (pd_LastOperation d),
      sr_recent_latencies = Some (latencies_text (pd_RecentLatencies d)),
      sr_updated_at = (if pd_LastUpdated d = 0 then now else pd_LastUpdated d)\<rparr>"

definition row_to_score :: "(string \<Rightarrow> int list) \<Rightarrow> score_row \<Rightarrow> provider_score_data" where
  "row_to_score latencies w =
     \<lparr>pd_Name = sr_provider_name w, pd_BaseScore = sr_base_score w, pd_HealthPenalty = sr_health_penalty w,
      pd_LatencyPenalty = sr_latency_penalty w, pd_ErrorPenalty = sr_error_penalty w,
      pd_RateLimitPenalty = sr_rate_limit_penalty w, pd_TotalOperations = sr_total_operations w,
      pd_SuccessfulOps = sr_successful_ops w, pd_FailedOps = sr_failed_ops w,
      pd_LastUpdated = sr_updated_at w, pd_LastHealthCheck = the_default 0 (sr_last_health_check w),
      pd_LastOperation = the_default 0 (sr_last_operation w),
      pd_RecentLatencies =
        (case sr_recent_latencies w of None \<Rightarrow> [] | Some t \<Rightarrow> if t = '''' then [] else latencies t)\<rparr>"

text \<open>
  \<open>GetScore\<close> drops latencies that do not parse; \<open>GetAllScores\<close> ignores the error and keeps what
  was decoded.
\<close>

definition checked_latencies :: "string \<Rightarrow> int list" where
  "checked_latencies t = (case json_Unmarshal (dec_slice 0 dec_int64) [] t of Inl _ \<Rightarrow> [] | Inr xs \<Rightarrow> xs)"

definition partial_latencies :: "string \<Rightarrow> int list" where
  "partial_latencies t = (case text_value t of None \<Rightarrow> [] | Some v \<Rightarrow> fst (dec_slice 0 dec_int64 v []))"

subsection \<open>Scores\<close>

definition postgres_GetScore ::
  "'s pg_pool \<Rightarrow> string \<Rightarrow> 's postgres_store \<Rightarrow> 's postgres_store \<times> (goerror + provider_score_data option)" where
  "postgres_GetScore pg providerName p =
     (case pg_QueryScore pg (scoresTable p) providerName (ps_pool p) of
        (s, Inl e) \<Rightarrow> (p\<lparr>ps_pool := s\<rparr>, Inl (wrap_error ''query score: '' e))
      | (s, Inr None) \<Rightarrow> (p\<lparr>ps_pool := s\<rparr>, Inr None)
      | (s, Inr (Some w)) \<Rightarrow> (p\<lparr>ps_pool := s\<rparr>, Inr (Some (row_to_score checked_latencies w))))"

definition postgres_SetScore ::
  "'s pg_pool \<Rightarrow> provider_score_data option \<Rightarrow> 's postgres_store \<Rightarrow> 's postgres_store \<times> goerror option" where
  "postgres_SetScore pg sd p =
     (case sd of
        None \<Rightarrow> (p, None)
      | Some d \<Rightarrow>
          if pd_Name d = '''' then (p, None)
          else
            (case pg_Exec pg (UpsertScore (scoresTable p) (score_to_row (pg_Now pg (ps_pool p)) d)) (ps_pool p) of
               (s, e) \<Rightarrow> (p\<lparr>ps_pool := s\<rparr>, map_option (wrap_error ''upsert score: '') e)))"

fun scan_rows :: "string \<Rightarrow> ('r \<Rightarrow> 'd) \<Rightarrow> (goerror + 'r) list \<Rightarrow> goerror + 'd list" where
  "scan_rows what f [] = Inr []"
| "scan_rows what f (Inl e # _) = Inl (wrap_error what e)"
| "scan_rows what f (Inr w # rows) = map_sum id (\<lambda>ds. f w # ds) (scan_rows what f rows)"

definition postgres_GetAllScores ::
  "'s pg_pool \<Rightarrow> 's postgres_store \<Rightarrow> 's postgres_store \<times> (goerror + provider_score_data option list)" where
  "postgres_GetAllScores pg p =
     (case pg_QueryScores pg (scoresTable p) (ps_pool p) of
        (s, Inl e) \<Rightarrow> (p\<lparr>ps_pool := s\<rparr>, Inl (wrap_error ''query all scores: '' e))
      | (s, Inr (rows, rerr)) \<Rightarrow>
          (p\<lparr>ps_pool := s\<rparr>,
           case scan_rows ''scan row: '' (\<lambda>w. Some (row_to_score partial_latencies w)) rows of
             Inl e \<Rightarrow> Inl e
           | Inr ds \<Rightarrow> (case rerr of Some e \<Rightarrow> Inl (wrap_error ''rows iteration: '' e) | None \<Rightarrow> Inr ds)))"

definition postgres_DeleteScore ::
  "'s pg_pool \<Rightarrow> string \<Rightarrow> 's postgres_store \<Rightarrow> 's postgres_store \<times> goerror option" where
  "postgres_DeleteScore pg providerName p =
     (case pg_Exec pg (DeleteScoreRow (scoresTable p) providerName) (ps_pool p) of
        (s, e) \<Rightarrow> (p\<lparr>ps_pool := s\<rparr>, map_option (wrap_error ''delete score: '') e))"

fun tx_upserts ::
  "'s pg_pool \<Rightarrow> string \<Rightarrow> provider_score_data option list \<Rightarrow> 's \<Rightarrow> 's \<times> goerror option" where
  "tx_upserts pg table [] s = (s, None)"
| "tx_upserts pg table (None # sds) s = tx_upserts pg table sds s"
| "tx_upserts pg table (Some d # sds) s =
     (if pd_Name d = '''' then tx_upserts pg table sds s
      else
        (case pg_TxExec pg (UpsertScore table (score_to_row (pg_Now pg s) d)) s of
           (s', Some e) \<Rightarrow> (s', Some (wrap_error (''upsert score '' @ pd_Name d @ '': '') e))
         | (s', None) \<Rightarrow> tx_upserts pg table sds s'))"

text \<open>The deferred rollback runs on every return after \<open>Begin\<close>; after a commit it does nothing.\<close>

definition postgres_SetScores ::
  "'s pg_pool \<Rightarrow> provider_score_data option list \<Rightarrow> 's postgres_store \<Rightarrow> 's postgres_store \<times> goerror option" where
  "postgres_SetScores pg sds p =
     (if sds = [] then (p, None)
      else
        (case pg_Begin pg (ps_pool p) of
           (s, Some e) \<Rightarrow> (p\<lparr>ps_pool := s\<rparr>, Some (wrap_error ''begin transaction: '' e))
         | (s, None) \<Rightarrow>
             (case tx_upserts pg (scoresTable p) sds s of
                (s1, Some e) \<Rightarrow> (p\<lparr>ps_pool := pg_Rollback pg s1\<rparr>, Some e)
              | (s1, None) \<Rightarrow>
                  (case pg_Commit pg s1 of
                     (s2, e) \<Rightarrow>
                       (p\<lparr>ps_pool := pg_Rollback pg s2\<rparr>, map_option (wrap_error ''commit transaction: '') e)))))"

subsection \<open>Latency statistics\<close>

definition postgres_GetLatencyStats ::
  "'s pg_pool \<Rightarrow> 's postgres_store \<Rightarrow> 's postgres_store \<times> (goerror + latency_stats_data option)" where
  "postgres_GetLatencyStats pg p =
     (case pg_QueryLatency pg (latencyTable p) (ps_pool p) of
        (s, Inl e) \<Rightarrow> (p\<lparr>ps_pool := s\<rparr>, Inl (wrap_error ''query latency stats: '' e))
      | (s, Inr None) \<Rightarrow> (p\<lparr>ps_pool := s\<rparr>, Inr None)
      | (s, Inr (Some (samplesJSON, updatedAt))) \<Rightarrow>
          (p\<lparr>ps_pool := s\<rparr>,
           if samplesJSON = '''' then Inr (Some \<lparr>ld_ProviderSamples = Map.empty, ld_LastUpdated = updatedAt\<rparr>)
           else
             (case json_Unmarshal dec_samples Map.empty samplesJSON of
                Inl e \<Rightarrow> Inl (wrap_error ''unmarshal provider samples: '' e)
              | Inr m \<Rightarrow> Inr (Some \<lparr>ld_ProviderSamples = m, ld_LastUpdated = updatedAt\<rparr>))))"

definition postgres_SetLatencyStats ::
  "'s pg_pool \<Rightarrow> latency_stats_data option \<Rightarrow> 's postgres_store \<Rightarrow> 's postgres_store \<times> goerror option" where
  "postgres_SetLatencyStats pg ld p =
     (case ld of
        None \<Rightarrow> (p, None)
      | Some l \<Rightarrow>
          (case json_Marshal (samples_json (ld_ProviderSamples l)) of
             Inl e \<Rightarrow> (p, Some (wrap_error ''marshal provider samples: '' e))
           | Inr samplesJSON \<Rightarrow>
               (case pg_Exec pg
                       (UpsertLatency (latencyTable p) samplesJSON
                          (if ld_LastUpdated l = 0 then pg_Now pg (ps_pool p) else ld_LastUpdated l)) (ps_pool p) of
                  (s, e) \<Rightarrow> (p\<lparr>ps_pool := s\<rparr>, map_option (wrap_error ''upsert latency stats: '') e))))"

definition postgres_ops :: "'s pg_pool \<Rightarrow> 's postgres_store score_store_ops" where
  "postgres_ops pg =
     \<lparr>so_GetScore = postgres_GetScore pg, so_SetScore = postgres_SetScore pg,
      so_GetAllScores = postgres_GetAllScores pg, so_DeleteScore = postgres_DeleteScore pg,
      so_SetScores = (\<lambda>sds p. Returns (postgres_SetScores pg sds p)),
      so_GetLatencyStats = postgres_GetLatencyStats pg, so_SetLatencyStats = postgres_SetLatencyStats pg,
      so_Close = (\<lambda>p. (p\<lparr>ps_pool := pg_Close pg (ps_pool p)\<rparr>, None)),
      so_Ping = (\<lambda>p. case pg_Ping pg (ps_pool p) of (s, e) \<Rightarrow> (p\<lparr>ps_pool := s\<rparr>, e)),
      so_Name = postgres_Name\<rparr>"

subsection \<open>The penalty history\<close>

record 's postgres_penalty_store =
  pps_pool :: 's
  pps_tablePrefix :: string

definition tableName :: "'s postgres_penalty_store \<Rightarrow> string" where
  "tableName p = pps_tablePrefix p @ ''penalty_history''"

definition postgres_penalty_defaults :: "postgres_penalty_config \<Rightarrow> postgres_penalty_config" where
  "postgres_penalty_defaults c =
     c\<lparr>pp_TablePrefix := (if pp_TablePrefix c = '''' then ''chainkit_'' else pp_TablePrefix c),
       pp_MaxOpenConns := (if pp_MaxOpenConns c = 0 then 10 else pp_MaxOpenConns c),
       pp_ConnMaxLifetime := (if pp_ConnMaxLifetime c = 0 then 5 * minute else pp_ConnMaxLifetime c)\<rparr>"

text \<open>How the pool is made from the configuration is the argument \<open>newPool\<close>.\<close>

definition NewPostgresPenaltyStore ::
  "(postgres_penalty_config \<Rightarrow> goerror + 's) \<Rightarrow> 's pg_pool \<Rightarrow> postgres_penalty_config \<Rightarrow>
   goerror + 's postgres_penalty_store" where
  "NewPostgresPenaltyStore newPool pg config =
     (let c = postgres_penalty_defaults config
      in case pg_ParseConfig pg (pp_ConnectionString c) of
           Some e \<Rightarrow> Inl (wrap_error ''postgres penalty store: parse config: '' e)
         | None \<Rightarrow>
             (case newPool c of
                Inl e \<Rightarrow> Inl (wrap_error ''postgres penalty store: create pool: '' e)
              | Inr s0 \<Rightarrow>
                  (case pg_Ping pg s0 of
                     (_, Some e) \<Rightarrow> Inl (wrap_error ''postgres penalty store: ping: '' e)
                   | (s1, None) \<Rightarrow>
                       (case pg_Exec pg (CreatePenaltyTable (pp_TablePrefix c @ ''penalty_history'')) s1 of
                          (_, Some e) \<Rightarrow> Inl (wrap_error ''postgres penalty store: init schema: '' e)
                        | (s2, None) \<Rightarrow> Inr \<lparr>pps_pool = s2, pps_tablePrefix = pp_TablePrefix c\<rparr>))))"

text \<open>Metadata that cannot be marshalled is left out.\<close>

definition penalty_to_row :: "gotime \<Rightarrow> penalty_record_data \<Rightarrow> penalty_row" where
  "penalty_to_row now r =
     \<lparr>pr_provider_name = prd_ProviderName r, pr_category = prd_Category r, pr_reason = prd_Reason r,
      pr_amount = prd_Amount r, pr_created_at = (if prd_CreatedAt r = 0 then now else prd_CreatedAt r),
      pr_metadata = (if prd_Metadata r = Map.empty then None else map_option json_text (metadata_json (prd_Metadata r)))\<rparr>"

definition row_to_penalty :: "penalty_row \<Rightarrow> penalty_record_data" where
  "row_to_penalty w =
     \<lparr>prd_ProviderName = pr_provider_name w, prd_Category = pr_category w, prd_Reason = pr_reason w,
      prd_Amount = pr_amount w, prd_CreatedAt = pr_created_at w,
      prd_Metadata =
        (case pr_metadata w of
           None \<Rightarrow> Map.empty
         | Some t \<Rightarrow>
             if t = '''' then Map.empty
             else (case text_value t of None \<Rightarrow> Map.empty | Some v \<Rightarrow> fst (dec_metadata v Map.empty)))\<rparr>"

definition postgres_Append ::
  "'s pg_pool \<Rightarrow> penalty_record_data option \<Rightarrow> 's postgres_penalty_store \<Rightarrow> 's postgres_penalty_store \<times> goerror option" where
  "postgres_Append pg record p =
     (case record of
        None \<Rightarrow> (p, None)
      | Some r \<Rightarrow>
          if prd_ProviderName r = '''' then (p, None)
          else
            (case pg_Exec pg (InsertPenalty (tableName p) (penalty_to_row (pg_Now pg (pps_pool p)) r)) (pps_pool p) of
               (s, e) \<Rightarrow> (p\<lparr>pps_pool := s\<rparr>, map_option (wrap_error ''postgres penalty store: insert: '') e)))"

text \<open>The rows come newest first; the loop that exchanges the ends puts them in order.\<close>

definition postgres_GetRecent ::
  "'s pg_pool \<Rightarrow> string \<Rightarrow> int \<Rightarrow> 's postgres_penalty_store \<Rightarrow>
   's postgres_penalty_store \<times> (goerror + penalty_record_data list)" where
  "postgres_GetRecent pg providerName n p =
     (if n \<le> 0 then (p, Inr [])
      else
        (case pg_QueryPenalties pg (tableName p) providerName n (pps_pool p) of
           (s, Inl e) \<Rightarrow> (p\<lparr>pps_pool := s\<rparr>, Inl (wrap_error ''postgres penalty store: query: '' e))
         | (s, Inr (rows, rerr)) \<Rightarrow>
             (p\<lparr>pps_pool := s\<rparr>,
              case scan_rows ''postgres penalty store: scan: '' row_to_penalty rows of
                Inl e \<Rightarrow> Inl e
              | Inr buf \<Rightarrow>
                  (case rerr of
                     Some e \<Rightarrow> Inl (wrap_error ''postgres penalty store: rows: '' e)
                   | None \<Rightarrow> Inr (swap_ends 0 (length buf - 1) buf)))))"

definition postgres_PurgeOld ::
  "'s pg_pool \<Rightarrow> duration \<Rightarrow> 's postgres_penalty_store \<Rightarrow> 's postgres_penalty_store \<times> goerror option" where
  "postgres_PurgeOld pg retentionWindow p =
     (case pg_Exec pg (DeletePenaltiesBefore (tableName p) (pg_Now pg (pps_pool p) - retentionWindow)) (pps_pool p) of
        (s, e) \<Rightarrow> (p\<lparr>pps_pool := s\<rparr>, map_option (wrap_error ''postgres penalty store: purge: '') e))"

definition postgres_penalty_ops :: "'s pg_pool \<Rightarrow> 's postgres_penalty_store penalty_store_ops" where
  "postgres_penalty_ops pg =
     \<lparr>po_Append = postgres_Append pg, po_GetRecent = postgres_GetRecent pg, po_PurgeOld = postgres_PurgeOld pg,
      po_Close = (\<lambda>p. (p\<lparr>pps_pool := pg_Close pg (pps_pool p)\<rparr>, None)),
      po_Ping = (\<lambda>p. case pg_Ping pg (pps_pool p) of (s, e) \<Rightarrow> (p\<lparr>pps_pool := s\<rparr>, e)),
      po_Name = ''postgres_penalty''\<rparr>"

end
