(* ===== verification/Postgres_Laws.thy ===== *)
theory Postgres_Laws
  imports Postgres_Store "HOL-Library.Multiset"
begin

text \<open>
  What the PostgreSQL stores rely on of the database, as the locale \<open>pg_server\<close>, what they make of
  it, and a database in memory.
\<close>

subsection \<open>The database\<close>

record pg_tables =
  tb_scores :: "string \<Rightarrow> string \<rightharpoonup> score_row"
  tb_latency :: "string \<Rightarrow> (string \<times> gotime) option"
  tb_penalties :: "string \<Rightarrow> penalty_row list"

text \<open>
  A \<open>timestamptz\<close> column has a resolution of microseconds, and a \<open>jsonb\<close> column keeps the value of an
  array of integers and not its spelling (of an object it does not even keep the order of the keys): \<open>micros\<close> and \<open>jsonb\<close> say what is read back.
\<close>

definition norm_row :: "(gotime \<Rightarrow> gotime) \<Rightarrow> (string \<Rightarrow> string) \<Rightarrow> score_row \<Rightarrow> score_row" where
  "norm_row micros jsonb w =
     w\<lparr>sr_last_health_check := map_option micros (sr_last_health_check w),
       sr_last_operation := map_option micros (sr_last_operation w),
       sr_recent_latencies := map_option jsonb (sr_recent_latencies w),
       sr_updated_at := micros (sr_updated_at w)\<rparr>"

fun run_stmt :: "(gotime \<Rightarrow> gotime) \<Rightarrow> (string \<Rightarrow> string) \<Rightarrow> pg_stmt \<Rightarrow> pg_tables \<Rightarrow> pg_tables" where
  "run_stmt micros jsonb (UpsertScore t w) tb =
     tb\<lparr>tb_scores := (tb_scores tb)(t := (tb_scores tb t)(sr_provider_name w \<mapsto> norm_row micros jsonb w))\<rparr>"
| "run_stmt micros jsonb (DeleteScoreRow t n) tb =
     tb\<lparr>tb_scores := (tb_scores tb)(t := (tb_scores tb t)(n := None))\<rparr>"
| "run_stmt micros jsonb (UpsertLatency t v time) tb =
     tb\<lparr>tb_latency := (tb_latency tb)(t \<mapsto> (jsonb v, micros time))\<rparr>"
| "run_stmt micros jsonb (InsertPenalty t w) tb =
     tb\<lparr>tb_penalties := (tb_penalties tb)(t := tb_penalties tb t @ [w\<lparr>pr_created_at := micros (pr_created_at w)\<rparr>])\<rparr>"
| "run_stmt micros jsonb (DeletePenaltiesBefore t c) tb =
     tb\<lparr>tb_penalties := (tb_penalties tb)(t := filter (\<lambda>w. \<not> pr_created_at w < c) (tb_penalties tb t))\<rparr>"
| "run_stmt micros jsonb _ tb = tb"

text \<open>
  The documented behaviour: a statement is executed completely or, when it fails, either not at
  all or with its answer lost; a transaction is visible when it is committed, and not before; and a
  query returns the committed rows, in the order that it asks for.
\<close>

locale pg_server =
  fixes pg :: "'s pg_pool"
    and ok :: "'s \<Rightarrow> bool"
    and tables :: "'s \<Rightarrow> pg_tables"
    and pending :: "'s \<Rightarrow> pg_tables"
    and micros :: "gotime \<Rightarrow> gotime"
    and jsonb :: "string \<Rightarrow> string"
  assumes exec: "ok s \<Longrightarrow> pg_Exec pg st s = (s', e) \<Longrightarrow> ok s' \<and>
      (tables s' = run_stmt micros jsonb st (tables s) \<or> e \<noteq> None \<and> tables s' = tables s)"
    and start: "ok s \<Longrightarrow> pg_Begin pg s = (s', e) \<Longrightarrow> ok s' \<and> tables s' = tables s \<and>
      (e = None \<longrightarrow> pending s' = tables s)"
    and tx_exec: "ok s \<Longrightarrow> pg_TxExec pg st s = (s', e) \<Longrightarrow> ok s' \<and> tables s' = tables s \<and>
      (e = None \<longrightarrow> pending s' = run_stmt micros jsonb st (pending s))"
    and commit: "ok s \<Longrightarrow> pg_Commit pg s = (s', e) \<Longrightarrow> ok s' \<and>
      (tables s' = pending s \<or> e \<noteq> None \<and> tables s' = tables s)"
    and rollback: "ok s \<Longrightarrow> ok (pg_Rollback pg s) \<and> tables (pg_Rollback pg s) = tables s"
    and query_score: "ok s \<Longrightarrow> pg_QueryScore pg t n s = (s', r) \<Longrightarrow> ok s' \<and> tables s' = tables s \<and>
      (\<forall>w. r = Inr w \<longrightarrow> w = tb_scores (tables s) t n)"
    and query_scores: "ok s \<Longrightarrow> pg_QueryScores pg t s = (s', r2) \<Longrightarrow> ok s' \<and> tables s' = tables s \<and>
      (\<forall>ws. r2 = Inr (map Inr ws, None) \<longrightarrow> set ws = ran (tb_scores (tables s) t) \<and>
         sorted_wrt (\<lambda>a b. sr_base_score a \<ge> sr_base_score b) ws)"
    and query_penalties: "ok s \<Longrightarrow> pg_QueryPenalties pg t n c s = (s', r3) \<Longrightarrow> ok s' \<and> tables s' = tables s \<and>
      (\<forall>ws. r3 = Inr (map Inr ws, None) \<longrightarrow>
         (\<exists>all. mset all = mset (filter (\<lambda>w. pr_provider_name w = n) (tb_penalties (tables s) t)) \<and>
                sorted_wrt (\<lambda>a b. pr_created_at a \<ge> pr_created_at b) all \<and> ws = take (nat c) all))"
    and micros_exact: "time mod 1000 = 0 \<Longrightarrow> micros time = time"
    and micros_near: "\<bar>micros time - time\<bar> < 1000"
    and jsonb_value: "text_value (jsonb (latencies_text xs)) = text_value (latencies_text xs)"
begin

lemma exec_done: "ok s \<Longrightarrow> pg_Exec pg st s = (s', None) \<Longrightarrow> ok s' \<and> tables s' = run_stmt micros jsonb st (tables s)"
  using exec by blast

end

subsection \<open>Scores\<close>

text \<open>What the database gives back of a score: the times to the microsecond, and the time of writing for none.\<close>

definition stored_score :: "(gotime \<Rightarrow> gotime) \<Rightarrow> gotime \<Rightarrow> provider_score_data \<Rightarrow> provider_score_data" where
  "stored_score micros now d =
     d\<lparr>pd_LastUpdated := micros (if pd_LastUpdated d = 0 then now else pd_LastUpdated d),
       pd_LastHealthCheck := (if pd_LastHealthCheck d = 0 then 0 else micros (pd_LastHealthCheck d)),
       pd_LastOperation := (if pd_LastOperation d = 0 then 0 else micros (pd_LastOperation d))\<rparr>"

lemma latencies_text_value:
  "text_value (latencies_text xs) = Some (if xs = [] then JNull else ints_json xs)"
  using json_roundtrip [OF json_ok_ints] json_roundtrip [of JNull]
  by (simp only: latencies_text_def json_ok.simps simp_thms split: if_split)

lemma text_value_Nil: "text_value '''' = None"
  by code_simp

context pg_server
begin

lemma jsonb_latencies:
  assumes "list_all int64 xs"
  shows "checked_latencies (jsonb (latencies_text xs)) = xs" "partial_latencies (jsonb (latencies_text xs)) = xs"
    "jsonb (latencies_text xs) \<noteq> ''''"
proof -
  have v: "text_value (jsonb (latencies_text xs)) = Some (if xs = [] then JNull else ints_json xs)"
    by (simp add: jsonb_value latencies_text_value)
  have "dec_slice 0 dec_int64 (if xs = [] then JNull else ints_json xs) [] = (xs, True)"
    using dec_ints [OF assms] by (auto simp: dec_slice_def)
  then show "checked_latencies (jsonb (latencies_text xs)) = xs" "partial_latencies (jsonb (latencies_text xs)) = xs"
    unfolding checked_latencies_def partial_latencies_def v by (simp_all add: decoded_def)
  show "jsonb (latencies_text xs) \<noteq> ''''" using v text_value_Nil by auto
qed

lemma row_roundtrip:
  assumes "score_typed d"
  shows "row_to_score checked_latencies (norm_row micros jsonb (score_to_row now d)) = stored_score micros now d"
    "row_to_score partial_latencies (norm_row micros jsonb (score_to_row now d)) = stored_score micros now d"
  using jsonb_latencies [of "pd_RecentLatencies d"] assms
  by (simp_all add: row_to_score_def norm_row_def score_to_row_def stored_score_def score_typed_def nullable_time_def
      the_default_def)

end

text \<open>
  C21: A score comes back from PostgreSQL as it was stored, with its times to the microsecond. After a
  successful \<open>SetScore\<close>, \<open>GetScore\<close> for that name returns the score with every counter, penalty and
  latency sample; \<open>LastUpdated\<close> is the time of writing if it was not set. A score whose times are
  set and whole microseconds comes back unchanged, and other providers are not touched.
\<close>

theorem postgres_score_roundtrip:
  assumes "pg_server pg ok tables pending micros jsonb" "ok (ps_pool p)" "score_typed d" "pd_Name d \<noteq> ''''"
    and "postgres_SetScore pg (Some d) p = (p1, None)" "postgres_GetScore pg (pd_Name d) p1 = (p2, Inr x)"
  shows "x = Some (stored_score micros (pg_Now pg (ps_pool p)) d) \<and>
    (pd_LastUpdated d \<noteq> 0 \<and> pd_LastUpdated d mod 1000 = 0 \<and> pd_LastHealthCheck d mod 1000 = 0 \<and>
     pd_LastOperation d mod 1000 = 0 \<longrightarrow> x = Some d) \<and>
    (\<forall>n. n \<noteq> pd_Name d \<longrightarrow>
       tb_scores (tables (ps_pool p1)) (scoresTable p) n = tb_scores (tables (ps_pool p)) (scoresTable p) n)"
proof -
  let ?now = "pg_Now pg (ps_pool p)"
  obtain s where s: "pg_Exec pg (UpsertScore (scoresTable p) (score_to_row ?now d)) (ps_pool p) = (s, None)"
    "p1 = p\<lparr>ps_pool := s\<rparr>"
    using assms(4,5) by (auto simp: postgres_SetScore_def split: prod.splits)
  note t = pg_server.exec_done [OF assms(1,2) s(1)]
  obtain s2 r where q: "pg_QueryScore pg (scoresTable p) (pd_Name d) s = (s2, r)" by fastforce
  have "\<forall>w. r = Inr w \<longrightarrow> w = Some (norm_row micros jsonb (score_to_row ?now d))"
    using pg_server.query_score [OF assms(1) _ q] t by (simp add: score_to_row_def)
  then have x: "x = Some (stored_score micros ?now d)"
    using assms(6) q s(2) pg_server.row_roundtrip(1) [OF assms(1,3)]
    by (auto simp: postgres_GetScore_def scoresTable_def split: sum.splits option.splits)
  moreover have "stored_score micros ?now d = d"
    if "pd_LastUpdated d \<noteq> 0 \<and> pd_LastUpdated d mod 1000 = 0 \<and> pd_LastHealthCheck d mod 1000 = 0 \<and> pd_LastOperation d mod 1000 = 0"
    using that pg_server.micros_exact [OF assms(1)] by (simp add: stored_score_def)
  ultimately show ?thesis using t s(2) by (simp add: score_to_row_def)
qed

text \<open>The scores of a batch that are written, and their effect with the times at which the clock was read.\<close>

definition valid_scores :: "provider_score_data option list \<Rightarrow> provider_score_data list" where
  "valid_scores sds = [d. Some d \<leftarrow> sds, pd_Name d \<noteq> '''']"

definition upserts ::
  "(gotime \<Rightarrow> gotime) \<Rightarrow> (string \<Rightarrow> string) \<Rightarrow> string \<Rightarrow> (gotime \<times> provider_score_data) list \<Rightarrow> pg_tables \<Rightarrow> pg_tables" where
  "upserts micros jsonb t = fold (\<lambda>(now, d). run_stmt micros jsonb (UpsertScore t (score_to_row now d)))"

context pg_server
begin

lemma tx_upserts_pending:
  assumes "tx_upserts pg t sds s = (s', e)" "ok s"
  shows "ok s' \<and> tables s' = tables s \<and>
    (e = None \<longrightarrow> (\<exists>nows. length nows = length (valid_scores sds) \<and>
       pending s' = upserts micros jsonb t (zip nows (valid_scores sds)) (pending s)))"
  using assms
proof (induction sds arbitrary: s)
  case Nil
  then show ?case by (simp add: valid_scores_def upserts_def)
next
  case (Cons sd sds)
  show ?case
  proof (cases "\<exists>d. sd = Some d \<and> pd_Name d \<noteq> ''''")
    case False
    then have "tx_upserts pg t sds s = (s', e)" "valid_scores (sd # sds) = valid_scores sds"
      using Cons.prems(1) by (cases sd; auto simp: valid_scores_def)+
    then show ?thesis using Cons.IH Cons.prems(2) by simp
  next
    case True
    then obtain d where d: "sd = Some d" "pd_Name d \<noteq> ''''" by blast
    let ?w = "UpsertScore t (score_to_row (pg_Now pg s) d)"
    obtain s1 e1 where x: "pg_TxExec pg ?w s = (s1, e1)" by fastforce
    note s1 = tx_exec [OF Cons.prems(2) x]
    show ?thesis
    proof (cases e1)
      case (Some e2)
      then show ?thesis using Cons.prems(1) d x s1 by auto
    next
      case None
      then have "tx_upserts pg t sds s1 = (s', e)" using Cons.prems(1) d x by simp
      from Cons.IH [OF this] s1 have i: "ok s' \<and> tables s' = tables s \<and>
        (e = None \<longrightarrow> (\<exists>nows. length nows = length (valid_scores sds) \<and>
           pending s' = upserts micros jsonb t (zip nows (valid_scores sds)) (pending s1)))" by simp
      have "\<exists>ns. length ns = length (valid_scores (sd # sds)) \<and>
          pending s' = upserts micros jsonb t (zip ns (valid_scores (sd # sds))) (pending s)"
        if "length nows = length (valid_scores sds)"
          "pending s' = upserts micros jsonb t (zip nows (valid_scores sds)) (pending s1)" for nows
        using that d s1 None
        by (intro exI [of _ "pg_Now pg s # nows"]) (simp add: valid_scores_def upserts_def)
      with i show ?thesis by blast
    qed
  qed
qed

end

text \<open>
  C20: A batch is written completely or not at all. \<open>SetScores\<close> changes the tables only by
  committing all its upserts, in their order; when it returns an error, either nothing has changed
  or the whole batch was committed and only the answer was lost. When it returns no error, the
  batch is there.
\<close>

theorem postgres_batch_atomic:
  assumes "pg_server pg ok tables pending micros jsonb" "ok (ps_pool p)" "postgres_SetScores pg sds p = (p1, e)"
  shows "\<exists>nows. length nows = length (valid_scores sds) \<and>
    (tables (ps_pool p1) = upserts micros jsonb (scoresTable p) (zip nows (valid_scores sds)) (tables (ps_pool p)) \<or>
     e \<noteq> None \<and> tables (ps_pool p1) = tables (ps_pool p))"
proof (cases "sds = []")
  case True
  then show ?thesis using assms(3) by (simp add: postgres_SetScores_def valid_scores_def upserts_def)
next
  case False
  let ?all = "\<lambda>nows. upserts micros jsonb (scoresTable p) (zip nows (valid_scores sds)) (tables (ps_pool p))"
  have none: "\<exists>nows. length nows = length (valid_scores sds) \<and> (tables s = ?all nows \<or> e \<noteq> None \<and> tables s = tables (ps_pool p))"
    if "e \<noteq> None" "tables s = tables (ps_pool p)" for s
    using that by (metis length_replicate)
  obtain s0 e0 where b: "pg_Begin pg (ps_pool p) = (s0, e0)" by fastforce
  note s0 = pg_server.start [OF assms(1,2) b]
  obtain s1 e1 where u: "tx_upserts pg (scoresTable p) sds s0 = (s1, e1)" by fastforce
  have s1: "ok s1" "tables s1 = tables (ps_pool p)" and p1: "e1 = None \<Longrightarrow> e0 = None \<Longrightarrow>
      \<exists>nows. length nows = length (valid_scores sds) \<and> pending s1 = ?all nows"
    using pg_server.tx_upserts_pending [OF assms(1) u] s0 by auto
  obtain s2 e2 where c: "pg_Commit pg s1 = (s2, e2)" by fastforce
  note s2 = pg_server.commit [OF assms(1) s1(1) c]
  note rb = pg_server.rollback [OF assms(1)]
  consider "e0 \<noteq> None" | "e0 = None" "e1 \<noteq> None" | "e0 = None" "e1 = None" by blast
  then show ?thesis
  proof cases
    case 1
    then show ?thesis
      using assms(3) False b s0 none [of s0] by (auto simp: postgres_SetScores_def)
  next
    case 2
    then show ?thesis
      using assms(3) False b u s1 rb [OF s1(1)] none [of "pg_Rollback pg s1"] by (auto simp: postgres_SetScores_def)
  next
    case 3
    have "p1 = p\<lparr>ps_pool := pg_Rollback pg s2\<rparr>" "e = None \<longleftrightarrow> e2 = None"
      using 3 assms(3) False b u c by (auto simp: postgres_SetScores_def)
    then show ?thesis
      using p1 [OF 3(2,1)] s2 s1(2) rb [of s2] none [of "pg_Rollback pg s2"] by auto
  qed
qed

subsection \<open>The penalty history\<close>

lemma scan_rows_Inr: "scan_rows what f rows = Inr ds \<Longrightarrow> \<exists>ws. rows = map Inr ws \<and> ds = map f ws"
proof (induction rows arbitrary: ds)
  case (Cons row rows)
  then obtain w es where "row = Inr w" "scan_rows what f rows = Inr es" "ds = f w # es"
    by (cases row; cases "scan_rows what f rows") auto
  with Cons.IH show ?case by (metis list.simps(9))
qed simp

lemma rev_take_lastn: "rev (take n xs) = lastn n (rev xs)"
  by (simp add: lastn_def rev_take)

text \<open>
  \<open>GetRecent\<close> of the PostgreSQL history returns the newest records, oldest first. The result
  consists of the last rows of the provider in the order of their creation, as many as were asked
  for or all of them; rows of the same time may come in any order.
\<close>

lemma postgres_recent_penalties:
  assumes "pg_server pg ok tables pending micros jsonb" "ok (pps_pool p)"
    and "postgres_GetRecent pg n c p = (p1, Inr out)" "0 < c"
  shows "\<exists>ws. mset ws = mset (filter (\<lambda>w. pr_provider_name w = n) (tb_penalties (tables (pps_pool p)) (tableName p))) \<and>
    sorted_wrt (\<lambda>a b. pr_created_at a \<le> pr_created_at b) ws \<and>
    out = map row_to_penalty (lastn (nat c) ws) \<and> tables (pps_pool p1) = tables (pps_pool p)"
proof -
  obtain s r where q: "pg_QueryPenalties pg (tableName p) n c (pps_pool p) = (s, r)" by fastforce
  obtain rows buf where r: "r = Inr (rows, None)" "scan_rows ''postgres penalty store: scan: '' row_to_penalty rows = Inr buf"
    "out = rev buf" "p1 = p\<lparr>pps_pool := s\<rparr>"
    using assms(3,4) q
    by (auto simp: postgres_GetRecent_def swap_ends_rev [simplified] split: sum.splits option.splits)
  then obtain ws where ws: "rows = map Inr ws" "buf = map row_to_penalty ws" using scan_rows_Inr by blast
  then obtain all where all: "mset all = mset (filter (\<lambda>w. pr_provider_name w = n) (tb_penalties (tables (pps_pool p)) (tableName p)))"
    "sorted_wrt (\<lambda>a b. pr_created_at a \<ge> pr_created_at b) all" "ws = take (nat c) all" "tables s = tables (pps_pool p)"
    using pg_server.query_penalties [OF assms(1,2) q] r(1) by auto
  have "out = map row_to_penalty (lastn (nat c) (rev all))"
    using r(3) ws(2) all(3) by (simp add: rev_map rev_take_lastn)
  then show ?thesis using all r(4) by (intro exI [of _ "rev all"]) (simp add: sorted_wrt_rev)
qed

subsection \<open>A database in memory\<close>

record mini_pg =
  mp_tables :: pg_tables
  mp_pending :: pg_tables

abbreviation mini_micros :: "gotime \<Rightarrow> gotime" where
  "mini_micros time \<equiv> time - time mod 1000"

definition mini_exec :: "pg_stmt \<Rightarrow> pg_tables \<Rightarrow> pg_tables" where
  "mini_exec = run_stmt mini_micros id"

definition table_rows :: "(string \<rightharpoonup> score_row) \<Rightarrow> score_row list" where
  "table_rows m = sort_key (\<lambda>w. - sr_base_score w) (map (\<lambda>n. the (m n)) (sorted_list_of_set (dom m)))"

definition mini_pool :: "mini_pg pg_pool" where
  "mini_pool =
     \<lparr>pg_ParseConfig = (\<lambda>_. None),
      pg_NewWithConfig = (\<lambda>_. Inl (Errorf '''')), pg_Ping = (\<lambda>s. (s, None)), pg_Close = id, pg_Now = (\<lambda>_. 5000),
      pg_Exec = (\<lambda>st s. (s\<lparr>mp_tables := mini_exec st (mp_tables s)\<rparr>, None)),
      pg_Begin = (\<lambda>s. (s\<lparr>mp_pending := mp_tables s\<rparr>, None)),
      pg_TxExec = (\<lambda>st s. (s\<lparr>mp_pending := mini_exec st (mp_pending s)\<rparr>, None)),
      pg_Commit = (\<lambda>s. (s\<lparr>mp_tables := mp_pending s\<rparr>, None)),
      pg_Rollback = id,
      pg_QueryScore = (\<lambda>t n s. (s, Inr (tb_scores (mp_tables s) t n))),
      pg_QueryScores = (\<lambda>t s. (s, Inr (map Inr (table_rows (tb_scores (mp_tables s) t)), None))),
      pg_QueryLatency = (\<lambda>t s. (s, Inr (tb_latency (mp_tables s) t))),
      pg_QueryPenalties = (\<lambda>t n c s. (s, Inr (map Inr (take (nat c) (sort_key (\<lambda>w. - pr_created_at w)
        (filter (\<lambda>w. pr_provider_name w = n) (tb_penalties (mp_tables s) t)))), None)))\<rparr>"

definition mini_ok :: "mini_pg \<Rightarrow> bool" where
  "mini_ok s \<longleftrightarrow> (\<forall>t. finite (dom (tb_scores (mp_tables s) t)) \<and> finite (dom (tb_scores (mp_pending s) t)))"

lemma mini_exec_finite: "(\<And>t. finite (dom (tb_scores tb t))) \<Longrightarrow> finite (dom (tb_scores (mini_exec st tb) t))"
  by (cases st) (auto simp: mini_exec_def)

lemma table_rows_ran:
  assumes "finite (dom m)"
  shows "set (table_rows m) = ran m \<and> sorted_wrt (\<lambda>a b. sr_base_score a \<ge> sr_base_score b) (table_rows m)"
proof -
  have "(\<lambda>n. the (m n)) ` dom m = ran m" by (force simp: ran_def image_iff dom_def)
  moreover have "sorted (map (\<lambda>w. - sr_base_score w) (table_rows m))" by (simp add: table_rows_def)
  ultimately show ?thesis
    using assms by (simp add: table_rows_def sorted_map)
qed

lemma newest_first: "sorted_wrt (\<lambda>a b. pr_created_at a \<ge> pr_created_at b) (sort_key (\<lambda>w. - pr_created_at w) ws)"
  using sorted_sort_key [of "\<lambda>w. - pr_created_at w" ws] by (simp add: sorted_map)

interpretation mini_db: pg_server mini_pool mini_ok mp_tables mp_pending mini_micros id
proof unfold_locales
  fix s t n c s' r3
  assume "mini_ok s" "pg_QueryPenalties mini_pool t n c s = (s', r3)"
  then show "mini_ok s' \<and> mp_tables s' = mp_tables s \<and>
      (\<forall>ws. r3 = Inr (map Inr ws, None) \<longrightarrow>
         (\<exists>all. mset all = mset (filter (\<lambda>w. pr_provider_name w = n) (tb_penalties (mp_tables s) t)) \<and>
                sorted_wrt (\<lambda>a b. pr_created_at a \<ge> pr_created_at b) all \<and> ws = take (nat c) all))"
    using newest_first
    by (auto simp: mini_pool_def inj_map_eq_map
        intro!: exI [of _ "sort_key (\<lambda>w. - pr_created_at w) (filter (\<lambda>w. pr_provider_name w = n) (tb_penalties (mp_tables s) t))"])
next
  show "\<bar>mini_micros time - time\<bar> < 1000" for time by simp
qed (auto simp: mini_pool_def mini_ok_def mini_exec_finite table_rows_ran inj_map_eq_map, auto simp: mini_exec_def)

subsection \<open>Examples\<close>

definition empty_tables :: pg_tables where
  "empty_tables = \<lparr>tb_scores = (\<lambda>_. Map.empty), tb_latency = (\<lambda>_. None), tb_penalties = (\<lambda>_. [])\<rparr>"

definition mini_postgres :: "pg_tables \<Rightarrow> mini_pg postgres_store" where
  "mini_postgres tb =
     \<lparr>ps_pool = \<lparr>mp_tables = tb, mp_pending = empty_tables\<rparr>,
      ps_config = \<lparr>pc_ConnectionString = '''', pc_TablePrefix = ''c_'', pc_MaxOpenConns = 1, pc_MaxIdleConns = 1,
        pc_ConnMaxLifetime = 0\<rparr>,
      ps_tablePrefix = ''c_''\<rparr>"

lemma mini_postgres_ok: "mini_ok (ps_pool (mini_postgres empty_tables))"
  by (simp add: mini_ok_def mini_postgres_def empty_tables_def)

definition demo_score :: provider_score_data where
  "demo_score = zero_score_data\<lparr>pd_Name := ''a'', pd_BaseScore := 90, pd_LastUpdated := 7123, pd_RecentLatencies := [3, 4]\<rparr>"

lemma demo_score_typed: "score_typed demo_score"
  by (simp add: score_typed_def demo_score_def zero_score_data_def int64_def)

definition demo_tables :: pg_tables where
  "demo_tables = mini_exec (UpsertScore ''c_provider_scores'' (score_to_row 5000 demo_score)) empty_tables"

lemma mini_set_score: "postgres_SetScore mini_pool (Some demo_score) (mini_postgres empty_tables) = (mini_postgres demo_tables, None)"
  by (simp add: postgres_SetScore_def demo_score_def mini_pool_def mini_postgres_def demo_tables_def scoresTable_def)

lemma mini_get_score:
  "\<exists>p x. postgres_GetScore mini_pool (pd_Name demo_score) (mini_postgres demo_tables) = (p, Inr x)"
  by (simp add: postgres_GetScore_def mini_pool_def split: option.splits)

theorem postgres_score_roundtrip_witness:
  "\<exists>p. postgres_GetScore mini_pool ''a'' (mini_postgres demo_tables) = (p, Inr (Some (demo_score\<lparr>pd_LastUpdated := 7000\<rparr>)))"
proof -
  obtain p x where g: "postgres_GetScore mini_pool (pd_Name demo_score) (mini_postgres demo_tables) = (p, Inr x)"
    using mini_get_score by blast
  have "x = Some (stored_score mini_micros (pg_Now mini_pool (ps_pool (mini_postgres empty_tables))) demo_score)"
    using postgres_score_roundtrip [OF mini_db.pg_server_axioms mini_postgres_ok demo_score_typed _ mini_set_score g]
    by (simp add: demo_score_def)
  then show ?thesis using g by (simp add: stored_score_def demo_score_def zero_score_data_def)
qed

theorem postgres_batch_atomic_witness:
  "\<exists>nows. length nows = length (valid_scores [Some demo_score, None]) \<and>
    (mp_tables (ps_pool (fst (postgres_SetScores mini_pool [Some demo_score, None] (mini_postgres empty_tables)))) =
       upserts mini_micros id (scoresTable (mini_postgres empty_tables)) (zip nows (valid_scores [Some demo_score, None]))
         (mp_tables (ps_pool (mini_postgres empty_tables))) \<or>
     snd (postgres_SetScores mini_pool [Some demo_score, None] (mini_postgres empty_tables)) \<noteq> None \<and>
     mp_tables (ps_pool (fst (postgres_SetScores mini_pool [Some demo_score, None] (mini_postgres empty_tables)))) =
       mp_tables (ps_pool (mini_postgres empty_tables)))"
  by (rule postgres_batch_atomic [OF mini_db.pg_server_axioms mini_postgres_ok prod.collapse [symmetric]])

end
