(* ===== verification/Metrics_Export.thy ===== *)
theory Metrics_Export
  imports Prelude
begin

text \<open>
  \<open>scoring/metrics/metrics.go\<close>, \<open>scoring/metrics/prometheus/prometheus.go\<close> and
  \<open>scoring/metrics/otel/otel.go\<close>: the recorder interface and its implementations. What a recorder
  asks of the Prometheus and OpenTelemetry libraries is a list of calls on named instruments;
  the OpenTelemetry recorder also has the state that its gauges are read from. The order in
  which a map is ranged over is an argument.
\<close>

datatype recorder_call =
    RecordScoreChange string string real real
  | RecordEffectiveScore string real
  | RecordEvent string string bool
  | RecordLatency string string duration
  | RecordStoreOperation_call string string duration "goerror option"
  | RecordCacheHit string bool
  | RecordProviderRank string int int


text \<open>The standard label names, and the recorder that does nothing.\<close>

abbreviation label_provider :: string where "label_provider \<equiv> ''provider''"
abbreviation label_score_type :: string where "label_score_type \<equiv> ''score_type''"

definition noop_record :: "recorder_call \<Rightarrow> 's \<Rightarrow> 's" where
  "noop_record c s = s"

subsection \<open>Prometheus\<close>









subsection \<open>OpenTelemetry\<close>

datatype attr = AStr string string | ABool string bool

datatype otel_call =
    CounterAdd string "attr list"
  | HistRecord string "attr list" real

record otel_recorder =
  ot_scores :: "string \<rightharpoonup> (string \<rightharpoonup> real)"
  ot_effectiveScores :: "string \<rightharpoonup> real"
  ot_providerRanks :: "string \<rightharpoonup> int"
  ot_totalProviders :: int
  ot_calls :: "otel_call list"

definition empty_otel :: otel_recorder where
  "empty_otel =
     \<lparr>ot_scores = Map.empty, ot_effectiveScores = Map.empty, ot_providerRanks = Map.empty, ot_totalProviders = 0,
      ot_calls = []\<rparr>"

text \<open>\<open>meter\<close> gives the error of creating an instrument; the first one is returned.\<close>

abbreviation otel_prefix :: string where "otel_prefix \<equiv> ''chainkit.scoring.''"

definition otel_instruments :: "string list" where
  "otel_instruments =
     [otel_prefix @ ''score'', otel_prefix @ ''effective_score'', otel_prefix @ ''provider_rank'',
      otel_prefix @ ''providers_total'', otel_prefix @ ''events_total'', otel_prefix @ ''latency_seconds'',
      otel_prefix @ ''store_operations_total'', otel_prefix @ ''store_latency_seconds'',
      otel_prefix @ ''cache_hits_total'']"

definition otel_NewRecorder :: "(string \<Rightarrow> string \<Rightarrow> goerror option) \<Rightarrow> string \<Rightarrow> goerror + otel_recorder" where
  "otel_NewRecorder meter meterName =
     (let name = (if meterName = '''' then ''chainkit.scoring'' else meterName)
      in case List.map_filter (meter name) otel_instruments of
           e # _ \<Rightarrow> Inl e
         | [] \<Rightarrow> Inr empty_otel)"



text \<open>The callbacks: each value that is observed, with its attributes.\<close>

definition observeScores :: "(string \<times> string) list \<Rightarrow> otel_recorder \<Rightarrow> (real \<times> attr list) list" where
  "observeScores order r =
     List.map_filter (\<lambda>(provider, scoreType).
       case ot_scores r provider of
         None \<Rightarrow> None
       | Some m \<Rightarrow> map_option (\<lambda>v. (v, [AStr label_provider provider, AStr label_score_type scoreType])) (m scoreType)) order"

definition observeEffectiveScores :: "string list \<Rightarrow> otel_recorder \<Rightarrow> (real \<times> attr list) list" where
  "observeEffectiveScores order r =
     List.map_filter (\<lambda>provider. map_option (\<lambda>v. (v, [AStr label_provider provider])) (ot_effectiveScores r provider)) order"

definition observeProviderRanks :: "string list \<Rightarrow> otel_recorder \<Rightarrow> (int \<times> attr list) list" where
  "observeProviderRanks order r =
     List.map_filter (\<lambda>provider. map_option (\<lambda>v. (v, [AStr label_provider provider])) (ot_providerRanks r provider)) order"

definition observeTotalProviders :: "otel_recorder \<Rightarrow> (int \<times> attr list) list" where
  "observeTotalProviders r = [(ot_totalProviders r, [])]"

subsection \<open>The exporters agree\<close>












end
