(* ===== verification/Latency_Cache.thy ===== *)
theory Latency_Cache
  imports Store_Convert
begin

text \<open>
  The cache of the global latency statistics (\<open>scoring/latency.go\<close>) in every reachable tracker,
  those restored from a store (\<open>scoring/store_convert.go\<close>) included: what is returned was
  computed from the samples now held.
\<close>

subsection \<open>The map's iteration order\<close>

definition enumerates :: "string list \<Rightarrow> latency_tracker \<Rightarrow> bool" where
  "enumerates order lt \<longleftrightarrow> distinct order \<and> set order = dom (lt_samples lt)"

text \<open>All fields but the standard deviation are computed from integers or from the sorted samples.\<close>

lemma calculateStats_perm:
  assumes "mset xs = mset ys"
  shows "(calculateStats xs)\<lparr>ls_StdDev := d\<rparr> = (calculateStats ys)\<lparr>ls_StdDev := d\<rparr>"
proof -
  have len: "length xs = length ys" using assms by (metis size_mset)
  have "sum_list xs = sum_list ys" using assms by (metis sum_mset_sum_list)
  then have avg: "average_duration xs = average_duration ys"
    by (simp add: average_duration_def len)
  have srt: "sortDurations xs = sortDurations ys"
    unfolding sortDurations_sort using assms by (metis mset_sort properties_for_sort sorted_sort)
  have "xs = [] \<longleftrightarrow> ys = []" using len by (metis length_0_conv)
  then show ?thesis by (simp add: calculateStats_def Let_def avg srt len)
qed

lemma mset_concat_map: "mset (concat (map f xs)) = \<Sum>\<^sub># (image_mset (\<lambda>x. mset (f x)) (mset xs))"
  by (induction xs) auto

lemma all_samples_order:
  assumes "enumerates o1 lt" "enumerates o2 lt"
  shows "mset (all_samples o1 lt) = mset (all_samples o2 lt)"
proof -
  have "mset o1 = mset o2"
    using assms set_eq_iff_mset_eq_distinct [of o1 o2] by (simp add: enumerates_def)
  then show ?thesis by (simp add: all_samples_def mset_concat_map)
qed

subsection \<open>The cache of the global statistics\<close>

text \<open>The statistics of the samples held by a tracker, computed at some time in some order.\<close>

definition computed_from :: "latency_tracker \<Rightarrow> latency_stats \<Rightarrow> bool" where
  "computed_from lt st \<longleftrightarrow>
     (\<exists>order t. enumerates order lt \<and> st = (calculateStats (all_samples order lt))\<lparr>ls_LastCalculated := t\<rparr>)"

definition tracker_coherent :: "latency_tracker \<Rightarrow> bool" where
  "tracker_coherent lt \<longleftrightarrow>
     (\<forall>st. \<not> lt_statsDirty lt \<longrightarrow> lt_globalStats lt = Some st \<longrightarrow> computed_from lt st)"

inductive tracker_reach :: "latency_tracker \<Rightarrow> bool" where
  new: "tracker_reach (NewLatencyTracker w)"
| restored: "tracker_reach (LatencyTrackerFromStoreData data w)"
| recorded: "tracker_reach lt \<Longrightarrow> tracker_reach (tracker_RecordLatency p d lt)"
| queried: "tracker_reach lt \<Longrightarrow> enumerates order lt \<Longrightarrow>
    tracker_reach (fst (GetGlobalStats order now lt))"
| reset: "tracker_reach lt \<Longrightarrow> tracker_reach (tracker_Reset lt)"

lemma GetGlobalStats_keeps [simp]:
  "lt_samples (fst (GetGlobalStats order now lt)) = lt_samples lt"
  "lt_windowSize (fst (GetGlobalStats order now lt)) = lt_windowSize lt"
  by (auto simp: GetGlobalStats_def Let_def split: bool.splits option.splits)

lemma GetGlobalStats_coherent:
  assumes "tracker_coherent lt" "enumerates order lt"
  shows "tracker_coherent (fst (GetGlobalStats order now lt)) \<and>
    computed_from lt (snd (GetGlobalStats order now lt))"
proof (cases "\<not> lt_statsDirty lt \<and> lt_globalStats lt \<noteq> None")
  case True
  then show ?thesis using assms by (auto simp: GetGlobalStats_def tracker_coherent_def)
next
  case dirty: False
  let ?st = "(calculateStats (all_samples order lt))\<lparr>ls_LastCalculated := now\<rparr>"
  have c: "computed_from lt ?st" using assms(2) by (auto simp: computed_from_def)
  show ?thesis
  proof (cases "all_samples order lt = []")
    case True
    then have "GetGlobalStats order now lt = (lt, ?st)"
      using dirty by (auto simp: GetGlobalStats_def calculateStats_def split: bool.splits option.splits)
    then show ?thesis using assms(1) c by simp
  next
    case False
    then have eq: "GetGlobalStats order now lt = (lt\<lparr>lt_globalStats := Some ?st, lt_statsDirty := False\<rparr>, ?st)"
      using dirty by (auto simp: GetGlobalStats_def Let_def split: bool.splits option.splits)
    have "computed_from (lt\<lparr>lt_globalStats := Some ?st, lt_statsDirty := False\<rparr>) ?st"
      using c by (simp add: computed_from_def enumerates_def all_samples_def)
    then show ?thesis using c by (simp add: eq tracker_coherent_def)
  qed
qed

lemma tracker_reach_coherent: "tracker_reach lt \<Longrightarrow> tracker_coherent lt"
proof (induction rule: tracker_reach.induct)
  case (queried lt order now)
  then show ?case by (simp add: GetGlobalStats_coherent)
qed (auto simp: tracker_coherent_def NewLatencyTracker_def tracker_RecordLatency_def
      tracker_Reset_def LatencyTrackerFromStoreData_def Let_def split: option.splits)

text \<open>
  C16: The cache is transparent. In every reachable tracker, new or restored from a store,
  whatever was recorded, queried or reset since, the global statistics returned were computed
  from the samples now held, at some time and in some iteration order of the map. All fields
  except the standard deviation and the time of the computation are those of any other order.
\<close>

theorem GetGlobalStats_fresh:
  assumes "tracker_reach lt" "enumerates order lt"
  shows "let st = snd (GetGlobalStats order now lt) in
    (\<exists>order0 t. enumerates order0 lt \<and>
       st = (calculateStats (all_samples order0 lt))\<lparr>ls_LastCalculated := t\<rparr>) \<and>
    (\<forall>order'. enumerates order' lt \<longrightarrow>
       st\<lparr>ls_StdDev := 0, ls_LastCalculated := 0\<rparr> =
       (calculateStats (all_samples order' lt))\<lparr>ls_StdDev := 0, ls_LastCalculated := 0\<rparr>)"
proof -
  define st where "st = snd (GetGlobalStats order now lt)"
  have "computed_from lt st"
    using GetGlobalStats_coherent [OF tracker_reach_coherent [OF assms(1)] assms(2)] by (simp add: st_def)
  then obtain order0 t where o: "enumerates order0 lt"
      "st = (calculateStats (all_samples order0 lt))\<lparr>ls_LastCalculated := t\<rparr>"
    by (auto simp: computed_from_def)
  have "st\<lparr>ls_StdDev := 0, ls_LastCalculated := 0\<rparr> =
       (calculateStats (all_samples order' lt))\<lparr>ls_StdDev := 0, ls_LastCalculated := 0\<rparr>"
    if "enumerates order' lt" for order'
    using calculateStats_perm [OF all_samples_order [OF o(1) that], of 0]
    by (simp add: o(2))
  then show ?thesis using o by (auto simp: st_def [symmetric] Let_def)
qed

theorem GetGlobalStats_fresh_witness:
  "let lt = tracker_RecordLatency ''a'' 5 (LatencyTrackerFromStoreData
              (Some \<lparr>ld_ProviderSamples = [''b'' \<mapsto> [9, 4]], ld_LastUpdated = 3\<rparr>) 10);
       lt2 = tracker_RecordLatency ''b'' 6 (fst (GetGlobalStats [''a'', ''b''] 1 lt));
       st = snd (GetGlobalStats [''a'', ''b''] 2 lt2)
   in ls_SampleCount st = 4 \<and> ls_Mean st = 6 \<and> ls_P50 st = 5 \<and> ls_Max st = 9"
proof -
  let ?lt = "tracker_RecordLatency ''a'' 5 (LatencyTrackerFromStoreData
              (Some \<lparr>ld_ProviderSamples = [''b'' \<mapsto> [9, 4]], ld_LastUpdated = 3\<rparr>) 10)"
  let ?lt2 = "tracker_RecordLatency ''b'' 6 (fst (GetGlobalStats [''a'', ''b''] 1 ?lt))"
  let ?st = "snd (GetGlobalStats [''a'', ''b''] 2 ?lt2)"
  have s: "lt_samples ?lt = [''b'' \<mapsto> [9, 4], ''a'' \<mapsto> [5]]"
    by (auto simp: tracker_RecordLatency_def LatencyTrackerFromStoreData_def NewLatencyTracker_def
          push_window_def)
  then have e: "enumerates [''a'', ''b''] ?lt" by (auto simp: enumerates_def)
  have "lt_windowSize ?lt = 10"
    by (simp add: tracker_RecordLatency_def LatencyTrackerFromStoreData_def NewLatencyTracker_def Let_def)
  then have s2: "lt_samples ?lt2 = [''b'' \<mapsto> [9, 4, 6], ''a'' \<mapsto> [5]]"
    using s by (auto simp: tracker_RecordLatency_def [of _ 6] push_window_def Let_def)
  then have e2: "enumerates [''b'', ''a''] ?lt2" "enumerates [''a'', ''b''] ?lt2"
    by (auto simp: enumerates_def)
  have r: "tracker_reach ?lt2" by (intro tracker_reach.intros e)
  have eq: "?st\<lparr>ls_StdDev := 0, ls_LastCalculated := 0\<rparr> =
      (calculateStats [9, 4, 6, 5])\<lparr>ls_StdDev := 0, ls_LastCalculated := 0\<rparr>"
    using GetGlobalStats_fresh [OF r e2(2), of 2] e2(1) s2 by (simp add: Let_def all_samples_def)
  have "ls_SampleCount (calculateStats [9, 4, 6, 5]) = 4" "ls_Mean (calculateStats [9, 4, 6, 5]) = 6"
    "ls_P50 (calculateStats [9, 4, 6, 5]) = 5" "ls_Max (calculateStats [9, 4, 6, 5]) = 9"
    by (simp_all add: calculateStats_def Let_def average_duration_def go_quot_def sortDurations_sort
          percentile_def go_trunc_def)
  then show ?thesis
    using arg_cong [OF eq, of ls_SampleCount] arg_cong [OF eq, of ls_Mean] arg_cong [OF eq, of ls_P50]
      arg_cong [OF eq, of ls_Max]
    by (simp add: Let_def)
qed

end
