(* ===== verification/Spec2Isabelle.thy ===== *)
theory Spec2Isabelle
  imports Client_Laws Config_Json Wire_Json Engine_Queries Hybrid_Store Instrumented_Store
    Webhook_Laws Payment_Link Payment_Cloud Bitcoin_Laws Bitcoin_Json Provider_Laws Adapter_Laws
    Redis_Memory Postgres_Laws Metrics_Export Latency_Cache
begin

text \<open>
  A verification library for the ChainKit Go SDK.

  \<^bold>\<open>The program.\<close> A client (\<open>MixedProviders\<close>) offers blockchain operations. Each operation belongs
  to one of thirteen provider chains; a chain has a manager that keeps failure counts, circuit
  breakers and rate limits, asks a selection strategy for the order of its providers, and
  tries them with retries until one succeeds. A scoring engine, shared by all managers, turns
  the outcomes into scores that decay over time, can rank the providers, and can be saved to
  a store. A telemetry agent buffers events and sends them in batches, and a poller fetches
  configuration and applies it to the client. Adapters translate the operations into requests to
  external services. Independent of these are webhook verification, payment links, invoice
  reports, and Bitcoin types and utilities.

  \<^bold>\<open>Where each part is modelled.\<close>

  \<^item> \<open>Prelude\<close>: durations and times as integers of nanoseconds, errors with the sentinels that
    they wrap, panics as an outcome, 64-bit wrap-around, decimal printing, sorting by exchange.
  \<^item> \<open>Go_Strings\<close>, \<open>Json\<close>, \<open>Json_Laws\<close>, \<open>Http\<close>: what the code uses of Go's libraries: string
    functions, \<open>encoding/json\<close> with its decoding rules for structures, and HTTP exchanges in the
    state monad over the outside world.
  \<^item> \<open>Penalty_History\<close>, \<open>Provider_Score\<close>, \<open>Latency\<close>, \<open>Score_Events\<close>, \<open>Scoring_Config\<close>, \<open>Decay\<close>,
    \<open>Engine\<close>: \<open>scoring/\<close>, one theory per file. \<open>Engine_Laws\<close> and \<open>Engine_Queries\<close> hold the
    properties of the engine, \<open>Latency_Cache\<close> those of the cached latency statistics.
  \<^item> \<open>Score_Store\<close>, \<open>Hybrid_Store\<close>, \<open>Instrumented_Store\<close>, \<open>Penalty_Store\<close>, \<open>Store_Registry\<close>,
    \<open>Store_Convert\<close>: \<open>scoring/store/\<close> and \<open>scoring/store_convert.go\<close>. The contract of a store is
    a locale, interpreted on the memory store.
  \<^item> \<open>Store_Json\<close>, \<open>Redis_Store\<close>, \<open>Redis_Penalty\<close>, \<open>Postgres_Store\<close>: the stored forms and the
    stores on external servers. The commands of a Redis client and the statements of a
    PostgreSQL pool are records of functions; what the servers promise are the locales
    \<open>redis_server\<close>, \<open>redis_lists\<close> and \<open>pg_server\<close>, in \<open>Redis_Laws\<close>, \<open>Redis_Penalty\<close> and
    \<open>Postgres_Laws\<close>. \<open>Redis_Memory\<close> and \<open>Postgres_Laws\<close> interpret them on small servers in memory.
  \<^item> \<open>Metrics_Export\<close>: \<open>scoring/metrics/\<close>, the Prometheus and OpenTelemetry recorders.
  \<^item> \<open>Chain_Config\<close>, \<open>Rate_Limit\<close>, \<open>Selection\<close>, \<open>Manager\<close>: \<open>config.go\<close>, \<open>provider_types.go\<close>,
    \<open>opcontext.go\<close>, \<open>selection_strategy.go\<close> and \<open>manager.go\<close>. \<open>Circuit\<close> has the invariants of the
    breakers, \<open>Manager_Laws\<close> the trace of an operation.
  \<^item> \<open>Mixed_Providers\<close>, \<open>Builder\<close>, \<open>Client_Laws\<close>: \<open>providers.go\<close>, \<open>metrics.go\<close>, \<open>debug.go\<close>,
    \<open>provider_selector.go\<close>, \<open>config_updater.go\<close> and \<open>builder.go\<close>.
  \<^item> \<open>Transport\<close>, \<open>Transport_Laws\<close>, \<open>Event_Ids\<close>, \<open>Wire\<close>, \<open>Poller\<close>: \<open>cloudagent/\<close>. \<open>Wire_Json\<close> has the
    bytes of a batch, \<open>Config_Json\<close> the text of a served configuration.
  \<^item> \<open>Sha256\<close>, \<open>Webhook\<close>, \<open>Webhook_Laws\<close>, \<open>Payment_Link\<close>, \<open>Payment_Cloud\<close>: \<open>payment/\<close>, with the
    parts of Go's hash, hex and big-number libraries that it uses.
  \<^item> \<open>Bitcoin_Types\<close>, \<open>Bitcoin_Json\<close>, \<open>Bitcoin_Laws\<close>: \<open>bitcoin/\<close> and \<open>bitcoin/types/\<close>.
  \<^item> \<open>Mempool\<close>, \<open>Blockstream\<close>, \<open>Tatum\<close>, \<open>Rate_Providers\<close>, \<open>Api_Providers\<close>, \<open>Blockcypher\<close>, \<open>Metal\<close>:
    \<open>bitcoin/providers/\<close>. \<open>Provider_Laws\<close>, \<open>Blockstream_Laws\<close> and \<open>Adapter_Laws\<close> have their properties.
    The operations of btcd and of the Blockcypher client are arguments.

  \<^bold>\<open>How state and operations correspond.\<close> A Go struct is a record whose field names carry a
  prefix; a method is a function from the state to the state and its results; a method that
  can panic has a result of type \<open>outcome\<close>. The critical sections that a mutex delimits are
  the atomic steps. Readings of the clock, random numbers, the iteration order of Go maps, the
  results of calling a provider, and the outcomes of HTTP exchanges are arguments, so every
  theorem holds for all of them. Go maps are partial functions. The thirteen manager fields
  are a function of the chain type. \<open>float64\<close> is \<open>real\<close>: rounding of scores is not modelled.
  Machine integers keep their width where the code can overflow: byte and word arithmetic in
  \<open>Event_Ids\<close>, \<open>Wire\<close> and \<open>Sha256\<close>, 64-bit wrap-around in \<open>Webhook\<close>, \<open>Bitcoin_Types\<close> and the
  back-offs.

  \<^bold>\<open>What the theorems show.\<close> Of one operation: the order and number of the calls, that it stops at
  the first success, and that a provider whose breaker is open when the operation starts is not
  called. Of the breakers: an open breaker has reached a threshold, in every reachable state and
  under changes of the configuration; after the time-out it admits calls again and a success
  closes it; and the state in which a half-open breaker is stuck. Of the rate limiter: how many
  requests one window admits when several operations are checked before they are recorded. Of
  the selection: every strategy returns a permutation in the order it promises, and round robin is
  fair. Of the engine: scores stay within their bounds in every reachable state, with saving and
  loading among the steps, the cached latency statistics are those of the samples held, rankings
  and histories are complete, and saving and loading round-trips up to the fields that are not
  stored. Of the stores: the hybrid, instrumented and Redis stores refine the contract, locks
  exclude each other, batches in PostgreSQL are atomic, and scores and penalty histories come back
  as they were written. Both exporters report the same. Of the client: one metrics call per
  operation with every recorder, and \<open>Build\<close> connects and starts the engine. Of the agent: every
  pushed event is delivered, pending or counted as dropped, \<open>Stop\<close> terminates, the posted bytes
  of a batch can be read back, and identifiers ascend; a poll converges to the configuration that
  is served as text. Of the adapters: coins are the ones that the service lists, in order and
  complete, a revoked token is replaced, and what is signed is what was assembled. Of payments:
  webhooks are accepted exactly when authentic and fresh, and links carry the exact amount. Several
  theorems establish defects; their texts say so.

  \<^bold>\<open>Reachability, fuel and bounds.\<close> Interleavings are inductive step relations: the engine
  with its store, the manager of a chain, the rate limiter, the latency tracker, the transport, the
  decay goroutine with its tickers. Loops recurse on the
  list or the number of attempts that is left; the drain of the transport and the SCAN loop of
  the Redis store are partial functions that are proved to return. Only the JSON parser has fuel:
  \<open>parse_text\<close> starts it with twice the length of the text, which is enough for every text
  (\<open>parse_fuel\<close>). Bounds in hypotheses (2^63 nanoseconds, 2^48 milliseconds, 2^63 smallest units)
  are the widths of the code's types.

  \<^bold>\<open>Parameters.\<close> Third-party code is an argument of the definitions that call it: HTTP servers, the
  Redis and PostgreSQL servers, btcd and its keys, the Blockcypher client, and the texts that
  \<open>encoding/json\<close> gives to a \<open>float64\<close> and to a time (\<open>json_codec\<close>, with \<open>faithful_codec\<close> as the
  round trip). Theorems about them name what they rely on, and their witnesses give instances.

  \<^bold>\<open>Not modelled.\<close> Rounding of \<open>float64\<close>, except where an amount is printed; the conversion of a
  fee rate outside the range of \<open>uint64\<close>, which Go leaves to the machine, wraps here. With real
  numbers the order of a summation does not matter, and \<open>faithful_codec\<close> reads back the number
  that was written. Strings are sequences of bytes, so the replacement of invalid UTF-8 in JSON is
  left out, and \<open>ToLower\<close> and \<open>TrimSpace\<close> treat the ASCII characters only. A Redis command
  carries its time to live, but \<open>redis_server\<close> describes the keys before they expire. Coin lists are
  lists of values: their nil entries, on which \<open>UTXOSet.Select\<close> panics, are left out. The vendored
  libraries, connection pools and timeouts of clients, and the log lines are not modelled.
\<close>

end
